(* ===== verification/TQ_Prelude.thy ===== *)
theory TQ_Prelude
  imports Complex_Main "HOL-Library.Word" "HOL-Library.Char_ord" "HOL-Library.List_Lexorder"
    "HOL-Library.Product_Lexorder" "HOL-Library.Multiset" "HOL-Library.Sublist"
begin

text \<open>
  The vocabulary every part of the TRACE-Q model shares: instants, identifiers and bytes, Python
  exceptions as values of a sum, the text functions the source applies to strings, the two
  readings of ``the extreme row of a query'', tables as lists of rows with their key lookups,
  and the locales of step relations: invariants and append-only logs.

  Instants are \<open>int\<close>: microseconds since the epoch, in UTC (the columns are
  \<open>DateTime(timezone=True)\<close>, so only the instant matters). A string is the list of the
  bytes of its UTF-8 encoding.
\<close>

type_synonym time = int
type_synonym uuid = string
type_synonym bytes = "8 word list"

named_theorems tq_defs \<open>definitions unfolded when a handler is executed on its branches\<close>

section \<open>Exceptions as values\<close>

text \<open>
  \<open>TraceQError\<close> (\<^verbatim>\<open>backend/app/errors.py\<close>) carries a code, a message and an HTTP status. An
  exception of any other class is what the handlers do not catch as a \<open>TraceQError\<close>; it is kept
  by its class name.
\<close>

datatype exn =
    TraceQError (err_code: string) (err_message: string) (err_status: nat)
  | PyError string

type_synonym 'a result = "exn + 'a"

definition ForbiddenError :: "string \<Rightarrow> exn" where
  "ForbiddenError message = TraceQError ''FORBIDDEN'' message 403"

definition NotFoundError :: "string \<Rightarrow> exn" where
  "NotFoundError entity = TraceQError ''NOT_FOUND'' (entity @ '' not found'') 404"

fun rbind :: "'a result \<Rightarrow> ('a \<Rightarrow> 'b result) \<Rightarrow> 'b result" where
  "rbind (Inl e) f = Inl e"
| "rbind (Inr x) f = f x"

lemma rbind_Inr_iff: "rbind m f = Inr y \<longleftrightarrow> (\<exists>x. m = Inr x \<and> f x = Inr y)"
  by (cases m) auto

lemma rbind_Inl_iff: "rbind m f = Inl e \<longleftrightarrow> m = Inl e \<or> (\<exists>x. m = Inr x \<and> f x = Inl e)"
  by (cases m) auto

lemma rbind_split:
  "P (rbind m f) \<longleftrightarrow> (\<forall>e. m = Inl e \<longrightarrow> P (Inl e)) \<and> (\<forall>x. m = Inr x \<longrightarrow> P (f x))"
  by (cases m) auto

text \<open>A list comprehension or loop whose body may raise.\<close>

fun map_r :: "('a \<Rightarrow> 'b result) \<Rightarrow> 'a list \<Rightarrow> 'b list result" where
  "map_r f [] = Inr []"
| "map_r f (x # xs) = rbind (f x) (\<lambda>y. rbind (map_r f xs) (\<lambda>ys. Inr (y # ys)))"

fun filter_r :: "('a \<Rightarrow> bool result) \<Rightarrow> 'a list \<Rightarrow> 'a list result" where
  "filter_r p [] = Inr []"
| "filter_r p (x # xs) =
     rbind (p x) (\<lambda>b. rbind (filter_r p xs) (\<lambda>ys. Inr (if b then x # ys else ys)))"

fun fold_r :: "('a \<Rightarrow> 's \<Rightarrow> 's result) \<Rightarrow> 'a list \<Rightarrow> 's \<Rightarrow> 's result" where
  "fold_r f [] s = Inr s"
| "fold_r f (x # xs) s = rbind (f x s) (fold_r f xs)"

lemma filter_r_Inr:
  "filter_r p xs = Inr ys \<Longrightarrow> ys = filter (\<lambda>x. p x = Inr True) xs \<and> (\<forall>x \<in> set xs. \<exists>b. p x = Inr b)"
  by (induction xs arbitrary: ys) (auto simp: rbind_Inr_iff)

lemma filter_r_total: "filter_r (\<lambda>x. Inr (p x)) xs = Inr (filter p xs)"
  by (induction xs) auto

lemma map_r_Inr: "map_r f xs = Inr ys \<Longrightarrow> list_all2 (\<lambda>x y. f x = Inr y) xs ys"
  by (induction xs arbitrary: ys) (auto simp: rbind_Inr_iff)

lemma fold_r_append: "fold_r f (xs @ ys) s = rbind (fold_r f xs s) (fold_r f ys)"
  by (induction xs arbitrary: s) (auto split: rbind_split)

lemma fold_r_invariant:
  assumes "fold_r f xs s = Inr t" and "P s"
    and "\<And>x s s'. x \<in> set xs \<Longrightarrow> P s \<Longrightarrow> f x s = Inr s' \<Longrightarrow> P s'"
  shows "P t"
  using assms
proof (induction xs arbitrary: s)
  case Nil
  then show ?case by simp
next
  case (Cons x xs)
  then obtain s' where s': "f x s = Inr s'" "fold_r f xs s' = Inr t"
    by (auto simp: rbind_Inr_iff)
  have "P s'"
    using Cons.prems s' by auto
  then show ?case
    using Cons.IH [OF s'(2)] Cons.prems(3) by (meson list.set_intros(2))
qed

section \<open>Python strings\<close>

text \<open>
  \<open>len\<close> and slicing count code points, that is the bytes of the UTF-8 encoding that are not
  continuation bytes.
\<close>

definition is_cont :: "char \<Rightarrow> bool" where
  "is_cont c \<longleftrightarrow> 128 \<le> (of_char c :: nat) \<and> (of_char c :: nat) < 192"

definition py_len :: "string \<Rightarrow> nat" where
  "py_len s = length (filter (\<lambda>c. \<not> is_cont c) s)"

fun py_take :: "nat \<Rightarrow> string \<Rightarrow> string" where
  "py_take n [] = []"
| "py_take n (c # cs) =
     (if is_cont c then c # py_take n cs
      else case n of 0 \<Rightarrow> [] | Suc m \<Rightarrow> c # py_take m cs)"

lemma py_len_simps [simp]:
  "py_len [] = 0"
  "py_len (c # cs) = (if is_cont c then py_len cs else Suc (py_len cs))"
  "py_len (xs @ ys) = py_len xs + py_len ys"
  by (simp_all add: py_len_def)

lemma py_len_take: "py_len (py_take n s) = min n (py_len s)"
  by (induction n s rule: py_take.induct) (auto split: nat.splits)

lemma py_take_all: "py_len s \<le> n \<Longrightarrow> py_take n s = s"
  by (induction n s rule: py_take.induct) (auto split: nat.splits if_splits)

lemma py_take_append_exact:
  "py_len s = n \<Longrightarrow> t \<noteq> [] \<Longrightarrow> \<not> is_cont (hd t) \<Longrightarrow> py_take n (s @ t) = s"
proof (induction n s rule: py_take.induct)
  case (1 n)
  then show ?case by (cases t) auto
next
  case (2 n c cs)
  then show ?case by (auto split: nat.splits if_splits)
qed

text \<open>\<open>x in y\<close> on two strings is the substring test.\<close>

fun py_substr :: "string \<Rightarrow> string \<Rightarrow> bool" where
  "py_substr p [] = (p = [])"
| "py_substr p (c # cs) = (take (length p) (c # cs) = p \<or> py_substr p cs)"

definition encode :: "string \<Rightarrow> bytes" where
  "encode s = map (\<lambda>c. of_nat (of_char c)) s"

lemma encode_append [simp]: "encode (s @ t) = encode s @ encode t"
  by (simp add: encode_def)

lemma inj_char_word: "inj (\<lambda>c :: char. (of_nat (of_char c) :: 8 word))"
proof (rule injI)
  fix c d :: char
  assume "(of_nat (of_char c) :: 8 word) = of_nat (of_char d)"
  then have "unat (of_nat (of_char c) :: 8 word) = unat (of_nat (of_char d) :: 8 word)"
    by simp
  then have "(of_char c :: nat) mod 256 = of_char d mod 256"
    by (simp add: unat_of_nat)
  then show "c = d"
    by (simp add: of_char_mod_256)
qed

lemma inj_encode: "encode s = encode t \<Longrightarrow> s = t"
  unfolding encode_def by (rule map_inj_on [OF _ inj_on_subset [OF inj_char_word subset_UNIV]])

section \<open>Rows of a table\<close>

text \<open>
  A table is the list of its rows in insertion order. \<open>find_by\<close> is \<open>db.get\<close> and a
  \<open>select ... where key = k\<close> that expects one row; \<open>update_by\<close> is an assignment to
  attributes of the loaded row.
\<close>

definition find_by :: "('r \<Rightarrow> 'k) \<Rightarrow> 'k \<Rightarrow> 'r list \<Rightarrow> 'r option" where
  "find_by key k rows = List.find (\<lambda>r. key r = k) rows"

definition update_by :: "('r \<Rightarrow> 'k) \<Rightarrow> 'k \<Rightarrow> ('r \<Rightarrow> 'r) \<Rightarrow> 'r list \<Rightarrow> 'r list" where
  "update_by key k f rows = map (\<lambda>r. if key r = k then f r else r) rows"

lemma find_by_simps [simp]:
  "find_by key k [] = None"
  "find_by key k (r # rows) = (if key r = k then Some r else find_by key k rows)"
  by (simp_all add: find_by_def)

lemma find_by_append:
  "find_by key k (xs @ ys) = (case find_by key k xs of None \<Rightarrow> find_by key k ys | Some r \<Rightarrow> Some r)"
  by (induction xs) auto

lemma find_by_SomeD: "find_by key k rows = Some r \<Longrightarrow> r \<in> set rows \<and> key r = k"
  by (auto simp: find_by_def find_Some_iff)

lemma find_by_None_iff: "find_by key k rows = None \<longleftrightarrow> k \<notin> key ` set rows"
  by (auto simp: find_by_def find_None_iff)

lemma find_by_in: "r \<in> set rows \<Longrightarrow> distinct (map key rows) \<Longrightarrow> find_by key (key r) rows = Some r"
  by (induction rows) (auto simp: rev_image_eqI)

lemma update_by_simps [simp]:
  "update_by key k f [] = []"
  "update_by key k f (r # rows) = (if key r = k then f r else r) # update_by key k f rows"
  by (simp_all add: update_by_def)

lemma length_update_by [simp]: "length (update_by key k f rows) = length rows"
  by (simp add: update_by_def)

lemma update_by_append [simp]:
  "update_by key k f (xs @ ys) = update_by key k f xs @ update_by key k f ys"
  by (simp add: update_by_def)

lemma map_update_by:
  "(\<And>r. g (f r) = g r) \<Longrightarrow> map g (update_by key k f rows) = map g rows"
  by (simp add: update_by_def)

lemma find_by_update_by:
  assumes "\<And>r. key (f r) = key r"
  shows "find_by key j (update_by key k f rows) =
    (if j = k then map_option f (find_by key j rows) else find_by key j rows)"
  by (induction rows) (auto simp: assms)

lemma set_update_by:
  "set (update_by key k f rows) =
     f ` {r \<in> set rows. key r = k} \<union> {r \<in> set rows. key r \<noteq> k}"
  by (auto simp: update_by_def)

lemma update_by_absent: "k \<notin> key ` set rows \<Longrightarrow> update_by key k f rows = rows"
  by (induction rows) auto

text \<open>
  \<open>max(rows, key=...)\<close> of Python keeps the first of equal maxima; \<open>order_by(key.desc()).limit(1)\<close>
  leaves ties to the database, and the model takes the row inserted last.
\<close>

fun max_first :: "('a \<Rightarrow> 'k::linorder) \<Rightarrow> 'a list \<Rightarrow> 'a option" where
  "max_first key [] = None"
| "max_first key (x # xs) =
     (case max_first key xs of None \<Rightarrow> Some x | Some y \<Rightarrow> Some (if key x < key y then y else x))"

fun max_last :: "('a \<Rightarrow> 'k::linorder) \<Rightarrow> 'a list \<Rightarrow> 'a option" where
  "max_last key [] = None"
| "max_last key (x # xs) =
     (case max_last key xs of None \<Rightarrow> Some x | Some y \<Rightarrow> Some (if key x \<le> key y then y else x))"

lemma max_first_None [simp]: "max_first key xs = None \<longleftrightarrow> xs = []"
  by (cases xs) (auto split: option.splits)

lemma max_last_None [simp]: "max_last key xs = None \<longleftrightarrow> xs = []"
  by (cases xs) (auto split: option.splits)

lemma max_first_Some:
  "max_first key xs = Some m \<Longrightarrow> m \<in> set xs \<and> (\<forall>x \<in> set xs. key x \<le> key m)"
  by (induction xs arbitrary: m) (fastforce split: option.splits if_splits)+

lemma max_last_Some:
  "max_last key xs = Some m \<Longrightarrow> m \<in> set xs \<and> (\<forall>x \<in> set xs. key x \<le> key m)"
  by (induction xs arbitrary: m) (fastforce split: option.splits if_splits)+

lemma max_last_snoc:
  "\<forall>x \<in> set xs. key x \<le> key y \<Longrightarrow> max_last key (xs @ [y]) = Some y"
  by (induction xs) auto

lemma prefix_map_mem:
  assumes "prefix (map f xs) (map f ys)" and "x \<in> set xs"
  shows "\<exists>y \<in> set ys. f y = f x"
proof -
  have "f x \<in> set (map f ys)"
    using set_mono_prefix [OF assms(1)] assms(2) by auto
  then show ?thesis by auto
qed

lemma filter_other:
  "j \<noteq> k \<Longrightarrow> filter (\<lambda>r. f r = j) (filter (\<lambda>r. f r \<noteq> k) xs) = filter (\<lambda>r. f r = j) xs"
  by (auto intro: filter_cong)

lemma upto_snoc: "0 \<le> n \<Longrightarrow> [1..n] @ [n + 1] = [1..n + 1]" for n :: int
  by (simp add: upto_rec2)

section \<open>Step relations\<close>

text \<open>
  A component whose operations may be called in any order is a step relation between states.
  \<open>step_invariant\<close> is the contract of an invariant of such a component, \<open>append_only_log\<close> that of
  a table whose rows are only ever added (the append-only tables of the migrations).
\<close>

locale step_invariant =
  fixes step :: "'s \<Rightarrow> 's \<Rightarrow> bool" and inv :: "'s \<Rightarrow> bool"
  assumes step_keeps: "inv s \<Longrightarrow> step s t \<Longrightarrow> inv t"
begin

lemma steps_keep: "step\<^sup>*\<^sup>* s t \<Longrightarrow> inv s \<Longrightarrow> inv t"
  by (induction rule: rtranclp_induct) (auto intro: step_keeps)

end

locale append_only_log =
  fixes step :: "'s \<Rightarrow> 's \<Rightarrow> bool" and log :: "'s \<Rightarrow> 'r list"
  assumes step_appends: "step s t \<Longrightarrow> prefix (log s) (log t)"
begin

lemma steps_append: "step\<^sup>*\<^sup>* s t \<Longrightarrow> prefix (log s) (log t)"
  by (induction rule: rtranclp_induct) (auto dest: step_appends intro: prefix_order.trans)

lemma steps_keep_rows: "step\<^sup>*\<^sup>* s t \<Longrightarrow> r \<in> set (log s) \<Longrightarrow> r \<in> set (log t)"
  using steps_append set_mono_prefix by blast

end

end
