(* ===== verification/TQ_Json.thy ===== *)
theory TQ_Json
  imports TQ_Prelude
begin

text \<open>
  JSON documents as the Python values \<open>json.loads\<close> returns, and the canonical serialisation of
  \<^verbatim>\<open>backend/app/security/crypto.py\<close> (\<open>canonical_json_bytes\<close>: sorted keys, compact separators,
  no ASCII escaping). A dictionary is an association list in insertion order. The text of a float
  (\<open>float.__repr__\<close>) is an argument of the serialisation; floats are finite and exact here.
\<close>

datatype json =
    JNull
  | JBool bool
  | JInt int
  | JFloat rat
  | JStr string
  | JArr "json list"
  | JObj "(string \<times> json) list"

section \<open>What the code asks of a JSON value\<close>

text \<open>Truth value, as in \<open>candidate.get("payload") or {}\<close>.\<close>

fun truthy :: "json \<Rightarrow> bool" where
  "truthy JNull = False"
| "truthy (JBool b) = b"
| "truthy (JInt i) = (i \<noteq> 0)"
| "truthy (JFloat r) = (r \<noteq> 0)"
| "truthy (JStr s) = (s \<noteq> [])"
| "truthy (JArr xs) = (xs \<noteq> [])"
| "truthy (JObj kvs) = (kvs \<noteq> [])"

text \<open>\<open>d.get(key)\<close>: a missing key and a null are both None.\<close>

definition dict_get :: "string \<Rightarrow> (string \<times> json) list \<Rightarrow> json" where
  "dict_get k d = (case map_of d k of None \<Rightarrow> JNull | Some v \<Rightarrow> v)"

text \<open>\<open>d[key] = v\<close>: the position of a key already present is kept.\<close>

fun dict_set :: "string \<Rightarrow> json \<Rightarrow> (string \<times> json) list \<Rightarrow> (string \<times> json) list" where
  "dict_set k v [] = [(k, v)]"
| "dict_set k v ((k', v') # d) = (if k' = k then (k, v) # d else (k', v') # dict_set k v d)"

definition dict_pop :: "string \<Rightarrow> (string \<times> json) list \<Rightarrow> (string \<times> json) list" where
  "dict_pop k d = filter (\<lambda>kv. fst kv \<noteq> k) d"

lemma map_of_dict_set [simp]: "map_of (dict_set k v d) = (map_of d)(k \<mapsto> v)"
  by (induction d) (auto simp: fun_eq_iff)

lemma map_of_dict_pop [simp]: "map_of (dict_pop k d) = (map_of d)(k := None)"
  by (induction d) (auto simp: dict_pop_def fun_eq_iff)

lemma dict_get_set [simp]: "dict_get k (dict_set k' v d) = (if k = k' then v else dict_get k d)"
  by (simp add: dict_get_def)

lemma dict_get_pop [simp]: "dict_get k (dict_pop k' d) = (if k = k' then JNull else dict_get k d)"
  by (simp add: dict_get_def)

lemma fst_dict_set: "fst ` set (dict_set k v d) = insert k (fst ` set d)"
  by (induction k v d rule: dict_set.induct) auto

lemma distinct_dict_set: "distinct (map fst d) \<Longrightarrow> distinct (map fst (dict_set k v d))"
  by (induction k v d rule: dict_set.induct) (auto simp: fst_dict_set)

text \<open>
  \<open>needle in container\<close> for a string and an arbitrary JSON container: membership of a list,
  substring of a string, key of a dictionary, and \<open>TypeError\<close> for the others.
\<close>

fun py_in :: "string \<Rightarrow> json \<Rightarrow> bool result" where
  "py_in s (JArr xs) = Inr (JStr s \<in> set xs)"
| "py_in s (JStr t) = Inr (py_substr s t)"
| "py_in s (JObj d) = Inr (s \<in> fst ` set d)"
| "py_in s _ = Inl (PyError ''TypeError'')"

section \<open>Canonical serialisation\<close>

definition digit_char :: "nat \<Rightarrow> char" where
  "digit_char d = char_of (if d < 10 then 48 + d else 87 + d)"

fun nat_str :: "nat \<Rightarrow> string" where
  "nat_str n = (if n < 10 then [digit_char n] else nat_str (n div 10) @ [digit_char (n mod 10)])"

declare nat_str.simps [simp del]

definition int_str :: "int \<Rightarrow> string" where
  "int_str i = (if i < 0 then ''-'' @ nat_str (nat (- i)) else nat_str (nat i))"

text \<open>The escapes of \<open>json.dumps\<close> with \<open>ensure_ascii=False\<close>.\<close>

definition escape_char :: "char \<Rightarrow> string" where
  "escape_char c =
     (let n = (of_char c :: nat) in
      if n = 34 then [CHR 0x5C, CHR 0x22]
      else if n = 92 then [CHR 0x5C, CHR 0x5C]
      else if n = 10 then [CHR 0x5C, CHR ''n'']
      else if n = 13 then [CHR 0x5C, CHR ''r'']
      else if n = 9 then [CHR 0x5C, CHR ''t'']
      else if n = 12 then [CHR 0x5C, CHR ''f'']
      else if n = 8 then [CHR 0x5C, CHR ''b'']
      else if n < 32 then [CHR 0x5C, CHR ''u'', CHR ''0'', CHR ''0'',
        digit_char (n div 16), digit_char (n mod 16)]
      else [c])"

definition quote :: "string \<Rightarrow> string" where
  "quote s = CHR 0x22 # concat (map escape_char s) @ [CHR 0x22]"

fun join :: "string \<Rightarrow> string list \<Rightarrow> string" where
  "join sep [] = []"
| "join sep [x] = x"
| "join sep (x # y # ys) = x @ sep @ join sep (y # ys)"

fun dumps :: "(rat \<Rightarrow> string) \<Rightarrow> json \<Rightarrow> string" where
  "dumps fr JNull = ''null''"
| "dumps fr (JBool b) = (if b then ''true'' else ''false'')"
| "dumps fr (JInt i) = int_str i"
| "dumps fr (JFloat r) = fr r"
| "dumps fr (JStr s) = quote s"
| "dumps fr (JArr xs) = ''['' @ join '','' (map (dumps fr) xs) @ '']''"
| "dumps fr (JObj d) =
     ''{'' @ join '','' (map (\<lambda>(k, t). quote k @ '':'' @ t)
       (sort_key fst (map (\<lambda>kv. (fst kv, dumps fr (snd kv))) d))) @ ''}''"

definition canonical_json_bytes :: "(rat \<Rightarrow> string) \<Rightarrow> json \<Rightarrow> bytes" where
  "canonical_json_bytes fr v = encode (dumps fr v)"

text \<open>
  Sorting by pairwise different keys forgets the order the entries came in: two permutations with
  distinct keys sort to the same list.
\<close>

lemma sort_key_perm:
  assumes "mset xs = mset ys" and "distinct (map f xs)"
  shows "sort_key f xs = sort_key f ys"
  by (rule sort_key_inj_key_eq) (use assms in \<open>simp_all add: distinct_map\<close>)

text \<open>So the serialisation of an object does not depend on the order of its keys.\<close>

lemma dumps_key_order:
  assumes "mset d = mset d'" and "distinct (map fst d)"
  shows "dumps fr (JObj d) = dumps fr (JObj d')"
proof -
  let ?f = "\<lambda>kv. (fst kv, dumps fr (snd kv))"
  have "sort_key fst (map ?f d) = sort_key fst (map ?f d')"
    by (rule sort_key_perm) (use assms in \<open>simp_all add: comp_def\<close>)
  then show ?thesis
    by simp
qed

end
