(* ===== verification/TQ_Events.thy ===== *)
theory TQ_Events
  imports TQ_Json "HOL-Library.Monad_Syntax"
begin

text \<open>
  The event contracts (\<^verbatim>\<open>shared_contracts/generated/events.py\<close>) and their validation
  (\<^verbatim>\<open>backend/app/domain/events.py\<close>). Each pydantic model is a record and a function that reads it
  from a dictionary; \<open>None\<close> is pydantic's \<open>ValidationError\<close>. What pydantic itself decides, the
  reading of a number or a datetime from a JSON value and the text of a datetime, is the argument
  \<open>validator\<close>. The detail text pydantic adds to a message is left out.
\<close>

record validator =
  as_int :: "json \<Rightarrow> int option"
  as_float :: "json \<Rightarrow> rat option"
  as_datetime :: "json \<Rightarrow> time option"
  iso :: "time \<Rightarrow> string"

text \<open>
  What the round trip below needs of pydantic: it reads an integer and a float back from their own
  JSON form, and an instant from the text it prints for it.
\<close>

definition faithful_validator :: "validator \<Rightarrow> bool" where
  "faithful_validator V \<longleftrightarrow>
     (\<forall>i. as_int V (JInt i) = Some i) \<and> (\<forall>r. as_float V (JFloat r) = Some r) \<and>
     (\<forall>t. as_datetime V (JStr (iso V t)) = Some t)"

section \<open>Fields\<close>

definition only_keys :: "string list \<Rightarrow> (string \<times> json) list \<Rightarrow> bool" where
  "only_keys allowed d \<longleftrightarrow> list_all (\<lambda>kv. fst kv \<in> set allowed) d"

text \<open>\<open>str = Field(min_length=lo, max_length=hi)\<close>, required.\<close>

definition req_str :: "nat \<Rightarrow> nat \<Rightarrow> string \<Rightarrow> (string \<times> json) list \<Rightarrow> string option" where
  "req_str lo hi k d =
     (case map_of d k of
        Some (JStr s) \<Rightarrow> if lo \<le> py_len s \<and> py_len s \<le> hi then Some s else None
      | _ \<Rightarrow> None)"

text \<open>\<open>str | None = Field(default=None, max_length=hi)\<close>; no bound when \<open>hi\<close> is None.\<close>

definition opt_str :: "nat option \<Rightarrow> string \<Rightarrow> (string \<times> json) list \<Rightarrow> string option option" where
  "opt_str hi k d =
     (case map_of d k of
        None \<Rightarrow> Some None
      | Some JNull \<Rightarrow> Some None
      | Some (JStr s) \<Rightarrow>
          (case hi of None \<Rightarrow> Some (Some s) | Some n \<Rightarrow> if py_len s \<le> n then Some (Some s) else None)
      | _ \<Rightarrow> None)"

definition opt_int :: "validator \<Rightarrow> int \<Rightarrow> string \<Rightarrow> (string \<times> json) list \<Rightarrow> int option option" where
  "opt_int V lo k d =
     (case map_of d k of
        None \<Rightarrow> Some None
      | Some JNull \<Rightarrow> Some None
      | Some v \<Rightarrow> do { i \<leftarrow> as_int V v; if lo \<le> i then Some (Some i) else None })"

definition opt_dict :: "string \<Rightarrow> (string \<times> json) list \<Rightarrow> (string \<times> json) list option option" where
  "opt_dict k d =
     (case map_of d k of
        None \<Rightarrow> Some None
      | Some JNull \<Rightarrow> Some None
      | Some (JObj e) \<Rightarrow> Some (Some e)
      | _ \<Rightarrow> None)"

definition req_datetime :: "validator \<Rightarrow> string \<Rightarrow> (string \<times> json) list \<Rightarrow> time option" where
  "req_datetime V k d = (case map_of d k of None \<Rightarrow> None | Some v \<Rightarrow> as_datetime V v)"

fun the_str :: "json \<Rightarrow> string option" where
  "the_str (JStr s) = Some s"
| "the_str _ = None"

text \<open>\<open>list[str] = Field(default_factory=list, max_length=n)\<close>.\<close>

definition str_list :: "nat \<Rightarrow> string \<Rightarrow> (string \<times> json) list \<Rightarrow> string list option" where
  "str_list n k d =
     (case map_of d k of
        None \<Rightarrow> Some []
      | Some (JArr xs) \<Rightarrow> if length xs \<le> n then those (map the_str xs) else None
      | _ \<Rightarrow> None)"

text \<open>How a field is printed by \<open>model_dump(mode="json", exclude_none=False)\<close>.\<close>

definition js_opt :: "('a \<Rightarrow> json) \<Rightarrow> 'a option \<Rightarrow> json" where
  "js_opt f x = (case x of None \<Rightarrow> JNull | Some v \<Rightarrow> f v)"

lemma js_opt_simps [simp]: "js_opt f None = JNull" "js_opt f (Some v) = f v"
  by (simp_all add: js_opt_def)

definition fits :: "nat option \<Rightarrow> string option \<Rightarrow> bool" where
  "fits hi x = (case (hi, x) of (Some n, Some s) \<Rightarrow> py_len s \<le> n | _ \<Rightarrow> True)"

definition js_strs :: "string list \<Rightarrow> json" where
  "js_strs xs = JArr (map JStr xs)"

text \<open>
  Reading a field and reading back its printed form: the two rules of each kind of field, kept in
  \<open>field_D\<close> (what a successful reading guarantees) and the simplifier (how a printed field reads).
\<close>

lemma req_str_D: "req_str lo hi k d = Some s \<Longrightarrow> lo \<le> py_len s \<and> py_len s \<le> hi"
  by (auto simp: req_str_def split: option.splits json.splits if_splits)

lemma opt_str_D: "opt_str hi k d = Some x \<Longrightarrow> fits hi x"
  by (auto simp: opt_str_def fits_def split: option.splits json.splits if_splits)

lemma opt_int_D: "opt_int V lo k d = Some x \<Longrightarrow> pred_option (\<lambda>i. lo \<le> i) x"
  by (auto simp: opt_int_def bind_eq_Some_conv split: option.splits json.splits if_splits)

lemma str_list_D: "str_list n k d = Some xs \<Longrightarrow> length xs \<le> n"
proof -
  have len: "those (map the_str ys) = Some xs \<Longrightarrow> length xs = length ys" for ys
    by (induction ys arbitrary: xs) (auto split: option.splits)
  show "str_list n k d = Some xs \<Longrightarrow> length xs \<le> n"
    by (auto simp: str_list_def dest: len split: option.splits json.splits if_splits)
qed

lemmas field_D = req_str_D opt_str_D opt_int_D str_list_D

lemma those_map_the_str [simp]: "those (map (the_str \<circ> JStr) xs) = Some xs"
  by (induction xs) auto

lemma req_str_dump [simp]:
  "req_str lo hi k ((k, JStr s) # d) = (if lo \<le> py_len s \<and> py_len s \<le> hi then Some s else None)"
  "k \<noteq> k' \<Longrightarrow> req_str lo hi k ((k', v) # d) = req_str lo hi k d"
  by (auto simp: req_str_def)

lemma opt_str_dump [simp]:
  "opt_str hi k ((k, js_opt JStr x) # d) = (if fits hi x then Some x else None)"
  "k \<noteq> k' \<Longrightarrow> opt_str hi k ((k', v) # d) = opt_str hi k d"
  by (auto simp: opt_str_def fits_def js_opt_def split: option.splits)

lemma opt_int_dump [simp]:
  "faithful_validator V \<Longrightarrow> opt_int V lo k ((k, js_opt JInt x) # d) =
     (if pred_option (\<lambda>i. lo \<le> i) x then Some x else None)"
  "k \<noteq> k' \<Longrightarrow> opt_int V lo k ((k', v) # d) = opt_int V lo k d"
  by (auto simp: opt_int_def js_opt_def faithful_validator_def split: option.splits)

lemma opt_dict_dump [simp]:
  "opt_dict k ((k, js_opt JObj x) # d) = Some x"
  "k \<noteq> k' \<Longrightarrow> opt_dict k ((k', v) # d) = opt_dict k d"
  by (auto simp: opt_dict_def js_opt_def split: option.splits)

lemma req_datetime_dump [simp]:
  "faithful_validator V \<Longrightarrow> req_datetime V k ((k, JStr (iso V t)) # d) = Some t"
  "k \<noteq> k' \<Longrightarrow> req_datetime V k ((k', v) # d) = req_datetime V k d"
  by (auto simp: req_datetime_def faithful_validator_def)

lemma str_list_dump [simp]:
  "str_list n k ((k, js_strs xs) # d) = (if length xs \<le> n then Some xs else None)"
  "k \<noteq> k' \<Longrightarrow> str_list n k ((k', v) # d) = str_list n k d"
  by (auto simp: str_list_def js_strs_def)

lemma only_keys_simps [simp]:
  "only_keys ks []"
  "only_keys ks ((k, v) # d) \<longleftrightarrow> k \<in> set ks \<and> only_keys ks d"
  by (simp_all add: only_keys_def)

section \<open>Sources and durations\<close>

record SourceRef =
  source_id :: string
  source_type :: string
  sequence :: "int option"

definition read_SourceRef :: "validator \<Rightarrow> json \<Rightarrow> SourceRef option" where
  "read_SourceRef V v =
     (case v of
        JObj d \<Rightarrow>
          if only_keys [''source_id'', ''source_type'', ''sequence''] d then do {
            i \<leftarrow> req_str 1 128 ''source_id'' d;
            t \<leftarrow> req_str 1 64 ''source_type'' d;
            n \<leftarrow> opt_int V 0 ''sequence'' d;
            Some \<lparr>source_id = i, source_type = t, sequence = n\<rparr> }
          else None
      | _ \<Rightarrow> None)"

definition dump_SourceRef :: "SourceRef \<Rightarrow> json" where
  "dump_SourceRef s = JObj
     [(''source_id'', JStr (source_id s)), (''source_type'', JStr (source_type s)),
      (''sequence'', js_opt JInt (sequence s))]"

datatype duration_unit = Unit_ms | Unit_s | Unit_min | Unit_h

fun unit_str :: "duration_unit \<Rightarrow> string" where
  "unit_str Unit_ms = ''ms''"
| "unit_str Unit_s = ''s''"
| "unit_str Unit_min = ''min''"
| "unit_str Unit_h = ''h''"

definition read_unit :: "json \<Rightarrow> duration_unit option" where
  "read_unit v = List.find (\<lambda>u. v = JStr (unit_str u)) [Unit_ms, Unit_s, Unit_min, Unit_h]"

lemma read_unit_str [simp]: "read_unit (JStr (unit_str u)) = Some u"
  by (cases u) (simp_all add: read_unit_def)

record Duration =
  duration_value :: rat
  duration_unit :: duration_unit
  duration_meaning :: string

definition read_Duration :: "validator \<Rightarrow> json \<Rightarrow> Duration option" where
  "read_Duration V v =
     (case v of
        JObj d \<Rightarrow>
          if only_keys [''value'', ''unit'', ''meaning''] d then do {
            w \<leftarrow> map_of d ''value'';
            x \<leftarrow> as_float V w;
            u \<leftarrow> Option.bind (map_of d ''unit'') read_unit;
            m \<leftarrow> req_str 1 64 ''meaning'' d;
            if 0 \<le> x
              then Some \<lparr>duration_value = x, duration_unit = u, duration_meaning = m\<rparr>
              else None }
          else None
      | _ \<Rightarrow> None)"

definition dump_Duration :: "Duration \<Rightarrow> json" where
  "dump_Duration x = JObj
     [(''value'', JFloat (duration_value x)), (''unit'', JStr (unit_str (duration_unit x))),
      (''meaning'', JStr (duration_meaning x))]"

lemma read_dump_SourceRef:
  "faithful_validator V \<Longrightarrow> read_SourceRef V v = Some s \<Longrightarrow> read_SourceRef V (dump_SourceRef s) = Some s"
  unfolding read_SourceRef_def dump_SourceRef_def
  by (auto simp: bind_eq_Some_conv dest!: field_D split: json.splits if_splits)

lemma read_dump_Duration:
  assumes "faithful_validator V" and "read_Duration V v = Some x"
  shows "read_Duration V (dump_Duration x) = Some x"
proof -
  have "as_float V (JFloat r) = Some r" for r
    using assms(1) by (simp add: faithful_validator_def)
  then show ?thesis
    using assms unfolding read_Duration_def dump_Duration_def
    by (auto simp: bind_eq_Some_conv dest!: field_D split: json.splits if_splits)
qed

section \<open>Payloads\<close>

datatype severity = Severity_minor | Severity_major | Severity_critical

fun severity_str :: "severity \<Rightarrow> string" where
  "severity_str Severity_minor = ''minor''"
| "severity_str Severity_major = ''major''"
| "severity_str Severity_critical = ''critical''"

definition read_severity :: "json \<Rightarrow> severity option" where
  "read_severity v =
     List.find (\<lambda>u. v = JStr (severity_str u)) [Severity_minor, Severity_major, Severity_critical]"

lemma read_severity_str [simp]: "read_severity (JStr (severity_str u)) = Some u"
  by (cases u) (simp_all add: read_severity_def)

text \<open>A \<open>Literal\<close> field: the enum read from its string, and one that may be None.\<close>

definition req_lit :: "(json \<Rightarrow> 'a option) \<Rightarrow> string \<Rightarrow> (string \<times> json) list \<Rightarrow> 'a option" where
  "req_lit rd k d = Option.bind (map_of d k) rd"

definition opt_lit :: "(json \<Rightarrow> 'a option) \<Rightarrow> string \<Rightarrow> (string \<times> json) list \<Rightarrow> 'a option option" where
  "opt_lit rd k d =
     (case map_of d k of
        None \<Rightarrow> Some None
      | Some v \<Rightarrow> if v = JNull then Some None else map_option Some (rd v))"

lemma req_lit_dump [simp]:
  "req_lit rd k ((k, v) # d) = rd v"
  "k \<noteq> k' \<Longrightarrow> req_lit rd k ((k', v) # d) = req_lit rd k d"
  by (simp_all add: req_lit_def)

lemma opt_lit_dump [simp]:
  "opt_lit rd k ((k, v) # d) = (if v = JNull then Some None else map_option Some (rd v))"
  "k \<noteq> k' \<Longrightarrow> opt_lit rd k ((k', v) # d) = opt_lit rd k d"
  by (simp_all add: opt_lit_def)

record Defect =
  defect_type :: string
  defect_description :: "string option"
  defect_severity :: "severity option"
  defect_component_instance_id :: "string option"

definition read_Defect :: "json \<Rightarrow> Defect option" where
  "read_Defect v =
     (case v of
        JObj d \<Rightarrow>
          if only_keys [''defect_type'', ''description'', ''severity'', ''component_instance_id''] d then do {
            t \<leftarrow> req_str 1 128 ''defect_type'' d;
            e \<leftarrow> opt_str (Some 2000) ''description'' d;
            s \<leftarrow> opt_lit read_severity ''severity'' d;
            c \<leftarrow> opt_str (Some 128) ''component_instance_id'' d;
            Some \<lparr>defect_type = t, defect_description = e, defect_severity = s,
              defect_component_instance_id = c\<rparr> }
          else None
      | _ \<Rightarrow> None)"

definition dump_Defect :: "Defect \<Rightarrow> json" where
  "dump_Defect x = JObj
     [(''defect_type'', JStr (defect_type x)),
      (''description'', js_opt JStr (defect_description x)),
      (''severity'', js_opt (\<lambda>s. JStr (severity_str s)) (defect_severity x)),
      (''component_instance_id'', js_opt JStr (defect_component_instance_id x))]"

record ItemRegisteredPayload =
  ir_product_definition_id :: string
  ir_revision :: string
  ir_line_id :: "string option"
  ir_route_id :: "string option"
  ir_route_revision :: "int option"

definition read_ItemRegistered :: "validator \<Rightarrow> (string \<times> json) list \<Rightarrow> ItemRegisteredPayload option" where
  "read_ItemRegistered V d =
     (if only_keys [''product_definition_id'', ''revision'', ''line_id'', ''route_id'', ''route_revision''] d
      then do {
        p \<leftarrow> req_str 1 128 ''product_definition_id'' d;
        r \<leftarrow> req_str 1 64 ''revision'' d;
        l \<leftarrow> opt_str (Some 128) ''line_id'' d;
        t \<leftarrow> opt_str (Some 128) ''route_id'' d;
        n \<leftarrow> opt_int V 1 ''route_revision'' d;
        Some \<lparr>ir_product_definition_id = p, ir_revision = r, ir_line_id = l, ir_route_id = t,
          ir_route_revision = n\<rparr> }
      else None)"

definition dump_ItemRegistered :: "ItemRegisteredPayload \<Rightarrow> (string \<times> json) list" where
  "dump_ItemRegistered x =
     [(''product_definition_id'', JStr (ir_product_definition_id x)),
      (''revision'', JStr (ir_revision x)), (''line_id'', js_opt JStr (ir_line_id x)),
      (''route_id'', js_opt JStr (ir_route_id x)),
      (''route_revision'', js_opt JInt (ir_route_revision x))]"

datatype run_reason = Production | Rework

fun run_reason_str :: "run_reason \<Rightarrow> string" where
  "run_reason_str Production = ''production''"
| "run_reason_str Rework = ''rework''"

definition read_run_reason :: "(string \<times> json) list \<Rightarrow> run_reason option" where
  "read_run_reason d =
     (case map_of d ''run_reason'' of
        None \<Rightarrow> Some Production
      | Some v \<Rightarrow> List.find (\<lambda>u. v = JStr (run_reason_str u)) [Production, Rework])"

lemma read_run_reason_dump [simp]:
  "read_run_reason ((''run_reason'', JStr (run_reason_str u)) # d) = Some u"
  "k \<noteq> ''run_reason'' \<Longrightarrow> read_run_reason ((k, v) # d) = read_run_reason d"
  by (cases u) (auto simp: read_run_reason_def)

record OperationStartedPayload =
  os_operation_id :: string
  os_operator_id :: string
  os_equipment_id :: string
  os_station_id :: string
  os_parameters :: "(string \<times> json) list option"
  os_previous_operation_run_id :: "string option"
  os_run_reason :: run_reason
  os_rework_for_nonconformance_id :: "string option"

definition read_OperationStarted :: "(string \<times> json) list \<Rightarrow> OperationStartedPayload option" where
  "read_OperationStarted d =
     (if only_keys [''operation_id'', ''operator_id'', ''equipment_id'', ''station_id'', ''parameters'',
          ''previous_operation_run_id'', ''run_reason'', ''rework_for_nonconformance_id''] d
      then do {
        o1 \<leftarrow> req_str 1 128 ''operation_id'' d;
        o2 \<leftarrow> req_str 1 128 ''operator_id'' d;
        e \<leftarrow> req_str 1 128 ''equipment_id'' d;
        s \<leftarrow> req_str 1 128 ''station_id'' d;
        p \<leftarrow> opt_dict ''parameters'' d;
        v \<leftarrow> opt_str (Some 128) ''previous_operation_run_id'' d;
        r \<leftarrow> read_run_reason d;
        w \<leftarrow> opt_str None ''rework_for_nonconformance_id'' d;
        Some \<lparr>os_operation_id = o1, os_operator_id = o2, os_equipment_id = e, os_station_id = s,
          os_parameters = p, os_previous_operation_run_id = v, os_run_reason = r,
          os_rework_for_nonconformance_id = w\<rparr> }
      else None)"

definition dump_OperationStarted :: "OperationStartedPayload \<Rightarrow> (string \<times> json) list" where
  "dump_OperationStarted x =
     [(''operation_id'', JStr (os_operation_id x)), (''operator_id'', JStr (os_operator_id x)),
      (''equipment_id'', JStr (os_equipment_id x)), (''station_id'', JStr (os_station_id x)),
      (''parameters'', js_opt JObj (os_parameters x)),
      (''previous_operation_run_id'', js_opt JStr (os_previous_operation_run_id x)),
      (''run_reason'', JStr (run_reason_str (os_run_reason x))),
      (''rework_for_nonconformance_id'', js_opt JStr (os_rework_for_nonconformance_id x))]"

datatype completion_status = Completed | Failed | Aborted | Interrupted

fun completion_str :: "completion_status \<Rightarrow> string" where
  "completion_str Completed = ''completed''"
| "completion_str Failed = ''failed''"
| "completion_str Aborted = ''aborted''"
| "completion_str Interrupted = ''interrupted''"

definition read_completion :: "json \<Rightarrow> completion_status option" where
  "read_completion v =
     List.find (\<lambda>u. v = JStr (completion_str u)) [Completed, Failed, Aborted, Interrupted]"

lemma read_completion_str [simp]: "read_completion (JStr (completion_str u)) = Some u"
  by (cases u) (simp_all add: read_completion_def)

record OperationFinishedPayload =
  of_completion_status :: completion_status
  of_duration :: "Duration option"
  of_stop_reason :: "string option"
  of_parameters :: "(string \<times> json) list option"

definition read_OperationFinished :: "validator \<Rightarrow> (string \<times> json) list \<Rightarrow> OperationFinishedPayload option" where
  "read_OperationFinished V d =
     (if only_keys [''completion_status'', ''duration'', ''stop_reason'', ''parameters''] d
      then do {
        c \<leftarrow> req_lit read_completion ''completion_status'' d;
        u \<leftarrow> opt_lit (read_Duration V) ''duration'' d;
        s \<leftarrow> opt_str (Some 1000) ''stop_reason'' d;
        p \<leftarrow> opt_dict ''parameters'' d;
        Some \<lparr>of_completion_status = c, of_duration = u, of_stop_reason = s, of_parameters = p\<rparr> }
      else None)"

definition dump_OperationFinished :: "OperationFinishedPayload \<Rightarrow> (string \<times> json) list" where
  "dump_OperationFinished x =
     [(''completion_status'', JStr (completion_str (of_completion_status x))),
      (''duration'', js_opt dump_Duration (of_duration x)),
      (''stop_reason'', js_opt JStr (of_stop_reason x)),
      (''parameters'', js_opt JObj (of_parameters x))]"

datatype inspection_result = No_defect | Defect_detected | Impossible_to_assess

fun inspection_result_str :: "inspection_result \<Rightarrow> string" where
  "inspection_result_str No_defect = ''no_defect''"
| "inspection_result_str Defect_detected = ''defect_detected''"
| "inspection_result_str Impossible_to_assess = ''impossible_to_assess''"

definition read_inspection_result :: "json \<Rightarrow> inspection_result option" where
  "read_inspection_result v =
     List.find (\<lambda>u. v = JStr (inspection_result_str u)) [No_defect, Defect_detected, Impossible_to_assess]"

lemma read_inspection_result_str [simp]:
  "read_inspection_result (JStr (inspection_result_str u)) = Some u"
  by (cases u) (simp_all add: read_inspection_result_def)

datatype observation_quality = Quality_good | Quality_poor | Quality_unknown

fun quality_str :: "observation_quality \<Rightarrow> string" where
  "quality_str Quality_good = ''good''"
| "quality_str Quality_poor = ''poor''"
| "quality_str Quality_unknown = ''unknown''"

definition read_quality :: "json \<Rightarrow> observation_quality option" where
  "read_quality v =
     List.find (\<lambda>u. v = JStr (quality_str u)) [Quality_good, Quality_poor, Quality_unknown]"

lemma read_quality_str [simp]: "read_quality (JStr (quality_str u)) = Some u"
  by (cases u) (simp_all add: read_quality_def)

text \<open>\<open>inspection_scope: dict[str, Any] | list[Any] | None\<close>.\<close>

datatype scope = Scope_dict "(string \<times> json) list" | Scope_list "json list"

fun dump_scope :: "scope \<Rightarrow> json" where
  "dump_scope (Scope_dict d) = JObj d"
| "dump_scope (Scope_list xs) = JArr xs"

fun read_scope :: "json \<Rightarrow> scope option" where
  "read_scope (JObj d) = Some (Scope_dict d)"
| "read_scope (JArr xs) = Some (Scope_list xs)"
| "read_scope _ = None"

lemma read_dump_scope [simp]: "read_scope (dump_scope x) = Some x"
  by (cases x) auto

record InspectionResultPayload =
  in_inspection_result :: inspection_result
  in_observation_quality :: observation_quality
  in_control_point_id :: string
  in_confidence :: "rat option"
  in_inspection_scope :: "scope option"
  in_defects :: "Defect list"
  in_evidence_refs :: "string list"
  in_component_instance_id :: "string option"
  in_control_device_id :: "string option"
  in_capture_session_id :: "string option"

definition read_confidence :: "validator \<Rightarrow> json \<Rightarrow> rat option" where
  "read_confidence V v = do { x \<leftarrow> as_float V v; if 0 \<le> x \<and> x \<le> 1 then Some x else None }"

definition read_defects :: "(string \<times> json) list \<Rightarrow> Defect list option" where
  "read_defects d =
     (case map_of d ''defects'' of
        None \<Rightarrow> Some []
      | Some (JArr xs) \<Rightarrow> those (map read_Defect xs)
      | _ \<Rightarrow> None)"

text \<open>\<open>validate_defects\<close>: the defects are there exactly when one was detected.\<close>

definition validate_defects :: "InspectionResultPayload \<Rightarrow> bool" where
  "validate_defects x \<longleftrightarrow>
     \<not> (in_inspection_result x = Defect_detected \<and> in_defects x = []) \<and>
     \<not> (in_inspection_result x \<noteq> Defect_detected \<and> in_defects x \<noteq> [])"

definition read_InspectionResult :: "validator \<Rightarrow> (string \<times> json) list \<Rightarrow> InspectionResultPayload option" where
  "read_InspectionResult V d =
     (if only_keys [''inspection_result'', ''observation_quality'', ''control_point_id'', ''confidence'',
          ''inspection_scope'', ''defects'', ''evidence_refs'', ''component_instance_id'',
          ''control_device_id'', ''capture_session_id''] d
      then do {
        r \<leftarrow> req_lit read_inspection_result ''inspection_result'' d;
        q \<leftarrow> req_lit read_quality ''observation_quality'' d;
        c \<leftarrow> req_str 1 128 ''control_point_id'' d;
        f \<leftarrow> opt_lit (read_confidence V) ''confidence'' d;
        s \<leftarrow> opt_lit read_scope ''inspection_scope'' d;
        xs \<leftarrow> read_defects d;
        refs \<leftarrow> str_list 100 ''evidence_refs'' d;
        ci \<leftarrow> opt_str (Some 128) ''component_instance_id'' d;
        cd \<leftarrow> opt_str (Some 128) ''control_device_id'' d;
        cs \<leftarrow> opt_str (Some 128) ''capture_session_id'' d;
        let x = \<lparr>in_inspection_result = r, in_observation_quality = q, in_control_point_id = c,
          in_confidence = f, in_inspection_scope = s, in_defects = xs, in_evidence_refs = refs,
          in_component_instance_id = ci, in_control_device_id = cd, in_capture_session_id = cs\<rparr> in
        if validate_defects x then Some x else None }
      else None)"

definition dump_InspectionResult :: "InspectionResultPayload \<Rightarrow> (string \<times> json) list" where
  "dump_InspectionResult x =
     [(''inspection_result'', JStr (inspection_result_str (in_inspection_result x))),
      (''observation_quality'', JStr (quality_str (in_observation_quality x))),
      (''control_point_id'', JStr (in_control_point_id x)),
      (''confidence'', js_opt JFloat (in_confidence x)),
      (''inspection_scope'', js_opt dump_scope (in_inspection_scope x)),
      (''defects'', JArr (map dump_Defect (in_defects x))),
      (''evidence_refs'', js_strs (in_evidence_refs x)),
      (''component_instance_id'', js_opt JStr (in_component_instance_id x)),
      (''control_device_id'', js_opt JStr (in_control_device_id x)),
      (''capture_session_id'', js_opt JStr (in_capture_session_id x))]"

record MachineStatePayload =
  ms_equipment_id :: string
  ms_state :: string
  ms_code :: "string option"
  ms_parameters :: "(string \<times> json) list option"

definition read_MachineState :: "(string \<times> json) list \<Rightarrow> MachineStatePayload option" where
  "read_MachineState d =
     (if only_keys [''equipment_id'', ''state'', ''code'', ''parameters''] d then do {
        e \<leftarrow> req_str 1 128 ''equipment_id'' d;
        s \<leftarrow> req_str 1 64 ''state'' d;
        c \<leftarrow> opt_str (Some 64) ''code'' d;
        p \<leftarrow> opt_dict ''parameters'' d;
        Some \<lparr>ms_equipment_id = e, ms_state = s, ms_code = c, ms_parameters = p\<rparr> }
      else None)"

definition dump_MachineState :: "MachineStatePayload \<Rightarrow> (string \<times> json) list" where
  "dump_MachineState x =
     [(''equipment_id'', JStr (ms_equipment_id x)), (''state'', JStr (ms_state x)),
      (''code'', js_opt JStr (ms_code x)), (''parameters'', js_opt JObj (ms_parameters x))]"

record OperatorActionPayload =
  oa_operator_id :: string
  oa_action_type :: string
  oa_parameters :: "(string \<times> json) list option"

definition read_OperatorAction :: "(string \<times> json) list \<Rightarrow> OperatorActionPayload option" where
  "read_OperatorAction d =
     (if only_keys [''operator_id'', ''action_type'', ''parameters''] d then do {
        e \<leftarrow> req_str 1 128 ''operator_id'' d;
        a \<leftarrow> req_str 1 64 ''action_type'' d;
        p \<leftarrow> opt_dict ''parameters'' d;
        Some \<lparr>oa_operator_id = e, oa_action_type = a, oa_parameters = p\<rparr> }
      else None)"

definition dump_OperatorAction :: "OperatorActionPayload \<Rightarrow> (string \<times> json) list" where
  "dump_OperatorAction x =
     [(''operator_id'', JStr (oa_operator_id x)), (''action_type'', JStr (oa_action_type x)),
      (''parameters'', js_opt JObj (oa_parameters x))]"

record ControlDeviceInvalidatedPayload =
  di_device_id :: string
  di_affected_from :: time
  di_affected_to :: time
  di_reason :: string
  di_invalidation_type :: "string option"
  di_supporting_evidence_refs :: "string list"

definition read_ControlDeviceInvalidated ::
  "validator \<Rightarrow> (string \<times> json) list \<Rightarrow> ControlDeviceInvalidatedPayload option" where
  "read_ControlDeviceInvalidated V d =
     (if only_keys [''device_id'', ''affected_from'', ''affected_to'', ''reason'',
          ''invalidation_type'', ''supporting_evidence_refs''] d
      then do {
        i \<leftarrow> req_str 1 128 ''device_id'' d;
        f \<leftarrow> req_datetime V ''affected_from'' d;
        t \<leftarrow> req_datetime V ''affected_to'' d;
        r \<leftarrow> req_str 3 2000 ''reason'' d;
        y \<leftarrow> opt_str (Some 64) ''invalidation_type'' d;
        refs \<leftarrow> str_list 100 ''supporting_evidence_refs'' d;
        if t < f then None
        else Some \<lparr>di_device_id = i, di_affected_from = f, di_affected_to = t, di_reason = r,
          di_invalidation_type = y, di_supporting_evidence_refs = refs\<rparr> }
      else None)"

definition dump_ControlDeviceInvalidated ::
  "validator \<Rightarrow> ControlDeviceInvalidatedPayload \<Rightarrow> (string \<times> json) list" where
  "dump_ControlDeviceInvalidated V x =
     [(''device_id'', JStr (di_device_id x)),
      (''affected_from'', JStr (iso V (di_affected_from x))),
      (''affected_to'', JStr (iso V (di_affected_to x))),
      (''reason'', JStr (di_reason x)),
      (''invalidation_type'', js_opt JStr (di_invalidation_type x)),
      (''supporting_evidence_refs'', js_strs (di_supporting_evidence_refs x))]"

text \<open>Reading back a printed payload, model by model.\<close>

lemma read_dump_Defect: "read_Defect v = Some x \<Longrightarrow> read_Defect (dump_Defect x) = Some x"
  unfolding read_Defect_def dump_Defect_def
  by (auto simp: bind_eq_Some_conv js_opt_def [where f = "\<lambda>s. JStr (severity_str s)"]
      dest!: field_D split: json.splits if_splits option.splits)

lemma read_dump_Defects:
  "those (map read_Defect vs) = Some xs \<Longrightarrow> those (map (read_Defect \<circ> dump_Defect) xs) = Some xs"
  by (induction vs arbitrary: xs) (auto simp: read_dump_Defect split: option.splits)

lemma read_defects_dump [simp]:
  "read_defects ((''defects'', JArr (map dump_Defect xs)) # d) =
     those (map (read_Defect \<circ> dump_Defect) xs)"
  "k \<noteq> ''defects'' \<Longrightarrow> read_defects ((k, v) # d) = read_defects d"
  by (auto simp: read_defects_def)

lemma read_defects_D: "read_defects d = Some xs \<Longrightarrow> those (map (read_Defect \<circ> dump_Defect) xs) = Some xs"
  by (auto simp: read_defects_def dest: read_dump_Defects split: option.splits json.splits)

lemma read_dump_ItemRegistered:
  "faithful_validator V \<Longrightarrow> read_ItemRegistered V d = Some x \<Longrightarrow>
   read_ItemRegistered V (dump_ItemRegistered x) = Some x"
  unfolding read_ItemRegistered_def dump_ItemRegistered_def
  by (clarsimp simp: bind_eq_Some_conv split: if_splits dest!: field_D)

lemma read_dump_OperationStarted:
  "read_OperationStarted d = Some x \<Longrightarrow> read_OperationStarted (dump_OperationStarted x) = Some x"
  unfolding read_OperationStarted_def dump_OperationStarted_def
  by (clarsimp simp: bind_eq_Some_conv split: if_splits dest!: field_D)

lemma read_dump_MachineState:
  "read_MachineState d = Some x \<Longrightarrow> read_MachineState (dump_MachineState x) = Some x"
  unfolding read_MachineState_def dump_MachineState_def
  by (clarsimp simp: bind_eq_Some_conv split: if_splits dest!: field_D)

lemma read_dump_OperatorAction:
  "read_OperatorAction d = Some x \<Longrightarrow> read_OperatorAction (dump_OperatorAction x) = Some x"
  unfolding read_OperatorAction_def dump_OperatorAction_def
  by (clarsimp simp: bind_eq_Some_conv split: if_splits dest!: field_D)

lemma read_dump_ControlDeviceInvalidated:
  "faithful_validator V \<Longrightarrow> read_ControlDeviceInvalidated V d = Some x \<Longrightarrow>
   read_ControlDeviceInvalidated V (dump_ControlDeviceInvalidated V x) = Some x"
  unfolding read_ControlDeviceInvalidated_def dump_ControlDeviceInvalidated_def
  by (clarsimp simp: bind_eq_Some_conv split: if_splits dest!: field_D)

text \<open>An optional nested model: reading it back is reading back its value.\<close>

lemma opt_lit_js_opt:
  assumes "\<And>y. x = Some y \<Longrightarrow> rd (pr y) = Some y" and "\<And>y. pr y \<noteq> JNull"
  shows "opt_lit rd k ((k, js_opt pr x) # d) = Some x"
  using assms by (cases x) auto

lemma opt_lit_D: "opt_lit rd k d = Some (Some y) \<Longrightarrow> \<exists>v. rd v = Some y"
  by (auto simp: opt_lit_def split: option.splits if_splits)

lemma read_dump_OperationFinished:
  assumes V: "faithful_validator V" and rd: "read_OperationFinished V d = Some x"
  shows "read_OperationFinished V (dump_OperationFinished x) = Some x"
proof -
  have "opt_lit (read_Duration V) ''duration'' d = Some (of_duration x)"
    using rd by (auto simp: read_OperationFinished_def bind_eq_Some_conv split: if_splits)
  then have "\<And>y. of_duration x = Some y \<Longrightarrow> read_Duration V (dump_Duration y) = Some y"
    using read_dump_Duration [OF V] opt_lit_D by metis
  then have "\<And>e. opt_lit (read_Duration V) ''duration'' ((''duration'', js_opt dump_Duration (of_duration x)) # e) =
      Some (of_duration x)"
    by (rule opt_lit_js_opt) (simp_all add: dump_Duration_def)
  then show ?thesis
    using rd unfolding read_OperationFinished_def dump_OperationFinished_def
    by (auto simp: bind_eq_Some_conv simp del: opt_lit_dump(1) dest!: field_D split: if_splits)
qed

lemma read_dump_InspectionResult:
  assumes V: "faithful_validator V" and rd: "read_InspectionResult V d = Some x"
  shows "read_InspectionResult V (dump_InspectionResult x) = Some x"
proof -
  have conf: "opt_lit (read_confidence V) ''confidence'' d = Some (in_confidence x)"
    using rd by (auto simp: read_InspectionResult_def bind_eq_Some_conv Let_def split: if_splits)
  have "\<And>y. in_confidence x = Some y \<Longrightarrow> read_confidence V (JFloat y) = Some y"
    using V conf opt_lit_D [of "read_confidence V" "''confidence''" d]
    by (fastforce simp: read_confidence_def faithful_validator_def bind_eq_Some_conv split: if_splits)
  then have c: "\<And>e. opt_lit (read_confidence V) ''confidence'' ((''confidence'', js_opt JFloat (in_confidence x)) # e) =
      Some (in_confidence x)"
    by (rule opt_lit_js_opt) simp_all
  have s: "\<And>e. opt_lit read_scope ''inspection_scope'' ((''inspection_scope'', js_opt dump_scope (in_inspection_scope x)) # e) =
      Some (in_inspection_scope x)"
  proof (rule opt_lit_js_opt)
    show "dump_scope y \<noteq> JNull" for y by (cases y) auto
  qed simp
  show ?thesis
    using rd c s unfolding read_InspectionResult_def dump_InspectionResult_def
    by (auto simp: bind_eq_Some_conv Let_def simp del: opt_lit_dump(1)
        dest!: field_D dest: read_defects_D split: if_splits)
qed

section \<open>The envelope\<close>

datatype payload =
    Item_registered ItemRegisteredPayload
  | Operation_started OperationStartedPayload
  | Operation_finished OperationFinishedPayload
  | Inspection_result InspectionResultPayload
  | Machine_state MachineStatePayload
  | Operator_action OperatorActionPayload
  | Control_device_invalidated ControlDeviceInvalidatedPayload

record EventEnvelope =
  event_id :: string
  event_type :: string
  schema_version :: string
  occurred_at :: time
  source :: SourceRef
  item_id :: "string option"
  operation_run_id :: "string option"
  payload :: payload

definition SCHEMA_REGISTRY :: "(string \<times> string) list" where
  "SCHEMA_REGISTRY =
     [(''control_device.invalidated'', ''1.0''), (''inspection.result'', ''1.0''),
      (''item.registered'', ''1.0''), (''machine.state'', ''1.0''), (''operation.finished'', ''1.0''),
      (''operation.started'', ''1.0''), (''operator.action'', ''1.0'')]"

definition SUPPORTED_EVENT_TYPES :: "string list" where
  "SUPPORTED_EVENT_TYPES = map fst SCHEMA_REGISTRY"

text \<open>\<open>PAYLOAD_MODELS[event_type].model_validate(payload)\<close>.\<close>

definition read_payload :: "validator \<Rightarrow> string \<Rightarrow> (string \<times> json) list \<Rightarrow> payload option" where
  "read_payload V t d =
     (if t = ''item.registered'' then map_option Item_registered (read_ItemRegistered V d)
      else if t = ''operation.started'' then map_option Operation_started (read_OperationStarted d)
      else if t = ''operation.finished'' then map_option Operation_finished (read_OperationFinished V d)
      else if t = ''inspection.result'' then map_option Inspection_result (read_InspectionResult V d)
      else if t = ''machine.state'' then map_option Machine_state (read_MachineState d)
      else if t = ''operator.action'' then map_option Operator_action (read_OperatorAction d)
      else if t = ''control_device.invalidated''
        then map_option Control_device_invalidated (read_ControlDeviceInvalidated V d)
      else None)"

fun dump_payload :: "validator \<Rightarrow> payload \<Rightarrow> (string \<times> json) list" where
  "dump_payload V (Item_registered x) = dump_ItemRegistered x"
| "dump_payload V (Operation_started x) = dump_OperationStarted x"
| "dump_payload V (Operation_finished x) = dump_OperationFinished x"
| "dump_payload V (Inspection_result x) = dump_InspectionResult x"
| "dump_payload V (Machine_state x) = dump_MachineState x"
| "dump_payload V (Operator_action x) = dump_OperatorAction x"
| "dump_payload V (Control_device_invalidated x) = dump_ControlDeviceInvalidated V x"

lemma read_dump_payload:
  "faithful_validator V \<Longrightarrow> read_payload V t d = Some p \<Longrightarrow> read_payload V t (dump_payload V p) = Some p"
  by (auto simp: read_payload_def read_dump_ItemRegistered read_dump_OperationStarted
      read_dump_OperationFinished read_dump_InspectionResult read_dump_MachineState
      read_dump_OperatorAction read_dump_ControlDeviceInvalidated split: if_splits)

text \<open>\<open>required_envelope_ids\<close>: \<open>not self.item_id\<close> is true of None and of the empty string.\<close>

definition has_id :: "string option \<Rightarrow> bool" where
  "has_id x \<longleftrightarrow> x \<noteq> None \<and> x \<noteq> Some []"

definition required_envelope_ids :: "EventEnvelope \<Rightarrow> bool" where
  "required_envelope_ids e \<longleftrightarrow>
     \<not> (event_type e \<in> {''item.registered'', ''operation.started'', ''operation.finished'',
          ''inspection.result''} \<and> \<not> has_id (item_id e)) \<and>
     \<not> (event_type e \<in> {''operation.started'', ''operation.finished''} \<and>
        \<not> has_id (operation_run_id e))"

text \<open>\<open>EventEnvelope.model_validate(candidate)\<close>, the payload being a model instance already.\<close>

definition read_envelope :: "validator \<Rightarrow> (string \<times> json) list \<Rightarrow> payload \<Rightarrow> EventEnvelope option" where
  "read_envelope V d p =
     (if only_keys [''event_id'', ''event_type'', ''schema_version'', ''occurred_at'', ''source'',
          ''item_id'', ''operation_run_id'', ''payload''] d
      then do {
        i \<leftarrow> req_str 1 128 ''event_id'' d;
        t \<leftarrow> req_str 1 64 ''event_type'' d;
        v \<leftarrow> req_str 1 16 ''schema_version'' d;
        a \<leftarrow> req_datetime V ''occurred_at'' d;
        s \<leftarrow> req_lit (read_SourceRef V) ''source'' d;
        it \<leftarrow> opt_str (Some 128) ''item_id'' d;
        r \<leftarrow> opt_str (Some 128) ''operation_run_id'' d;
        let e = \<lparr>event_id = i, event_type = t, schema_version = v, occurred_at = a, source = s,
          item_id = it, operation_run_id = r, payload = p\<rparr> in
        if required_envelope_ids e then Some e else None }
      else None)"

section \<open>Validation\<close>

definition schema_error :: "string \<Rightarrow> exn" where
  "schema_error message = TraceQError ''EVENT_SCHEMA_VALIDATION_ERROR'' message 422"

text \<open>
  \<open>dict(x)\<close> of a value that is true: a dictionary is copied, a list is read as key-value pairs
  (two-element lists, two-character strings and two-key objects), and everything else raises. A
  pair whose key is not a string is a key no payload model accepts, so the schema error that
  follows is raised here.
\<close>

definition hashable :: "json \<Rightarrow> bool" where
  "hashable v \<longleftrightarrow> (case v of JArr _ \<Rightarrow> False | JObj _ \<Rightarrow> False | _ \<Rightarrow> True)"

fun pair_of :: "json \<Rightarrow> (json \<times> json) result" where
  "pair_of (JArr [k, v]) = (if hashable k then Inr (k, v) else Inl (PyError ''TypeError''))"
| "pair_of (JArr _) = Inl (PyError ''ValueError'')"
| "pair_of (JStr s) =
     (if py_len s = 2 then Inr (JStr (py_take 1 s), JStr (drop (length (py_take 1 s)) s))
      else Inl (PyError ''ValueError''))"
| "pair_of (JObj [(k, _), (k', _)]) = Inr (JStr k, JStr k')"
| "pair_of (JObj _) = Inl (PyError ''ValueError'')"
| "pair_of _ = Inl (PyError ''TypeError'')"

fun add_pair :: "json \<times> json \<Rightarrow> (string \<times> json) list \<Rightarrow> (string \<times> json) list result" where
  "add_pair (JStr k, v) d = Inr (dict_set k v d)"
| "add_pair _ d = Inl (schema_error ''Event validation failed'')"

fun py_dict :: "json \<Rightarrow> (string \<times> json) list result" where
  "py_dict (JObj d) = Inr d"
| "py_dict (JArr xs) = rbind (map_r pair_of xs) (\<lambda>kvs. fold_r add_pair kvs [])"
| "py_dict (JStr s) = (if s = [] then Inr [] else Inl (PyError ''ValueError''))"
| "py_dict _ = Inl (PyError ''TypeError'')"

text \<open>One round of the loop of \<open>_normalize_legacy\<close> over the two identifiers.\<close>

definition lift_legacy ::
  "string \<Rightarrow> (string \<times> json) list \<times> (string \<times> json) list \<Rightarrow>
   ((string \<times> json) list \<times> (string \<times> json) list) result" where
  "lift_legacy key cp =
     (let (candidate, pl) = cp; legacy = dict_get key pl; pl' = dict_pop key pl in
      if dict_get key candidate = JNull \<and> legacy \<noteq> JNull then Inr (dict_set key legacy candidate, pl')
      else if legacy \<noteq> JNull \<and> dict_get key candidate \<noteq> legacy
        then Inl (schema_error (key @ '' differs between envelope and legacy payload''))
      else Inr (candidate, pl'))"

definition lift_duration :: "(string \<times> json) list \<Rightarrow> (string \<times> json) list" where
  "lift_duration pl =
     (case map_of pl ''duration_seconds'' of
        None \<Rightarrow> pl
      | Some v \<Rightarrow>
          if ''duration'' \<in> fst ` set pl then pl
          else dict_set ''duration''
            (JObj [(''value'', v), (''unit'', JStr ''s''), (''meaning'', JStr ''active_processing'')])
            (dict_pop ''duration_seconds'' pl))"

definition normalize_legacy ::
  "(string \<times> json) list \<Rightarrow> ((string \<times> json) list \<times> (string \<times> json) list) result" where
  "normalize_legacy value =
     (let p = dict_get ''payload'' value in
      rbind (if truthy p then py_dict p else Inr []) (\<lambda>pl.
      rbind (fold_r lift_legacy [''item_id'', ''operation_run_id''] (value, pl)) (\<lambda>(candidate, pl').
      Inr (candidate, lift_duration pl'))))"

definition validate_event :: "validator \<Rightarrow> json \<Rightarrow> EventEnvelope result" where
  "validate_event V v =
     (case v of
        JObj d \<Rightarrow>
          (let t = dict_get ''event_type'' d; ver = dict_get ''schema_version'' d in
           if \<not> hashable t then Inl (PyError ''TypeError'')
           else if t \<notin> JStr ` set SUPPORTED_EVENT_TYPES
             then Inl (TraceQError ''UNSUPPORTED_EVENT_TYPE'' ''Unsupported event type'' 422)
           else if \<not> hashable ver then Inl (PyError ''TypeError'')
           else if (t, ver) \<notin> (\<lambda>(a, b). (JStr a, JStr b)) ` set SCHEMA_REGISTRY
             then Inl (TraceQError ''UNSUPPORTED_SCHEMA_VERSION'' ''Unsupported event schema version'' 422)
           else rbind (normalize_legacy d) (\<lambda>(candidate, pl).
             case Option.bind (the_str t) (\<lambda>ty. read_payload V ty pl) of
               None \<Rightarrow> Inl (schema_error ''Event validation failed'')
             | Some p \<Rightarrow>
                 (case read_envelope V (dict_set ''payload'' (JObj pl) candidate) p of
                    None \<Rightarrow> Inl (schema_error ''Event validation failed'')
                  | Some e \<Rightarrow> Inr e)))
      | _ \<Rightarrow> Inl (TraceQError ''INVALID_EVENT'' ''Event must be a JSON object'' 422))"

text \<open>\<open>canonical_event_dict\<close>: \<open>event.model_dump(mode="json", exclude_none=False)\<close>.\<close>

definition canonical_event_dict :: "validator \<Rightarrow> EventEnvelope \<Rightarrow> json" where
  "canonical_event_dict V e = JObj
     [(''event_id'', JStr (event_id e)), (''event_type'', JStr (event_type e)),
      (''schema_version'', JStr (schema_version e)),
      (''occurred_at'', JStr (iso V (occurred_at e))), (''source'', dump_SourceRef (source e)),
      (''item_id'', js_opt JStr (item_id e)),
      (''operation_run_id'', js_opt JStr (operation_run_id e)),
      (''payload'', JObj (dump_payload V (payload e)))]"

fun unit_factor :: "duration_unit \<Rightarrow> rat" where
  "unit_factor Unit_ms = 1 / 1000"
| "unit_factor Unit_s = 1"
| "unit_factor Unit_min = 60"
| "unit_factor Unit_h = 3600"

definition data_quality_warnings :: "EventEnvelope \<Rightarrow> (string \<times> string) list" where
  "data_quality_warnings e =
     (case payload e of
        Operation_finished p \<Rightarrow>
          (case of_duration p of
             None \<Rightarrow> []
           | Some x \<Rightarrow>
               if duration_value x * unit_factor (duration_unit x) > 4 * 3600
               then [(''SUSPICIOUS_DURATION'', ''Reported operation duration exceeds four hours'')]
               else [])
      | _ \<Rightarrow> [])"

section \<open>What a validated event satisfies\<close>

text \<open>The boundary adapter only writes the two identifiers of the candidate.\<close>

lemma lift_legacy_other:
  "lift_legacy key (c, pl) = Inr (c', pl') \<Longrightarrow> k \<noteq> key \<Longrightarrow> map_of c' k = map_of c k"
  by (auto simp: lift_legacy_def Let_def split: if_splits)

lemma normalize_legacy_other:
  assumes "normalize_legacy d = Inr (c, pl)" and "k \<noteq> ''item_id''" and "k \<noteq> ''operation_run_id''"
  shows "map_of c k = map_of d k"
  using assms
  by (auto simp: normalize_legacy_def Let_def rbind_Inr_iff dest!: lift_legacy_other [where k = k])

lemma read_envelope_D:
  "read_envelope V d p = Some e \<Longrightarrow>
     payload e = p \<and> required_envelope_ids e \<and>
     map_of d ''event_type'' = Some (JStr (event_type e)) \<and>
     map_of d ''schema_version'' = Some (JStr (schema_version e)) \<and>
     1 \<le> py_len (event_id e) \<and> py_len (event_id e) \<le> 128"
  unfolding read_envelope_def
  by (clarsimp simp: bind_eq_Some_conv Let_def req_str_def split: if_splits option.splits json.splits)

lemma validate_event_Inr:
  assumes "validate_event V v = Inr e"
  obtains d c pl where "v = JObj d" "normalize_legacy d = Inr (c, pl)"
    "read_payload V (event_type e) pl = Some (payload e)"
    "read_envelope V (dict_set ''payload'' (JObj pl) c) (payload e) = Some e"
    "(event_type e, schema_version e) \<in> set SCHEMA_REGISTRY"
proof -
  obtain d where v: "v = JObj d"
    using assms by (auto simp: validate_event_def split: json.splits)
  from assms v obtain t ver c pl p where t: "dict_get ''event_type'' d = JStr t"
    and ver: "dict_get ''schema_version'' d = JStr ver"
    and reg: "(t, ver) \<in> set SCHEMA_REGISTRY"
    and n: "normalize_legacy d = Inr (c, pl)" and p: "read_payload V t pl = Some p"
    and e: "read_envelope V (dict_set ''payload'' (JObj pl) c) p = Some e"
    by (auto simp: validate_event_def Let_def rbind_Inr_iff split: if_splits option.splits)
  have "map_of c ''event_type'' = map_of d ''event_type''"
    "map_of c ''schema_version'' = map_of d ''schema_version''"
    using n by (auto intro: normalize_legacy_other)
  with read_envelope_D [OF e] t ver have "event_type e = t" "schema_version e = ver" "payload e = p"
    by (auto simp: dict_get_def)
  with v n p e reg that show ?thesis
    by blast
qed

lemma dump_payload_keys:
  "fst ` set (dump_payload V p) \<inter> {''item_id'', ''operation_run_id'', ''duration_seconds''} = {}"
  by (cases p) (simp_all add: dump_ItemRegistered_def dump_OperationStarted_def
      dump_OperationFinished_def dump_InspectionResult_def dump_MachineState_def
      dump_OperatorAction_def dump_ControlDeviceInvalidated_def)

lemma absent_key:
  "k \<notin> fst ` set d \<Longrightarrow> dict_get k d = JNull \<and> dict_pop k d = d"
  by (induction d) (auto simp: dict_get_def dict_pop_def)

lemma normalize_dumped:
  assumes "dict_get ''payload'' d = JObj pl"
    and "fst ` set pl \<inter> {''item_id'', ''operation_run_id'', ''duration_seconds''} = {}"
  shows "normalize_legacy d = Inr (d, pl)"
proof -
  have "map_of pl ''duration_seconds'' = None"
    using assms(2) by (auto simp: map_of_eq_None_iff)
  moreover have "lift_legacy k (d, pl) = Inr (d, pl)" if "k \<in> {''item_id'', ''operation_run_id''}" for k
    using that assms(2) absent_key [of k pl] by (auto simp: lift_legacy_def Let_def)
  ultimately show ?thesis
    using assms(1) by (cases "pl = []") (auto simp: normalize_legacy_def lift_duration_def)
qed

lemma read_dump_envelope:
  assumes V: "faithful_validator V" and rd: "read_envelope V d p = Some e"
  shows "read_envelope V (dict_set ''payload'' (JObj pl)
    [(''event_id'', JStr (event_id e)), (''event_type'', JStr (event_type e)),
      (''schema_version'', JStr (schema_version e)),
      (''occurred_at'', JStr (iso V (occurred_at e))), (''source'', dump_SourceRef (source e)),
      (''item_id'', js_opt JStr (item_id e)),
      (''operation_run_id'', js_opt JStr (operation_run_id e)),
      (''payload'', JObj (dump_payload V (payload e)))]) p = Some e"
proof -
  have "\<exists>v. read_SourceRef V v = Some (source e)"
    using rd by (auto simp: read_envelope_def bind_eq_Some_conv req_lit_def Let_def split: if_splits)
  then have "read_SourceRef V (dump_SourceRef (source e)) = Some (source e)"
    using read_dump_SourceRef [OF V] by blast
  then show ?thesis
    using V rd unfolding read_envelope_def
    by (clarsimp simp: bind_eq_Some_conv Let_def split: if_splits dest!: field_D)
qed

lemma canonical_is_stable:
  assumes V: "faithful_validator V" and val: "validate_event V v = Inr e"
  shows "validate_event V (canonical_event_dict V e) = Inr e"
proof -
  let ?d = "[(''event_id'', JStr (event_id e)), (''event_type'', JStr (event_type e)),
      (''schema_version'', JStr (schema_version e)),
      (''occurred_at'', JStr (iso V (occurred_at e))), (''source'', dump_SourceRef (source e)),
      (''item_id'', js_opt JStr (item_id e)),
      (''operation_run_id'', js_opt JStr (operation_run_id e)),
      (''payload'', JObj (dump_payload V (payload e)))]"
  from val obtain d c pl where
    p: "read_payload V (event_type e) pl = Some (payload e)" and
    e: "read_envelope V (dict_set ''payload'' (JObj pl) c) (payload e) = Some e" and
    reg: "(event_type e, schema_version e) \<in> set SCHEMA_REGISTRY"
    by (rule validate_event_Inr) blast
  have n: "normalize_legacy ?d = Inr (?d, dump_payload V (payload e))"
    by (rule normalize_dumped) (use dump_payload_keys in \<open>simp_all add: dict_get_def\<close>)
  have t: "dict_get ''event_type'' ?d = JStr (event_type e)"
    "dict_get ''schema_version'' ?d = JStr (schema_version e)"
    by (simp_all add: dict_get_def)
  have "JStr (event_type e) \<in> JStr ` set SUPPORTED_EVENT_TYPES"
    "(JStr (event_type e), JStr (schema_version e)) \<in> (\<lambda>(a, b). (JStr a, JStr b)) ` set SCHEMA_REGISTRY"
    using reg by (force simp: SUPPORTED_EVENT_TYPES_def)+
  then show ?thesis
    unfolding canonical_event_dict_def validate_event_def Let_def json.case t
    using n read_dump_payload [OF V p] read_dump_envelope [OF V e]
    by (simp add: hashable_def)
qed

end
