(* ===== verification/TQ_Store.thy ===== *)
theory TQ_Store
  imports TQ_Events
begin

text \<open>
  The tables of \<^verbatim>\<open>backend/app/persistence/models.py\<close> that the modelled operations read or write,
  one record per table and one field of \<open>db\<close> per table (the rows in insertion order), the settings
  the operations read, and the libraries they call (\<open>env\<close>). A column whose values are a fixed set
  of strings is an enumeration. Column defaults are written out where a row is built.
\<close>

section \<open>Enumerated columns\<close>

datatype trust_status = TRUSTED | UNTRUSTED | UNASSESSABLE | CONFLICTED | INVALIDATED
datatype verdict = Pending_review | Needs_extra_check | Confirmed | Rejected
datatype disposition = IN_PROCESS | REWORK_REQUIRED | RELEASED | SCRAPPED | USE_AS_IS
datatype containment = NO_CONTAINMENT | HOLD | REINSPECTION_REQUIRED | REVIEW_REQUIRED
datatype occurrence_status = Occurrence_open | Occurrence_closed
datatype analysis_status = BOUNDED | LEFT_OPEN | EVIDENCE_INVALIDATED
datatype evidence_type =
    LAST_TRUSTED_GOOD | FIRST_TRUSTED_DEFECT | OPERATION_IN_WINDOW | MACHINE_WARNING
  | OPERATOR_ACTION | CONFLICTING_OBSERVATION | DEVICE_VALIDITY | POOR_OBSERVATION | MISSING_CHECK
datatype evidence_role = BOUNDARY | CONTEXT | LIMITATION
datatype proposal_status = Proposal_pending | Proposal_approved | Proposal_rejected
datatype verification_status = Verification_pending | Verification_passed | Verification_failed
datatype projection_status = Stale | Rebuilding | Up_to_date | Projection_failed
datatype stream_status = Stream_ok | INTEGRITY_FAILED
datatype source_status = Source_active | Source_suspended | Source_revoked | Source_expired
datatype auth_method = Shared_secret_legacy | HMAC_V1
datatype attempt_status = Attempt_rejected | Attempt_duplicate | Attempt_conflict | Attempt_accepted
datatype outbox_state = PENDING | RETRYING | DELIVERED | FAILED
datatype approval_status = Approval_pending | Approval_approved
datatype factor_type = Equipment_factor | Tool_factor | Material_lot | Control_device | Component_factor | Time_interval

fun disposition_str :: "disposition \<Rightarrow> string" where
  "disposition_str IN_PROCESS = ''IN_PROCESS''"
| "disposition_str REWORK_REQUIRED = ''REWORK_REQUIRED''"
| "disposition_str RELEASED = ''RELEASED''"
| "disposition_str SCRAPPED = ''SCRAPPED''"
| "disposition_str USE_AS_IS = ''USE_AS_IS''"

fun verdict_str :: "verdict \<Rightarrow> string" where
  "verdict_str Pending_review = ''pending_review''"
| "verdict_str Needs_extra_check = ''needs_extra_check''"
| "verdict_str Confirmed = ''confirmed''"
| "verdict_str Rejected = ''rejected''"

fun containment_str :: "containment \<Rightarrow> string" where
  "containment_str NO_CONTAINMENT = ''NONE''"
| "containment_str HOLD = ''HOLD''"
| "containment_str REINSPECTION_REQUIRED = ''REINSPECTION_REQUIRED''"
| "containment_str REVIEW_REQUIRED = ''REVIEW_REQUIRED''"

fun trust_str :: "trust_status \<Rightarrow> string" where
  "trust_str TRUSTED = ''TRUSTED''"
| "trust_str UNTRUSTED = ''UNTRUSTED''"
| "trust_str UNASSESSABLE = ''UNASSESSABLE''"
| "trust_str CONFLICTED = ''CONFLICTED''"
| "trust_str INVALIDATED = ''INVALIDATED''"

fun approval_status_str :: "approval_status \<Rightarrow> string" where
  "approval_status_str Approval_pending = ''PENDING''"
| "approval_status_str Approval_approved = ''APPROVED''"

fun factor_str :: "factor_type \<Rightarrow> string" where
  "factor_str Equipment_factor = ''equipment''"
| "factor_str Tool_factor = ''tool''"
| "factor_str Material_lot = ''material_lot''"
| "factor_str Control_device = ''control_device''"
| "factor_str Component_factor = ''component''"
| "factor_str Time_interval = ''time_interval''"

section \<open>Identity and sessions\<close>

record Role =
  ro_id :: uuid
  ro_name :: string

record Permission =
  pe_id :: uuid
  pe_name :: string

record User =
  us_id :: uuid
  us_username :: string
  us_display_name :: string
  us_password_hash :: string
  us_enabled :: bool
  us_failed_login_attempts :: int
  us_locked_until :: "time option"

record RefreshToken =
  rt_id :: uuid
  rt_user_id :: uuid
  rt_session_id :: uuid
  rt_token_hash :: string
  rt_expires_at :: time
  rt_revoked_at :: "time option"
  rt_replaced_by_hash :: "string option"

record AuthSession =
  se_id :: uuid
  se_user_id :: uuid
  se_last_authenticated_at :: time
  se_expires_at :: time
  se_revoked_at :: "time option"

section \<open>Sources, the raw log and its integrity\<close>

record EventSource =
  es_source_id :: string
  es_source_type :: string
  es_enabled :: bool
  es_status :: source_status
  es_auth_method :: auth_method
  es_token_hash :: "string option"
  es_allowed_event_types :: "string list"
  es_allowed_line_ids :: "string list"
  es_allowed_station_ids :: "string list"
  es_valid_from :: "time option"
  es_valid_to :: "time option"
  es_revoked_at :: "time option"
  es_last_source_sequence :: "int option"
  es_created_at :: time

record IngestAttempt =
  ia_received_at :: time
  ia_source_id :: "string option"
  ia_claimed_event_id :: "string option"
  ia_status :: attempt_status
  ia_error_code :: "string option"
  ia_raw_event_id :: "string option"
  ia_payload_hash :: "string option"
  ia_safe_error_details :: json

record TransportNonce =
  tn_source_id :: string
  tn_nonce :: string
  tn_timestamp :: time

record SecurityAlert =
  sa_alert_type :: string
  sa_severity :: string
  sa_source_id :: "string option"
  sa_target_type :: "string option"
  sa_target_id :: "string option"
  sa_details :: json

record IntegrityStreamState =
  st_stream_id :: string
  st_last_seq :: int
  st_last_mac :: bytes
  st_status :: stream_status

record RawEvent =
  re_event_id :: string
  re_event_type :: string
  re_schema_version :: string
  re_source_id :: string
  re_source_type :: string
  re_source_sequence :: "int option"
  re_item_id :: "string option"
  re_operation_run_id :: "string option"
  re_occurred_at :: time
  re_received_at :: time
  re_ingest_seq :: int
  re_payload_ciphertext :: bytes
  re_nonce :: bytes
  re_content_hash :: string
  re_integrity_stream_id :: string
  re_integrity_seq :: int
  re_prev_integrity_mac :: bytes
  re_integrity_mac :: bytes
  re_crypto_key_id :: string
  re_key_version :: string
  re_crypto_profile_id :: string

record AuditEntry =
  au_actor_user_id :: "uuid option"
  au_session_id :: "uuid option"
  au_action :: string
  au_target_type :: "string option"
  au_target_id :: "string option"
  au_outcome :: string
  au_request_id :: "string option"
  au_safe_details :: json

record ControlDeviceInvalidation =
  ci_source_event_id :: "string option"
  ci_device_id :: string
  ci_affected_from :: time
  ci_affected_to :: time
  ci_reason :: string
  ci_invalidation_type :: "string option"
  ci_supporting_evidence_refs :: "string list"
  ci_created_by_user_id :: "uuid option"

section \<open>Rebuildable projections\<close>

record Item =
  it_item_id :: string
  it_product_definition_id :: string
  it_revision :: string
  it_line_id :: "string option"
  it_route_revision_id :: "uuid option"
  it_status :: disposition
  it_structure_status :: string
  it_registered_at :: time
  it_updated_at :: time

record OperationRun =
  or_operation_run_id :: string
  or_item_id :: string
  or_operation_id :: "string option"
  or_operator_id :: "string option"
  or_equipment_id :: "string option"
  or_station_id :: "string option"
  or_started_at :: "time option"
  or_finished_at :: "time option"
  or_completion_status :: "completion_status option"
  or_duration_value :: "rat option"
  or_duration_unit :: "duration_unit option"
  or_duration_meaning :: "string option"
  or_previous_operation_run_id :: "string option"
  or_run_reason :: run_reason
  or_rework_for_nonconformance_id :: "uuid option"
  or_parameters :: "(string \<times> json) list option"

record Observation =
  ob_id :: uuid
  ob_event_id :: string
  ob_item_id :: string
  ob_operation_run_id :: "string option"
  ob_occurred_at :: time
  ob_inspection_result :: inspection_result
  ob_observation_quality :: observation_quality
  ob_control_point_id :: string
  ob_confidence :: "rat option"
  ob_inspection_scope :: "scope option"
  ob_component_instance_id :: "string option"
  ob_control_device_id :: "string option"
  ob_capture_session_id :: "string option"
  ob_evidence_refs :: "string list"
  ob_trust_status :: trust_status
  ob_trust_reasons :: "string list"

record DefectObservation =
  dobs_id :: uuid
  dobs_observation_id :: uuid
  dobs_item_id :: string
  dobs_defect_type :: string
  dobs_component_instance_id :: "string option"
  dobs_description :: "string option"
  dobs_severity :: "severity option"

record MachineEvent =
  me_event_id :: string
  me_item_id :: "string option"
  me_operation_run_id :: "string option"
  me_equipment_id :: string
  me_state :: string
  me_code :: "string option"
  me_occurred_at :: time
  me_parameters :: "(string \<times> json) list option"

record OperatorAction =
  act_event_id :: string
  act_item_id :: "string option"
  act_operation_run_id :: "string option"
  act_operator_id :: string
  act_action_type :: string
  act_occurred_at :: time
  act_parameters :: "(string \<times> json) list option"

record ProjectionState =
  ps_item_id :: string
  ps_latest_raw_ingest_seq :: int
  ps_last_projected_ingest_seq :: int
  ps_projection_version :: int
  ps_status :: projection_status
  ps_last_successful_rebuild_at :: "time option"
  ps_last_error :: "string option"

section \<open>Occurrences, nonconformances, analyses and decisions\<close>

record DefectOccurrence =
  oc_id :: uuid
  oc_item_id :: string
  oc_defect_type :: string
  oc_component_instance_id :: "string option"
  oc_first_observation_id :: uuid
  oc_current_observation_id :: uuid
  oc_status :: occurrence_status
  oc_opened_at :: time
  oc_closed_at :: "time option"

record Nonconformance =
  nc_id :: uuid
  nc_occurrence_id :: uuid
  nc_item_id :: string
  nc_defect_type :: string
  nc_component_instance_id :: "string option"
  nc_verdict :: verdict
  nc_cause_status :: string
  nc_disposition :: disposition
  nc_containment :: containment
  nc_opened_at :: time
  nc_closed_at :: "time option"
  nc_current_analysis_version :: int
  nc_resolution_type :: "string option"
  nc_resolved_at :: "time option"
  nc_verification_decision_id :: "uuid option"
  nc_verification_status :: "verification_status option"

record AnalysisVersion =
  av_id :: uuid
  av_nonconformance_id :: uuid
  av_item_id :: string
  av_version :: int
  av_status :: analysis_status
  av_defect_type :: string
  av_component_instance_id :: "string option"
  av_left_boundary_at :: "time option"
  av_right_boundary_at :: "time option"
  av_reason :: string

record AnalysisEvidence =
  ae_id :: uuid
  ae_analysis_version_id :: uuid
  ae_evidence_type :: evidence_type
  ae_evidence_role :: evidence_role
  ae_source_event_id :: "string option"
  ae_source_entity_type :: "string option"
  ae_source_entity_id :: "string option"
  ae_occurred_at :: "time option"
  ae_details :: json

record ControllerDecision =
  cd_id :: uuid
  cd_nonconformance_id :: uuid
  cd_user_id :: uuid
  cd_verdict :: verdict
  cd_disposition :: disposition
  cd_containment :: containment
  cd_reason :: string
  cd_analysis_version :: int
  cd_previous_decision_id :: "uuid option"
  cd_created_at :: time

record InvestigationNote =
  no_id :: uuid
  no_nonconformance_id :: uuid
  no_author_user_id :: uuid
  no_body :: string
  no_created_at :: time

record ContainmentProposal =
  cp_id :: uuid
  cp_nonconformance_id :: "uuid option"
  cp_blast_radius_query_id :: "uuid option"
  cp_proposed_by :: uuid
  cp_containment :: containment
  cp_rationale :: string
  cp_status :: proposal_status
  cp_reviewed_by :: "uuid option"
  cp_review_reason :: "string option"
  cp_created_at :: time
  cp_reviewed_at :: "time option"

record BlastRadiusQuery =
  bq_id :: uuid
  bq_factor_type :: factor_type
  bq_factor_value :: string
  bq_affected_from :: time
  bq_affected_to :: time
  bq_requested_by :: uuid

record BlastRadiusExposure =
  bx_id :: uuid
  bx_query_id :: uuid
  bx_item_id :: string
  bx_relationship_path :: "string list"
  bx_exposure_event_id :: "string option"
  bx_operation_run_id :: "string option"
  bx_last_inspection_event_id :: "string option"
  bx_proposed_action :: containment

text \<open>One entry of the JSON column \<open>approvals\<close>.\<close>

record Approval =
  ap_user_id :: string
  ap_reason :: string
  ap_at :: string

record ApprovalRequest =
  aq_id :: uuid
  aq_action_type :: string
  aq_target_type :: string
  aq_target_id :: string
  aq_requester_id :: uuid
  aq_required_approvals :: int
  aq_approvals :: "Approval list"
  aq_status :: approval_status
  aq_reason :: string
  aq_completed_at :: "time option"

section \<open>Routes and policies\<close>

record RouteDefinition =
  rd_id :: uuid
  rd_code :: string
  rd_name :: string
  rd_active_revision_id :: "uuid option"

record RouteRevision =
  rr_id :: uuid
  rr_route_id :: uuid
  rr_revision :: int
  rr_status :: string
  rr_immutable_after :: "time option"
  rr_created_by :: "uuid option"

record RouteStep =
  rs_id :: uuid
  rs_route_revision_id :: uuid
  rs_position :: int
  rs_operation_id :: string
  rs_operation_name :: string
  rs_control_point_id :: "string option"
  rs_required_inspection :: bool
  rs_inspection_scope :: "scope option"
  rs_trust_policy_id :: "uuid option"

record TrustPolicy =
  tp_id :: uuid
  tp_policy_version :: int
  tp_control_point_id :: string
  tp_allowed_observation_quality :: "string list"
  tp_confidence_required :: bool
  tp_min_confidence :: "rat option"
  tp_requires_valid_device :: bool
  tp_media_required :: bool
  tp_active :: bool

record ProductStructureSnapshot =
  sn_id :: uuid
  sn_assembly_id :: string
  sn_revision :: string
  sn_content_hash :: string
  sn_components :: json
  sn_relations :: json
  sn_created_at :: time

section \<open>Master data\<close>

record ProductDefinition =
  pd_id :: string
  pd_name :: string
  pd_revision :: string

record ComponentDefinition =
  cdef_id :: string
  cdef_name :: string
  cdef_revision :: string

record Line =
  ln_id :: string
  ln_name :: string

record Station =
  sta_id :: string
  sta_line_id :: string
  sta_name :: string

record Operator =
  op_id :: string
  op_display_code :: string
  op_active :: bool

record Equipment =
  eq_id :: string
  eq_station_id :: string
  eq_name :: string

record OperationDefinition =
  od_id :: string
  od_name :: string
  od_expected_duration_seconds :: "rat option"

text \<open>The seven tables of master data, which only the seeding fills.\<close>

record master_data =
  ma_products :: "ProductDefinition list"
  ma_components :: "ComponentDefinition list"
  ma_lines :: "Line list"
  ma_stations :: "Station list"
  ma_operators :: "Operator list"
  ma_equipment :: "Equipment list"
  ma_operations :: "OperationDefinition list"

definition no_master_data :: master_data where
  "no_master_data = \<lparr>ma_products = [], ma_components = [], ma_lines = [], ma_stations = [],
     ma_operators = [], ma_equipment = [], ma_operations = []\<rparr>"

section \<open>Outbound integration\<close>

text \<open>The payload dictionary that \<open>OutboundReleasePolicy.create_result\<close> builds.\<close>

record QualityPayload =
  qp_message_id :: string
  qp_item_id :: string
  qp_nonconformance_id :: string
  qp_decision_id :: string
  qp_verdict :: verdict
  qp_disposition :: disposition
  qp_containment :: containment
  qp_decided_at :: string

record QualityResult =
  qr_id :: uuid
  qr_message_id :: string
  qr_decision_id :: uuid
  qr_item_id :: string
  qr_payload :: QualityPayload

record OutboxMessage =
  ox_id :: uuid
  ox_message_id :: string
  ox_destination :: string
  ox_message_type :: string
  ox_payload :: QualityPayload
  ox_state :: outbox_state
  ox_attempts :: int
  ox_next_attempt_at :: time
  ox_last_error :: "string option"
  ox_created_at :: time
  ox_delivered_at :: "time option"

record IntegrationMessage =
  im_message_id :: string
  im_direction :: string
  im_external_system :: string
  im_status :: string
  im_safe_payload :: json

record IntegrationHealth =
  ih_integration_id :: string
  ih_status :: string
  ih_last_success_at :: "time option"
  ih_last_error_at :: "time option"
  ih_safe_error :: "string option"

record WorkerHeartbeat =
  wh_worker_id :: string
  wh_worker_type :: string
  wh_heartbeat_at :: time
  wh_status :: string

record ExternalIdentity =
  ei_id :: uuid
  ei_internal_entity_type :: string
  ei_internal_id :: string
  ei_external_system :: string
  ei_external_entity_type :: string
  ei_external_id :: string
  ei_external_revision :: "string option"

record CryptoProfile =
  cy_profile_id :: string
  cy_status :: string

record IntegrityCheckpoint =
  ck_id :: uuid
  ck_stream_type :: string
  ck_stream_id :: string
  ck_sequence :: int
  ck_root_mac :: bytes
  ck_crypto_profile_id :: string
  ck_classic_signature :: bytes
  ck_pq_signature :: "bytes option"

end
