(* ===== verification/TQ_Database.thy ===== *)
theory TQ_Database
  imports TQ_Store
begin

text \<open>
  The state of the system (all tables), the settings and the libraries the operations are given,
  and the audit trail (\<^verbatim>\<open>backend/app/security/audit.py\<close>) every handler writes.

  A handler is a function from the state to an exception or a response, with the state the database
  is left in: what was committed. Each call of \<open>utcnow()\<close> in one handler reads the same instant.
  \<open>db_uuid_draws\<close>, \<open>db_nonce_draws\<close> and \<open>db_ingest_seq\<close> count the random identifiers and nonces
  drawn and the values the identity column handed out.
\<close>

record db =
  db_roles :: "Role list"
  db_permissions :: "Permission list"
  db_role_permissions :: "(uuid \<times> uuid) list"
  db_user_roles :: "(uuid \<times> uuid) list"
  db_users :: "User list"
  db_refresh_tokens :: "RefreshToken list"
  db_sessions :: "AuthSession list"
  db_sources :: "EventSource list"
  db_attempts :: "IngestAttempt list"
  db_nonces :: "TransportNonce list"
  db_alerts :: "SecurityAlert list"
  db_streams :: "IntegrityStreamState list"
  db_raw_events :: "RawEvent list"
  db_audit :: "AuditEntry list"
  db_invalidations :: "ControlDeviceInvalidation list"
  db_items :: "Item list"
  db_runs :: "OperationRun list"
  db_observations :: "Observation list"
  db_defect_observations :: "DefectObservation list"
  db_machine_events :: "MachineEvent list"
  db_operator_actions :: "OperatorAction list"
  db_projections :: "ProjectionState list"
  db_occurrences :: "DefectOccurrence list"
  db_ncrs :: "Nonconformance list"
  db_analyses :: "AnalysisVersion list"
  db_evidence :: "AnalysisEvidence list"
  db_decisions :: "ControllerDecision list"
  db_notes :: "InvestigationNote list"
  db_proposals :: "ContainmentProposal list"
  db_routes :: "RouteDefinition list"
  db_revisions :: "RouteRevision list"
  db_steps :: "RouteStep list"
  db_policies :: "TrustPolicy list"
  db_snapshots :: "ProductStructureSnapshot list"
  db_quality_results :: "QualityResult list"
  db_outbox :: "OutboxMessage list"
  db_integration_messages :: "IntegrationMessage list"
  db_health :: "IntegrationHealth list"
  db_heartbeats :: "WorkerHeartbeat list"
  db_queries :: "BlastRadiusQuery list"
  db_exposures :: "BlastRadiusExposure list"
  db_approvals :: "ApprovalRequest list"
  db_external_ids :: "ExternalIdentity list"
  db_crypto_profiles :: "CryptoProfile list"
  db_checkpoints :: "IntegrityCheckpoint list"
  db_master :: master_data
  db_uuid_draws :: nat
  db_nonce_draws :: nat
  db_ingest_seq :: int

definition empty_db :: db where
  "empty_db =
     \<lparr>db_roles = [], db_permissions = [], db_role_permissions = [], db_user_roles = [], db_users = [],
      db_refresh_tokens = [], db_sessions = [], db_sources = [], db_attempts = [], db_nonces = [],
      db_alerts = [], db_streams = [], db_raw_events = [], db_audit = [], db_invalidations = [],
      db_items = [], db_runs = [], db_observations = [], db_defect_observations = [],
      db_machine_events = [], db_operator_actions = [], db_projections = [], db_occurrences = [],
      db_ncrs = [], db_analyses = [], db_evidence = [], db_decisions = [], db_notes = [],
      db_proposals = [], db_routes = [], db_revisions = [], db_steps = [], db_policies = [],
      db_snapshots = [], db_quality_results = [], db_outbox = [], db_integration_messages = [],
      db_health = [], db_heartbeats = [], db_queries = [], db_exposures = [], db_approvals = [],
      db_external_ids = [], db_crypto_profiles = [], db_checkpoints = [],
      db_master = no_master_data, db_uuid_draws = 0, db_nonce_draws = 0, db_ingest_seq = 0\<rparr>"

text \<open>
  The settings the operations read (\<^verbatim>\<open>backend/app/settings.py\<close>); the two keys are the bytes
  \<open>aes_key()\<close> and \<open>integrity_key()\<close> decode, \<open>checkpoint_key\<close> is the setting
  \<open>checkpoint_private_key_pem_b64\<close>, and a secret is its text.
\<close>

record Settings =
  demo_mode :: bool
  access_token_ttl_minutes :: int
  refresh_token_ttl_hours :: int
  aes_key :: bytes
  aes_key_id :: string
  integrity_key :: bytes
  erp_timeout_seconds :: rat
  outbox_max_attempts :: int
  source_demo_token :: "string option"
  source_hmac_secrets_json :: "string option"
  source_timestamp_tolerance_seconds :: int
  mass_containment_threshold :: int
  integrity_key_id :: string
  checkpoint_key :: "string option"
  demo_controller_password :: "string option"
  demo_master_password :: "string option"
  demo_technologist_password :: "string option"
  demo_manager_password :: "string option"
  demo_admin_password :: "string option"
  demo_privileged_database_url :: "string option"

text \<open>
  The libraries: pydantic, JSON parsing and number and date texts, hashing, HMAC and AES-GCM,
  randomness, UUID parsing, Argon2 (with the salt it draws), JWT, ECDSA (an exception for a text that
  is no key, None for a key that is not on P-256), what SQLAlchemy returns for a column attribute of a row
  object that is not flushed yet (given the column's default), and the texts of an exception and of
  a list or dictionary.
\<close>

record env =
  validator :: validator
  float_repr :: "rat \<Rightarrow> string"
  json_loads :: "bytes \<Rightarrow> json option"
  isoformat_utc :: "time \<Rightarrow> string"
  isoformat :: "time \<Rightarrow> string"
  parse_epoch :: "string \<Rightarrow> time option"
  parse_iso :: "string \<Rightarrow> time option"
  sha256 :: "bytes \<Rightarrow> bytes"
  hmac_sha256 :: "bytes \<Rightarrow> bytes \<Rightarrow> bytes"
  aesgcm_encrypt :: "bytes \<Rightarrow> bytes \<Rightarrow> bytes \<Rightarrow> bytes \<Rightarrow> bytes"
  aesgcm_decrypt :: "bytes \<Rightarrow> bytes \<Rightarrow> bytes \<Rightarrow> bytes \<Rightarrow> bytes option"
  urandom :: "nat \<Rightarrow> bytes"
  uuid4 :: "nat \<Rightarrow> uuid"
  uuid5 :: "string \<Rightarrow> uuid"
  parse_uuid :: "string \<Rightarrow> uuid option"
  verify_password :: "string \<Rightarrow> string \<Rightarrow> bool"
  hash_password :: "nat \<Rightarrow> string \<Rightarrow> string"
  token_urlsafe :: "nat \<Rightarrow> string"
  jwt_encode :: "string \<Rightarrow> string \<Rightarrow> string \<Rightarrow> time \<Rightarrow> time \<Rightarrow> string"
  jwt_decode :: "time \<Rightarrow> string \<Rightarrow> (string option \<times> string option) option"
  ecdsa_sign :: "string \<Rightarrow> nat \<Rightarrow> bytes \<Rightarrow> bytes option result"
  orm_pending :: "int \<Rightarrow> int option"
  exn_str :: "exn \<Rightarrow> string"
  container_repr :: "json \<Rightarrow> string"

text \<open>The primary key default \<open>uuid.uuid4\<close>: the next random identifier.\<close>

definition new_uuid :: "env \<Rightarrow> db \<Rightarrow> uuid" where
  "new_uuid E d = uuid4 E (db_uuid_draws d)"

definition drew_uuid :: "db \<Rightarrow> db" where
  "drew_uuid d = d\<lparr>db_uuid_draws := Suc (db_uuid_draws d)\<rparr>"

text \<open>The identifiers drawn so far; a new one is fresh when the generator never repeats itself.\<close>

definition drawn :: "env \<Rightarrow> db \<Rightarrow> uuid set" where
  "drawn E d = uuid4 E ` {..<db_uuid_draws d}"

lemma new_uuid_fresh: "inj (uuid4 E) \<Longrightarrow> new_uuid E d \<notin> drawn E d"
  by (auto simp: drawn_def new_uuid_def dest: injD)

lemma drawn_grows: "db_uuid_draws d \<le> db_uuid_draws d' \<Longrightarrow> drawn E d \<subseteq> drawn E d'"
  by (auto simp: drawn_def)

lemma drawn_new: "db_uuid_draws d < db_uuid_draws d' \<Longrightarrow> new_uuid E d \<in> drawn E d'"
  by (auto simp: drawn_def new_uuid_def)

section \<open>Audit\<close>

definition SENSITIVE_KEYS :: "string list" where
  "SENSITIVE_KEYS = [''authorization'', ''password'', ''refresh_token'', ''source_token'', ''jwt'',
     ''aes_key'', ''hmac_key'', ''raw_payload'']"

definition to_lower :: "string \<Rightarrow> string" where
  "to_lower s = map (\<lambda>c. let n = (of_char c :: nat) in if 65 \<le> n \<and> n \<le> 90 then char_of (n + 32) else c) s"

text \<open>The ellipsis appended to a truncated text, U+2026, in UTF-8.\<close>

definition ellipsis :: string where
  "ellipsis = [CHR 0xE2, CHR 0x80, CHR 0xA6]"

fun sanitize :: "json \<Rightarrow> json" where
  "sanitize (JObj d) =
     JObj (map (\<lambda>kv. (fst kv,
       if to_lower (fst kv) \<in> set SENSITIVE_KEYS then JStr ''[REDACTED]'' else sanitize (snd kv))) d)"
| "sanitize (JArr xs) = JArr (map sanitize xs)"
| "sanitize (JStr s) = JStr (if py_len s > 1000 then py_take 1000 s @ ellipsis else s)"
| "sanitize v = v"

text \<open>The fields of an audited action that the caller supplies.\<close>

record audit_call =
  ac_actor :: "uuid option"
  ac_session :: "uuid option"
  ac_target_type :: "string option"
  ac_target_id :: "string option"
  ac_request_id :: "string option"

definition write_audit :: "string \<Rightarrow> string \<Rightarrow> audit_call \<Rightarrow> json \<Rightarrow> db \<Rightarrow> db" where
  "write_audit action outcome c details d = d\<lparr>db_audit := db_audit d @
     [\<lparr>au_actor_user_id = ac_actor c, au_session_id = ac_session c, au_action = action,
       au_target_type = ac_target_type c, au_target_id = ac_target_id c, au_outcome = outcome,
       au_request_id = ac_request_id c,
       au_safe_details = (if truthy details then sanitize details else JNull)\<rparr>]\<rparr>"

text \<open>Sanitising twice changes nothing more: a truncated text is cut at the same place again.\<close>

lemma ellipsis_head: "\<not> is_cont (hd ellipsis)" "ellipsis \<noteq> []"
  by (simp_all add: ellipsis_def is_cont_def)

lemma truncate_again: "py_take 1000 (py_take 1000 s @ ellipsis) = (if py_len s \<ge> 1000 then py_take 1000 s else py_take 1000 (s @ ellipsis))"
proof (cases "1000 \<le> py_len s")
  case True
  then have "py_len (py_take 1000 s) = 1000"
    by (simp add: py_len_take)
  then show ?thesis
    using True py_take_append_exact [of "py_take 1000 s" 1000 ellipsis] ellipsis_head by simp
next
  case False
  then show ?thesis by (simp add: py_take_all)
qed

lemma sanitize_idem: "sanitize (sanitize v) = sanitize v"
proof (induction v rule: sanitize.induct)
  case (3 s)
  have "py_len (py_take 1000 s) = 1000" if "py_len s > 1000"
    using that by (simp add: py_len_take)
  then show ?case
    using truncate_again [of s] by (auto simp: py_len_take)
next
  case (1 d)
  then show ?case by (auto simp: py_len_def is_cont_def)
qed auto

text \<open>No value under a sensitive key survives, at any depth.\<close>

fun no_secret :: "json \<Rightarrow> bool" where
  "no_secret (JObj d) = list_all (\<lambda>kv.
     if to_lower (fst kv) \<in> set SENSITIVE_KEYS then snd kv = JStr ''[REDACTED]'' else no_secret (snd kv)) d"
| "no_secret (JArr xs) = list_all no_secret xs"
| "no_secret v = True"

lemma sanitize_no_secret: "no_secret (sanitize v)"
  by (induction v rule: sanitize.induct) (auto simp: list_all_iff)

end
