(* ===== verification/TQ_Crypto.thy ===== *)
theory TQ_Crypto
  imports TQ_Database
begin

text \<open>
  \<^verbatim>\<open>backend/app/security/crypto.py\<close>: the additional authenticated data of an event, its encryption,
  and the MAC that links it to the one before. The primitives (AES-GCM, HMAC-SHA-256, SHA-256) and
  the ISO text of an instant come from \<open>env\<close>; the framing of what is authenticated is modelled.
\<close>

definition hex_digit :: "nat \<Rightarrow> char" where
  "hex_digit n = digit_char n"

definition hexdigest :: "bytes \<Rightarrow> string" where
  "hexdigest bs = concat (map (\<lambda>b. [hex_digit (unat b div 16), hex_digit (unat b mod 16)]) bs)"

definition sha256_hex :: "env \<Rightarrow> bytes \<Rightarrow> string" where
  "sha256_hex E v = hexdigest (sha256 E v)"

definition token_hash :: "env \<Rightarrow> string \<Rightarrow> string" where
  "token_hash E token = sha256_hex E (encode token)"

definition to_upper :: "string \<Rightarrow> string" where
  "to_upper s = map (\<lambda>c. let n = (of_char c :: nat) in if 97 \<le> n \<and> n \<le> 122 then char_of (n - 32) else c) s"

definition dash_to_underscore :: "string \<Rightarrow> string" where
  "dash_to_underscore s = map (\<lambda>c. if c = CHR ''-'' then CHR ''_'' else c) s"

record aad_fields =
  aad_event_id :: string
  aad_event_type :: string
  aad_source_id :: string
  aad_schema_version :: string
  aad_received_at :: time
  aad_occurred_at :: time
  aad_item_id :: "string option"
  aad_crypto_key_id :: string
  aad_profile :: string

definition build_aad :: "env \<Rightarrow> aad_fields \<Rightarrow> bytes" where
  "build_aad E a = canonical_json_bytes (float_repr E) (JObj
     ([(''event_id'', JStr (aad_event_id a)), (''event_type'', JStr (aad_event_type a)),
       (''received_at'', JStr (isoformat_utc E (aad_received_at a))),
       (''schema_version'', JStr (aad_schema_version a)), (''source_id'', JStr (aad_source_id a))] @
      (if dash_to_underscore (to_upper (aad_profile a)) \<noteq> ''CLASSIC_V1'' then
         [(''occurred_at'', JStr (isoformat_utc E (aad_occurred_at a))),
          (''item_id'', js_opt JStr (aad_item_id a)),
          (''crypto_key_id'', JStr (aad_crypto_key_id a)),
          (''crypto_profile'', JStr (aad_profile a))]
       else [])))"

definition encrypt_event :: "env \<Rightarrow> bytes \<Rightarrow> bytes \<Rightarrow> bytes \<Rightarrow> nat \<Rightarrow> bytes \<times> bytes" where
  "encrypt_event E plaintext key aad draw =
     (let nonce = urandom E draw in (aesgcm_encrypt E key nonce plaintext aad, nonce))"

definition decrypt_event :: "env \<Rightarrow> bytes \<Rightarrow> bytes \<Rightarrow> bytes \<Rightarrow> bytes \<Rightarrow> bytes result" where
  "decrypt_event E ciphertext nonce key aad =
     (case aesgcm_decrypt E key nonce ciphertext aad of
        None \<Rightarrow> Inl (PyError ''InvalidTag'')
      | Some p \<Rightarrow> Inr p)"

record metadata_fields =
  md_event_id :: string
  md_event_type :: string
  md_schema_version :: string
  md_source_id :: string
  md_occurred_at :: time
  md_received_at :: time
  md_stream_id :: string
  md_seq :: int

definition integrity_metadata :: "env \<Rightarrow> metadata_fields \<Rightarrow> bytes" where
  "integrity_metadata E m = canonical_json_bytes (float_repr E) (JObj
     [(''event_id'', JStr (md_event_id m)), (''event_type'', JStr (md_event_type m)),
      (''integrity_seq'', JInt (md_seq m)), (''integrity_stream_id'', JStr (md_stream_id m)),
      (''occurred_at'', JStr (isoformat_utc E (md_occurred_at m))),
      (''received_at'', JStr (isoformat_utc E (md_received_at m))),
      (''schema_version'', JStr (md_schema_version m)), (''source_id'', JStr (md_source_id m))])"

section \<open>Framing\<close>

text \<open>\<open>n.to_bytes(k, "big")\<close>; it raises when \<open>n\<close> does not fit.\<close>

fun big_endian :: "nat \<Rightarrow> nat \<Rightarrow> bytes" where
  "big_endian 0 n = []"
| "big_endian (Suc k) n = big_endian k (n div 256) @ [of_nat (n mod 256)]"

definition to_bytes :: "nat \<Rightarrow> nat \<Rightarrow> bytes result" where
  "to_bytes k n = (if n < 256 ^ k then Inr (big_endian k n) else Inl (PyError ''OverflowError''))"

definition frame :: "bytes \<Rightarrow> bytes \<Rightarrow> bytes \<Rightarrow> bytes \<Rightarrow> string \<Rightarrow> bytes result" where
  "frame prev meta ct nonce key_id =
     rbind (to_bytes 4 (length prev)) (\<lambda>l1.
     rbind (to_bytes 4 (length meta)) (\<lambda>l2.
     rbind (to_bytes 8 (length ct)) (\<lambda>l3.
     rbind (to_bytes 4 (length nonce)) (\<lambda>l4.
     Inr (l1 @ prev @ l2 @ meta @ l3 @ ct @ l4 @ nonce @ encode key_id)))))"

definition compute_integrity_mac ::
  "env \<Rightarrow> bytes \<Rightarrow> bytes \<Rightarrow> bytes \<Rightarrow> bytes \<Rightarrow> bytes \<Rightarrow> string \<Rightarrow> bytes result" where
  "compute_integrity_mac E secret prev meta ct nonce key_id =
     rbind (frame prev meta ct nonce key_id) (\<lambda>framed. Inr (hmac_sha256 E secret framed))"

lemma length_big_endian [simp]: "length (big_endian k n) = k"
  by (induction k arbitrary: n) auto

lemma big_endian_inj: "big_endian k n = big_endian k m \<Longrightarrow> n < 256 ^ k \<Longrightarrow> m < 256 ^ k \<Longrightarrow> n = m"
proof (induction k arbitrary: n m)
  case 0
  then show ?case by simp
next
  case (Suc k)
  from Suc.prems have hi: "big_endian k (n div 256) = big_endian k (m div 256)"
    and lo: "(of_nat (n mod 256) :: 8 word) = of_nat (m mod 256)"
    by auto
  have "n div 256 = m div 256"
    using hi Suc.prems by (intro Suc.IH) (simp_all add: less_mult_imp_div_less mult.commute)
  moreover have "n mod 256 = m mod 256"
    using arg_cong [OF lo, of unat] by (simp add: unat_of_nat)
  ultimately show ?case
    by (metis div_mult_mod_eq)
qed

lemma to_bytes_Inr: "to_bytes k n = Inr bs \<longleftrightarrow> n < 256 ^ k \<and> bs = big_endian k n"
  by (auto simp: to_bytes_def)

text \<open>One length-prefixed field can be split off a framed text in one way only.\<close>

lemma field_split:
  assumes "big_endian k (length xs) @ xs @ r = big_endian k (length ys) @ ys @ r'"
    and "length xs < 256 ^ k" and "length ys < 256 ^ k"
  shows "xs = ys \<and> r = r'"
proof -
  have "length xs = length ys"
    using assms by (auto intro: big_endian_inj)
  then show ?thesis
    using assms(1) by simp
qed

lemma frame_inj:
  assumes "frame p m c n k = Inr f" and "frame p' m' c' n' k' = Inr f"
  shows "p = p' \<and> m = m' \<and> c = c' \<and> n = n' \<and> k = k'"
proof -
  from assms have f: "f = big_endian 4 (length p) @ p @ big_endian 4 (length m) @ m @
      big_endian 8 (length c) @ c @ big_endian 4 (length n) @ n @ encode k"
    and f': "f = big_endian 4 (length p') @ p' @ big_endian 4 (length m') @ m' @
      big_endian 8 (length c') @ c' @ big_endian 4 (length n') @ n' @ encode k'"
    and b: "length p < 256 ^ 4" "length m < 256 ^ 4" "length c < 256 ^ 8" "length n < 256 ^ 4"
      "length p' < 256 ^ 4" "length m' < 256 ^ 4" "length c' < 256 ^ 8" "length n' < 256 ^ 4"
    by (auto simp: frame_def rbind_Inr_iff to_bytes_Inr)
  from field_split [OF trans [OF f [symmetric] f'] b(1) b(5)]
  have p: "p = p'" and r1: "big_endian 4 (length m) @ m @ big_endian 8 (length c) @ c @
      big_endian 4 (length n) @ n @ encode k = big_endian 4 (length m') @ m' @
      big_endian 8 (length c') @ c' @ big_endian 4 (length n') @ n' @ encode k'"
    by auto
  from field_split [OF r1 b(2) b(6)]
  have m: "m = m'" and r2: "big_endian 8 (length c) @ c @ big_endian 4 (length n) @ n @ encode k =
      big_endian 8 (length c') @ c' @ big_endian 4 (length n') @ n' @ encode k'"
    by auto
  from field_split [OF r2 b(3) b(7)]
  have c: "c = c'" and r3: "big_endian 4 (length n) @ n @ encode k = big_endian 4 (length n') @ n' @ encode k'"
    by auto
  from field_split [OF r3 b(4) b(8)] have "n = n'" "k = k'"
    by (auto dest: inj_encode)
  with p m c show ?thesis by simp
qed

lemma frame_total:
  "length p < 256 ^ 4 \<Longrightarrow> length m < 256 ^ 4 \<Longrightarrow> length c < 256 ^ 8 \<Longrightarrow> length n < 256 ^ 4 \<Longrightarrow>
   \<exists>f. frame p m c n k = Inr f"
  by (simp add: frame_def to_bytes_def)

end
