(* ===== verification/TQ_Integrity.thy ===== *)
theory TQ_Integrity
  imports TQ_Crypto
begin

text \<open>
  \<^verbatim>\<open>backend/app/security/integrity.py\<close>: every source has a stream, the rows of a stream carry
  consecutive numbers, and each row's MAC covers the MAC of the row before. \<open>check_rows\<close> is the
  loop over one stream, \<open>verify_integrity\<close> the whole operation. The locale \<open>event_sealer\<close> is what
  the loop asks of whoever appends rows; the ingestion service provides it.
\<close>

record IntegrityFailure =
  if_stream_id :: string
  if_event_id :: string
  if_sequence :: int
  if_reason :: string

definition row_metadata :: "RawEvent \<Rightarrow> metadata_fields" where
  "row_metadata r = \<lparr>md_event_id = re_event_id r, md_event_type = re_event_type r,
     md_schema_version = re_schema_version r, md_source_id = re_source_id r,
     md_occurred_at = re_occurred_at r, md_received_at = re_received_at r,
     md_stream_id = re_integrity_stream_id r, md_seq = re_integrity_seq r\<rparr>"

definition row_mac :: "env \<Rightarrow> bytes \<Rightarrow> RawEvent \<Rightarrow> bytes result" where
  "row_mac E secret r = compute_integrity_mac E secret (re_prev_integrity_mac r)
     (integrity_metadata E (row_metadata r)) (re_payload_ciphertext r) (re_nonce r) (re_crypto_key_id r)"

definition row_failures ::
  "string \<Rightarrow> bytes \<Rightarrow> int \<Rightarrow> bytes \<Rightarrow> RawEvent \<Rightarrow> IntegrityFailure list" where
  "row_failures stream_id previous expected_seq calculated r =
     map (\<lambda>reason. \<lparr>if_stream_id = stream_id, if_event_id = re_event_id r,
            if_sequence = re_integrity_seq r, if_reason = reason\<rparr>)
       ((if re_integrity_seq r \<noteq> expected_seq then [''SEQUENCE_GAP''] else []) @
        (if re_prev_integrity_mac r \<noteq> previous then [''PREVIOUS_MAC_MISMATCH''] else []) @
        (if calculated \<noteq> re_integrity_mac r then [''MAC_MISMATCH''] else []))"

fun check_rows ::
  "env \<Rightarrow> bytes \<Rightarrow> string \<Rightarrow> RawEvent list \<Rightarrow> bytes \<Rightarrow> int \<Rightarrow> IntegrityFailure list result" where
  "check_rows E secret stream_id [] previous expected_seq = Inr []"
| "check_rows E secret stream_id (r # rs) previous expected_seq =
     rbind (row_mac E secret r) (\<lambda>calculated.
     rbind (check_rows E secret stream_id rs (re_integrity_mac r) (expected_seq + 1)) (\<lambda>later.
     Inr (row_failures stream_id previous expected_seq calculated r @ later)))"

definition stream_rows :: "string \<Rightarrow> db \<Rightarrow> RawEvent list" where
  "stream_rows stream_id d =
     sort_key re_integrity_seq (filter (\<lambda>r. re_integrity_stream_id r = stream_id) (db_raw_events d))"

definition check_stream :: "env \<Rightarrow> Settings \<Rightarrow> db \<Rightarrow> string \<Rightarrow> IntegrityFailure list result" where
  "check_stream E S d stream_id =
     check_rows E (integrity_key S) stream_id (stream_rows stream_id d) [] 1"

text \<open>
  The alert of a failure is looked up before any of this run's alerts is flushed
  (\<open>autoflush=False\<close>), so two failures of one event raise two alerts.
\<close>

definition failure_alert :: "IntegrityFailure \<Rightarrow> SecurityAlert" where
  "failure_alert f = \<lparr>sa_alert_type = ''RAW_LOG_INTEGRITY_FAILED'', sa_severity = ''CRITICAL'',
     sa_source_id = None, sa_target_type = Some ''raw_event'', sa_target_id = Some (if_event_id f),
     sa_details = JObj [(''stream_id'', JStr (if_stream_id f)), (''sequence'', JInt (if_sequence f)),
       (''reason'', JStr (if_reason f))]\<rparr>"

definition alerted :: "db \<Rightarrow> IntegrityFailure \<Rightarrow> bool" where
  "alerted d f = list_ex (\<lambda>a. sa_alert_type a = ''RAW_LOG_INTEGRITY_FAILED'' \<and>
     sa_target_id a = Some (if_event_id f)) (db_alerts d)"

definition verify_integrity :: "env \<Rightarrow> Settings \<Rightarrow> db \<Rightarrow> IntegrityFailure list result \<times> db" where
  "verify_integrity E S d =
     (case map_r (check_stream E S d) (sort (map st_stream_id (db_streams d))) of
        Inl e \<Rightarrow> (Inl e, d)
      | Inr per_stream \<Rightarrow>
          (let failures = concat per_stream in
           (Inr failures,
            d\<lparr>db_streams := map (\<lambda>st. st\<lparr>st_status :=
                  (if list_ex (\<lambda>f. if_stream_id f = st_stream_id st) failures
                   then INTEGRITY_FAILED else Stream_ok)\<rparr>) (db_streams d),
              db_alerts := db_alerts d @ map failure_alert (filter (\<lambda>f. \<not> alerted d f) failures)\<rparr>)))"

section \<open>What the loop accepts\<close>

lemma row_failures_Nil:
  "row_failures s p n c r = [] \<longleftrightarrow>
     re_integrity_seq r = n \<and> re_prev_integrity_mac r = p \<and> c = re_integrity_mac r"
  by (auto simp: row_failures_def)

text \<open>A stream with no failure: numbered from \<open>n\<close>, linked from \<open>p\<close>, every MAC the computed one.\<close>

fun linked :: "env \<Rightarrow> bytes \<Rightarrow> RawEvent list \<Rightarrow> bytes \<Rightarrow> int \<Rightarrow> bool" where
  "linked E secret [] p n = True"
| "linked E secret (r # rs) p n \<longleftrightarrow>
     re_integrity_seq r = n \<and> re_prev_integrity_mac r = p \<and>
     row_mac E secret r = Inr (re_integrity_mac r) \<and>
     linked E secret rs (re_integrity_mac r) (n + 1)"

lemma check_rows_Nil: "check_rows E secret s rs p n = Inr [] \<longleftrightarrow> linked E secret rs p n"
  by (induction rs arbitrary: p n) (auto simp: rbind_Inr_iff row_failures_Nil)

text \<open>The MAC and the number a stream ends with.\<close>

definition last_mac :: "bytes \<Rightarrow> RawEvent list \<Rightarrow> bytes" where
  "last_mac p rs = (if rs = [] then p else re_integrity_mac (last rs))"

lemma linked_append:
  "linked E secret (rs @ ts) p n \<longleftrightarrow>
     linked E secret rs p n \<and> linked E secret ts (last_mac p rs) (n + int (length rs))"
  by (induction rs arbitrary: p n) (auto simp: last_mac_def algebra_simps)

lemma linked_seqs: "linked E secret rs p n \<Longrightarrow> map re_integrity_seq rs = [n..n + int (length rs) - 1]"
proof (induction rs arbitrary: p n)
  case Nil
  then show ?case by simp
next
  case (Cons r rs)
  then have "map re_integrity_seq rs = [n + 1..n + 1 + int (length rs) - 1]"
    by (auto simp del: add_diff_cancel_left')
  moreover have "[n..n + 1 + int (length rs) - 1] = n # [n + 1..n + 1 + int (length rs) - 1]"
    by (rule upto_rec1) simp
  ultimately show ?case
    using Cons.prems by (simp del: upto.simps)
qed

lemma linked_sorted: "linked E secret rs p n \<Longrightarrow> sort_key re_integrity_seq rs = rs"
  using linked_seqs [of E secret rs p n] by (intro sort_key_id_if_sorted) simp

text \<open>The stream state describes the rows: their number and the MAC of the last.\<close>

definition tail_of :: "env \<Rightarrow> bytes \<Rightarrow> RawEvent list \<Rightarrow> IntegrityStreamState \<Rightarrow> bool" where
  "tail_of E secret rs st \<longleftrightarrow> linked E secret rs [] 1 \<and> st_last_seq st = int (length rs) \<and>
     st_last_mac st = last_mac [] rs"

lemma tail_of_fresh: "tail_of E secret [] st \<longleftrightarrow> st_last_seq st = 0 \<and> st_last_mac st = []"
  by (auto simp: tail_of_def last_mac_def)

lemma tail_verifies:
  "tail_of E secret rs st \<Longrightarrow> check_rows E secret s (sort_key re_integrity_seq rs) [] 1 = Inr []"
  by (auto simp: tail_of_def check_rows_Nil linked_sorted)

section \<open>Appending a sealed row\<close>

text \<open>
  What verification asks of the code that appends a row to a stream: the next number, the stored
  MAC as link, the computed MAC, and nothing about the row's content.
\<close>

locale event_sealer =
  fixes E :: env and secret :: bytes
    and seal :: "'i \<Rightarrow> IntegrityStreamState \<Rightarrow> RawEvent result"
  assumes seal_stream: "seal i st = Inr r \<Longrightarrow> re_integrity_stream_id r = st_stream_id st"
    and seal_seq: "seal i st = Inr r \<Longrightarrow> re_integrity_seq r = st_last_seq st + 1"
    and seal_prev: "seal i st = Inr r \<Longrightarrow> re_prev_integrity_mac r = st_last_mac st"
    and seal_mac: "seal i st = Inr r \<Longrightarrow> row_mac E secret r = Inr (re_integrity_mac r)"
begin

lemma seal_keeps_tail:
  assumes "tail_of E secret rs st" and "seal i st = Inr r"
  shows "tail_of E secret (rs @ [r]) (st\<lparr>st_last_seq := st_last_seq st + 1, st_last_mac := re_integrity_mac r\<rparr>)"
  using assms seal_seq [OF assms(2)] seal_prev [OF assms(2)] seal_mac [OF assms(2)]
  by (auto simp: tail_of_def linked_append last_mac_def)

end

section \<open>What a changed row would need\<close>

text \<open>What the MAC of a row covers.\<close>

definition row_content :: "env \<Rightarrow> RawEvent \<Rightarrow> bytes \<times> bytes \<times> bytes \<times> bytes \<times> string" where
  "row_content E r = (re_prev_integrity_mac r, integrity_metadata E (row_metadata r),
     re_payload_ciphertext r, re_nonce r, re_crypto_key_id r)"

text \<open>A collision of the hash at two given rows: their framed inputs differ and their hashes do not.\<close>

definition mac_input :: "env \<Rightarrow> RawEvent \<Rightarrow> bytes result" where
  "mac_input E r = frame (re_prev_integrity_mac r) (integrity_metadata E (row_metadata r))
     (re_payload_ciphertext r) (re_nonce r) (re_crypto_key_id r)"

definition mac_collision :: "env \<Rightarrow> bytes \<Rightarrow> RawEvent \<Rightarrow> RawEvent \<Rightarrow> bool" where
  "mac_collision E secret r r' \<longleftrightarrow> (\<exists>x y. mac_input E r = Inr x \<and> mac_input E r' = Inr y \<and> x \<noteq> y \<and>
     hmac_sha256 E secret x = hmac_sha256 E secret y)"

lemma row_mac_binds:
  assumes "row_mac E secret r = Inr t" and "row_mac E secret r' = Inr t"
  shows "row_content E r = row_content E r' \<or> mac_collision E secret r r'"
proof -
  from assms obtain f f' where "mac_input E r = Inr f" "mac_input E r' = Inr f'"
    and t: "hmac_sha256 E secret f = hmac_sha256 E secret f'"
    by (auto simp: row_mac_def compute_integrity_mac_def mac_input_def rbind_Inr_iff)
  then show ?thesis
    using frame_inj unfolding row_content_def mac_collision_def mac_input_def by metis
qed

lemma linked_last_mac:
  "linked E secret (rs @ [r]) p n \<Longrightarrow> row_mac E secret r = Inr (re_integrity_mac r) \<and>
     re_prev_integrity_mac r = last_mac p rs \<and> linked E secret rs p n"
  by (simp add: linked_append)

text \<open>
  Two accepted streams of the same length that end in the same MAC authenticate the same rows, or
  the hash has a collision. So a row cannot be changed without changing the last MAC.
\<close>

lemma linked_binds:
  assumes "linked E secret rs p n" and "linked E secret rs' p n" and "length rs = length rs'"
    and "last_mac p rs = last_mac p rs'"
  shows "map (row_content E) rs = map (row_content E) rs' \<or>
    (\<exists>r \<in> set rs. \<exists>r' \<in> set rs'. mac_collision E secret r r')"
  using assms
proof (induction rs arbitrary: rs' rule: rev_induct)
  case Nil
  then show ?case by simp
next
  case (snoc r rs)
  then obtain ts t where rs': "rs' = ts @ [t]"
    by (cases rs' rule: rev_cases) auto
  note l = linked_last_mac [OF snoc.prems(1)] linked_last_mac [OF snoc.prems(2) [unfolded rs']]
  have "re_integrity_mac r = re_integrity_mac t"
    using snoc.prems(4) by (simp add: rs' last_mac_def)
  with l have "row_content E r = row_content E t \<or> mac_collision E secret r t"
    by (metis row_mac_binds)
  then show ?case
  proof
    assume same: "row_content E r = row_content E t"
    then have "last_mac p rs = last_mac p ts"
      using l by (simp add: row_content_def)
    then show ?thesis
      using snoc.IH [of ts] l snoc.prems(3) same by (auto simp: rs')
  qed (simp add: rs')
qed

text \<open>A row that is changed in a stream without failure needs a hash equal to the one it replaces.\<close>

lemma linked_macs: "linked E secret rs p n \<Longrightarrow> r \<in> set rs \<Longrightarrow> row_mac E secret r = Inr (re_integrity_mac r)"
  by (induction rs arbitrary: p n) auto

text \<open>
  The loop compares no row with the stream state, so a stream cut at its end still verifies.
\<close>

lemma linked_prefix: "linked E secret (rs @ ts) p n \<Longrightarrow> linked E secret rs p n"
  by (simp add: linked_append)

section \<open>The run\<close>

lemma verify_clean:
  assumes "\<And>st. st \<in> set (db_streams d) \<Longrightarrow> check_stream E S d (st_stream_id st) = Inr []"
  shows "fst (verify_integrity E S d) = Inr []"
proof -
  have "map_r (check_stream E S d) ids = Inr (map (\<lambda>_. []) ids)"
    if "set ids \<subseteq> st_stream_id ` set (db_streams d)" for ids
    using that by (induction ids) (auto simp: assms)
  from this [of "sort (map st_stream_id (db_streams d))"] show ?thesis
    by (auto simp: verify_integrity_def Let_def map_replicate_const)
qed

lemma map_r_all_Nil: "map_r f xs = Inr fss \<Longrightarrow> concat fss = [] \<Longrightarrow> \<forall>x \<in> set xs. f x = Inr []"
  by (induction xs arbitrary: fss) (auto simp: rbind_Inr_iff)

lemma verify_clean_iff:
  "fst (verify_integrity E S d) = Inr [] \<longleftrightarrow>
     (\<forall>st \<in> set (db_streams d). check_stream E S d (st_stream_id st) = Inr [])"
proof
  assume l: "fst (verify_integrity E S d) = Inr []"
  then obtain fss where "map_r (check_stream E S d) (sort (map st_stream_id (db_streams d))) = Inr fss"
    and "concat fss = []"
    unfolding verify_integrity_def Let_def
    by (cases "map_r (check_stream E S d) (sort (map st_stream_id (db_streams d)))") simp_all
  from map_r_all_Nil [OF this] show "\<forall>st \<in> set (db_streams d). check_stream E S d (st_stream_id st) = Inr []"
    by simp
qed (simp add: verify_clean)

text \<open>Verification only writes stream states and alerts: the raw log is untouched.\<close>

lemma verify_keeps_log: "db_raw_events (snd (verify_integrity E S d)) = db_raw_events d"
  by (auto simp: verify_integrity_def Let_def split: sum.splits)

end
