(* ===== verification/TQ_Trust.thy ===== *)
theory TQ_Trust
  imports TQ_Store
begin

text \<open>
  The pure rules of observation quality: \<^verbatim>\<open>backend/app/quality/trust.py\<close> (is an observation trusted,
  does its scope cover a defect) and \<^verbatim>\<open>backend/app/quality/occurrence.py\<close> (do two defects belong to
  one occurrence). The last section proves when an observation is TRUSTED.
\<close>

record TrustPolicyValue =
  allowed_observation_quality :: "string list"
  confidence_required :: bool
  min_confidence :: "rat option"
  requires_valid_device :: bool
  media_required :: bool

definition default_policy :: TrustPolicyValue where
  "default_policy = \<lparr>allowed_observation_quality = [''good''], confidence_required = False,
     min_confidence = None, requires_valid_device = False, media_required = False\<rparr>"

type_synonym trust_result = "trust_status \<times> string list"

definition trust_failures :: "InspectionResultPayload \<Rightarrow> TrustPolicyValue \<Rightarrow> bool \<Rightarrow> string list" where
  "trust_failures p policy device_valid =
     (if quality_str (in_observation_quality p) \<notin> set (allowed_observation_quality policy)
      then [''OBSERVATION_QUALITY_NOT_ALLOWED''] else []) @
     (if confidence_required policy \<and> in_confidence p = None then [''CONFIDENCE_REQUIRED''] else []) @
     (case min_confidence policy of
        None \<Rightarrow> []
      | Some m \<Rightarrow>
          (case in_confidence p of
             None \<Rightarrow> [''CONFIDENCE_BELOW_THRESHOLD'']
           | Some c \<Rightarrow> if c < m then [''CONFIDENCE_BELOW_THRESHOLD''] else [])) @
     (if requires_valid_device policy \<and> \<not> device_valid then [''DEVICE_VALIDITY_NOT_CONFIRMED''] else []) @
     (if media_required policy \<and> in_evidence_refs p = [] then [''MEDIA_REQUIRED''] else [])"

definition evaluate_trust ::
  "InspectionResultPayload \<Rightarrow> TrustPolicyValue \<Rightarrow> bool \<Rightarrow> bool \<Rightarrow> bool \<Rightarrow> trust_result" where
  "evaluate_trust p policy device_valid invalidated conflicted =
     (if in_inspection_result p = Impossible_to_assess
        then (UNASSESSABLE, [''INSPECTION_IMPOSSIBLE_TO_ASSESS''])
      else if invalidated then (INVALIDATED, [''CONTROL_DEVICE_INVALIDATED''])
      else if conflicted then (CONFLICTED, [''EQUIVALENT_OBSERVATIONS_CONFLICT''])
      else
        (let reasons = trust_failures p policy device_valid in
         if reasons \<noteq> [] then (UNTRUSTED, reasons) else (TRUSTED, [])))"

text \<open>
  A scope is any JSON object or list the producer sent, so the membership tests of the object
  form can raise.
\<close>

definition scope_member :: "(string \<times> json) list \<Rightarrow> string \<Rightarrow> string \<Rightarrow> bool result" where
  "scope_member d key x =
     (let container = (case map_of d key of None \<Rightarrow> JArr [JStr ''*''] | Some v \<Rightarrow> v) in
      rbind (py_in ''*'' container) (\<lambda>all. if all then Inr True else py_in x container))"

fun scope_covers :: "scope option \<Rightarrow> string \<Rightarrow> string option \<Rightarrow> bool result" where
  "scope_covers None defect component = Inr True"
| "scope_covers (Some (Scope_list xs)) defect component =
     Inr (JStr defect \<in> set xs \<or> JStr ''*'' \<in> set xs)"
| "scope_covers (Some (Scope_dict d)) defect component =
     rbind (scope_member d ''defect_types'' defect) (\<lambda>defect_ok.
     rbind (case component of None \<Rightarrow> Inr True
            | Some c \<Rightarrow> scope_member d ''component_instance_ids'' c) (\<lambda>component_ok.
     Inr (defect_ok \<and> component_ok)))"

text \<open>\<open>a or b\<close> on optional texts: an empty text counts as absent.\<close>

definition py_or :: "string option \<Rightarrow> string option \<Rightarrow> string option" where
  "py_or a b = (if has_id a then a else b)"

definition defect_key :: "string \<Rightarrow> string \<Rightarrow> string option \<Rightarrow> string \<times> string" where
  "defect_key item dtype component =
     ((case py_or component (Some item) of None \<Rightarrow> item | Some c \<Rightarrow> c), dtype)"

definition can_link_occurrence :: "DefectOccurrence \<Rightarrow> string \<Rightarrow> string \<Rightarrow> string option \<Rightarrow> bool" where
  "can_link_occurrence oc item dtype component \<longleftrightarrow>
     oc_status oc = Occurrence_open \<and>
     defect_key (oc_item_id oc) (oc_defect_type oc) (oc_component_instance_id oc) =
       defect_key item dtype component"

section \<open>Properties\<close>

lemma trust_failures_Nil:
  "trust_failures p policy device_valid = [] \<longleftrightarrow>
     quality_str (in_observation_quality p) \<in> set (allowed_observation_quality policy) \<and>
     (confidence_required policy \<longrightarrow> in_confidence p \<noteq> None) \<and>
     (\<forall>m. min_confidence policy = Some m \<longrightarrow> (\<exists>c. in_confidence p = Some c \<and> m \<le> c)) \<and>
     (requires_valid_device policy \<longrightarrow> device_valid) \<and>
     (media_required policy \<longrightarrow> in_evidence_refs p \<noteq> [])"
  unfolding trust_failures_def by (auto split: option.splits if_splits)

text \<open>
  Nothing but a clean observation is trusted, and the precedence of the four ways to fail is the
  documented one.
\<close>

lemma trust_status_cases:
  "fst (evaluate_trust p policy dv inval con) =
     (if in_inspection_result p = Impossible_to_assess then UNASSESSABLE
      else if inval then INVALIDATED else if con then CONFLICTED
      else if trust_failures p policy dv = [] then TRUSTED else UNTRUSTED)"
  by (simp add: evaluate_trust_def Let_def)

lemma trusted_reasons: "snd (evaluate_trust p policy dv inval con) = [] \<longleftrightarrow>
    fst (evaluate_trust p policy dv inval con) = TRUSTED"
  by (auto simp: evaluate_trust_def Let_def)

lemma not_invalidated: "fst (evaluate_trust p policy dv False False) \<noteq> INVALIDATED"
  by (simp add: trust_status_cases)

lemma scope_covers_wildcard:
  "scope_covers (Some (Scope_list xs)) ''*'' c = Inr (JStr ''*'' \<in> set xs)"
  by simp

text \<open>A scope is total where its two entries, if present, are lists.\<close>

definition list_scope :: "scope \<Rightarrow> bool" where
  "list_scope s \<longleftrightarrow> (case s of Scope_list _ \<Rightarrow> True
     | Scope_dict d \<Rightarrow> \<forall>k \<in> {''defect_types'', ''component_instance_ids''}.
         case map_of d k of Some (JArr _) \<Rightarrow> True | None \<Rightarrow> True | _ \<Rightarrow> False)"

lemma scope_member_total:
  "(case map_of d k of Some (JArr _) \<Rightarrow> True | None \<Rightarrow> True | _ \<Rightarrow> False) \<Longrightarrow> \<exists>b. scope_member d k x = Inr b"
  by (auto simp: scope_member_def Let_def split: option.splits json.splits)

lemma scope_covers_total: "pred_option list_scope s \<Longrightarrow> \<exists>b. scope_covers s x c = Inr b"
proof (cases s)
  case (Some sc)
  assume p: "pred_option list_scope s"
  then show ?thesis
  proof (cases sc)
    case (Scope_dict d)
    with p Some obtain a b where "scope_member d ''defect_types'' x = Inr a"
      and "\<And>y. c = Some y \<Longrightarrow> scope_member d ''component_instance_ids'' y = Inr (b y)"
      using scope_member_total [of d "''defect_types''" x]
        scope_member_total [of d "''component_instance_ids''"]
      by (simp add: list_scope_def) metis
    with Some Scope_dict show ?thesis
      by (cases c) auto
  qed (simp add: Some)
qed (auto intro: exI [of _ True])

text \<open>
  The linking rule of \<^verbatim>\<open>occurrence.py\<close> identifies a component with the item that has no component
  of that name: the key is the component where there is one and the item otherwise.
\<close>

lemma defect_key_iff:
  "defect_key i t c = defect_key i' t' c' \<longleftrightarrow>
     t = t' \<and> (if has_id c then the c else i) = (if has_id c' then the c' else i')"
  by (auto simp: defect_key_def py_or_def has_id_def)

end
