(* ===== verification/TQ_Birth_Window.thy ===== *)
theory TQ_Birth_Window
  imports TQ_Trust
begin

text \<open>
  \<^verbatim>\<open>backend/app/quality/birth_window.py\<close>: the interval in which a defect came to be, bounded below by
  the last trusted observation without the defect, with the operations, machine states, actions
  and limits of knowledge inside it. The value records are the dictionaries
  \<^verbatim>\<open>projections/rebuild.py\<close> builds from the events of an item.
\<close>

record obs_value =
  ov_payload :: InspectionResultPayload
  ov_operation_run_id :: "string option"
  ov_event_id :: string
  ov_occurred_at :: time
  ov_trust_status :: trust_status
  ov_trust_reasons :: "string list"

record run_value =
  rv_operation_run_id :: "string option"
  rv_operation_id :: "string option"
  rv_operator_id :: "string option"
  rv_equipment_id :: "string option"
  rv_station_id :: "string option"
  rv_started_at :: "time option"
  rv_finished_at :: "time option"
  rv_completion_status :: "completion_status option"
  rv_duration :: "Duration option"
  rv_previous_operation_run_id :: "string option"
  rv_run_reason :: "run_reason option"
  rv_rework_for_nonconformance_id :: "string option"
  rv_parameters :: "(string \<times> json) list option"
  rv_finish_parameters :: "(string \<times> json) list option"
  rv_source_event_id :: string

record machine_value =
  mv_payload :: MachineStatePayload
  mv_operation_run_id :: "string option"
  mv_event_id :: string
  mv_occurred_at :: time

record action_value =
  wv_payload :: OperatorActionPayload
  wv_operation_run_id :: "string option"
  wv_event_id :: string
  wv_occurred_at :: time

record EvidenceValue =
  ev_type :: evidence_type
  ev_role :: evidence_role
  ev_source_event_id :: "string option"
  ev_occurred_at :: "time option"
  ev_details :: json

record BirthWindowResult =
  bw_status :: analysis_status
  bw_left_boundary_at :: "time option"
  bw_right_boundary_at :: "time option"
  bw_evidence :: "EvidenceValue list"

text \<open>The defect observation the analysis is about.\<close>

record defect_value =
  dv_event_id :: string
  dv_occurred_at :: time
  dv_defect_type :: string
  dv_component_instance_id :: "string option"

text \<open>A trusted observation before the defect that would have seen it and did not.\<close>

definition good_candidate :: "defect_value \<Rightarrow> obs_value \<Rightarrow> bool result" where
  "good_candidate dv obs =
     (if ov_occurred_at obs < dv_occurred_at dv \<and> ov_trust_status obs = TRUSTED \<and>
         in_inspection_result (ov_payload obs) = No_defect
      then rbind (scope_covers (in_inspection_scope (ov_payload obs)) (dv_defect_type dv)
                   (dv_component_instance_id dv)) (\<lambda>covers.
        Inr (covers \<and> (in_component_instance_id (ov_payload obs) = None \<or>
               in_component_instance_id (ov_payload obs) = dv_component_instance_id dv \<or>
               dv_component_instance_id dv = None)))
      else Inr False)"

definition inside :: "time option \<Rightarrow> time \<Rightarrow> time \<Rightarrow> bool" where
  "inside left defect_time t \<longleftrightarrow> (case left of None \<Rightarrow> True | Some l \<Rightarrow> l < t) \<and> t \<le> defect_time"

definition marker :: "run_value \<Rightarrow> time option" where
  "marker r = (case rv_finished_at r of Some t \<Rightarrow> Some t | None \<Rightarrow> rv_started_at r)"

definition first_trusted_defect :: "defect_value \<Rightarrow> EvidenceValue" where
  "first_trusted_defect dv = \<lparr>ev_type = FIRST_TRUSTED_DEFECT, ev_role = BOUNDARY,
     ev_source_event_id = Some (dv_event_id dv), ev_occurred_at = Some (dv_occurred_at dv),
     ev_details = JObj [(''defect_type'', JStr (dv_defect_type dv)),
       (''component_instance_id'', js_opt JStr (dv_component_instance_id dv))]\<rparr>"

definition last_trusted_good :: "obs_value \<Rightarrow> EvidenceValue" where
  "last_trusted_good obs = \<lparr>ev_type = LAST_TRUSTED_GOOD, ev_role = BOUNDARY,
     ev_source_event_id = Some (ov_event_id obs), ev_occurred_at = Some (ov_occurred_at obs),
     ev_details = JObj [(''control_point_id'', JStr (in_control_point_id (ov_payload obs)))]\<rparr>"

definition operation_evidence :: "time option \<Rightarrow> time \<Rightarrow> run_value \<Rightarrow> EvidenceValue list" where
  "operation_evidence left defect_time r =
     (case marker r of
        Some m \<Rightarrow> if inside left defect_time m then
          [\<lparr>ev_type = OPERATION_IN_WINDOW, ev_role = CONTEXT,
            ev_source_event_id = Some (rv_source_event_id r), ev_occurred_at = Some m,
            ev_details = JObj [(''operation_run_id'', js_opt JStr (rv_operation_run_id r)),
              (''operation_id'', js_opt JStr (rv_operation_id r)),
              (''operator_id'', js_opt JStr (rv_operator_id r)),
              (''equipment_id'', js_opt JStr (rv_equipment_id r))]\<rparr>] else []
      | None \<Rightarrow> [])"

definition machine_evidence :: "time option \<Rightarrow> time \<Rightarrow> machine_value \<Rightarrow> EvidenceValue list" where
  "machine_evidence left defect_time m =
     (if inside left defect_time (mv_occurred_at m) \<and>
         ms_state (mv_payload m) \<notin> {''normal'', ''idle''} then
        [\<lparr>ev_type = MACHINE_WARNING, ev_role = CONTEXT, ev_source_event_id = Some (mv_event_id m),
          ev_occurred_at = Some (mv_occurred_at m),
          ev_details = JObj [(''equipment_id'', JStr (ms_equipment_id (mv_payload m))),
            (''state'', JStr (ms_state (mv_payload m)))]\<rparr>]
      else [])"

definition action_evidence :: "time option \<Rightarrow> time \<Rightarrow> action_value \<Rightarrow> EvidenceValue list" where
  "action_evidence left defect_time a =
     (if inside left defect_time (wv_occurred_at a) then
        [\<lparr>ev_type = OPERATOR_ACTION, ev_role = CONTEXT, ev_source_event_id = Some (wv_event_id a),
          ev_occurred_at = Some (wv_occurred_at a),
          ev_details = JObj [(''operator_id'', JStr (oa_operator_id (wv_payload a))),
            (''action_type'', JStr (oa_action_type (wv_payload a)))]\<rparr>]
      else [])"

fun limitation_kind :: "trust_status \<Rightarrow> evidence_type" where
  "limitation_kind CONFLICTED = CONFLICTING_OBSERVATION"
| "limitation_kind INVALIDATED = DEVICE_VALIDITY"
| "limitation_kind _ = POOR_OBSERVATION"

definition observation_evidence :: "time option \<Rightarrow> time \<Rightarrow> obs_value \<Rightarrow> EvidenceValue list" where
  "observation_evidence left defect_time obs =
     (if inside left defect_time (ov_occurred_at obs) \<and>
         ov_trust_status obs \<in> {UNTRUSTED, UNASSESSABLE, CONFLICTED, INVALIDATED} then
        [\<lparr>ev_type = limitation_kind (ov_trust_status obs), ev_role = LIMITATION,
          ev_source_event_id = Some (ov_event_id obs), ev_occurred_at = Some (ov_occurred_at obs),
          ev_details = JObj [(''trust_status'', JStr (trust_str (ov_trust_status obs))),
            (''reasons'', js_strs (ov_trust_reasons obs))]\<rparr>]
      else [])"

definition calculate_birth_window ::
  "defect_value \<Rightarrow> obs_value list \<Rightarrow> run_value list \<Rightarrow> machine_value list \<Rightarrow> action_value list \<Rightarrow>
   EvidenceValue list \<Rightarrow> BirthWindowResult result" where
  "calculate_birth_window dv observations operations machines actions limitations =
     rbind (filter_r (good_candidate dv) observations) (\<lambda>candidates.
       let last_good = max_first ov_occurred_at candidates;
           left = map_option ov_occurred_at last_good;
           t = dv_occurred_at dv in
       Inr \<lparr>bw_status = (if left = None then LEFT_OPEN else BOUNDED),
            bw_left_boundary_at = left, bw_right_boundary_at = Some t,
            bw_evidence =
              (case last_good of None \<Rightarrow> [] | Some g \<Rightarrow> [last_trusted_good g]) @
              [first_trusted_defect dv] @
              concat (map (operation_evidence left t) operations) @
              concat (map (machine_evidence left t) machines) @
              concat (map (action_evidence left t) actions) @
              concat (map (observation_evidence left t) observations) @
              limitations\<rparr>)"

section \<open>Properties\<close>

text \<open>What it means for an observation to exclude the defect at its time.\<close>

definition excludes_defect :: "defect_value \<Rightarrow> obs_value \<Rightarrow> bool" where
  "excludes_defect dv obs \<longleftrightarrow> good_candidate dv obs = Inr True"

lemma excludes_defect_eq: "(\<lambda>g. good_candidate dv g = Inr True) = excludes_defect dv"
  by (simp add: excludes_defect_def fun_eq_iff)

lemma excludes_defect_iff:
  "excludes_defect dv obs \<longleftrightarrow>
     ov_occurred_at obs < dv_occurred_at dv \<and> ov_trust_status obs = TRUSTED \<and>
     in_inspection_result (ov_payload obs) = No_defect \<and>
     scope_covers (in_inspection_scope (ov_payload obs)) (dv_defect_type dv)
       (dv_component_instance_id dv) = Inr True \<and>
     (in_component_instance_id (ov_payload obs) = None \<or>
      in_component_instance_id (ov_payload obs) = dv_component_instance_id dv \<or>
      dv_component_instance_id dv = None)"
  by (auto simp: excludes_defect_def good_candidate_def rbind_Inr_iff)

lemma window_cases:
  assumes "calculate_birth_window dv obs ops ms as lims = Inr w"
  obtains
    (open_window) "\<not> (\<exists>g \<in> set obs. excludes_defect dv g)" "bw_left_boundary_at w = None" "bw_status w = LEFT_OPEN"
  | (bounded) g where "g \<in> set obs" "excludes_defect dv g" "bw_left_boundary_at w = Some (ov_occurred_at g)"
      "bw_status w = BOUNDED" "\<forall>h \<in> set obs. excludes_defect dv h \<longrightarrow> ov_occurred_at h \<le> ov_occurred_at g"
proof -
  from assms obtain cs where cs: "filter_r (good_candidate dv) obs = Inr cs"
    and w: "bw_left_boundary_at w = map_option ov_occurred_at (max_first ov_occurred_at cs)"
      "bw_status w = (if max_first ov_occurred_at cs = None then LEFT_OPEN else BOUNDED)"
    by (auto simp: calculate_birth_window_def rbind_Inr_iff Let_def)
  have set_cs: "set cs = {g \<in> set obs. excludes_defect dv g}"
    using filter_r_Inr [OF cs] by (auto simp: excludes_defect_def)
  show ?thesis
  proof (cases "max_first ov_occurred_at cs")
    case None
    then show ?thesis using set_cs w open_window by auto
  next
    case (Some g)
    then show ?thesis using max_first_Some [OF Some] set_cs w bounded by auto
  qed
qed

lemma window_evidence:
  assumes "calculate_birth_window dv obs ops ms as lims = Inr w"
  shows "bw_right_boundary_at w = Some (dv_occurred_at dv)"
    and "set (bw_evidence w) =
       {last_trusted_good g | g. max_first ov_occurred_at (filter (excludes_defect dv) obs) = Some g} \<union>
       {first_trusted_defect dv} \<union>
       (\<Union>r \<in> set ops. set (operation_evidence (bw_left_boundary_at w) (dv_occurred_at dv) r)) \<union>
       (\<Union>m \<in> set ms. set (machine_evidence (bw_left_boundary_at w) (dv_occurred_at dv) m)) \<union>
       (\<Union>a \<in> set as. set (action_evidence (bw_left_boundary_at w) (dv_occurred_at dv) a)) \<union>
       (\<Union>g \<in> set obs. set (observation_evidence (bw_left_boundary_at w) (dv_occurred_at dv) g)) \<union>
       set lims"
proof -
  from assms obtain cs where cs: "filter_r (good_candidate dv) obs = Inr cs"
    by (auto simp: calculate_birth_window_def rbind_Inr_iff)
  then have "cs = filter (excludes_defect dv) obs"
    using filter_r_Inr [OF cs] by (simp add: excludes_defect_eq)
  with cs assms show "bw_right_boundary_at w = Some (dv_occurred_at dv)"
    and "set (bw_evidence w) =
       {last_trusted_good g | g. max_first ov_occurred_at (filter (excludes_defect dv) obs) = Some g} \<union>
       {first_trusted_defect dv} \<union>
       (\<Union>r \<in> set ops. set (operation_evidence (bw_left_boundary_at w) (dv_occurred_at dv) r)) \<union>
       (\<Union>m \<in> set ms. set (machine_evidence (bw_left_boundary_at w) (dv_occurred_at dv) m)) \<union>
       (\<Union>a \<in> set as. set (action_evidence (bw_left_boundary_at w) (dv_occurred_at dv) a)) \<union>
       (\<Union>g \<in> set obs. set (observation_evidence (bw_left_boundary_at w) (dv_occurred_at dv) g)) \<union>
       set lims"
    by (auto simp: calculate_birth_window_def Let_def split: option.splits)
qed

lemma evidence_inside:
  "e \<in> set (operation_evidence l t r) \<Longrightarrow> \<exists>m. ev_occurred_at e = Some m \<and> inside l t m"
  "e \<in> set (machine_evidence l t mv) \<Longrightarrow> \<exists>m. ev_occurred_at e = Some m \<and> inside l t m"
  "e \<in> set (action_evidence l t av) \<Longrightarrow> \<exists>m. ev_occurred_at e = Some m \<and> inside l t m"
  "e \<in> set (observation_evidence l t g) \<Longrightarrow> \<exists>m. ev_occurred_at e = Some m \<and> inside l t m"
  by (auto simp: operation_evidence_def machine_evidence_def action_evidence_def
      observation_evidence_def split: if_splits option.splits dest: sym [of "Some _"])

text \<open>Evidence other than the boundaries and the given limitations lies inside the window.\<close>

lemma context_inside:
  assumes "calculate_birth_window dv obs ops ms as lims = Inr w"
    and "e \<in> set (bw_evidence w)" and "ev_role e \<noteq> BOUNDARY" and "e \<notin> set lims"
  shows "\<exists>t. ev_occurred_at e = Some t \<and> inside (bw_left_boundary_at w) (dv_occurred_at dv) t"
  using assms(2-4) unfolding window_evidence(2) [OF assms(1)]
  by (auto simp: last_trusted_good_def first_trusted_defect_def dest: evidence_inside)

text \<open>The analysis returns on every history whose scopes are lists of names.\<close>

lemma filter_r_ok: "\<forall>x \<in> set xs. \<exists>b. p x = Inr b \<Longrightarrow> \<exists>ys. filter_r p xs = Inr ys"
  by (induction xs) auto

lemma window_total:
  assumes "\<forall>g \<in> set obs. pred_option list_scope (in_inspection_scope (ov_payload g))"
  shows "\<exists>w. calculate_birth_window dv obs ops ms as lims = Inr w"
proof -
  have "\<exists>b. good_candidate dv g = Inr b" if "g \<in> set obs" for g
  proof -
    from scope_covers_total [OF assms [rule_format, OF that]]
    obtain b where "scope_covers (in_inspection_scope (ov_payload g)) (dv_defect_type dv)
        (dv_component_instance_id dv) = Inr b"
      by metis
    then show ?thesis
      by (auto simp: good_candidate_def intro: exI [of _ False])
  qed
  then have "\<exists>cs. filter_r (good_candidate dv) obs = Inr cs"
    by (intro filter_r_ok ballI)
  then show ?thesis
    by (auto simp: calculate_birth_window_def Let_def)
qed

end
