(* ===== verification/TQ_Replay.thy ===== *)
theory TQ_Replay
  imports TQ_Crypto TQ_Birth_Window
begin

text \<open>
  The first half of \<open>rebuild_item\<close> (\<^verbatim>\<open>backend/app/projections/rebuild.py\<close>): the rows of one item are
  put in business order, decrypted, and folded into the values the second half stores. Nothing of
  it writes the database. The last section shows that the order of arrival has no influence.
\<close>

section \<open>Business order\<close>

text \<open>\<open>source_sequence.asc().nullslast()\<close>.\<close>

datatype nulls_last = Seq int | No_seq

instantiation nulls_last :: linorder
begin

fun less_eq_nulls_last :: "nulls_last \<Rightarrow> nulls_last \<Rightarrow> bool" where
  "less_eq_nulls_last (Seq a) (Seq b) = (a \<le> b)"
| "less_eq_nulls_last (Seq a) No_seq = True"
| "less_eq_nulls_last No_seq (Seq b) = False"
| "less_eq_nulls_last No_seq No_seq = True"

definition less_nulls_last :: "nulls_last \<Rightarrow> nulls_last \<Rightarrow> bool" where
  "less_nulls_last a b \<longleftrightarrow> a \<le> b \<and> \<not> b \<le> a"

instance
proof
  fix a b c :: nulls_last
  show "a < b \<longleftrightarrow> a \<le> b \<and> \<not> b \<le> a"
    by (fact less_nulls_last_def)
  show "a \<le> a"
    by (cases a) auto
  show "a \<le> b \<Longrightarrow> b \<le> c \<Longrightarrow> a \<le> c"
    by (cases a; cases b; cases c) auto
  show "a \<le> b \<Longrightarrow> b \<le> a \<Longrightarrow> a = b"
    by (cases a; cases b) auto
  show "a \<le> b \<or> b \<le> a"
    by (cases a; cases b) auto
qed

end

fun seq_key :: "int option \<Rightarrow> nulls_last" where
  "seq_key None = No_seq"
| "seq_key (Some n) = Seq n"

text \<open>Texts are compared by their bytes (the collation \<open>C\<close>).\<close>

definition business_key :: "RawEvent \<Rightarrow> time \<times> string \<times> nulls_last \<times> time \<times> string" where
  "business_key r = (re_occurred_at r, re_source_id r, seq_key (re_source_sequence r),
     re_received_at r, re_event_id r)"

definition item_raws :: "string \<Rightarrow> RawEvent list \<Rightarrow> RawEvent list" where
  "item_raws i raws = sort_key business_key (filter (\<lambda>r. re_item_id r = Some i) raws)"

section \<open>Decryption\<close>

definition raw_aad :: "RawEvent \<Rightarrow> aad_fields" where
  "raw_aad r = \<lparr>aad_event_id = re_event_id r, aad_event_type = re_event_type r,
     aad_source_id = re_source_id r, aad_schema_version = re_schema_version r,
     aad_received_at = re_received_at r, aad_occurred_at = re_occurred_at r,
     aad_item_id = re_item_id r, aad_crypto_key_id = re_crypto_key_id r,
     aad_profile = re_crypto_profile_id r\<rparr>"

definition decrypt_raw :: "env \<Rightarrow> Settings \<Rightarrow> RawEvent \<Rightarrow> json result" where
  "decrypt_raw E S r =
     rbind (decrypt_event E (re_payload_ciphertext r) (re_nonce r) (aes_key S) (build_aad E (raw_aad r)))
       (\<lambda>plaintext. case json_loads E plaintext of
          None \<Rightarrow> Inl (PyError ''JSONDecodeError'')
        | Some v \<Rightarrow> Inr v)"

text \<open>
  \<open>event["payload"]\<close> and the keys read from it. The log only holds canonical documents of validated
  events, so the payload is read back as the model that printed it; a document without one of the
  keys stops the loop.
\<close>

definition payload_of :: "env \<Rightarrow> RawEvent \<Rightarrow> json \<Rightarrow> payload result" where
  "payload_of E r v =
     (case v of
        JObj d \<Rightarrow>
          (case dict_get ''payload'' d of
             JObj pl \<Rightarrow>
               (case read_payload (validator E) (re_event_type r) pl of
                  Some p \<Rightarrow> Inr p
                | None \<Rightarrow> Inl (PyError ''KeyError''))
           | _ \<Rightarrow> Inl (PyError ''KeyError''))
      | _ \<Rightarrow> Inl (PyError ''TypeError''))"

definition open_raw :: "env \<Rightarrow> Settings \<Rightarrow> RawEvent \<Rightarrow> (RawEvent \<times> payload) result" where
  "open_raw E S r = rbind (decrypt_raw E S r) (\<lambda>v. rbind (payload_of E r v) (\<lambda>p. Inr (r, p)))"

section \<open>The values of an item\<close>

record item_values =
  iv_item :: "(ItemRegisteredPayload \<times> time) option"
  iv_runs :: "run_value list"
  iv_observations :: "obs_value list"
  iv_machines :: "machine_value list"
  iv_actions :: "action_value list"

definition no_values :: item_values where
  "no_values = \<lparr>iv_item = None, iv_runs = [], iv_observations = [], iv_machines = [], iv_actions = []\<rparr>"

definition blank_run :: "string option \<Rightarrow> run_value" where
  "blank_run run_id = \<lparr>rv_operation_run_id = run_id, rv_operation_id = None, rv_operator_id = None,
     rv_equipment_id = None, rv_station_id = None, rv_started_at = None, rv_finished_at = None,
     rv_completion_status = None, rv_duration = None, rv_previous_operation_run_id = None,
     rv_run_reason = None, rv_rework_for_nonconformance_id = None, rv_parameters = None,
     rv_finish_parameters = None, rv_source_event_id = ''''\<rparr>"

text \<open>\<open>operation_values.setdefault(run_id, ...).update(...)\<close>: a known run keeps its place.\<close>

definition upsert_run :: "string option \<Rightarrow> (run_value \<Rightarrow> run_value) \<Rightarrow> run_value list \<Rightarrow> run_value list" where
  "upsert_run run_id f runs =
     (case find_by rv_operation_run_id run_id runs of
        None \<Rightarrow> runs @ [f (blank_run run_id)]
      | Some _ \<Rightarrow> update_by rv_operation_run_id run_id f runs)"

definition start_run :: "RawEvent \<Rightarrow> OperationStartedPayload \<Rightarrow> run_value \<Rightarrow> run_value" where
  "start_run r p v = v\<lparr>rv_operation_id := Some (os_operation_id p), rv_operator_id := Some (os_operator_id p),
     rv_equipment_id := Some (os_equipment_id p), rv_station_id := Some (os_station_id p),
     rv_started_at := Some (re_occurred_at r),
     rv_previous_operation_run_id := os_previous_operation_run_id p,
     rv_run_reason := Some (os_run_reason p),
     rv_rework_for_nonconformance_id := os_rework_for_nonconformance_id p,
     rv_parameters := os_parameters p, rv_source_event_id := re_event_id r\<rparr>"

definition finish_run :: "RawEvent \<Rightarrow> OperationFinishedPayload \<Rightarrow> run_value \<Rightarrow> run_value" where
  "finish_run r p v = v\<lparr>rv_finished_at := Some (re_occurred_at r),
     rv_completion_status := Some (of_completion_status p), rv_duration := of_duration p,
     rv_finish_parameters := of_parameters p, rv_source_event_id := re_event_id r\<rparr>"

text \<open>\<open>_trust_policy\<close>: the newest active policy of the control point, or the default.\<close>

definition policy_value :: "TrustPolicy \<Rightarrow> TrustPolicyValue" where
  "policy_value p = \<lparr>allowed_observation_quality = tp_allowed_observation_quality p,
     confidence_required = tp_confidence_required p, min_confidence = tp_min_confidence p,
     requires_valid_device = tp_requires_valid_device p, media_required = tp_media_required p\<rparr>"

definition trust_policy :: "db \<Rightarrow> string \<Rightarrow> TrustPolicyValue" where
  "trust_policy d control_point =
     (case max_last tp_policy_version
             (filter (\<lambda>p. tp_control_point_id p = control_point \<and> tp_active p) (db_policies d)) of
        None \<Rightarrow> default_policy
      | Some p \<Rightarrow> policy_value p)"

definition device_invalidated :: "db \<Rightarrow> string option \<Rightarrow> time \<Rightarrow> bool" where
  "device_invalidated d device t \<longleftrightarrow> has_id device \<and>
     list_ex (\<lambda>v. Some (ci_device_id v) = device \<and> ci_affected_from v \<le> t \<and> t \<le> ci_affected_to v)
       (db_invalidations d)"

definition observe :: "db \<Rightarrow> RawEvent \<Rightarrow> InspectionResultPayload \<Rightarrow> obs_value" where
  "observe d r p =
     (let trust = evaluate_trust p (trust_policy d (in_control_point_id p)) True
                    (device_invalidated d (in_control_device_id p) (re_occurred_at r)) False in
      \<lparr>ov_payload = p, ov_operation_run_id = re_operation_run_id r, ov_event_id = re_event_id r,
       ov_occurred_at = re_occurred_at r, ov_trust_status = fst trust, ov_trust_reasons = snd trust\<rparr>)"

text \<open>One round of the loop over the events.\<close>

fun project_event :: "db \<Rightarrow> RawEvent \<times> payload \<Rightarrow> item_values \<Rightarrow> item_values" where
  "project_event d (r, Item_registered p) v = v\<lparr>iv_item := Some (p, re_occurred_at r)\<rparr>"
| "project_event d (r, Operation_started p) v =
     v\<lparr>iv_runs := upsert_run (re_operation_run_id r) (start_run r p) (iv_runs v)\<rparr>"
| "project_event d (r, Operation_finished p) v =
     v\<lparr>iv_runs := upsert_run (re_operation_run_id r) (finish_run r p) (iv_runs v)\<rparr>"
| "project_event d (r, Inspection_result p) v =
     v\<lparr>iv_observations := iv_observations v @ [observe d r p]\<rparr>"
| "project_event d (r, Machine_state p) v =
     v\<lparr>iv_machines := iv_machines v @
       [\<lparr>mv_payload = p, mv_operation_run_id = re_operation_run_id r, mv_event_id = re_event_id r,
         mv_occurred_at = re_occurred_at r\<rparr>]\<rparr>"
| "project_event d (r, Operator_action p) v =
     v\<lparr>iv_actions := iv_actions v @
       [\<lparr>wv_payload = p, wv_operation_run_id = re_operation_run_id r, wv_event_id = re_event_id r,
         wv_occurred_at = re_occurred_at r\<rparr>]\<rparr>"
| "project_event d (r, Control_device_invalidated p) v = v"

section \<open>Conflicting observations\<close>

text \<open>\<open>session or bucket\<close>: the capture session, or the five-minute slot of the instant.\<close>

datatype moment = Capture_session string | Bucket int

definition moment_of :: "obs_value \<Rightarrow> moment" where
  "moment_of obs =
     (case in_capture_session_id (ov_payload obs) of
        Some s \<Rightarrow> if s \<noteq> [] then Capture_session s else Bucket (ov_occurred_at obs div 300000000)
      | None \<Rightarrow> Bucket (ov_occurred_at obs div 300000000))"

definition group_key :: "obs_value \<Rightarrow> moment \<times> string \<times> string option" where
  "group_key obs = (moment_of obs, in_control_point_id (ov_payload obs),
     in_component_instance_id (ov_payload obs))"

definition conflicting :: "obs_value list \<Rightarrow> obs_value \<Rightarrow> bool" where
  "conflicting all obs \<longleftrightarrow>
     1 < length (remdups (map (\<lambda>g. in_inspection_result (ov_payload g))
                               (filter (\<lambda>g. group_key g = group_key obs) all)))"

definition mark_conflicts :: "obs_value list \<Rightarrow> obs_value list" where
  "mark_conflicts all = map (\<lambda>obs. if conflicting all obs
     then obs\<lparr>ov_trust_status := CONFLICTED, ov_trust_reasons := [''EQUIVALENT_OBSERVATIONS_CONFLICT'']\<rparr>
     else obs) all"

text \<open>The values after both loops.\<close>

definition replay :: "env \<Rightarrow> Settings \<Rightarrow> db \<Rightarrow> RawEvent list \<Rightarrow> item_values result" where
  "replay E S d raws =
     rbind (map_r (open_raw E S) raws) (\<lambda>events.
       let v = fold (project_event d) events no_values in
       Inr (v\<lparr>iv_observations := mark_conflicts (iv_observations v)\<rparr>))"

section \<open>Properties\<close>

lemma conflicting_iff:
  "obs \<in> set all \<Longrightarrow> conflicting all obs \<longleftrightarrow>
     (\<exists>g \<in> set all. group_key g = group_key obs \<and>
        in_inspection_result (ov_payload g) \<noteq> in_inspection_result (ov_payload obs))"
proof -
  assume obs: "obs \<in> set all"
  let ?res = "\<lambda>g. in_inspection_result (ov_payload g)"
  let ?R = "?res ` {g \<in> set all. group_key g = group_key obs}"
  have "conflicting all obs \<longleftrightarrow> 1 < card ?R"
    by (simp add: conflicting_def length_remdups_card_conv)
  also have "\<dots> \<longleftrightarrow> (\<exists>x \<in> ?R. x \<noteq> ?res obs)"
  proof
    assume many: "1 < card ?R"
    have "?R \<subseteq> {?res obs} \<Longrightarrow> card ?R \<le> card {?res obs}"
      by (intro card_mono) auto
    with many show "\<exists>x \<in> ?R. x \<noteq> ?res obs"
      by fastforce
  next
    assume "\<exists>x \<in> ?R. x \<noteq> ?res obs"
    then obtain x where "x \<in> ?R" "x \<noteq> ?res obs" by blast
    then have "card {x, ?res obs} \<le> card ?R"
      using obs by (intro card_mono) auto
    then show "1 < card ?R"
      using \<open>x \<noteq> ?res obs\<close> by simp
  qed
  finally show ?thesis by auto
qed

lemma mark_conflicts_payloads [simp]: "map ov_payload (mark_conflicts os) = map ov_payload os"
  "map ov_event_id (mark_conflicts os) = map ov_event_id os"
  "map ov_occurred_at (mark_conflicts os) = map ov_occurred_at os"
  by (auto simp: mark_conflicts_def)

text \<open>No two observations that are still trusted contradict each other in one group.\<close>

lemma trusted_agree:
  assumes "a \<in> set (mark_conflicts os)" and "b \<in> set (mark_conflicts os)"
    and "ov_trust_status a \<noteq> CONFLICTED" and "group_key a = group_key b"
  shows "in_inspection_result (ov_payload a) = in_inspection_result (ov_payload b)"
proof -
  obtain a' b' where a': "a' \<in> set os" "a = a'" "\<not> conflicting os a'"
    and b': "b' \<in> set os" "ov_payload b = ov_payload b'" "ov_occurred_at b = ov_occurred_at b'"
    using assms by (auto simp: mark_conflicts_def split: if_splits)
  have "group_key b' = group_key b"
    by (simp add: group_key_def moment_of_def b' split: option.split)
  then have "group_key b' = group_key a'"
    using assms(4) a' by simp
  then show ?thesis
    using conflicting_iff [OF a'(1)] a'(2,3) b'(1,2) by metis
qed

text \<open>Two logs with the same rows give one business order, however they were delivered.\<close>

lemma business_key_inj: "business_key r = business_key r' \<Longrightarrow> re_event_id r = re_event_id r'"
  by (simp add: business_key_def)

lemma item_raws_perm:
  assumes "mset raws = mset raws'" and "distinct (map re_event_id raws)"
  shows "item_raws i raws = item_raws i raws'"
  unfolding item_raws_def
proof (rule sort_key_perm)
  show "mset (filter (\<lambda>r. re_item_id r = Some i) raws) = mset (filter (\<lambda>r. re_item_id r = Some i) raws')"
    using assms(1) by (simp add: mset_filter)
  show "distinct (map business_key (filter (\<lambda>r. re_item_id r = Some i) raws))"
    using assms(2) by (auto simp: distinct_map inj_on_def dest: business_key_inj)
qed

lemma item_raws_sorted: "sorted (map business_key (item_raws i raws))"
  by (simp add: item_raws_def)

lemma set_item_raws: "set (item_raws i raws) = {r \<in> set raws. re_item_id r = Some i}"
  by (simp add: item_raws_def)

end
