(* ===== verification/TQ_Analysis.thy ===== *)
theory TQ_Analysis
  imports TQ_Replay
begin

text \<open>
  The analyses \<^verbatim>\<open>backend/app/projections/rebuild.py\<close> appends to a nonconformance: which planned
  inspections are missing (\<open>_missing_check_limitations\<close>), when a new version is due
  (\<open>_analysis_changed\<close>) and how it is written with its evidence (\<open>_create_analysis\<close>,
  \<open>_create_invalidated_analysis\<close>). The versions of a nonconformance are numbered 1, 2, 3 and so on,
  the newest is the one the nonconformance names, and no version is ever changed or removed.
\<close>

section \<open>Missing inspections\<close>

text \<open>\<open>{value.get("operation_id"): value for value in operation_values}\<close>: the last run of an operation.\<close>

definition run_of :: "string \<Rightarrow> run_value list \<Rightarrow> run_value option" where
  "run_of operation runs = find_by rv_operation_id (Some operation) (rev runs)"

definition check_present :: "string \<Rightarrow> time option \<Rightarrow> time \<Rightarrow> obs_value list \<Rightarrow> bool" where
  "check_present control_point lower upper observations \<longleftrightarrow>
     list_ex (\<lambda>obs. in_control_point_id (ov_payload obs) = control_point \<and>
       (case lower of None \<Rightarrow> True | Some l \<Rightarrow> l \<le> ov_occurred_at obs) \<and> ov_occurred_at obs \<le> upper)
     observations"

definition missing_check :: "string \<Rightarrow> string \<Rightarrow> time \<Rightarrow> EvidenceValue" where
  "missing_check control_point operation t = \<lparr>ev_type = MISSING_CHECK, ev_role = LIMITATION,
     ev_source_event_id = None, ev_occurred_at = Some t,
     ev_details = JObj [(''control_point_id'', JStr control_point),
       (''before_operation_id'', JStr operation)]\<rparr>"

definition step_limitations ::
  "run_value list \<Rightarrow> obs_value list \<Rightarrow> RouteStep \<times> RouteStep \<Rightarrow> EvidenceValue list" where
  "step_limitations runs observations = (\<lambda>(st, next_step).
     if \<not> rs_required_inspection st \<or> \<not> has_id (rs_control_point_id st) then []
     else
       (case Option.bind (run_of (rs_operation_id next_step) runs) rv_started_at of
          None \<Rightarrow> []
        | Some started \<Rightarrow>
            (let control_point = the (rs_control_point_id st);
                 lower = Option.bind (run_of (rs_operation_id st) runs) rv_finished_at in
             if check_present control_point lower started observations then []
             else [missing_check control_point (rs_operation_id next_step) started])))"

definition route_steps :: "db \<Rightarrow> uuid \<Rightarrow> RouteStep list" where
  "route_steps d revision = sort_key rs_position (filter (\<lambda>s. rs_route_revision_id s = revision) (db_steps d))"

definition missing_check_limitations ::
  "db \<Rightarrow> Item option \<Rightarrow> run_value list \<Rightarrow> obs_value list \<Rightarrow> EvidenceValue list" where
  "missing_check_limitations d item runs observations =
     (case Option.bind item it_route_revision_id of
        None \<Rightarrow> []
      | Some revision \<Rightarrow>
          (let steps = route_steps d revision in
           concat (map (step_limitations runs observations) (zip steps (tl steps)))))"

section \<open>Appending an analysis\<close>

definition latest_analysis :: "db \<Rightarrow> uuid \<Rightarrow> AnalysisVersion option" where
  "latest_analysis d nc = max_last av_version (filter (\<lambda>a. av_nonconformance_id a = nc) (db_analyses d))"

definition analysis_changed :: "AnalysisVersion option \<Rightarrow> BirthWindowResult \<Rightarrow> bool" where
  "analysis_changed latest w =
     (case latest of
        None \<Rightarrow> True
      | Some a \<Rightarrow> av_status a \<noteq> bw_status w \<or> av_left_boundary_at a \<noteq> bw_left_boundary_at w \<or>
          av_right_boundary_at a \<noteq> bw_right_boundary_at w)"

definition next_version :: "AnalysisVersion option \<Rightarrow> int" where
  "next_version latest = (case latest of None \<Rightarrow> 1 | Some a \<Rightarrow> av_version a + 1)"

definition evidence_row :: "uuid \<Rightarrow> uuid \<Rightarrow> EvidenceValue \<Rightarrow> AnalysisEvidence" where
  "evidence_row i analysis v = \<lparr>ae_id = i, ae_analysis_version_id = analysis, ae_evidence_type = ev_type v,
     ae_evidence_role = ev_role v, ae_source_event_id = ev_source_event_id v,
     ae_source_entity_type = (if has_id (ev_source_event_id v) then Some ''raw_event'' else None),
     ae_source_entity_id = ev_source_event_id v, ae_occurred_at = ev_occurred_at v,
     ae_details = ev_details v\<rparr>"

definition add_evidence :: "env \<Rightarrow> uuid \<Rightarrow> EvidenceValue \<Rightarrow> db \<Rightarrow> db" where
  "add_evidence E analysis v d =
     drew_uuid (d\<lparr>db_evidence := db_evidence d @ [evidence_row (new_uuid E d) analysis v]\<rparr>)"

text \<open>\<open>AnalysisVersion(...)\<close>, its evidence rows, and the version number on the nonconformance.\<close>

definition analysis_row :: "uuid \<Rightarrow> Nonconformance \<Rightarrow> int \<Rightarrow> BirthWindowResult \<Rightarrow> string \<Rightarrow> AnalysisVersion" where
  "analysis_row i nc version w reason =
     \<lparr>av_id = i, av_nonconformance_id = nc_id nc, av_item_id = nc_item_id nc, av_version = version,
      av_status = bw_status w, av_defect_type = nc_defect_type nc,
      av_component_instance_id = nc_component_instance_id nc,
      av_left_boundary_at = bw_left_boundary_at w, av_right_boundary_at = bw_right_boundary_at w,
      av_reason = reason\<rparr>"

definition set_version :: "uuid \<Rightarrow> int \<Rightarrow> Nonconformance list \<Rightarrow> Nonconformance list" where
  "set_version nc version = update_by nc_id nc (\<lambda>n. n\<lparr>nc_current_analysis_version := version\<rparr>)"

definition add_analysis ::
  "env \<Rightarrow> Nonconformance \<Rightarrow> int \<Rightarrow> BirthWindowResult \<Rightarrow> string \<Rightarrow> db \<Rightarrow> db" where
  "add_analysis E nc version w reason d =
     (let analysis = new_uuid E d;
          d1 = drew_uuid (d\<lparr>db_analyses := db_analyses d @ [analysis_row analysis nc version w reason]\<rparr>);
          d2 = fold (add_evidence E analysis) (bw_evidence w) d1 in
      d2\<lparr>db_ncrs := set_version (nc_id nc) version (db_ncrs d2)\<rparr>)"

definition create_analysis ::
  "env \<Rightarrow> Nonconformance \<Rightarrow> defect_value \<Rightarrow> item_values \<Rightarrow> EvidenceValue list \<Rightarrow> db \<Rightarrow> db result" where
  "create_analysis E nc dv v limitations d =
     rbind (calculate_birth_window dv (iv_observations v) (iv_runs v) (iv_machines v) (iv_actions v)
              limitations) (\<lambda>w.
       let latest = latest_analysis d (nc_id nc) in
       if \<not> analysis_changed latest w then Inr d
       else Inr (add_analysis E nc (next_version latest) w
              (if latest = None then ''initial_detection'' else ''late_event_rebuild'') d))"

definition invalidated_window :: "obs_value \<Rightarrow> BirthWindowResult" where
  "invalidated_window obs = \<lparr>bw_status = EVIDENCE_INVALIDATED, bw_left_boundary_at = None,
     bw_right_boundary_at = None,
     bw_evidence = [\<lparr>ev_type = DEVICE_VALIDITY, ev_role = LIMITATION,
       ev_source_event_id = Some (ov_event_id obs), ev_occurred_at = Some (ov_occurred_at obs),
       ev_details = JObj [(''trust_status'', JStr ''INVALIDATED''),
         (''control_device_id'', js_opt JStr (in_control_device_id (ov_payload obs))),
         (''reasons'', js_strs (ov_trust_reasons obs))]\<rparr>]\<rparr>"

definition create_invalidated_analysis :: "env \<Rightarrow> Nonconformance \<Rightarrow> obs_value \<Rightarrow> db \<Rightarrow> db" where
  "create_invalidated_analysis E nc obs d =
     (let latest = latest_analysis d (nc_id nc) in
      if (case latest of None \<Rightarrow> False | Some a \<Rightarrow> av_status a = EVIDENCE_INVALIDATED) then d
      else add_analysis E nc (next_version latest) (invalidated_window obs)
             ''control_device_invalidation'' d)"

section \<open>Properties\<close>

lemma fold_add_evidence:
  "\<exists>es n. fold (add_evidence E a) vs d = d\<lparr>db_evidence := db_evidence d @ es, db_uuid_draws := n\<rparr> \<and>
     map ae_analysis_version_id es = replicate (length vs) a"
proof (induction vs arbitrary: d)
  case Nil
  show ?case by (rule exI [of _ "[]"], rule exI [of _ "db_uuid_draws d"]) simp
next
  case (Cons v vs)
  obtain es n where "fold (add_evidence E a) vs (add_evidence E a v d) =
      (add_evidence E a v d)\<lparr>db_evidence := db_evidence (add_evidence E a v d) @ es, db_uuid_draws := n\<rparr>"
    "map ae_analysis_version_id es = replicate (length vs) a"
    using Cons.IH by blast
  then have "fold (add_evidence E a) (v # vs) d =
      d\<lparr>db_evidence := db_evidence d @ evidence_row (new_uuid E d) a v # es, db_uuid_draws := n\<rparr> \<and>
     map ae_analysis_version_id (evidence_row (new_uuid E d) a v # es) = replicate (length (v # vs)) a"
    by (simp add: add_evidence_def [of E a v d] drew_uuid_def evidence_row_def [of _ a])
  then show ?case by blast
qed

text \<open>An added analysis changes three tables.\<close>

lemma add_analysis_effect:
  "\<exists>es n. add_analysis E nc version w reason d =
     d\<lparr>db_analyses := db_analyses d @ [analysis_row (new_uuid E d) nc version w reason],
       db_evidence := db_evidence d @ es, db_uuid_draws := n,
       db_ncrs := set_version (nc_id nc) version (db_ncrs d)\<rparr> \<and>
     map ae_analysis_version_id es = replicate (length (bw_evidence w)) (new_uuid E d)"
proof -
  let ?d1 = "drew_uuid (d\<lparr>db_analyses := db_analyses d @ [analysis_row (new_uuid E d) nc version w reason]\<rparr>)"
  obtain es n where "fold (add_evidence E (new_uuid E d)) (bw_evidence w) ?d1 =
      ?d1\<lparr>db_evidence := db_evidence ?d1 @ es, db_uuid_draws := n\<rparr>"
    "map ae_analysis_version_id es = replicate (length (bw_evidence w)) (new_uuid E d)"
    using fold_add_evidence by blast
  then show ?thesis
    by (intro exI [of _ es] exI [of _ n]) (simp add: add_analysis_def Let_def drew_uuid_def)
qed

text \<open>
  The versions of a nonconformance count up from 1, and the nonconformance names the newest (a new
  nonconformance, with no analysis yet, carries the column default 1).
\<close>

definition versions :: "db \<Rightarrow> uuid \<Rightarrow> int list" where
  "versions d nc = map av_version (filter (\<lambda>a. av_nonconformance_id a = nc) (db_analyses d))"

definition versions_ok :: "db \<Rightarrow> bool" where
  "versions_ok d \<longleftrightarrow> (\<forall>nc. versions d nc = [1..int (length (versions d nc))]) \<and>
     (\<forall>n \<in> set (db_ncrs d). nc_current_analysis_version n = max 1 (int (length (versions d (nc_id n)))))"

lemma max_last_map: "map_option f (max_last f xs) = (if xs = [] then None else Some (Max (f ` set xs)))"
proof (cases "xs = []")
  case False
  then obtain m where m: "max_last f xs = Some m"
    by (cases "max_last f xs") auto
  then have "f m = Max (f ` set xs)"
    using max_last_Some [OF m] by (intro Max_eqI [symmetric]) auto
  with m False show ?thesis by simp
qed simp

lemma versions_image:
  assumes "versions d nc = [1..int (length (versions d nc))]"
  shows "av_version ` set (filter (\<lambda>a. av_nonconformance_id a = nc) (db_analyses d)) =
    {1..int (length (filter (\<lambda>a. av_nonconformance_id a = nc) (db_analyses d)))}"
  using arg_cong [OF assms, of set] by (simp add: versions_def)

lemma next_version_counts:
  assumes "versions d nc = [1..int (length (versions d nc))]"
  shows "next_version (latest_analysis d nc) = int (length (versions d nc)) + 1"
proof -
  let ?as = "filter (\<lambda>a. av_nonconformance_id a = nc) (db_analyses d)"
  have img: "av_version ` set ?as = {1..int (length ?as)}"
    by (rule versions_image [OF assms])
  have "map_option av_version (latest_analysis d nc) =
      (if ?as = [] then None else Some (Max (av_version ` set ?as)))"
    unfolding latest_analysis_def by (rule max_last_map)
  moreover have "?as \<noteq> [] \<Longrightarrow> Max (av_version ` set ?as) = int (length ?as)"
    unfolding img by (rule Max_eqI) (auto simp: Suc_le_eq)
  ultimately show ?thesis
    by (cases "latest_analysis d nc") (auto simp: next_version_def versions_def split: if_splits)
qed

lemma add_analysis_tables:
  "db_analyses (add_analysis E nc version w reason d) =
     db_analyses d @ [analysis_row (new_uuid E d) nc version w reason]"
  "db_ncrs (add_analysis E nc version w reason d) = set_version (nc_id nc) version (db_ncrs d)"
  using add_analysis_effect [of E nc version w reason d] by auto

lemma add_analysis_versions:
  assumes ok: "versions_ok d"
  shows "versions_ok (add_analysis E nc (next_version (latest_analysis d (nc_id nc))) w reason d)"
proof -
  define n where "n = int (length (versions d (nc_id nc)))"
  have v: "next_version (latest_analysis d (nc_id nc)) = n + 1"
    using ok next_version_counts by (simp add: versions_ok_def n_def)
  define d2 where "d2 = add_analysis E nc (n + 1) w reason d"
  have ncrs: "db_ncrs d2 = set_version (nc_id nc) (n + 1) (db_ncrs d)"
    and vs: "\<And>j. versions d2 j = versions d j @ (if j = nc_id nc then [n + 1] else [])"
    by (simp_all add: d2_def versions_def add_analysis_tables analysis_row_def)
  have old: "versions d j = [1..int (length (versions d j))]" for j
    using ok by (simp add: versions_ok_def)
  have "versions d2 j = [1..int (length (versions d2 j))]" for j
  proof (cases "j = nc_id nc")
    case True
    then have "versions d2 j = [1..n] @ [n + 1]"
      using old [of j] by (simp add: vs n_def)
    moreover have "int (length (versions d2 j)) = n + 1"
      using True by (simp add: vs n_def)
    ultimately show ?thesis
      using upto_snoc [of n] by (simp add: n_def)
  qed (use old in \<open>simp add: vs\<close>)
  moreover have "nc_current_analysis_version m = max 1 (int (length (versions d2 (nc_id m))))"
    if "m \<in> set (db_ncrs d2)" for m
    using that ok by (auto simp: ncrs set_version_def set_update_by versions_ok_def vs n_def)
  ultimately show ?thesis
    by (simp add: versions_ok_def v d2_def)
qed

text \<open>Both ways of analysing a nonconformance either leave the state or add the next version.\<close>

lemma create_analysis_cases:
  assumes "create_analysis E nc dv v lims d = Inr d'"
  shows "d' = d \<or> (\<exists>w reason. d' = add_analysis E nc (next_version (latest_analysis d (nc_id nc))) w reason d)"
  using assms unfolding create_analysis_def Let_def rbind_Inr_iff by (auto split: if_splits)

lemma create_invalidated_analysis_cases:
  "create_invalidated_analysis E nc obs d = d \<or>
   (\<exists>w reason. create_invalidated_analysis E nc obs d =
      add_analysis E nc (next_version (latest_analysis d (nc_id nc))) w reason d)"
  unfolding create_invalidated_analysis_def Let_def by auto

text \<open>Repeating the analysis on the same history adds nothing.\<close>

lemma latest_after:
  assumes "versions_ok d"
  shows "latest_analysis (add_analysis E nc (next_version (latest_analysis d (nc_id nc))) w reason d) (nc_id nc) =
    Some (analysis_row (new_uuid E d) nc (next_version (latest_analysis d (nc_id nc))) w reason)"
proof -
  let ?as = "filter (\<lambda>a. av_nonconformance_id a = nc_id nc) (db_analyses d)"
  let ?v = "next_version (latest_analysis d (nc_id nc))"
  have ok: "versions d (nc_id nc) = [1..int (length (versions d (nc_id nc)))]"
    using assms by (simp add: versions_ok_def)
  have img: "av_version ` set ?as = {1..int (length ?as)}" and v: "?v = int (length ?as) + 1"
    using versions_image [OF ok] next_version_counts [OF ok] by (simp_all add: versions_def)
  have "max_last av_version (?as @ [analysis_row (new_uuid E d) nc ?v w reason]) =
      Some (analysis_row (new_uuid E d) nc ?v w reason)"
  proof (rule max_last_snoc, rule ballI)
    fix x assume "x \<in> set ?as"
    then have "av_version x \<in> {1..int (length ?as)}"
      unfolding img [symmetric] by (rule imageI)
    then show "av_version x \<le> av_version (analysis_row (new_uuid E d) nc ?v w reason)"
      by (simp add: analysis_row_def v)
  qed
  then show ?thesis
    by (simp add: latest_analysis_def add_analysis_tables analysis_row_def)
qed

lemma create_analysis_again:
  assumes "versions_ok d" and "create_analysis E nc dv v lims d = Inr d'"
  shows "create_analysis E nc dv v lims d' = Inr d'"
proof -
  from assms(2) obtain w where w: "calculate_birth_window dv (iv_observations v) (iv_runs v)
      (iv_machines v) (iv_actions v) lims = Inr w"
    by (auto simp: create_analysis_def rbind_Inr_iff)
  have "\<not> analysis_changed (latest_analysis d' (nc_id nc)) w"
  proof (cases "analysis_changed (latest_analysis d (nc_id nc)) w")
    case True
    then obtain reason where
      "d' = add_analysis E nc (next_version (latest_analysis d (nc_id nc))) w reason d"
      using assms(2) w by (auto simp: create_analysis_def Let_def)
    then show ?thesis
      using latest_after [OF assms(1)] by (simp add: analysis_changed_def analysis_row_def)
  next
    case False
    then show ?thesis
      using assms(2) w by (simp add: create_analysis_def Let_def)
  qed
  then show ?thesis
    by (simp add: create_analysis_def w Let_def)
qed

end
