(* ===== verification/TQ_Rebuild.thy ===== *)
theory TQ_Rebuild
  imports TQ_Analysis
begin

text \<open>
  \<open>rebuild_item\<close>, \<open>mark_projection_failed\<close> and \<open>recover_stale_projections\<close>
  (\<^verbatim>\<open>backend/app/projections/rebuild.py\<close>): the rows an item has in the read model are deleted and
  written again from its log, the defects found open or continue occurrences and nonconformances,
  and the projection state records how far the log was read. One transaction: on an exception
  nothing is committed. The advisory lock serialises rebuilds of one item and has no other effect.
\<close>

section \<open>Rows of the read model\<close>

definition clear_item :: "string \<Rightarrow> db \<Rightarrow> db" where
  "clear_item i d = d\<lparr>
     db_defect_observations := filter (\<lambda>r. dobs_item_id r \<noteq> i) (db_defect_observations d),
     db_observations := filter (\<lambda>r. ob_item_id r \<noteq> i) (db_observations d),
     db_runs := filter (\<lambda>r. or_item_id r \<noteq> i) (db_runs d),
     db_machine_events := filter (\<lambda>r. me_item_id r \<noteq> Some i) (db_machine_events d),
     db_operator_actions := filter (\<lambda>r. act_item_id r \<noteq> Some i) (db_operator_actions d)\<rparr>"

definition route_for :: "ItemRegisteredPayload \<Rightarrow> db \<Rightarrow> uuid option" where
  "route_for p d =
     (let code = (case ir_route_id p of Some c \<Rightarrow> if c \<noteq> [] then c else ''ROUTE-DEFAULT''
                  | None \<Rightarrow> ''ROUTE-DEFAULT'') in
      case find_by rd_code code (db_routes d) of
        None \<Rightarrow> None
      | Some route \<Rightarrow>
          (case ir_route_revision p of
             Some n \<Rightarrow>
               if n \<noteq> 0 then
                 map_option rr_id (List.find (\<lambda>r. rr_route_id r = rd_id route \<and> rr_revision r = n)
                   (db_revisions d))
               else rd_active_revision_id route
           | None \<Rightarrow> rd_active_revision_id route))"

definition structure_available :: "ItemRegisteredPayload \<Rightarrow> db \<Rightarrow> bool" where
  "structure_available p d \<longleftrightarrow> list_ex (\<lambda>s. sn_assembly_id s = ir_product_definition_id p \<and>
     sn_revision s = ir_revision p) (db_snapshots d)"

definition project_item ::
  "time \<Rightarrow> string \<Rightarrow> (ItemRegisteredPayload \<times> time) option \<Rightarrow> db \<Rightarrow> Item option \<times> db" where
  "project_item now i item_value d =
     (let item = find_by it_item_id i (db_items d) in
      case item_value of
        None \<Rightarrow> (item, d)
      | Some (p, registered_at) \<Rightarrow>
          (case item of
             None \<Rightarrow>
               (let row = \<lparr>it_item_id = i, it_product_definition_id = ir_product_definition_id p,
                      it_revision = ir_revision p, it_line_id = ir_line_id p,
                      it_route_revision_id = route_for p d, it_status = IN_PROCESS,
                      it_structure_status =
                        (if structure_available p d then ''available'' else ''degraded''),
                      it_registered_at = registered_at, it_updated_at = now\<rparr> in
                (Some row, d\<lparr>db_items := db_items d @ [row]\<rparr>))
           | Some row \<Rightarrow>
               (let upd = (\<lambda>r. r\<lparr>it_product_definition_id := ir_product_definition_id p,
                      it_revision := ir_revision p, it_line_id := ir_line_id p,
                      it_updated_at := now\<rparr>) in
                (Some (upd row), d\<lparr>db_items := update_by it_item_id i upd (db_items d)\<rparr>))))"

definition run_row :: "env \<Rightarrow> string \<Rightarrow> run_value \<Rightarrow> OperationRun result" where
  "run_row E i v =
     rbind (case rv_rework_for_nonconformance_id v of
              Some s \<Rightarrow>
                if s = [] then Inr None
                else (case parse_uuid E s of
                        None \<Rightarrow> Inl (PyError ''ValueError'')
                      | Some u \<Rightarrow> Inr (Some u))
            | None \<Rightarrow> Inr None) (\<lambda>rework.
     case rv_operation_run_id v of
       None \<Rightarrow> Inl (PyError ''IntegrityError'')
     | Some run_id \<Rightarrow> Inr
         \<lparr>or_operation_run_id = run_id, or_item_id = i, or_operation_id = rv_operation_id v,
          or_operator_id = rv_operator_id v, or_equipment_id = rv_equipment_id v,
          or_station_id = rv_station_id v, or_started_at = rv_started_at v,
          or_finished_at = rv_finished_at v, or_completion_status = rv_completion_status v,
          or_duration_value = map_option duration_value (rv_duration v),
          or_duration_unit = map_option duration_unit (rv_duration v),
          or_duration_meaning = map_option duration_meaning (rv_duration v),
          or_previous_operation_run_id = rv_previous_operation_run_id v,
          or_run_reason = (case rv_run_reason v of None \<Rightarrow> Production | Some x \<Rightarrow> x),
          or_rework_for_nonconformance_id = rework,
          or_parameters = (case rv_parameters v of
              Some (kv # kvs) \<Rightarrow> Some (kv # kvs)
            | _ \<Rightarrow> rv_finish_parameters v)\<rparr>)"

definition observation_id :: "env \<Rightarrow> obs_value \<Rightarrow> uuid" where
  "observation_id E v = uuid5 E (ov_event_id v)"

definition observation_row :: "env \<Rightarrow> string \<Rightarrow> obs_value \<Rightarrow> Observation" where
  "observation_row E i v = (let p = ov_payload v in
     \<lparr>ob_id = observation_id E v, ob_event_id = ov_event_id v, ob_item_id = i,
      ob_operation_run_id = ov_operation_run_id v, ob_occurred_at = ov_occurred_at v,
      ob_inspection_result = in_inspection_result p,
      ob_observation_quality = in_observation_quality p,
      ob_control_point_id = in_control_point_id p, ob_confidence = in_confidence p,
      ob_inspection_scope = in_inspection_scope p,
      ob_component_instance_id = in_component_instance_id p,
      ob_control_device_id = in_control_device_id p,
      ob_capture_session_id = in_capture_session_id p, ob_evidence_refs = in_evidence_refs p,
      ob_trust_status = ov_trust_status v, ob_trust_reasons = ov_trust_reasons v\<rparr>)"

definition defect_component :: "obs_value \<Rightarrow> Defect \<Rightarrow> string option" where
  "defect_component v x = py_or (defect_component_instance_id x) (in_component_instance_id (ov_payload v))"

definition defects_of :: "obs_value list \<Rightarrow> (obs_value \<times> Defect) list" where
  "defects_of vs = concat (map (\<lambda>v. map (Pair v) (in_defects (ov_payload v))) vs)"

definition add_defect_row :: "env \<Rightarrow> string \<Rightarrow> obs_value \<times> Defect \<Rightarrow> db \<Rightarrow> db" where
  "add_defect_row E i vx d = (let (v, x) = vx in
     drew_uuid (d\<lparr>db_defect_observations := db_defect_observations d @
       [\<lparr>dobs_id = new_uuid E d, dobs_observation_id = observation_id E v, dobs_item_id = i,
         dobs_defect_type = defect_type x, dobs_component_instance_id = defect_component v x,
         dobs_description = defect_description x, dobs_severity = defect_severity x\<rparr>]\<rparr>))"

definition machine_row :: "string \<Rightarrow> machine_value \<Rightarrow> MachineEvent" where
  "machine_row i v = \<lparr>me_event_id = mv_event_id v, me_item_id = Some i,
     me_operation_run_id = mv_operation_run_id v, me_equipment_id = ms_equipment_id (mv_payload v),
     me_state = ms_state (mv_payload v), me_code = ms_code (mv_payload v),
     me_occurred_at = mv_occurred_at v, me_parameters = ms_parameters (mv_payload v)\<rparr>"

definition action_row :: "string \<Rightarrow> action_value \<Rightarrow> OperatorAction" where
  "action_row i v = \<lparr>act_event_id = wv_event_id v, act_item_id = Some i,
     act_operation_run_id = wv_operation_run_id v, act_operator_id = oa_operator_id (wv_payload v),
     act_action_type = oa_action_type (wv_payload v), act_occurred_at = wv_occurred_at v,
     act_parameters = oa_parameters (wv_payload v)\<rparr>"

text \<open>
  The flush that writes the rows: a run identifier another item already uses violates the primary
  key (the other keys are event identifiers, which the log has once).
\<close>

definition store_rows ::
  "env \<Rightarrow> time \<Rightarrow> string \<Rightarrow> item_values \<Rightarrow> db \<Rightarrow> (Item option \<times> db) result" where
  "store_rows E now i v d =
     (let (item, d1) = project_item now i (iv_item v) (clear_item i d) in
      rbind (map_r (run_row E i) (iv_runs v)) (\<lambda>runs.
      if list_ex (\<lambda>r. or_operation_run_id r \<in> or_operation_run_id ` set (db_runs d1)) runs
      then Inl (PyError ''IntegrityError'')
      else Inr (item, fold (add_defect_row E i) (defects_of (iv_observations v))
        (d1\<lparr>db_runs := db_runs d1 @ runs,
            db_observations := db_observations d1 @ map (observation_row E i) (iv_observations v),
            db_machine_events := db_machine_events d1 @ map (machine_row i) (iv_machines v),
            db_operator_actions := db_operator_actions d1 @ map (action_row i) (iv_actions v)\<rparr>))))"

section \<open>Occurrences and nonconformances\<close>

definition open_occurrence :: "string \<Rightarrow> string \<Rightarrow> string option \<Rightarrow> db \<Rightarrow> DefectOccurrence option" where
  "open_occurrence i dtype component d = List.find (\<lambda>o'. oc_item_id o' = i \<and> oc_defect_type o' = dtype \<and>
     oc_component_instance_id o' = component \<and> oc_status o' = Occurrence_open) (db_occurrences d)"

text \<open>The occurrence a defect belongs to (its id), opened or continued.\<close>

definition link_occurrence ::
  "env \<Rightarrow> string \<Rightarrow> obs_value \<Rightarrow> string \<Rightarrow> string option \<Rightarrow> db \<Rightarrow> uuid \<times> db" where
  "link_occurrence E i v dtype component d =
     (case open_occurrence i dtype component d of
        None \<Rightarrow>
          (new_uuid E d, drew_uuid (d\<lparr>db_occurrences := db_occurrences d @
             [\<lparr>oc_id = new_uuid E d, oc_item_id = i, oc_defect_type = dtype,
               oc_component_instance_id = component, oc_first_observation_id = observation_id E v,
               oc_current_observation_id = observation_id E v, oc_status = Occurrence_open,
               oc_opened_at = ov_occurred_at v, oc_closed_at = None\<rparr>]\<rparr>))
      | Some oc \<Rightarrow>
          (oc_id oc, d\<lparr>db_occurrences := update_by oc_id (oc_id oc)
             (\<lambda>r. r\<lparr>oc_current_observation_id := observation_id E v\<rparr>) (db_occurrences d)\<rparr>))"

definition link_ncr ::
  "env \<Rightarrow> string \<Rightarrow> obs_value \<Rightarrow> string \<Rightarrow> string option \<Rightarrow> uuid \<Rightarrow> db \<Rightarrow> Nonconformance \<times> db" where
  "link_ncr E i v dtype component occurrence d =
     (case find_by nc_occurrence_id occurrence (db_ncrs d) of
        Some nc \<Rightarrow> (nc, d)
      | None \<Rightarrow>
          (let nc = \<lparr>nc_id = new_uuid E d, nc_occurrence_id = occurrence, nc_item_id = i,
                 nc_defect_type = dtype, nc_component_instance_id = component,
                 nc_verdict = (if ov_trust_status v = TRUSTED then Pending_review else Needs_extra_check),
                 nc_cause_status = ''not_established'', nc_disposition = IN_PROCESS,
                 nc_containment = REVIEW_REQUIRED, nc_opened_at = ov_occurred_at v, nc_closed_at = None,
                 nc_current_analysis_version = 1, nc_resolution_type = None, nc_resolved_at = None,
                 nc_verification_decision_id = None, nc_verification_status = None\<rparr> in
           (nc, drew_uuid (d\<lparr>db_ncrs := db_ncrs d @ [nc]\<rparr>))))"

definition the_defect :: "obs_value \<Rightarrow> string \<Rightarrow> string option \<Rightarrow> defect_value" where
  "the_defect v dtype component = \<lparr>dv_event_id = ov_event_id v, dv_occurred_at = ov_occurred_at v,
     dv_defect_type = dtype, dv_component_instance_id = component\<rparr>"

text \<open>One round of the inner loop.\<close>

definition register_defect ::
  "env \<Rightarrow> string \<Rightarrow> item_values \<Rightarrow> EvidenceValue list \<Rightarrow> obs_value \<times> Defect \<Rightarrow> db \<Rightarrow> db result" where
  "register_defect E i v limitations ox d =
     (let (obs, x) = ox;
          component = defect_component obs x;
          (occurrence, d1) = link_occurrence E i obs (defect_type x) component d;
          (nc, d2) = link_ncr E i obs (defect_type x) component occurrence d1 in
      if ov_trust_status obs = TRUSTED then
        create_analysis E nc (the_defect obs (defect_type x) component) v limitations d2
      else if ov_trust_status obs = INVALIDATED \<and> nc_current_analysis_version nc \<noteq> 0 then
        Inr (create_invalidated_analysis E nc obs d2)
      else Inr d2)"

definition detected :: "obs_value list \<Rightarrow> (obs_value \<times> Defect) list" where
  "detected vs = defects_of (filter (\<lambda>v. in_inspection_result (ov_payload v) = Defect_detected) vs)"

section \<open>The projection state\<close>

definition fresh_projection :: "string \<Rightarrow> ProjectionState" where
  "fresh_projection i = \<lparr>ps_item_id = i, ps_latest_raw_ingest_seq = 0, ps_last_projected_ingest_seq = 0,
     ps_projection_version = 0, ps_status = Stale, ps_last_successful_rebuild_at = None,
     ps_last_error = None\<rparr>"

text \<open>\<open>db.get(ProjectionState, item_id)\<close>, a new row if there is none, and assignments to it.\<close>

definition touch_projection :: "string \<Rightarrow> (ProjectionState \<Rightarrow> ProjectionState) \<Rightarrow> db \<Rightarrow> db" where
  "touch_projection i f d =
     d\<lparr>db_projections :=
        (if find_by ps_item_id i (db_projections d) = None
         then db_projections d @ [f (fresh_projection i)]
         else update_by ps_item_id i f (db_projections d))\<rparr>"

definition projected :: "time \<Rightarrow> RawEvent list \<Rightarrow> ProjectionState \<Rightarrow> ProjectionState" where
  "projected now raws ps =
     (let latest = Max (re_ingest_seq ` set raws) in
      ps\<lparr>ps_latest_raw_ingest_seq := latest, ps_last_projected_ingest_seq := latest,
         ps_projection_version := ps_projection_version ps + 1, ps_status := Up_to_date,
         ps_last_successful_rebuild_at := Some now, ps_last_error := None\<rparr>)"

definition rebuild_from :: "env \<Rightarrow> Settings \<Rightarrow> time \<Rightarrow> string \<Rightarrow> RawEvent list \<Rightarrow> db \<Rightarrow> db result" where
  "rebuild_from E S now i raws d =
     rbind (replay E S d raws) (\<lambda>v.
     rbind (store_rows E now i v d) (\<lambda>(item, d1).
       let limitations = missing_check_limitations d1 item (iv_runs v) (iv_observations v) in
       rbind (fold_r (register_defect E i v limitations) (detected (iv_observations v)) d1) (\<lambda>d2.
       Inr (touch_projection i (projected now raws) d2))))"

definition rebuild_item :: "env \<Rightarrow> Settings \<Rightarrow> time \<Rightarrow> string \<Rightarrow> db \<Rightarrow> unit result \<times> db" where
  "rebuild_item E S now i d =
     (let raws = item_raws i (db_raw_events d) in
      if raws = [] then (Inr (), touch_projection i (\<lambda>ps. ps\<lparr>ps_status := Up_to_date\<rparr>) d)
      else
        (case rebuild_from E S now i raws d of
           Inl e \<Rightarrow> (Inl e, d)
         | Inr d' \<Rightarrow> (Inr (), d')))"

definition mark_projection_failed :: "string \<Rightarrow> string \<Rightarrow> db \<Rightarrow> db" where
  "mark_projection_failed i safe_error d =
     touch_projection i (\<lambda>ps. ps\<lparr>ps_status := Projection_failed,
       ps_last_error := Some (py_take 2000 safe_error)\<rparr>) d"

fun exn_name :: "exn \<Rightarrow> string" where
  "exn_name (TraceQError c m s) = ''TraceQError''"
| "exn_name (PyError n) = n"

definition describe :: "env \<Rightarrow> exn \<Rightarrow> string" where
  "describe E e = exn_name e @ '': '' @ exn_str E e"

definition needs_recovery :: "ProjectionState \<Rightarrow> bool" where
  "needs_recovery ps \<longleftrightarrow> ps_last_projected_ingest_seq ps < ps_latest_raw_ingest_seq ps \<or>
     ps_status ps \<in> {Stale, Projection_failed, Rebuilding}"

definition recover_one :: "env \<Rightarrow> Settings \<Rightarrow> time \<Rightarrow> string \<Rightarrow> string list \<times> db \<Rightarrow> string list \<times> db" where
  "recover_one E S now i acc =
     (let (recovered, d) = acc in
      case rebuild_item E S now i d of
        (Inr _, d') \<Rightarrow> (recovered @ [i], d')
      | (Inl e, d') \<Rightarrow> (recovered, mark_projection_failed i (describe E e) d'))"

definition recover_stale_projections :: "env \<Rightarrow> Settings \<Rightarrow> time \<Rightarrow> db \<Rightarrow> string list \<times> db" where
  "recover_stale_projections E S now d =
     fold (recover_one E S now) (map ps_item_id (filter needs_recovery (db_projections d))) ([], d)"

section \<open>Independence of the order of arrival\<close>

text \<open>
  Apart from the rows it is given, a rebuild does not look at the raw log: every step commutes with
  exchanging the log.
\<close>

abbreviation with_log :: "RawEvent list \<Rightarrow> db \<Rightarrow> db" where
  "with_log raws d \<equiv> d\<lparr>db_raw_events := raws\<rparr>"

lemma observe_log: "project_event (with_log raws d) = project_event d"
proof (rule ext, rule ext)
  fix rp v
  show "project_event (with_log raws d) rp v = project_event d rp v"
    by (cases "(d, rp, v)" rule: project_event.cases)
      (simp_all add: observe_def trust_policy_def device_invalidated_def)
qed

lemma replay_log: "replay E S (with_log raws d) rs = replay E S d rs"
  by (simp add: replay_def observe_log)

lemma project_item_log:
  "project_item now i x (with_log raws d) = map_prod id (with_log raws) (project_item now i x d)"
  by (simp add: project_item_def Let_def route_for_def structure_available_def split: option.split)

lemma fold_log:
  assumes "\<And>x d. f x (with_log raws d) = with_log raws (f x d)"
  shows "fold f xs (with_log raws d) = with_log raws (fold f xs d)"
  by (induction xs arbitrary: d) (simp_all add: assms)

lemma add_defect_row_log: "add_defect_row E i vx (with_log raws d) = with_log raws (add_defect_row E i vx d)"
  by (simp add: add_defect_row_def drew_uuid_def new_uuid_def split: prod.split)

lemma store_rows_log:
  "store_rows E now i v (with_log raws d) = map_sum id (map_prod id (with_log raws)) (store_rows E now i v d)"
proof -
  obtain item d1 where p: "project_item now i (iv_item v) (clear_item i d) = (item, d1)"
    by fastforce
  have c: "clear_item i (with_log raws d) = with_log raws (clear_item i d)"
    by (simp add: clear_item_def)
  have rows: "fold (add_defect_row E i) xs ((with_log raws d1)\<lparr>db_runs := rs, db_observations := os,
      db_machine_events := ms, db_operator_actions := ws\<rparr>) = with_log raws (fold (add_defect_row E i) xs
      (d1\<lparr>db_runs := rs, db_observations := os, db_machine_events := ms, db_operator_actions := ws\<rparr>))"
    for xs rs os ms ws
  proof -
    have "(with_log raws d1)\<lparr>db_runs := rs, db_observations := os, db_machine_events := ms,
        db_operator_actions := ws\<rparr> = with_log raws (d1\<lparr>db_runs := rs, db_observations := os,
        db_machine_events := ms, db_operator_actions := ws\<rparr>)"
      by simp
    then show ?thesis
      by (simp only: fold_log [where f = "add_defect_row E i", OF add_defect_row_log])
  qed
  show ?thesis
    unfolding store_rows_def c project_item_log p
    by (cases "map_r (run_row E i) (iv_runs v)") (simp_all add: rows)
qed

lemma add_evidence_log: "add_evidence E a v (with_log raws d) = with_log raws (add_evidence E a v d)"
  by (simp add: add_evidence_def drew_uuid_def new_uuid_def)

lemma add_analysis_log:
  "add_analysis E nc n w reason (with_log raws d) = with_log raws (add_analysis E nc n w reason d)"
proof -
  have "drew_uuid ((with_log raws d)\<lparr>db_analyses := as\<rparr>) = with_log raws (drew_uuid (d\<lparr>db_analyses := as\<rparr>))" for as
    by (simp add: drew_uuid_def)
  then show ?thesis
    by (simp add: add_analysis_def Let_def new_uuid_def
        fold_log [where f = "add_evidence E _", OF add_evidence_log])
qed

lemma create_analysis_log:
  "create_analysis E nc dv v lims (with_log raws d) =
     map_sum id (with_log raws) (create_analysis E nc dv v lims d)"
  by (cases "calculate_birth_window dv (iv_observations v) (iv_runs v) (iv_machines v) (iv_actions v) lims")
    (simp_all add: create_analysis_def Let_def latest_analysis_def add_analysis_log)

lemma create_invalidated_analysis_log:
  "create_invalidated_analysis E nc obs (with_log raws d) =
     with_log raws (create_invalidated_analysis E nc obs d)"
  by (simp add: create_invalidated_analysis_def Let_def latest_analysis_def add_analysis_log)

lemma register_defect_log:
  "register_defect E i v lims ox (with_log raws d) =
     map_sum id (with_log raws) (register_defect E i v lims ox d)"
proof -
  obtain obs x where ox: "ox = (obs, x)" by fastforce
  let ?c = "defect_component obs x"
  have lo: "link_occurrence E i obs (defect_type x) ?c (with_log raws d) =
      map_prod id (with_log raws) (link_occurrence E i obs (defect_type x) ?c d)"
    by (simp add: link_occurrence_def open_occurrence_def new_uuid_def drew_uuid_def split: option.split)
  obtain oc d1 where o1: "link_occurrence E i obs (defect_type x) ?c d = (oc, d1)" by fastforce
  have ln: "link_ncr E i obs (defect_type x) ?c oc (with_log raws d1) =
      map_prod id (with_log raws) (link_ncr E i obs (defect_type x) ?c oc d1)"
    by (simp add: link_ncr_def Let_def new_uuid_def drew_uuid_def split: option.split)
  obtain nc d2 where o2: "link_ncr E i obs (defect_type x) ?c oc d1 = (nc, d2)" by fastforce
  show ?thesis
    by (simp add: register_defect_def ox lo o1 ln o2 create_analysis_log create_invalidated_analysis_log)
qed

lemma fold_r_log:
  assumes "\<And>x d. f x (with_log raws d) = map_sum id (with_log raws) (f x d)"
  shows "fold_r f xs (with_log raws d) = map_sum id (with_log raws) (fold_r f xs d)"
proof (induction xs arbitrary: d)
  case (Cons x xs)
  then show ?case by (cases "f x d") (simp_all add: assms)
qed simp

lemma rebuild_from_log:
  "rebuild_from E S now i rs (with_log raws d) = map_sum id (with_log raws) (rebuild_from E S now i rs d)"
proof (cases "replay E S d rs")
  case (Inr v)
  show ?thesis
  proof (cases "store_rows E now i v d")
    case st: (Inr p)
    obtain item d1 where p: "p = (item, d1)" by fastforce
    have m: "missing_check_limitations (with_log raws d1) item (iv_runs v) (iv_observations v) =
        missing_check_limitations d1 item (iv_runs v) (iv_observations v)"
      by (simp add: missing_check_limitations_def route_steps_def split: option.split)
    show ?thesis
      by (cases "fold_r (register_defect E i v (missing_check_limitations d1 item (iv_runs v)
             (iv_observations v))) (detected (iv_observations v)) d1")
        (simp_all add: rebuild_from_def replay_log Inr st p store_rows_log m fold_r_log register_defect_log
          touch_projection_def)
  qed (simp add: rebuild_from_def replay_log Inr store_rows_log)
qed (simp add: rebuild_from_def replay_log)

lemma rebuild_item_perm:
  assumes "mset raws = mset (db_raw_events d)" and "distinct (map re_event_id (db_raw_events d))"
  shows "rebuild_item E S now i (with_log raws d) = map_prod id (with_log raws) (rebuild_item E S now i d)"
proof -
  have "item_raws i raws = item_raws i (db_raw_events d)"
    using item_raws_perm [OF assms(1) [symmetric] assms(2)] by simp
  then show ?thesis
    by (cases "rebuild_from E S now i (item_raws i (db_raw_events d)) d")
      (simp_all add: rebuild_item_def Let_def rebuild_from_log touch_projection_def)
qed

end
