(* ===== verification/TQ_Rebuild_Effects.thy ===== *)
theory TQ_Rebuild_Effects
  imports TQ_Rebuild
begin

text \<open>
  What a rebuild of an item leaves behind: the tables of the item are the replay of its log, every
  detected defect has an open occurrence with a nonconformance, analyses and evidence are only
  added and their versions stay consecutive, and nothing of another item or outside the
  projections changes. Recovery settles every stale projection.
\<close>

section \<open>What registering defects changes\<close>

text \<open>
  The steps of the defect loop only add occurrences, nonconformances, analyses and evidence; of the
  rows that exist they write the current observation and the current version number.
\<close>

definition nc_core :: "Nonconformance \<Rightarrow> Nonconformance" where
  "nc_core n = n\<lparr>nc_current_analysis_version := 0\<rparr>"

definition oc_core :: "DefectOccurrence \<Rightarrow> DefectOccurrence" where
  "oc_core o' = o'\<lparr>oc_current_observation_id := []\<rparr>"

definition quality_frame :: "db \<Rightarrow> db" where
  "quality_frame d = d\<lparr>db_occurrences := [], db_ncrs := [], db_analyses := [], db_evidence := [],
     db_uuid_draws := 0\<rparr>"

definition grows :: "db \<Rightarrow> db \<Rightarrow> bool" where
  "grows d d' \<longleftrightarrow> quality_frame d' = quality_frame d \<and>
     prefix (db_analyses d) (db_analyses d') \<and> prefix (db_evidence d) (db_evidence d') \<and>
     prefix (map nc_core (db_ncrs d)) (map nc_core (db_ncrs d')) \<and>
     prefix (map oc_core (db_occurrences d)) (map oc_core (db_occurrences d')) \<and>
     db_uuid_draws d \<le> db_uuid_draws d'"

lemma grows_refl [simp]: "grows d d"
  by (simp add: grows_def)

lemma grows_trans: "grows a b \<Longrightarrow> grows b c \<Longrightarrow> grows a c"
  by (auto simp: grows_def intro: prefix_order.trans)

lemma quality_frame_eq:
  "quality_frame d' = quality_frame d \<Longrightarrow>
     d' = d\<lparr>db_occurrences := db_occurrences d', db_ncrs := db_ncrs d', db_analyses := db_analyses d',
       db_evidence := db_evidence d', db_uuid_draws := db_uuid_draws d'\<rparr>"
  by (cases d; cases d') (simp add: quality_frame_def)

lemma nc_core_simps [simp]:
  "nc_id (nc_core n) = nc_id n" "nc_item_id (nc_core n) = nc_item_id n"
  "nc_occurrence_id (nc_core n) = nc_occurrence_id n" "nc_verdict (nc_core n) = nc_verdict n"
  "nc_core (n\<lparr>nc_current_analysis_version := v\<rparr>) = nc_core n"
  by (simp_all add: nc_core_def)

lemma oc_core_simps [simp]:
  "oc_id (oc_core x) = oc_id x" "oc_item_id (oc_core x) = oc_item_id x"
  "oc_defect_type (oc_core x) = oc_defect_type x" "oc_status (oc_core x) = oc_status x"
  "oc_component_instance_id (oc_core x) = oc_component_instance_id x"
  "oc_core (x\<lparr>oc_current_observation_id := u\<rparr>) = oc_core x"
  by (simp_all add: oc_core_def)

lemma draws_mono_evidence: "db_uuid_draws d \<le> db_uuid_draws (fold (add_evidence E a) vs d)"
proof (induction vs arbitrary: d)
  case (Cons v vs)
  have "db_uuid_draws d \<le> db_uuid_draws (add_evidence E a v d)"
    by (simp add: add_evidence_def drew_uuid_def)
  then show ?case
    using Cons.IH [of "add_evidence E a v d"] by simp
qed simp

lemma add_analysis_draws: "db_uuid_draws d < db_uuid_draws (add_analysis E nc n w reason d)"
  using draws_mono_evidence [of "drew_uuid (d\<lparr>db_analyses := db_analyses d @ [analysis_row (new_uuid E d) nc n w reason]\<rparr>)"
      E "new_uuid E d" "bw_evidence w"]
  by (simp add: add_analysis_def Let_def drew_uuid_def)

lemma add_analysis_grows: "grows d (add_analysis E nc n w reason d)"
proof -
  obtain es k where a: "add_analysis E nc n w reason d =
     d\<lparr>db_analyses := db_analyses d @ [analysis_row (new_uuid E d) nc n w reason],
       db_evidence := db_evidence d @ es, db_uuid_draws := k,
       db_ncrs := set_version (nc_id nc) n (db_ncrs d)\<rparr>"
    using add_analysis_effect by blast
  have "map nc_core (set_version (nc_id nc) n (db_ncrs d)) = map nc_core (db_ncrs d)"
    unfolding set_version_def by (rule map_update_by) simp
  moreover have "db_uuid_draws d \<le> k"
    using add_analysis_draws [of d E nc n w reason] by (simp add: a)
  ultimately show ?thesis
    by (simp add: a grows_def quality_frame_def)
qed

lemma create_analysis_grows: "create_analysis E nc dv v lims d = Inr d' \<Longrightarrow> grows d d'"
  by (auto dest!: create_analysis_cases intro: add_analysis_grows)

lemma create_invalidated_analysis_grows: "grows d (create_invalidated_analysis E nc obs d)"
  using create_invalidated_analysis_cases [of E nc obs d] add_analysis_grows by fastforce

text \<open>The occurrence a defect is linked to is open, and it is of that defect.\<close>

definition occurrence_of :: "string \<Rightarrow> string \<Rightarrow> string option \<Rightarrow> uuid \<Rightarrow> db \<Rightarrow> bool" where
  "occurrence_of i dtype component u d \<longleftrightarrow> (\<exists>x \<in> set (db_occurrences d). oc_id x = u \<and>
     oc_item_id x = i \<and> oc_defect_type x = dtype \<and> oc_component_instance_id x = component \<and>
     oc_status x = Occurrence_open)"

definition has_ncr :: "uuid \<Rightarrow> db \<Rightarrow> bool" where
  "has_ncr u d \<longleftrightarrow> (\<exists>n \<in> set (db_ncrs d). nc_occurrence_id n = u)"

lemma grows_occurrence_of: "grows d d' \<Longrightarrow> occurrence_of i t c u d \<Longrightarrow> occurrence_of i t c u d'"
proof -
  assume g: "grows d d'" and "occurrence_of i t c u d"
  then obtain x where x: "x \<in> set (db_occurrences d)" "oc_id x = u" "oc_item_id x = i"
    "oc_defect_type x = t" "oc_component_instance_id x = c" "oc_status x = Occurrence_open"
    by (auto simp: occurrence_of_def)
  then obtain y where "y \<in> set (db_occurrences d')" "oc_core y = oc_core x"
    using g prefix_map_mem unfolding grows_def by metis
  with x show ?thesis
    unfolding occurrence_of_def by (metis oc_core_simps(1-5))
qed

lemma grows_has_ncr: "grows d d' \<Longrightarrow> has_ncr u d \<Longrightarrow> has_ncr u d'"
proof -
  assume g: "grows d d'" and "has_ncr u d"
  then obtain n where n: "n \<in> set (db_ncrs d)" "nc_occurrence_id n = u"
    by (auto simp: has_ncr_def)
  then obtain m where "m \<in> set (db_ncrs d')" "nc_core m = nc_core n"
    using g prefix_map_mem unfolding grows_def by metis
  with n show ?thesis
    unfolding has_ncr_def by (metis nc_core_simps(3))
qed

lemma link_occurrence_effect:
  assumes "link_occurrence E i obs t c d = (u, d')"
  shows "grows d d'" and "occurrence_of i t c u d'"
proof -
  have upd: "map oc_core (update_by oc_id k (\<lambda>r. r\<lparr>oc_current_observation_id := w\<rparr>) rows) = map oc_core rows"
    for k w rows by (rule map_update_by) simp
  show "grows d d'"
    using assms by (auto simp: link_occurrence_def grows_def quality_frame_def drew_uuid_def upd
        split: option.splits)
  show "occurrence_of i t c u d'"
  proof (cases "open_occurrence i t c d")
    case None
    then show ?thesis
      using assms by (auto simp: link_occurrence_def occurrence_of_def drew_uuid_def)
  next
    case (Some x)
    then have x: "x \<in> set (db_occurrences d)" "oc_item_id x = i" "oc_defect_type x = t"
      "oc_component_instance_id x = c" "oc_status x = Occurrence_open"
      by (auto simp: open_occurrence_def find_Some_iff)
    then have "x\<lparr>oc_current_observation_id := observation_id E obs\<rparr> \<in> set (db_occurrences d')"
      using assms Some by (auto simp: link_occurrence_def set_update_by)
    moreover have "u = oc_id x"
      using assms Some by (simp add: link_occurrence_def)
    ultimately show ?thesis
      unfolding occurrence_of_def using x
      by (intro bexI [of _ "x\<lparr>oc_current_observation_id := observation_id E obs\<rparr>"]) simp_all
  qed
qed

lemma link_ncr_effect:
  assumes "link_ncr E i obs t c u d = (nc, d')"
  shows "grows d d'" and "nc \<in> set (db_ncrs d')" and "nc_occurrence_id nc = u"
  using assms by (auto simp: link_ncr_def Let_def grows_def quality_frame_def drew_uuid_def
      split: option.splits dest!: find_by_SomeD)

lemma register_defect_effect:
  assumes "register_defect E i v lims (obs, x) d = Inr d'"
  shows "grows d d'"
    and "\<exists>u. occurrence_of i (defect_type x) (defect_component obs x) u d' \<and> has_ncr u d'"
proof -
  obtain u d1 where l: "link_occurrence E i obs (defect_type x) (defect_component obs x) d = (u, d1)"
    by fastforce
  obtain nc d2 where n: "link_ncr E i obs (defect_type x) (defect_component obs x) u d1 = (nc, d2)"
    by fastforce
  have g2: "grows d2 d'"
    using assms create_invalidated_analysis_grows
    by (auto simp: register_defect_def l n split: if_splits dest: create_analysis_grows)
  then show "grows d d'"
    using link_occurrence_effect(1) [OF l] link_ncr_effect(1) [OF n] grows_trans by blast
  have "occurrence_of i (defect_type x) (defect_component obs x) u d2"
    using link_occurrence_effect(2) [OF l] link_ncr_effect(1) [OF n] grows_occurrence_of by blast
  moreover have "has_ncr u d2"
    using link_ncr_effect(2,3) [OF n] by (auto simp: has_ncr_def)
  ultimately show "\<exists>u. occurrence_of i (defect_type x) (defect_component obs x) u d' \<and> has_ncr u d'"
    using g2 grows_occurrence_of grows_has_ncr by blast
qed

lemma register_all:
  assumes "fold_r (register_defect E i v lims) oxs d = Inr d'"
  shows "grows d d' \<and> (\<forall>(obs, x) \<in> set oxs.
    \<exists>u. occurrence_of i (defect_type x) (defect_component obs x) u d' \<and> has_ncr u d')"
  using assms
proof (induction oxs arbitrary: d)
  case (Cons ox oxs)
  obtain obs x where ox: "ox = (obs, x)" by fastforce
  with Cons.prems obtain d1 where d1: "register_defect E i v lims (obs, x) d = Inr d1"
    "fold_r (register_defect E i v lims) oxs d1 = Inr d'"
    by (auto simp: rbind_Inr_iff)
  note IH = Cons.IH [OF d1(2)]
  have "\<exists>u. occurrence_of i (defect_type x) (defect_component obs x) u d' \<and> has_ncr u d'"
    using register_defect_effect(2) [OF d1(1)] IH grows_occurrence_of grows_has_ncr by blast
  moreover have "grows d d'"
    using register_defect_effect(1) [OF d1(1)] IH grows_trans by blast
  ultimately show ?case
    using IH ox by auto
qed simp

section \<open>What a rebuild changes\<close>

text \<open>
  \<open>rebuild_frame\<close> forgets the tables a rebuild writes; everything else (the raw log, the sources,
  the decisions, the outbound messages, the identities, the audit trail) is in what is left.
\<close>

definition rebuild_frame :: "db \<Rightarrow> db" where
  "rebuild_frame d = d\<lparr>db_items := [], db_runs := [], db_observations := [],
     db_defect_observations := [], db_machine_events := [], db_operator_actions := [],
     db_projections := [], db_occurrences := [], db_ncrs := [], db_analyses := [], db_evidence := [],
     db_uuid_draws := 0\<rparr>"

definition read_model_of :: "string \<Rightarrow> db \<Rightarrow> OperationRun list \<times> Observation list \<times>
    DefectObservation list \<times> MachineEvent list \<times> OperatorAction list" where
  "read_model_of j d = (filter (\<lambda>r. or_item_id r = j) (db_runs d),
     filter (\<lambda>r. ob_item_id r = j) (db_observations d),
     filter (\<lambda>r. dobs_item_id r = j) (db_defect_observations d),
     filter (\<lambda>r. me_item_id r = Some j) (db_machine_events d),
     filter (\<lambda>r. act_item_id r = Some j) (db_operator_actions d))"

lemma fold_defect_rows:
  "\<exists>rows n. fold (add_defect_row E i) vxs d =
     d\<lparr>db_defect_observations := db_defect_observations d @ rows, db_uuid_draws := n\<rparr> \<and>
     db_uuid_draws d \<le> n \<and> (\<forall>r \<in> set rows. dobs_item_id r = i)"
proof (induction vxs arbitrary: d)
  case Nil
  show ?case by (rule exI [of _ "[]"], rule exI [of _ "db_uuid_draws d"]) simp
next
  case (Cons vx vxs)
  obtain v x where vx: "vx = (v, x)" by fastforce
  let ?d1 = "add_defect_row E i (v, x) d"
  obtain row where d1: "?d1 = d\<lparr>db_defect_observations := db_defect_observations d @ [row],
      db_uuid_draws := Suc (db_uuid_draws d)\<rparr>" "dobs_item_id row = i"
    by (simp add: add_defect_row_def drew_uuid_def)
  obtain rows n where "fold (add_defect_row E i) vxs ?d1 =
      ?d1\<lparr>db_defect_observations := db_defect_observations ?d1 @ rows, db_uuid_draws := n\<rparr>"
    "db_uuid_draws ?d1 \<le> n" "\<forall>r \<in> set rows. dobs_item_id r = i"
    using Cons.IH by blast
  then show ?case
    by (intro exI [of _ "row # rows"] exI [of _ n]) (simp add: vx d1)
qed

lemma run_rows_item: "map_r (run_row E i) vs = Inr rows \<Longrightarrow> \<forall>r \<in> set rows. or_item_id r = i"
  by (induction vs arbitrary: rows) (auto simp: rbind_Inr_iff run_row_def split: option.splits)

text \<open>The transaction's first half: the tables of the read model hold the replayed values.\<close>

lemma store_rows_effect:
  assumes "store_rows E now i v d = Inr (item, d1)"
  obtains runs where "map_r (run_row E i) (iv_runs v) = Inr runs"
    and "filter (\<lambda>r. or_item_id r = i) (db_runs d1) = runs"
    and "filter (\<lambda>r. ob_item_id r = i) (db_observations d1) = map (observation_row E i) (iv_observations v)"
    and "filter (\<lambda>r. me_item_id r = Some i) (db_machine_events d1) = map (machine_row i) (iv_machines v)"
    and "filter (\<lambda>r. act_item_id r = Some i) (db_operator_actions d1) = map (action_row i) (iv_actions v)"
    and "\<And>j. j \<noteq> i \<Longrightarrow> read_model_of j d1 = read_model_of j d"
    and "\<And>j. j \<noteq> i \<Longrightarrow> find_by it_item_id j (db_items d1) = find_by it_item_id j (db_items d)"
    and "rebuild_frame d1 = rebuild_frame d"
    and "db_occurrences d1 = db_occurrences d" "db_ncrs d1 = db_ncrs d" "db_analyses d1 = db_analyses d"
      "db_evidence d1 = db_evidence d" "db_projections d1 = db_projections d"
      "db_uuid_draws d \<le> db_uuid_draws d1"
proof -
  obtain it d0 where p: "project_item now i (iv_item v) (clear_item i d) = (it, d0)"
    by fastforce
  obtain items where d0: "d0 = (clear_item i d)\<lparr>db_items := items\<rparr>"
    and items: "\<And>j. j \<noteq> i \<Longrightarrow> find_by it_item_id j items = find_by it_item_id j (db_items d)"
  proof -
    have "d0 = (clear_item i d)\<lparr>db_items := db_items d0\<rparr> \<and>
        (\<forall>j. j \<noteq> i \<longrightarrow> find_by it_item_id j (db_items d0) = find_by it_item_id j (db_items d))"
      using p by (auto simp: project_item_def Let_def clear_item_def find_by_append find_by_update_by
          split: option.splits)
    then show ?thesis
      using that by blast
  qed
  from assms obtain runs where runs: "map_r (run_row E i) (iv_runs v) = Inr runs"
    and d1: "d1 = fold (add_defect_row E i) (defects_of (iv_observations v))
        (d0\<lparr>db_runs := db_runs d0 @ runs,
            db_observations := db_observations d0 @ map (observation_row E i) (iv_observations v),
            db_machine_events := db_machine_events d0 @ map (machine_row i) (iv_machines v),
            db_operator_actions := db_operator_actions d0 @ map (action_row i) (iv_actions v)\<rparr>)"
    unfolding store_rows_def p by (auto simp: rbind_Inr_iff split: if_splits)
  obtain rows n where f: "d1 = d0\<lparr>db_runs := db_runs d0 @ runs,
            db_observations := db_observations d0 @ map (observation_row E i) (iv_observations v),
            db_machine_events := db_machine_events d0 @ map (machine_row i) (iv_machines v),
            db_operator_actions := db_operator_actions d0 @ map (action_row i) (iv_actions v),
            db_defect_observations := db_defect_observations d0 @ rows, db_uuid_draws := n\<rparr>"
    and n: "db_uuid_draws d \<le> n" and rows: "\<forall>r \<in> set rows. dobs_item_id r = i"
    using fold_defect_rows [of E i "defects_of (iv_observations v)"
       "d0\<lparr>db_runs := db_runs d0 @ runs,
            db_observations := db_observations d0 @ map (observation_row E i) (iv_observations v),
            db_machine_events := db_machine_events d0 @ map (machine_row i) (iv_machines v),
            db_operator_actions := db_operator_actions d0 @ map (action_row i) (iv_actions v)\<rparr>"]
    by (auto simp: d1 d0 clear_item_def)
  note tables = f d0 clear_item_def
  show ?thesis
  proof (rule that [OF runs])
    show "filter (\<lambda>r. or_item_id r = i) (db_runs d1) = runs"
      using run_rows_item [OF runs] by (simp add: tables)
    show "filter (\<lambda>r. ob_item_id r = i) (db_observations d1) = map (observation_row E i) (iv_observations v)"
      by (simp add: tables filter_map comp_def observation_row_def Let_def)
    show "filter (\<lambda>r. me_item_id r = Some i) (db_machine_events d1) = map (machine_row i) (iv_machines v)"
      by (simp add: tables filter_map comp_def machine_row_def)
    show "filter (\<lambda>r. act_item_id r = Some i) (db_operator_actions d1) = map (action_row i) (iv_actions v)"
      by (simp add: tables filter_map comp_def action_row_def)
    show "read_model_of j d1 = read_model_of j d" if "j \<noteq> i" for j
    proof -
      have "filter (\<lambda>r. or_item_id r = j) runs = []" "filter (\<lambda>r. dobs_item_id r = j) rows = []"
        using run_rows_item [OF runs] rows that by (auto simp: filter_empty_conv)
      then show ?thesis
        using that by (simp add: read_model_of_def tables filter_map comp_def observation_row_def Let_def
            machine_row_def action_row_def filter_other del: filter_filter)
    qed
    show "find_by it_item_id j (db_items d1) = find_by it_item_id j (db_items d)" if "j \<noteq> i" for j
      using items [OF that] by (simp add: tables)
    show "rebuild_frame d1 = rebuild_frame d"
      by (simp add: rebuild_frame_def tables)
    show "db_uuid_draws d \<le> db_uuid_draws d1"
      by (simp add: tables n)
  qed (simp_all add: tables)
qed

lemma rebuild_from_steps:
  assumes "rebuild_from E S now i raws d = Inr d'"
  obtains v item d1 d2 where "replay E S d raws = Inr v" "store_rows E now i v d = Inr (item, d1)"
    "fold_r (register_defect E i v (missing_check_limitations d1 item (iv_runs v) (iv_observations v)))
       (detected (iv_observations v)) d1 = Inr d2"
    "d' = touch_projection i (projected now raws) d2"
  using assms by (fastforce simp: rebuild_from_def rbind_Inr_iff)

text \<open>The relation between the states before and after a rebuild of \<open>i\<close>, successful or not.\<close>

definition rebuild_rel :: "string \<Rightarrow> db \<Rightarrow> db \<Rightarrow> bool" where
  "rebuild_rel i d d' \<longleftrightarrow> rebuild_frame d' = rebuild_frame d \<and>
     (\<forall>j. j \<noteq> i \<longrightarrow> read_model_of j d' = read_model_of j d \<and>
        find_by it_item_id j (db_items d') = find_by it_item_id j (db_items d) \<and>
        find_by ps_item_id j (db_projections d') = find_by ps_item_id j (db_projections d)) \<and>
     prefix (db_analyses d) (db_analyses d') \<and> prefix (db_evidence d) (db_evidence d') \<and>
     prefix (map nc_core (db_ncrs d)) (map nc_core (db_ncrs d')) \<and>
     prefix (map oc_core (db_occurrences d)) (map oc_core (db_occurrences d')) \<and>
     db_uuid_draws d \<le> db_uuid_draws d'"

lemma rebuild_rel_refl: "rebuild_rel i d d"
  by (simp add: rebuild_rel_def)

lemma touch_projection_find:
  assumes "\<And>ps. ps_item_id (f ps) = ps_item_id ps"
  shows "find_by ps_item_id j (db_projections (touch_projection i f d)) =
    (if j = i then Some (f (case find_by ps_item_id i (db_projections d) of
                               None \<Rightarrow> fresh_projection i | Some ps \<Rightarrow> ps))
     else find_by ps_item_id j (db_projections d))"
  using assms
  by (auto simp: touch_projection_def find_by_append find_by_update_by fresh_projection_def
      split: option.splits)

lemma touch_projection_rel:
  assumes "\<And>ps. ps_item_id (f ps) = ps_item_id ps"
  shows "rebuild_rel i d (touch_projection i f d)"
  using touch_projection_find [OF assms]
  by (simp add: rebuild_rel_def rebuild_frame_def read_model_of_def touch_projection_def)

lemma rebuild_rel_trans: "rebuild_rel i a b \<Longrightarrow> rebuild_rel i b c \<Longrightarrow> rebuild_rel i a c"
  unfolding rebuild_rel_def by (auto intro: prefix_order.trans)

lemma grows_rebuild_rel: "grows d d' \<Longrightarrow> rebuild_rel i d d'"
proof -
  assume g: "grows d d'"
  then have "d' = d\<lparr>db_occurrences := db_occurrences d', db_ncrs := db_ncrs d', db_analyses := db_analyses d',
       db_evidence := db_evidence d', db_uuid_draws := db_uuid_draws d'\<rparr>"
    by (intro quality_frame_eq) (simp add: grows_def)
  then obtain os ns as es n where d': "d' = d\<lparr>db_occurrences := os, db_ncrs := ns, db_analyses := as,
       db_evidence := es, db_uuid_draws := n\<rparr>"
    by blast
  show ?thesis
    using g by (simp add: rebuild_rel_def grows_def rebuild_frame_def read_model_of_def d')
qed

lemma projected_id [simp]: "ps_item_id (projected now raws ps) = ps_item_id ps"
  by (simp add: projected_def Let_def)

lemma store_rows_rel: "store_rows E now i v d = Inr (item, d1) \<Longrightarrow> rebuild_rel i d d1"
  by (erule store_rows_effect) (simp add: rebuild_rel_def)

lemma rebuild_from_rel:
  assumes "rebuild_from E S now i raws d = Inr d'"
  shows "rebuild_rel i d d'"
  using assms
proof (rule rebuild_from_steps)
  fix v item d1 d2
  assume "store_rows E now i v d = Inr (item, d1)"
    "fold_r (register_defect E i v (missing_check_limitations d1 item (iv_runs v) (iv_observations v)))
       (detected (iv_observations v)) d1 = Inr d2"
    "d' = touch_projection i (projected now raws) d2"
  then show ?thesis
    using store_rows_rel register_all grows_rebuild_rel
      touch_projection_rel [of "projected now raws" i d2, OF projected_id] rebuild_rel_trans by metis
qed

lemma rebuild_item_rel: "rebuild_rel i d (snd (rebuild_item E S now i d))"
  by (auto simp: rebuild_item_def Let_def rebuild_rel_refl touch_projection_rel rebuild_from_rel
      split: sum.split)

text \<open>A failed rebuild changes nothing.\<close>

lemma rebuild_item_error: "rebuild_item E S now i d = (Inl e, d') \<Longrightarrow> d' = d"
  by (auto simp: rebuild_item_def Let_def split: if_splits sum.splits)

lemma rebuild_item_done:
  assumes "rebuild_item E S now i d = (Inr u, d')" and "item_raws i (db_raw_events d) \<noteq> []"
  shows "rebuild_from E S now i (item_raws i (db_raw_events d)) d = Inr d'"
  using assms by (auto simp: rebuild_item_def Let_def split: sum.splits)

text \<open>After a rebuild the tables of the item are the replay of its log.\<close>

lemma rebuild_from_read_model:
  assumes "rebuild_from E S now i raws d = Inr d'"
  obtains v runs where "replay E S d raws = Inr v" "map_r (run_row E i) (iv_runs v) = Inr runs"
    "filter (\<lambda>r. or_item_id r = i) (db_runs d') = runs"
    "filter (\<lambda>r. ob_item_id r = i) (db_observations d') = map (observation_row E i) (iv_observations v)"
    "filter (\<lambda>r. me_item_id r = Some i) (db_machine_events d') = map (machine_row i) (iv_machines v)"
    "filter (\<lambda>r. act_item_id r = Some i) (db_operator_actions d') = map (action_row i) (iv_actions v)"
    "\<forall>(obs, x) \<in> set (detected (iv_observations v)).
       \<exists>u. occurrence_of i (defect_type x) (defect_component obs x) u d' \<and> has_ncr u d'"
  using assms
proof (rule rebuild_from_steps)
  fix v item d1 d2
  assume v: "replay E S d raws = Inr v" and st: "store_rows E now i v d = Inr (item, d1)"
    and reg: "fold_r (register_defect E i v (missing_check_limitations d1 item (iv_runs v) (iv_observations v)))
       (detected (iv_observations v)) d1 = Inr d2"
    and d': "d' = touch_projection i (projected now raws) d2"
  have g: "grows d1 d2"
    using register_all [OF reg] by simp
  then have d2: "d2 = d1\<lparr>db_occurrences := db_occurrences d2, db_ncrs := db_ncrs d2, db_analyses := db_analyses d2,
       db_evidence := db_evidence d2, db_uuid_draws := db_uuid_draws d2\<rparr>"
    by (intro quality_frame_eq) (simp add: grows_def)
  then obtain os ns as es n where d2: "d2 = d1\<lparr>db_occurrences := os, db_ncrs := ns, db_analyses := as,
       db_evidence := es, db_uuid_draws := n\<rparr>"
    by blast
  have oc: "occurrence_of i t c u d' = occurrence_of i t c u d2" "has_ncr u d' = has_ncr u d2" for t c u
    by (simp_all add: d' touch_projection_def occurrence_of_def has_ncr_def)
  show ?thesis
    using st
  proof (rule store_rows_effect)
    fix runs
    assume "map_r (run_row E i) (iv_runs v) = Inr runs" "filter (\<lambda>r. or_item_id r = i) (db_runs d1) = runs"
      "filter (\<lambda>r. ob_item_id r = i) (db_observations d1) = map (observation_row E i) (iv_observations v)"
      "filter (\<lambda>r. me_item_id r = Some i) (db_machine_events d1) = map (machine_row i) (iv_machines v)"
      "filter (\<lambda>r. act_item_id r = Some i) (db_operator_actions d1) = map (action_row i) (iv_actions v)"
    then show ?thesis
      using register_all [OF reg]
      by (intro that [OF v, of runs]) (simp_all add: oc, simp_all add: d' d2 touch_projection_def)
  qed
qed

lemma rebuild_from_projection:
  assumes "rebuild_from E S now i raws d = Inr d'"
  shows "\<exists>ps. find_by ps_item_id i (db_projections d') = Some ps \<and> ps_status ps = Up_to_date \<and>
    ps_latest_raw_ingest_seq ps = Max (re_ingest_seq ` set raws) \<and>
    ps_last_projected_ingest_seq ps = Max (re_ingest_seq ` set raws)"
  using assms
  by (rule rebuild_from_steps)
    (auto simp: touch_projection_find [of "projected now raws", OF projected_id] projected_def Let_def)

section \<open>Versions stay consecutive\<close>

text \<open>The identifiers that link analyses to nonconformances were all drawn.\<close>

definition ids_drawn :: "env \<Rightarrow> db \<Rightarrow> bool" where
  "ids_drawn E d \<longleftrightarrow> av_nonconformance_id ` set (db_analyses d) \<union> nc_id ` set (db_ncrs d) \<subseteq>
     uuid4 E ` {..<db_uuid_draws d}"

definition analyses_ok :: "env \<Rightarrow> db \<Rightarrow> bool" where
  "analyses_ok E d \<longleftrightarrow> versions_ok d \<and> ids_drawn E d"

lemma drawn_mono: "m \<le> n \<Longrightarrow> uuid4 E ` {..<m} \<subseteq> uuid4 E ` {..<n}"
  by (intro image_mono) auto

lemma analyses_ok_same:
  assumes "analyses_ok E d" and "db_analyses d' = db_analyses d" and "db_ncrs d' = db_ncrs d"
    and "db_uuid_draws d \<le> db_uuid_draws d'"
  shows "analyses_ok E d'"
  using assms drawn_mono [OF assms(4), of E]
  by (auto simp: analyses_ok_def versions_ok_def versions_def ids_drawn_def)

lemma add_analysis_ok:
  assumes ok: "analyses_ok E d" and nc: "nc_id nc \<in> nc_id ` set (db_ncrs d)"
  shows "analyses_ok E (add_analysis E nc (next_version (latest_analysis d (nc_id nc))) w reason d)"
proof -
  let ?d = "add_analysis E nc (next_version (latest_analysis d (nc_id nc))) w reason d"
  have "nc_id ` set (set_version k v rows) = nc_id ` set rows" for k v rows
  proof -
    have "map nc_id (set_version k v rows) = map nc_id rows"
      unfolding set_version_def by (rule map_update_by) simp
    then show ?thesis
      by (metis list.set_map)
  qed
  then have "av_nonconformance_id ` set (db_analyses ?d) \<union> nc_id ` set (db_ncrs ?d) =
      av_nonconformance_id ` set (db_analyses d) \<union> nc_id ` set (db_ncrs d)"
    using nc by (simp add: add_analysis_tables analysis_row_def insert_absorb)
  moreover have "uuid4 E ` {..<db_uuid_draws d} \<subseteq> uuid4 E ` {..<db_uuid_draws ?d}"
    using add_analysis_draws less_imp_le by (intro drawn_mono) blast
  ultimately have "ids_drawn E ?d"
    using ok unfolding ids_drawn_def analyses_ok_def by (metis (no_types, lifting) subset_trans)
  then show ?thesis
    using ok add_analysis_versions by (simp add: analyses_ok_def)
qed

lemma link_ncr_ok:
  assumes inj: "inj (uuid4 E)" and ok: "analyses_ok E d" and l: "link_ncr E i obs t c u d = (nc, d')"
  shows "analyses_ok E d'"
proof (cases "find_by nc_occurrence_id u (db_ncrs d)")
  case None
  then have nc: "nc_id nc = uuid4 E (db_uuid_draws d)" "nc_current_analysis_version nc = 1"
    and d': "d' = drew_uuid (d\<lparr>db_ncrs := db_ncrs d @ [nc]\<rparr>)"
    using l by (auto simp: link_ncr_def Let_def new_uuid_def)
  have fresh: "nc_id nc \<notin> uuid4 E ` {..<db_uuid_draws d}"
    using inj by (auto simp: nc dest: injD)
  moreover have "av_nonconformance_id ` set (db_analyses d) \<subseteq> uuid4 E ` {..<db_uuid_draws d}"
    using ok by (simp add: analyses_ok_def ids_drawn_def)
  ultimately have "versions d (nc_id nc) = []"
    unfolding versions_def by (simp add: filter_empty_conv image_subset_iff) metis
  then have "versions_ok d'"
    using ok by (auto simp: analyses_ok_def versions_ok_def d' drew_uuid_def versions_def nc)
  moreover have "ids_drawn E d'"
    using ok drawn_mono [of "db_uuid_draws d" "Suc (db_uuid_draws d)" E]
    by (auto simp: analyses_ok_def ids_drawn_def d' drew_uuid_def nc)
  ultimately show ?thesis
    by (simp add: analyses_ok_def)
qed (use assms in \<open>auto simp: link_ncr_def\<close>)

lemma link_occurrence_ok:
  assumes "analyses_ok E d" and "link_occurrence E i obs t c d = (u, d')"
  shows "analyses_ok E d'"
  by (rule analyses_ok_same [OF assms(1)])
    (use assms(2) in \<open>auto simp: link_occurrence_def drew_uuid_def split: option.splits\<close>)

lemma register_defect_ok:
  assumes inj: "inj (uuid4 E)" and ok: "analyses_ok E d" and r: "register_defect E i v lims (obs, x) d = Inr d'"
  shows "analyses_ok E d'"
proof -
  obtain u d1 where l: "link_occurrence E i obs (defect_type x) (defect_component obs x) d = (u, d1)"
    by fastforce
  obtain nc d2 where n: "link_ncr E i obs (defect_type x) (defect_component obs x) u d1 = (nc, d2)"
    by fastforce
  have ok2: "analyses_ok E d2"
    using link_ncr_ok [OF inj link_occurrence_ok [OF ok l] n] .
  have nc: "nc_id nc \<in> nc_id ` set (db_ncrs d2)"
    using link_ncr_effect(2) [OF n] by simp
  note added = add_analysis_ok [OF ok2 nc]
  show ?thesis
    using r ok2 added create_invalidated_analysis_cases [of E nc obs d2]
    by (auto simp: register_defect_def l n split: if_splits dest!: create_analysis_cases)
qed

lemma rebuild_from_ok:
  assumes inj: "inj (uuid4 E)" and ok: "analyses_ok E d" and r: "rebuild_from E S now i raws d = Inr d'"
  shows "analyses_ok E d'"
  using r
proof (rule rebuild_from_steps)
  fix v item d1 d2
  assume st: "store_rows E now i v d = Inr (item, d1)"
    and reg: "fold_r (register_defect E i v (missing_check_limitations d1 item (iv_runs v) (iv_observations v)))
       (detected (iv_observations v)) d1 = Inr d2"
    and d': "d' = touch_projection i (projected now raws) d2"
  have "analyses_ok E d1"
    using st by (rule store_rows_effect) (rule analyses_ok_same [OF ok])
  then have "analyses_ok E d2"
    by (rule fold_r_invariant [OF reg]) (use register_defect_ok [OF inj] in \<open>auto split: prod.splits\<close>)
  then show ?thesis
    by (rule analyses_ok_same) (simp_all add: d' touch_projection_def)
qed

lemma rebuild_item_ok:
  assumes "inj (uuid4 E)" and "analyses_ok E d"
  shows "analyses_ok E (snd (rebuild_item E S now i d))"
proof -
  have "analyses_ok E (touch_projection i f d)" for f
    by (rule analyses_ok_same [OF assms(2)]) (simp_all add: touch_projection_def)
  then show ?thesis
    using assms rebuild_from_ok by (auto simp: rebuild_item_def Let_def split: sum.split)
qed

section \<open>Recovery\<close>

lemma mark_projection_failed_find:
  "find_by ps_item_id j (db_projections (mark_projection_failed i msg d)) =
     (if j = i then Some ((case find_by ps_item_id i (db_projections d) of
          None \<Rightarrow> fresh_projection i | Some ps \<Rightarrow> ps)
        \<lparr>ps_status := Projection_failed, ps_last_error := Some (py_take 2000 msg)\<rparr>)
      else find_by ps_item_id j (db_projections d))"
  unfolding mark_projection_failed_def by (subst touch_projection_find) simp_all

definition settled :: "db \<Rightarrow> string \<Rightarrow> bool" where
  "settled d i \<longleftrightarrow> (\<exists>ps. find_by ps_item_id i (db_projections d) = Some ps \<and>
     ps_status ps \<in> {Up_to_date, Projection_failed})"

lemma rebuild_item_settles:
  assumes "rebuild_item E S now i d = (Inr u, d')"
  shows "settled d' i"
proof (cases "item_raws i (db_raw_events d) = []")
  case True
  then show ?thesis
    using assms touch_projection_find [of "\<lambda>ps. ps\<lparr>ps_status := Up_to_date\<rparr>" i i d]
    by (auto simp: rebuild_item_def settled_def)
next
  case False
  then show ?thesis
    using rebuild_from_projection [OF rebuild_item_done [OF assms False]] by (auto simp: settled_def)
qed

lemma recover_one_settles:
  assumes "recover_one E S now i (rs, d) = (rs', d')"
  shows "settled d' i" and "j \<noteq> i \<Longrightarrow> settled d' j = settled d j"
proof -
  obtain res d1 where r: "rebuild_item E S now i d = (res, d1)"
    by fastforce
  have rel: "rebuild_rel i d d1"
    using rebuild_item_rel [of i d E S now] r by simp
  show "settled d' i"
  proof (cases res)
    case (Inl e)
    then have "d' = mark_projection_failed i (describe E e) d1"
      using assms r by (simp add: recover_one_def)
    then show ?thesis
      using mark_projection_failed_find [of i i "describe E e" d1] by (auto simp: settled_def)
  next
    case (Inr u)
    then show ?thesis
      using assms r rebuild_item_settles by (auto simp: recover_one_def)
  qed
  show "settled d' j = settled d j" if "j \<noteq> i"
    using assms r rel that mark_projection_failed_find [of j i]
    by (auto simp: recover_one_def settled_def rebuild_rel_def split: sum.splits)
qed

lemma recover_fold_settles:
  "fold (recover_one E S now) is (rs, d) = (rs', d') \<Longrightarrow>
     (\<forall>i \<in> set is. settled d' i) \<and> (\<forall>j. j \<notin> set is \<longrightarrow> settled d' j = settled d j)"
proof (induction "is" arbitrary: rs d)
  case (Cons i "is")
  obtain rs1 d1 where r: "recover_one E S now i (rs, d) = (rs1, d1)"
    by fastforce
  then show ?case
    using Cons.prems Cons.IH [of rs1 d1] recover_one_settles [OF r] by auto
qed simp

end
