(* ===== verification/TQ_Ingestion.thy ===== *)
theory TQ_Ingestion
  imports TQ_Integrity TQ_Rebuild_Effects
begin

text \<open>
  \<^verbatim>\<open>backend/app/ingestion/service.py\<close>: authentication of a source, validation and authorisation of an
  event, the raw log with its integrity chain, and the attempts, alerts and invalidations that go
  with it. \<open>ingest_event\<close> is the whole handler; the state it returns is what was committed, on an
  error too (a transport nonce is committed before the event is looked at).
\<close>

section \<open>Attempts and alerts\<close>

definition alert_row :: "string \<Rightarrow> string option \<Rightarrow> string option \<Rightarrow> json \<Rightarrow> SecurityAlert" where
  "alert_row alert_type src_id target details = \<lparr>sa_alert_type = alert_type, sa_severity = ''MEDIUM'',
     sa_source_id = src_id, sa_target_type = Some ''event'', sa_target_id = target,
     sa_details = details\<rparr>"

definition alert :: "string \<Rightarrow> string option \<Rightarrow> string option \<Rightarrow> json \<Rightarrow> db \<Rightarrow> db" where
  "alert alert_type src_id target details d =
     d\<lparr>db_alerts := db_alerts d @ [alert_row alert_type src_id target details]\<rparr>"

definition alert_map :: "(string \<times> string) list" where
  "alert_map = [(''REPLAY_ATTEMPT'', ''REPLAY_ATTEMPT''), (''SOURCE_AUTH_FAILED'', ''SOURCE_AUTH_FAILED''),
     (''INVALID_SOURCE_CREDENTIALS'', ''SOURCE_AUTH_FAILED''),
     (''SOURCE_SCOPE_VIOLATION'', ''SOURCE_SCOPE_VIOLATION''), (''EVENT_ID_CONFLICT'', ''EVENT_ID_CONFLICT''),
     (''KEY_UNAVAILABLE'', ''KEY_UNAVAILABLE'')]"

definition attempt_row ::
  "time \<Rightarrow> string option \<Rightarrow> string option \<Rightarrow> attempt_status \<Rightarrow> string option \<Rightarrow> string option \<Rightarrow>
   string option \<Rightarrow> json \<Rightarrow> IngestAttempt" where
  "attempt_row now src_id claimed status code raw hash details =
     \<lparr>ia_received_at = now, ia_source_id = src_id, ia_claimed_event_id = claimed, ia_status = status,
      ia_error_code = code, ia_raw_event_id = raw, ia_payload_hash = hash,
      ia_safe_error_details = details\<rparr>"

definition add_attempt :: "IngestAttempt \<Rightarrow> db \<Rightarrow> db" where
  "add_attempt a d = d\<lparr>db_attempts := db_attempts d @ [a]\<rparr>"

definition record_rejected_attempt ::
  "time \<Rightarrow> string option \<Rightarrow> string option \<Rightarrow> string \<Rightarrow> string \<Rightarrow> db \<Rightarrow> db" where
  "record_rejected_attempt now src_id claimed code message d =
     (let d1 = add_attempt (attempt_row now src_id claimed Attempt_rejected (Some code) None None
                 (JObj [(''message'', JStr (py_take 1000 message))])) d in
      case map_of alert_map code of
        None \<Rightarrow> d1
      | Some a \<Rightarrow> alert a src_id claimed JNull d1)"

section \<open>Authentication of a source\<close>

record ingest_headers =
  h_source_id :: "string option"
  h_source_token :: "string option"
  h_timestamp :: "string option"
  h_nonce :: "string option"
  h_signature :: "string option"

fun remove_first :: "char \<Rightarrow> string \<Rightarrow> string" where
  "remove_first c [] = []"
| "remove_first c (x # xs) = (if x = c then xs else x # remove_first c xs)"

definition is_digits :: "string \<Rightarrow> bool" where
  "is_digits s \<longleftrightarrow> s \<noteq> [] \<and> list_all (\<lambda>c. CHR ''0'' \<le> c \<and> c \<le> CHR ''9'') s"

text \<open>\<open>value.replace("Z", "+00:00")\<close>.\<close>

definition zulu :: "string \<Rightarrow> string" where
  "zulu s = concat (map (\<lambda>c. if c = CHR ''Z'' then ''+00:00'' else [c]) s)"

definition source_auth_failed :: "string \<Rightarrow> exn" where
  "source_auth_failed message = TraceQError ''SOURCE_AUTH_FAILED'' message 401"

definition parse_transport_time :: "env \<Rightarrow> string \<Rightarrow> time result" where
  "parse_transport_time E value =
     (case (if is_digits (remove_first (CHR ''.'') value) then parse_epoch E value
            else parse_iso E (zulu value)) of
        None \<Rightarrow> Inl (source_auth_failed ''Invalid source timestamp'')
      | Some t \<Rightarrow> Inr t)"

text \<open>\<open>str(value)\<close>.\<close>

fun py_str :: "env \<Rightarrow> json \<Rightarrow> string" where
  "py_str E (JStr s) = s"
| "py_str E (JInt i) = int_str i"
| "py_str E (JBool b) = (if b then ''True'' else ''False'')"
| "py_str E JNull = ''None''"
| "py_str E (JFloat r) = float_repr E r"
| "py_str E v = container_repr E v"

definition demo_secret :: "Settings \<Rightarrow> string option" where
  "demo_secret S = (if demo_mode S \<and> has_id (source_demo_token S) then source_demo_token S else None)"

definition hmac_secret :: "env \<Rightarrow> Settings \<Rightarrow> string \<Rightarrow> string option result" where
  "hmac_secret E S src =
     (case source_hmac_secrets_json S of
        None \<Rightarrow> Inr (demo_secret S)
      | Some text \<Rightarrow>
          if text = [] then Inr (demo_secret S)
          else
            (case json_loads E (encode text) of
               None \<Rightarrow> Inl (PyError ''JSONDecodeError'')
             | Some (JObj values) \<Rightarrow>
                 (case map_of values src of
                    Some v \<Rightarrow> Inr (Some (py_str E v))
                  | None \<Rightarrow> Inr (demo_secret S))
             | Some _ \<Rightarrow> Inr (demo_secret S)))"

definition is_ascii :: "string \<Rightarrow> bool" where
  "is_ascii s \<longleftrightarrow> list_all (\<lambda>c. (of_char c :: nat) < 128) s"

text \<open>\<open>hmac.compare_digest\<close> of two texts raises when one is not ASCII.\<close>

definition compare_digest :: "string \<Rightarrow> string \<Rightarrow> bool result" where
  "compare_digest a b = (if is_ascii a \<and> is_ascii b then Inr (a = b) else Inl (PyError ''TypeError''))"

definition expected_signature :: "env \<Rightarrow> string \<Rightarrow> string \<Rightarrow> string \<Rightarrow> json \<Rightarrow> string" where
  "expected_signature E secret timestamp nonce body =
     hexdigest (hmac_sha256 E (encode secret)
       (encode timestamp @ encode [CHR 0x0A] @ encode nonce @ encode [CHR 0x0A] @
        canonical_json_bytes (float_repr E) body))"

definition usable_source :: "time \<Rightarrow> EventSource \<Rightarrow> bool" where
  "usable_source now src \<longleftrightarrow> es_enabled src \<and> es_status src = Source_active \<and>
     es_revoked_at src = None \<and>
     \<not> (case es_valid_from src of Some t \<Rightarrow> now < t | None \<Rightarrow> False) \<and>
     \<not> (case es_valid_to src of Some t \<Rightarrow> t \<le> now | None \<Rightarrow> False)"

definition invalid_credentials :: exn where
  "invalid_credentials = TraceQError ''INVALID_SOURCE_CREDENTIALS'' ''Source credentials are invalid'' 401"

definition nonce_used :: "string \<Rightarrow> string \<Rightarrow> db \<Rightarrow> bool" where
  "nonce_used src nonce d \<longleftrightarrow> list_ex (\<lambda>n. tn_source_id n = src \<and> tn_nonce n = nonce) (db_nonces d)"

text \<open>The branch for \<open>HMAC_V1\<close>: a replay commits its alert, a success commits the nonce.\<close>

definition authenticate_hmac ::
  "env \<Rightarrow> Settings \<Rightarrow> time \<Rightarrow> ingest_headers \<Rightarrow> json \<Rightarrow> EventSource \<Rightarrow> db \<Rightarrow> EventSource result \<times> db" where
  "authenticate_hmac E S now h body src d =
     (if \<not> (has_id (h_timestamp h) \<and> has_id (h_nonce h) \<and> has_id (h_signature h)) then
        (Inl (TraceQError ''SOURCE_AUTH_REQUIRED'' ''HMAC source headers are required'' 401), d)
      else
        (let timestamp = the (h_timestamp h); nonce = the (h_nonce h); signature = the (h_signature h) in
         case parse_transport_time E timestamp of
           Inl e \<Rightarrow> (Inl e, d)
         | Inr t \<Rightarrow>
             if \<bar>now - t\<bar> > source_timestamp_tolerance_seconds S * 1000000 then
               (Inl (source_auth_failed ''Source timestamp is outside the accepted window''), d)
             else if nonce_used (es_source_id src) nonce d then
               (Inl (TraceQError ''REPLAY_ATTEMPT'' ''Transport nonce has already been used'' 409),
                alert ''REPLAY_ATTEMPT'' (Some (es_source_id src)) None JNull d)
             else
               (case hmac_secret E S (es_source_id src) of
                  Inl e \<Rightarrow> (Inl e, d)
                | Inr secret \<Rightarrow>
                    if \<not> has_id secret then
                      (Inl (TraceQError ''KEY_UNAVAILABLE''
                         ''Source authentication key is unavailable'' 503), d)
                    else
                      (case compare_digest (expected_signature E (the secret) timestamp nonce body)
                              (to_lower signature) of
                         Inl e \<Rightarrow> (Inl e, d)
                       | Inr ok \<Rightarrow>
                           if \<not> ok then (Inl (source_auth_failed ''Source signature is invalid''), d)
                           else (Inr src, d\<lparr>db_nonces := db_nonces d @
                             [\<lparr>tn_source_id = es_source_id src, tn_nonce = nonce, tn_timestamp = t\<rparr>]\<rparr>)))))"

definition authenticate_source ::
  "env \<Rightarrow> Settings \<Rightarrow> time \<Rightarrow> ingest_headers \<Rightarrow> json \<Rightarrow> db \<Rightarrow> EventSource result \<times> db" where
  "authenticate_source E S now h body d =
     (if \<not> has_id (h_source_id h) then
        (Inl (TraceQError ''SOURCE_AUTH_REQUIRED'' ''Source credentials are required'' 401), d)
      else
        (case find_by es_source_id (the (h_source_id h)) (db_sources d) of
           None \<Rightarrow> (Inl invalid_credentials, d)
         | Some src \<Rightarrow>
             if \<not> usable_source now src then (Inl invalid_credentials, d)
             else if es_auth_method src = HMAC_V1 then authenticate_hmac E S now h body src d
             else if \<not> has_id (h_source_token h) \<or> \<not> has_id (es_token_hash src) \<or>
                     es_token_hash src \<noteq> Some (token_hash E (the (h_source_token h)))
               then (Inl invalid_credentials, d)
             else (Inr src, d)))"

section \<open>Authorisation of an event\<close>

text \<open>\<open>payload.get("line_id")\<close> and \<open>payload.get("station_id")\<close>: only one model has each.\<close>

fun payload_line :: "payload \<Rightarrow> string option" where
  "payload_line (Item_registered p) = ir_line_id p"
| "payload_line _ = None"

fun payload_station :: "payload \<Rightarrow> string option" where
  "payload_station (Operation_started p) = Some (os_station_id p)"
| "payload_station _ = None"

definition in_scope :: "string list \<Rightarrow> string option \<Rightarrow> bool" where
  "in_scope allowed x \<longleftrightarrow> allowed = [] \<or> x = None \<or> the x \<in> set allowed"

definition scope_violation :: "string \<Rightarrow> exn" where
  "scope_violation message = TraceQError ''SOURCE_SCOPE_VIOLATION'' message 403"

definition authorize_event :: "EventSource \<Rightarrow> EventEnvelope \<Rightarrow> unit result" where
  "authorize_event src e =
     (if source_id (source e) \<noteq> es_source_id src \<or> source_type (source e) \<noteq> es_source_type src
        then Inl (TraceQError ''SOURCE_IDENTITY_MISMATCH''
               ''Authenticated source does not match the event source'' 403)
      else if event_type e \<notin> set (es_allowed_event_types src)
        then Inl (TraceQError ''EVENT_TYPE_NOT_ALLOWED''
               ''Source is not allowed to submit this event type'' 403)
      else if \<not> in_scope (es_allowed_line_ids src) (payload_line (payload e))
        then Inl (scope_violation ''Source is outside its allowed line scope'')
      else if \<not> in_scope (es_allowed_station_ids src) (payload_station (payload e))
        then Inl (scope_violation ''Source is outside its allowed station scope'')
      else if event_type e = ''control_device.invalidated'' \<and> es_source_type src \<noteq> ''calibration_system''
        then Inl (scope_violation ''Only a calibration source may invalidate a control device'')
      else Inr ())"

text \<open>The sequence bookkeeping, still uncommitted: an anomaly is reported but not refused.\<close>

definition track_sequence :: "EventSource \<Rightarrow> EventEnvelope \<Rightarrow> db \<Rightarrow> db" where
  "track_sequence src e d =
     (case sequence (source e) of
        None \<Rightarrow> d
      | Some n \<Rightarrow>
          (let d1 = (case es_last_source_sequence src of
                 Some prev \<Rightarrow>
                   if n \<le> prev then
                     alert ''SOURCE_SEQUENCE_ANOMALY'' (Some (es_source_id src)) (Some (event_id e))
                       (JObj [(''previous'', JInt prev), (''received'', JInt n)]) d
                   else d
               | None \<Rightarrow> d);
               old = (case es_last_source_sequence src of
                 Some prev \<Rightarrow> if prev \<noteq> 0 then prev else - 1 | None \<Rightarrow> - 1) in
           d1\<lparr>db_sources := update_by es_source_id (es_source_id src)
             (\<lambda>r. r\<lparr>es_last_source_sequence := Some (max old n)\<rparr>) (db_sources d1)\<rparr>))"

section \<open>The sealed row\<close>

record seal_input =
  si_event :: EventEnvelope
  si_received :: time
  si_ciphertext :: bytes
  si_nonce :: bytes
  si_content_hash :: string
  si_ingest_seq :: int

definition event_aad :: "Settings \<Rightarrow> time \<Rightarrow> EventEnvelope \<Rightarrow> aad_fields" where
  "event_aad S received e = \<lparr>aad_event_id = event_id e, aad_event_type = event_type e,
     aad_source_id = source_id (source e), aad_schema_version = schema_version e,
     aad_received_at = received, aad_occurred_at = occurred_at e, aad_item_id = item_id e,
     aad_crypto_key_id = aes_key_id S, aad_profile = ''CLASSIC_V2''\<rparr>"

text \<open>The \<open>RawEvent\<close> of an event; its \<open>ingest_seq\<close> is what the identity column will assign.\<close>

definition seal_event :: "env \<Rightarrow> Settings \<Rightarrow> seal_input \<Rightarrow> IntegrityStreamState \<Rightarrow> RawEvent result" where
  "seal_event E S i st =
     (let e = si_event i;
          next_seq = st_last_seq st + 1;
          metadata = integrity_metadata E
            \<lparr>md_event_id = event_id e, md_event_type = event_type e,
             md_schema_version = schema_version e, md_source_id = source_id (source e),
             md_occurred_at = occurred_at e, md_received_at = si_received i,
             md_stream_id = st_stream_id st, md_seq = next_seq\<rparr> in
      rbind (compute_integrity_mac E (integrity_key S) (st_last_mac st) metadata (si_ciphertext i)
               (si_nonce i) (aes_key_id S)) (\<lambda>mac.
      Inr \<lparr>re_event_id = event_id e, re_event_type = event_type e,
           re_schema_version = schema_version e, re_source_id = source_id (source e),
           re_source_type = source_type (source e), re_source_sequence = sequence (source e),
           re_item_id = item_id e, re_operation_run_id = operation_run_id e,
           re_occurred_at = occurred_at e, re_received_at = si_received i, re_ingest_seq = si_ingest_seq i,
           re_payload_ciphertext = si_ciphertext i, re_nonce = si_nonce i,
           re_content_hash = si_content_hash i, re_integrity_stream_id = st_stream_id st,
           re_integrity_seq = next_seq, re_prev_integrity_mac = st_last_mac st,
           re_integrity_mac = mac, re_crypto_key_id = aes_key_id S, re_key_version = ''1'',
           re_crypto_profile_id = ''CLASSIC_V2''\<rparr>))"

text \<open>
  \<open>db.get(IntegrityStreamState, stream_id)\<close>, created if absent. The column of the stream
  identifier is as wide as the one of the source identifier, and the prefix does not fit a long one.
\<close>

definition stream_for :: "string \<Rightarrow> db \<Rightarrow> (IntegrityStreamState \<times> db) result" where
  "stream_for sid d =
     (case find_by st_stream_id sid (db_streams d) of
        Some st \<Rightarrow> Inr (st, d)
      | None \<Rightarrow>
          if py_len sid > 128 then Inl (PyError ''DataError'')
          else (let st = \<lparr>st_stream_id = sid, st_last_seq = 0, st_last_mac = [], st_status = Stream_ok\<rparr> in
                Inr (st, d\<lparr>db_streams := db_streams d @ [st]\<rparr>)))"

definition append_raw :: "RawEvent \<Rightarrow> db \<Rightarrow> db" where
  "append_raw r d = d\<lparr>db_raw_events := db_raw_events d @ [r],
     db_ingest_seq := re_ingest_seq r,
     db_streams := update_by st_stream_id (re_integrity_stream_id r)
       (\<lambda>st. st\<lparr>st_last_seq := re_integrity_seq r, st_last_mac := re_integrity_mac r\<rparr>) (db_streams d)\<rparr>"

definition append_sealed ::
  "env \<Rightarrow> Settings \<Rightarrow> time \<Rightarrow> EventSource \<Rightarrow> EventEnvelope \<Rightarrow> bytes \<Rightarrow> string \<Rightarrow> db \<Rightarrow> db result" where
  "append_sealed E S now src e plaintext content_hash d =
     (let aad = build_aad E (event_aad S now e);
          (ciphertext, nonce) = encrypt_event E plaintext (aes_key S) aad (db_nonce_draws d);
          d1 = d\<lparr>db_nonce_draws := Suc (db_nonce_draws d)\<rparr> in
      rbind (stream_for (''source:'' @ es_source_id src) d1) (\<lambda>(st, d2).
      rbind (seal_event E S \<lparr>si_event = e, si_received = now, si_ciphertext = ciphertext,
               si_nonce = nonce, si_content_hash = content_hash,
               si_ingest_seq = db_ingest_seq d2 + 1\<rparr> st) (\<lambda>r.
      Inr (append_raw r d2))))"

section \<open>The handler\<close>

record IngestionResult =
  res_event_id :: string
  res_ingestion_status :: string
  res_projection_status :: string
  res_content_hash :: string
  res_warnings :: "(string \<times> string) list"
  res_affected_items :: "string list"

text \<open>
  \<open>max(projection.latest_raw_ingest_seq, raw.ingest_seq)\<close>: of a row object created just before,
  the attribute is what the ORM returns for a pending object.
\<close>

definition note_raw :: "env \<Rightarrow> string option \<Rightarrow> db \<Rightarrow> db result" where
  "note_raw E i d =
     (if \<not> has_id i then Inr d
      else
        (case find_by ps_item_id (the i) (db_projections d) of
           None \<Rightarrow>
             (case orm_pending E 0 of
                None \<Rightarrow> Inl (PyError ''TypeError'')
              | Some n \<Rightarrow> Inr (touch_projection (the i)
                  (\<lambda>ps. ps\<lparr>ps_latest_raw_ingest_seq := max n (db_ingest_seq d), ps_status := Stale\<rparr>) d))
         | Some _ \<Rightarrow> Inr (touch_projection (the i)
             (\<lambda>ps. ps\<lparr>ps_latest_raw_ingest_seq := max (ps_latest_raw_ingest_seq ps) (db_ingest_seq d),
                ps_status := Stale\<rparr>) d)))"

definition affected_by :: "ControlDeviceInvalidatedPayload \<Rightarrow> db \<Rightarrow> string list" where
  "affected_by p d = sort (remdups (map ob_item_id (filter (\<lambda>o'.
     ob_control_device_id o' = Some (di_device_id p) \<and> di_affected_from p \<le> ob_occurred_at o' \<and>
     ob_occurred_at o' \<le> di_affected_to p) (db_observations d))))"

definition note_invalidation :: "EventEnvelope \<Rightarrow> db \<Rightarrow> string list \<times> db" where
  "note_invalidation e d =
     (case payload e of
        Control_device_invalidated p \<Rightarrow>
          (let affected = affected_by p d in
           (affected, d\<lparr>db_invalidations := db_invalidations d @
               [\<lparr>ci_source_event_id = Some (event_id e), ci_device_id = di_device_id p,
                 ci_affected_from = di_affected_from p, ci_affected_to = di_affected_to p,
                 ci_reason = di_reason p, ci_invalidation_type = di_invalidation_type p,
                 ci_supporting_evidence_refs = di_supporting_evidence_refs p,
                 ci_created_by_user_id = None\<rparr>],
             db_projections := map (\<lambda>ps. if ps_item_id ps \<in> set affected
                then ps\<lparr>ps_status := Stale\<rparr> else ps) (db_projections d)\<rparr>))
      | _ \<Rightarrow> ([], d))"

text \<open>
  Another ingest may commit the same event between the lookup and this transaction's writes; the
  database it leaves is what the handler then sees.
\<close>

datatype race = No_race | Raced_at_flush db | Raced_at_commit db

definition duplicate_result :: "string \<Rightarrow> string \<Rightarrow> IngestionResult" where
  "duplicate_result i hash = \<lparr>res_event_id = i, res_ingestion_status = ''duplicate'',
     res_projection_status = ''unchanged'', res_content_hash = hash, res_warnings = [],
     res_affected_items = []\<rparr>"

definition settle_existing ::
  "time \<Rightarrow> EventSource \<Rightarrow> EventEnvelope \<Rightarrow> string \<Rightarrow> RawEvent \<Rightarrow> db \<Rightarrow> IngestionResult result \<times> db" where
  "settle_existing now src e hash existing d =
     (if re_content_hash existing = hash then
        (Inr (duplicate_result (event_id e) hash),
         add_attempt (attempt_row now (Some (es_source_id src)) (Some (event_id e)) Attempt_duplicate None
           (Some (re_event_id existing)) (Some hash) JNull) d)
      else
        (Inl (TraceQError ''EVENT_ID_CONFLICT'' ''The event ID already exists with different content'' 409),
         (alert ''EVENT_ID_CONFLICT'' (Some (es_source_id src)) (Some (event_id e)) JNull
           (add_attempt (attempt_row now (Some (es_source_id src)) (Some (event_id e)) Attempt_conflict
             (Some ''EVENT_ID_CONFLICT'') (Some (re_event_id existing)) (Some hash) JNull) d))
         \<lparr>db_audit := db_audit d @
            [\<lparr>au_actor_user_id = None, au_session_id = None, au_action = ''event_id_conflict'',
              au_target_type = Some ''raw_event'', au_target_id = Some (event_id e),
              au_outcome = ''detected'', au_request_id = None,
              au_safe_details = JObj [(''source_id'', JStr (es_source_id src))]\<rparr>]\<rparr>))"

definition store_event ::
  "env \<Rightarrow> Settings \<Rightarrow> time \<Rightarrow> EventSource \<Rightarrow> EventEnvelope \<Rightarrow> bytes \<Rightarrow> string \<Rightarrow> db \<Rightarrow> (string list \<times> db) result" where
  "store_event E S now src e plaintext hash d =
     rbind (append_sealed E S now src e plaintext hash d) (\<lambda>d1.
     rbind (note_raw E (item_id e) d1) (\<lambda>d2.
     let (affected, d3) = note_invalidation e d2 in
     Inr (affected, add_attempt (attempt_row now (Some (es_source_id src)) (Some (event_id e))
       Attempt_accepted None (Some (event_id e)) (Some hash) JNull) d3)))"

definition commit_event ::
  "env \<Rightarrow> Settings \<Rightarrow> time \<Rightarrow> race \<Rightarrow> EventSource \<Rightarrow> EventEnvelope \<Rightarrow> db \<Rightarrow> db \<Rightarrow> IngestionResult result \<times> db" where
  "commit_event E S now race src e d0 d =
     (let plaintext = canonical_json_bytes (float_repr E) (canonical_event_dict (validator E) e);
          hash = sha256_hex E plaintext in
      case find_by re_event_id (event_id e) (db_raw_events d) of
        Some existing \<Rightarrow> settle_existing now src e hash existing d
      | None \<Rightarrow>
          (case store_event E S now src e plaintext hash d of
             Inl ex \<Rightarrow> (Inl ex, d0)
           | Inr (affected, d') \<Rightarrow>
               (case race of
                  No_race \<Rightarrow>
                    (Inr \<lparr>res_event_id = event_id e, res_ingestion_status = ''accepted'',
                       res_projection_status = (if has_id (item_id e) then ''stale'' else ''not_applicable''),
                       res_content_hash = hash, res_warnings = data_quality_warnings e,
                       res_affected_items = affected\<rparr>, d')
                | Raced_at_flush dr \<Rightarrow> (Inl (PyError ''IntegrityError''), dr)
                | Raced_at_commit dr \<Rightarrow>
                    (case find_by re_event_id (event_id e) (db_raw_events dr) of
                       Some r \<Rightarrow>
                         if re_content_hash r = hash then
                           (Inr (duplicate_result (event_id e) hash),
                            add_attempt (attempt_row now (Some (es_source_id src)) (Some (event_id e))
                              Attempt_duplicate None (Some (event_id e)) (Some hash) JNull) dr)
                         else (Inl (TraceQError ''INGEST_CONCURRENCY_CONFLICT''
                                 ''Concurrent ingest conflict'' 409), dr)
                     | None \<Rightarrow> (Inl (TraceQError ''INGEST_CONCURRENCY_CONFLICT''
                                 ''Concurrent ingest conflict'' 409), dr)))))"

definition claimed_id :: "env \<Rightarrow> json \<Rightarrow> string option" where
  "claimed_id E v =
     (case v of
        JObj d \<Rightarrow> (let c = dict_get ''event_id'' d in
                  if truthy c then Some (py_take 128 (py_str E c)) else None)
      | _ \<Rightarrow> None)"

text \<open>The guarded part: authentication, validation and authorisation.\<close>

definition admit ::
  "env \<Rightarrow> Settings \<Rightarrow> time \<Rightarrow> ingest_headers \<Rightarrow> json \<Rightarrow> db \<Rightarrow> (EventSource \<times> EventEnvelope) result \<times> db" where
  "admit E S now h value d =
     (case authenticate_source E S now h value d of
        (Inl e, d') \<Rightarrow> (Inl e, d')
      | (Inr src, d') \<Rightarrow>
          (rbind (validate_event (validator E) value) (\<lambda>e.
           rbind (authorize_event src e) (\<lambda>_. Inr (src, e))), d'))"

definition ingest_event ::
  "env \<Rightarrow> Settings \<Rightarrow> time \<Rightarrow> race \<Rightarrow> ingest_headers \<Rightarrow> json \<Rightarrow> db \<Rightarrow> IngestionResult result \<times> db" where
  "ingest_event E S now race h value d =
     (case admit E S now h value d of
        (Inl (TraceQError c m s), d1) \<Rightarrow>
          (Inl (TraceQError c m s), record_rejected_attempt now (h_source_id h) (claimed_id E value) c m d1)
      | (Inl (PyError x), d1) \<Rightarrow> (Inl (PyError x), d1)
      | (Inr (src, e), d1) \<Rightarrow> commit_event E S now race src e d1 (track_sequence src e d1))"

section \<open>The endpoint\<close>

text \<open>
  \<open>receive_event\<close> (\<^verbatim>\<open>backend/app/api/events.py\<close>): ingest, then rebuild the item and the items an
  invalidation affects, each in a session of its own. The body is None when it is not JSON.
\<close>

definition rebuild_or_mark :: "env \<Rightarrow> Settings \<Rightarrow> time \<Rightarrow> string \<Rightarrow> db \<Rightarrow> bool \<times> db" where
  "rebuild_or_mark E S now i d =
     (case rebuild_item E S now i d of
        (Inr _, d') \<Rightarrow> (True, d')
      | (Inl e, d') \<Rightarrow> (False, mark_projection_failed i (describe E e) d'))"

text \<open>\<open>value.get("item_id") or (value.get("payload") or {}).get("item_id")\<close>.\<close>

definition body_item :: "json \<Rightarrow> string option result" where
  "body_item v =
     (case v of
        JObj d \<Rightarrow>
          (case dict_get ''item_id'' d of
             JStr (c # cs) \<Rightarrow> Inr (Some (c # cs))
           | _ \<Rightarrow>
               (case dict_get ''payload'' d of
                  JObj pl \<Rightarrow> (case dict_get ''item_id'' pl of
                      JStr (c # cs) \<Rightarrow> Inr (Some (c # cs)) | _ \<Rightarrow> Inr None)
                | p \<Rightarrow> if truthy p then Inl (PyError ''AttributeError'') else Inr None))
      | _ \<Rightarrow> Inl (PyError ''AttributeError''))"

definition receive_event ::
  "env \<Rightarrow> Settings \<Rightarrow> time \<Rightarrow> race \<Rightarrow> ingest_headers \<Rightarrow> json option \<Rightarrow> db \<Rightarrow> IngestionResult result \<times> db" where
  "receive_event E S now race h body d =
     (case body of
        None \<Rightarrow>
          (Inl (TraceQError ''INVALID_JSON'' ''Request body must contain valid JSON'' 400),
           record_rejected_attempt now (h_source_id h) None ''INVALID_JSON''
             ''Request body must contain valid JSON'' d)
      | Some value \<Rightarrow>
          (case ingest_event E S now race h value d of
             (Inl e, d1) \<Rightarrow> (Inl e, d1)
           | (Inr res, d1) \<Rightarrow>
               (case body_item value of
                  Inl e \<Rightarrow> (Inl e, d1)
                | Inr i \<Rightarrow>
                    (let (status, d2) =
                       (case i of
                          Some item \<Rightarrow>
                            if res_ingestion_status res = ''accepted'' then
                              (case rebuild_or_mark E S now item d1 of
                                 (ok, d2) \<Rightarrow> (if ok then ''updated'' else ''failed'', d2))
                            else (res_projection_status res, d1)
                        | None \<Rightarrow> (res_projection_status res, d1));
                       d3 = fold (\<lambda>j db. snd (rebuild_or_mark E S now j db)) (res_affected_items res) d2 in
                     (Inr (res\<lparr>res_projection_status := status\<rparr>), d3)))))"

end
