(* ===== verification/TQ_Ingestion_Facts.thy ===== *)
theory TQ_Ingestion_Facts
  imports TQ_Ingestion
begin

text \<open>
  What the ingestion service guarantees: the log it writes is a chain \<open>verify_integrity\<close> accepts and
  is never rewritten, a refused event leaves no trace in it, an admitted event passed every gate, a
  repeated event is a duplicate, and a transport nonce is good for one request.
\<close>

section \<open>The ingestion service seals rows\<close>

interpretation sealer: event_sealer E "integrity_key S" "seal_event E S" for E S
proof unfold_locales
  fix i st r
  assume "seal_event E S i st = Inr r"
  then show "re_integrity_stream_id r = st_stream_id st" "re_integrity_seq r = st_last_seq st + 1"
    "re_prev_integrity_mac r = st_last_mac st"
    "row_mac E (integrity_key S) r = Inr (re_integrity_mac r)"
    by (auto simp: seal_event_def Let_def rbind_Inr_iff row_mac_def row_metadata_def)
qed

text \<open>What of the state the log consists of.\<close>

definition stream_part :: "IntegrityStreamState \<Rightarrow> string \<times> int \<times> bytes" where
  "stream_part st = (st_stream_id st, st_last_seq st, st_last_mac st)"

definition log_part :: "db \<Rightarrow> RawEvent list \<times> (string \<times> int \<times> bytes) list \<times> int" where
  "log_part d = (db_raw_events d, map stream_part (db_streams d), db_ingest_seq d)"

definition rows_of :: "string \<Rightarrow> db \<Rightarrow> RawEvent list" where
  "rows_of sid d = filter (\<lambda>r. re_integrity_stream_id r = sid) (db_raw_events d)"

definition log_ok :: "env \<Rightarrow> Settings \<Rightarrow> db \<Rightarrow> bool" where
  "log_ok E S d \<longleftrightarrow>
     distinct (map st_stream_id (db_streams d)) \<and>
     (\<forall>st \<in> set (db_streams d). tail_of E (integrity_key S) (rows_of (st_stream_id st) d) st) \<and>
     (\<forall>r \<in> set (db_raw_events d). re_integrity_stream_id r \<in> st_stream_id ` set (db_streams d)) \<and>
     distinct (map re_event_id (db_raw_events d)) \<and>
     sorted_wrt (<) (map re_ingest_seq (db_raw_events d)) \<and>
     (\<forall>r \<in> set (db_raw_events d). re_ingest_seq r \<le> db_ingest_seq d)"

lemma tail_of_part:
  "stream_part st = stream_part st' \<Longrightarrow> tail_of E k rs st = tail_of E k rs st'"
  by (simp add: stream_part_def tail_of_def)

lemma log_ok_part:
  assumes "log_part d' = log_part d" and "log_ok E S d"
  shows "log_ok E S d'"
proof -
  have raws: "db_raw_events d' = db_raw_events d" "db_ingest_seq d' = db_ingest_seq d"
    and st: "map stream_part (db_streams d') = map stream_part (db_streams d)"
    using assms(1) by (auto simp: log_part_def)
  have ids: "map st_stream_id (db_streams d') = map st_stream_id (db_streams d)"
    using arg_cong [OF st, of "map fst"] by (simp add: stream_part_def comp_def)
  have "tail_of E (integrity_key S) (rows_of (st_stream_id x) d') x" if x: "x \<in> set (db_streams d')" for x
  proof -
    have "stream_part x \<in> stream_part ` set (db_streams d)"
      using x arg_cong [OF st, of set] by auto
    then obtain y where y: "y \<in> set (db_streams d)" "stream_part x = stream_part y"
      by auto
    then have "rows_of (st_stream_id x) d' = rows_of (st_stream_id y) d"
      by (simp add: rows_of_def raws stream_part_def)
    then show ?thesis
      using assms(2) y tail_of_part [OF y(2)] by (simp add: log_ok_def)
  qed
  moreover have "st_stream_id ` set (db_streams d') = st_stream_id ` set (db_streams d)"
    using ids by (metis list.set_map)
  ultimately show ?thesis
    using assms(2) by (simp add: log_ok_def raws ids)
qed

text \<open>The operations around the append do not touch the log.\<close>

lemma alert_log [simp]: "log_part (alert a s t x d) = log_part d"
  by (simp add: alert_def log_part_def)

lemma add_attempt_log [simp]: "log_part (add_attempt a d) = log_part d"
  by (simp add: add_attempt_def log_part_def)

lemma touch_projection_log [simp]: "log_part (touch_projection i f d) = log_part d"
  by (simp add: touch_projection_def log_part_def)

lemma record_rejected_attempt_log [simp]:
  "log_part (record_rejected_attempt now s c code m d) = log_part d"
  by (simp add: record_rejected_attempt_def Let_def split: option.split)

lemma log_part_update [simp]:
  "log_part (d\<lparr>db_audit := a\<rparr>) = log_part d" "log_part (d\<lparr>db_sources := s\<rparr>) = log_part d"
  "log_part (d\<lparr>db_nonces := n\<rparr>) = log_part d" "log_part (d\<lparr>db_nonce_draws := k\<rparr>) = log_part d"
  by (simp_all add: log_part_def)

lemma track_sequence_log [simp]: "log_part (track_sequence src e d) = log_part d"
  by (simp add: track_sequence_def Let_def split: option.split)

lemma authenticate_source_log: "log_part (snd (authenticate_source E S now h v d)) = log_part d"
  by (simp add: authenticate_source_def authenticate_hmac_def Let_def split: option.split sum.split)

lemma admit_log: "log_part (snd (admit E S now h v d)) = log_part d"
  using authenticate_source_log [of E S now h v d] by (auto simp: admit_def split: prod.split sum.split)

lemma note_raw_log: "note_raw E i d = Inr d' \<Longrightarrow> log_part d' = log_part d"
  by (auto simp: note_raw_def split: if_splits option.splits)

lemma note_invalidation_log: "note_invalidation e d = (xs, d') \<Longrightarrow> log_part d' = log_part d"
  by (auto simp: note_invalidation_def Let_def log_part_def split: payload.splits)

lemma settle_existing_log: "log_part (snd (settle_existing now src e hash r d)) = log_part d"
  by (simp add: settle_existing_def)

section \<open>Appending keeps the chain\<close>

lemma stream_for_ok:
  assumes ok: "log_ok E S d" and sf: "stream_for sid d = Inr (st, d')"
  shows "log_ok E S d' \<and> st \<in> set (db_streams d') \<and> st_stream_id st = sid \<and>
    db_raw_events d' = db_raw_events d \<and> db_ingest_seq d' = db_ingest_seq d"
proof (cases "find_by st_stream_id sid (db_streams d)")
  case None
  then have new: "sid \<notin> st_stream_id ` set (db_streams d)"
    by (simp add: find_by_None_iff)
  then have rows: "rows_of sid d = []"
    using ok by (auto simp: rows_of_def log_ok_def filter_empty_conv)
  have d': "d' = d\<lparr>db_streams := db_streams d @ [st]\<rparr>"
    and st: "st = \<lparr>st_stream_id = sid, st_last_seq = 0, st_last_mac = [], st_status = Stream_ok\<rparr>"
    using sf None by (auto simp: stream_for_def Let_def split: if_splits)
  have "rows_of j d' = rows_of j d" for j
    by (simp add: rows_of_def d')
  then show ?thesis
    using ok new rows by (auto simp: log_ok_def d' st tail_of_fresh)
next
  case (Some x)
  then show ?thesis
    using assms by (auto simp: stream_for_def dest!: find_by_SomeD)
qed

lemma append_raw_ok:
  assumes ok: "log_ok E S d" and st: "st \<in> set (db_streams d)" and r: "seal_event E S i st = Inr r"
    and new: "re_event_id r \<notin> re_event_id ` set (db_raw_events d)"
    and seq: "re_ingest_seq r = db_ingest_seq d + 1"
  shows "log_ok E S (append_raw r d)"
proof -
  let ?upd = "\<lambda>st. st\<lparr>st_last_seq := re_integrity_seq r, st_last_mac := re_integrity_mac r\<rparr>"
  let ?d = "append_raw r d"
  have sid: "re_integrity_stream_id r = st_stream_id st"
    by (rule sealer.seal_stream [OF r])
  have streams: "db_streams ?d = update_by st_stream_id (st_stream_id st) ?upd (db_streams d)"
    and raws: "db_raw_events ?d = db_raw_events d @ [r]" "db_ingest_seq ?d = re_ingest_seq r"
    by (simp_all add: append_raw_def sid)
  have ids: "map st_stream_id (db_streams ?d) = map st_stream_id (db_streams d)"
    unfolding streams by (rule map_update_by) simp
  have tail: "tail_of E (integrity_key S) (rows_of (st_stream_id x) ?d) x" if x: "x \<in> set (db_streams ?d)" for x
  proof (cases "st_stream_id x = st_stream_id st")
    case True
    then obtain y where "y \<in> set (db_streams d)" "st_stream_id y = st_stream_id st" "x = ?upd y"
      using x by (auto simp: streams set_update_by)
    moreover from this have "y = st"
      using ok st by (metis distinct_map inj_onD log_ok_def)
    moreover have "tail_of E (integrity_key S) (rows_of (st_stream_id st) d @ [r])
        (st\<lparr>st_last_seq := st_last_seq st + 1, st_last_mac := re_integrity_mac r\<rparr>)"
      using ok st by (intro sealer.seal_keeps_tail [OF _ r]) (simp add: log_ok_def)
    ultimately show ?thesis
      using True sealer.seal_seq [OF r] by (simp add: rows_of_def raws sid)
  next
    case False
    then have "x \<in> set (db_streams d)" "rows_of (st_stream_id x) ?d = rows_of (st_stream_id x) d"
      using x by (auto simp: streams set_update_by rows_of_def raws sid)
    then show ?thesis
      using ok by (simp add: log_ok_def)
  qed
  have set_ids: "st_stream_id ` set (db_streams ?d) = st_stream_id ` set (db_streams d)"
    using ids by (metis list.set_map)
  have sorted: "sorted_wrt (<) (map re_ingest_seq (db_raw_events ?d))"
    using ok seq by (auto simp: log_ok_def raws sorted_wrt_append intro: le_less_trans)
  show ?thesis
    unfolding log_ok_def set_ids
    using ok tail sorted new st seq by (auto simp: ids raws sid log_ok_def)
qed

lemma append_sealed_cases:
  assumes "append_sealed E S now src e plaintext hash d = Inr d'"
  obtains st d2 i r where
    "stream_for (''source:'' @ es_source_id src) (d\<lparr>db_nonce_draws := Suc (db_nonce_draws d)\<rparr>) = Inr (st, d2)"
    "si_event i = e" "si_received i = now" "si_content_hash i = hash" "si_ingest_seq i = db_ingest_seq d2 + 1"
    "si_nonce i = urandom E (db_nonce_draws d)"
    "si_ciphertext i = aesgcm_encrypt E (aes_key S) (si_nonce i) plaintext (build_aad E (event_aad S now e))"
    "seal_event E S i st = Inr r" "d' = append_raw r d2"
proof -
  let ?n = "urandom E (db_nonce_draws d)"
  let ?c = "aesgcm_encrypt E (aes_key S) ?n plaintext (build_aad E (event_aad S now e))"
  from assms obtain st d2 r where
    sf: "stream_for (''source:'' @ es_source_id src) (d\<lparr>db_nonce_draws := Suc (db_nonce_draws d)\<rparr>) = Inr (st, d2)"
    and r: "seal_event E S \<lparr>si_event = e, si_received = now, si_ciphertext = ?c, si_nonce = ?n,
        si_content_hash = hash, si_ingest_seq = db_ingest_seq d2 + 1\<rparr> st = Inr r"
    and d': "d' = append_raw r d2"
    unfolding append_sealed_def Let_def encrypt_event_def prod.case
    by (auto simp: rbind_Inr_iff)
  show ?thesis
    by (rule that [OF sf _ _ _ _ _ _ r d']) simp_all
qed

lemma seal_event_fields:
  "seal_event E S i st = Inr r \<Longrightarrow>
     re_event_id r = event_id (si_event i) \<and> re_ingest_seq r = si_ingest_seq i \<and>
     re_content_hash r = si_content_hash i \<and> re_payload_ciphertext r = si_ciphertext i \<and>
     re_nonce r = si_nonce i \<and> re_item_id r = item_id (si_event i) \<and>
     re_event_type r = event_type (si_event i) \<and> re_occurred_at r = occurred_at (si_event i) \<and>
     re_operation_run_id r = operation_run_id (si_event i) \<and>
     re_source_id r = source_id (source (si_event i)) \<and> raw_aad r = event_aad S (si_received i) (si_event i)"
  by (auto simp: seal_event_def Let_def rbind_Inr_iff raw_aad_def event_aad_def)

lemma stream_for_log: "stream_for sid d = Inr (st, d') \<Longrightarrow> db_raw_events d' = db_raw_events d"
  by (auto simp: stream_for_def Let_def split: option.splits if_splits)

lemma append_sealed_appends:
  assumes "append_sealed E S now src e plaintext hash d = Inr d'"
  shows "prefix (db_raw_events d) (db_raw_events d')"
  using assms by (rule append_sealed_cases) (simp add: append_raw_def stream_for_log)

lemma append_sealed_ok:
  assumes ok: "log_ok E S d" and a: "append_sealed E S now src e plaintext hash d = Inr d'"
    and new: "event_id e \<notin> re_event_id ` set (db_raw_events d)"
  shows "log_ok E S d' \<and> (\<exists>r. db_raw_events d' = db_raw_events d @ [r] \<and> re_event_id r = event_id e)"
  using a
proof (rule append_sealed_cases)
  fix st d2 i r
  let ?d1 = "d\<lparr>db_nonce_draws := Suc (db_nonce_draws d)\<rparr>"
  assume sf: "stream_for (''source:'' @ es_source_id src) ?d1 = Inr (st, d2)" and i: "si_event i = e"
    "si_ingest_seq i = db_ingest_seq d2 + 1" and r: "seal_event E S i st = Inr r" and d': "d' = append_raw r d2"
  have "log_ok E S ?d1"
    using ok by (rule log_ok_part [rotated]) simp
  from stream_for_ok [OF this sf] have s: "log_ok E S d2" "st \<in> set (db_streams d2)"
    "db_raw_events d2 = db_raw_events d"
    by auto
  have "log_ok E S d'"
    unfolding d' using s new seal_event_fields [OF r] i by (intro append_raw_ok [OF s(1,2) r]) auto
  moreover have "db_raw_events d' = db_raw_events d @ [r]"
    by (simp add: d' append_raw_def s)
  ultimately show ?thesis
    using seal_event_fields [OF r] i by auto
qed

section \<open>The outcomes of the handler\<close>

lemma store_event_steps:
  assumes "store_event E S now src e plaintext hash d = Inr (affected, d')"
  obtains d1 where "append_sealed E S now src e plaintext hash d = Inr d1" "log_part d' = log_part d1"
proof -
  from assms obtain d1 d2 where a: "append_sealed E S now src e plaintext hash d = Inr d1"
    and n: "note_raw E (item_id e) d1 = Inr d2"
    and rest: "(case note_invalidation e d2 of (affected, d3) \<Rightarrow>
       Inr (affected, add_attempt (attempt_row now (Some (es_source_id src)) (Some (event_id e))
         Attempt_accepted None (Some (event_id e)) (Some hash) JNull) d3)) = (Inr (affected, d') :: _ result)"
    unfolding store_event_def Let_def rbind_Inr_iff by blast
  obtain xs d3 where i: "note_invalidation e d2 = (xs, d3)" by fastforce
  show ?thesis
    by (rule that [OF a]) (use rest in \<open>auto simp: i note_raw_log [OF n] note_invalidation_log [OF i]\<close>)
qed

text \<open>How the log a handler leaves relates to the one it found (or the one a racing ingest left).\<close>

lemma commit_event_log:
  assumes "commit_event E S now race src e before d = (res, d')" and "log_part before = log_part d"
  obtains (same) "log_part d' = log_part d"
  | (raced) dr where "race = Raced_at_flush dr \<or> race = Raced_at_commit dr" "log_part d' = log_part dr"
  | (appended) plaintext hash d1 where "event_id e \<notin> re_event_id ` set (db_raw_events d)"
      "append_sealed E S now src e plaintext hash d = Inr d1" "log_part d' = log_part d1" "race = No_race"
      "\<exists>x. res = Inr x"
proof -
  let ?p = "canonical_json_bytes (float_repr E) (canonical_event_dict (validator E) e)"
  let ?h = "sha256_hex E ?p"
  show ?thesis
  proof (cases "find_by re_event_id (event_id e) (db_raw_events d)")
    case (Some r)
    then have "d' = snd (settle_existing now src e ?h r d)"
      using assms(1) by (simp add: commit_event_def Let_def)
    then show ?thesis
      using settle_existing_log same by simp
  next
    case None
    show ?thesis
    proof (cases "store_event E S now src e ?p ?h d")
      case (Inl x)
      then show ?thesis
        using assms None same by (simp add: commit_event_def Let_def)
    next
      case (Inr ad)
      obtain affected d2 where ad: "ad = (affected, d2)" by fastforce
      show ?thesis
      proof (cases race)
        case No_race
        then have "d' = d2" "\<exists>x. res = Inr x"
          using assms(1) None Inr ad by (auto simp: commit_event_def Let_def)
        moreover obtain d1 where "append_sealed E S now src e ?p ?h d = Inr d1" "log_part d2 = log_part d1"
          using store_event_steps Inr ad by blast
        moreover have "event_id e \<notin> re_event_id ` set (db_raw_events d)"
          using None by (simp add: find_by_None_iff)
        ultimately show ?thesis
          using appended No_race by simp
      next
        case (Raced_at_flush dr)
        then show ?thesis
          using assms(1) None Inr ad by (intro raced [of dr]) (auto simp: commit_event_def Let_def)
      next
        case (Raced_at_commit dr)
        then show ?thesis
          using assms(1) None Inr ad
          by (intro raced [of dr]) (auto simp: commit_event_def Let_def split: option.splits if_splits)
      qed
    qed
  qed
qed

text \<open>An event that was admitted: by whom, and as what.\<close>

lemma ingest_event_cases:
  assumes "ingest_event E S now race h v d = (res, d')"
  obtains (refused) c m s d1 where "admit E S now h v d = (Inl (TraceQError c m s), d1)"
      "res = Inl (TraceQError c m s)"
      "d' = record_rejected_attempt now (h_source_id h) (claimed_id E v) c m d1"
  | (crashed) x d1 where "admit E S now h v d = (Inl (PyError x), d1)" "res = Inl (PyError x)" "d' = d1"
  | (admitted) src e d1 where "admit E S now h v d = (Inr (src, e), d1)"
      "commit_event E S now race src e d1 (track_sequence src e d1) = (res, d')"
  using assms by (auto simp: ingest_event_def split: prod.splits sum.splits exn.splits)

lemma ingest_keeps_log_ok:
  assumes "ingest_event E S now race h v d = (res, d')" and ok: "log_ok E S d"
    and race: "\<And>dr. race = Raced_at_flush dr \<or> race = Raced_at_commit dr \<Longrightarrow> log_ok E S dr"
  shows "log_ok E S d'"
  using assms(1)
proof (cases rule: ingest_event_cases)
  case (refused c m s d1)
  then show ?thesis
    using admit_log [of E S now h v d] log_ok_part [OF _ ok] by simp
next
  case (crashed x d1)
  then show ?thesis
    using admit_log [of E S now h v d] log_ok_part [OF _ ok] by simp
next
  case (admitted src e d1)
  have part: "log_part d1 = log_part d"
    using admit_log [of E S now h v d] admitted(1) by simp
  have ok1: "log_ok E S (track_sequence src e d1)"
    using part by (intro log_ok_part [OF _ ok]) simp
  show ?thesis
    using admitted(2)
  proof (rule commit_event_log)
    show "log_part d1 = log_part (track_sequence src e d1)"
      by simp
  next
    assume "log_part d' = log_part (track_sequence src e d1)"
    then show ?thesis by (rule log_ok_part [OF _ ok1])
  next
    fix dr
    assume "race = Raced_at_flush dr \<or> race = Raced_at_commit dr" "log_part d' = log_part dr"
    then show ?thesis using race log_ok_part by blast
  next
    fix plaintext hash d2
    assume "event_id e \<notin> re_event_id ` set (db_raw_events (track_sequence src e d1))"
      "append_sealed E S now src e plaintext hash (track_sequence src e d1) = Inr d2"
      "log_part d' = log_part d2"
    then show ?thesis
      using append_sealed_ok [OF ok1] log_ok_part by blast
  qed
qed

lemma ingest_appends:
  assumes "ingest_event E S now race h v d = (res, d')"
    and race: "\<And>dr. race = Raced_at_flush dr \<or> race = Raced_at_commit dr \<Longrightarrow>
      prefix (db_raw_events d) (db_raw_events dr)"
  shows "prefix (db_raw_events d) (db_raw_events d')"
proof -
  have raws: "log_part x = log_part y \<Longrightarrow> db_raw_events x = db_raw_events y" for x y
    by (simp add: log_part_def)
  show ?thesis
    using assms(1)
  proof (cases rule: ingest_event_cases)
    case (refused c m s d1)
    then show ?thesis
      using raws [OF admit_log [of E S now h v d]]
        raws [OF record_rejected_attempt_log [of now "h_source_id h" "claimed_id E v" c m d1]] by simp
  next
    case (crashed x d1)
    then show ?thesis
      using raws [OF admit_log [of E S now h v d]] by simp
  next
    case (admitted src e d1)
    have same: "db_raw_events (track_sequence src e d1) = db_raw_events d"
      using raws [OF admit_log [of E S now h v d]] raws [OF track_sequence_log [of src e d1]] admitted(1)
      by simp
    show ?thesis
      using admitted(2)
    proof (rule commit_event_log)
      show "log_part d1 = log_part (track_sequence src e d1)"
        by simp
    next
      assume l: "log_part d' = log_part (track_sequence src e d1)"
      then show ?thesis using same raws [OF l] by simp
    next
      fix dr
      assume "race = Raced_at_flush dr \<or> race = Raced_at_commit dr" "log_part d' = log_part dr"
      then show ?thesis using race [of dr] raws [of d' dr] by simp
    next
      fix plaintext hash d2
      assume a: "append_sealed E S now src e plaintext hash (track_sequence src e d1) = Inr d2"
        and l: "log_part d' = log_part d2"
      have "db_raw_events d' = db_raw_events d2"
        by (rule raws [OF l])
      moreover have "prefix (db_raw_events (track_sequence src e d1)) (db_raw_events d2)"
        using a by (rule append_sealed_appends)
      ultimately show ?thesis
        using same by simp
    qed
  qed
qed

section \<open>Histories of the log\<close>

text \<open>
  The states of the log: an ingest, alone or racing with other ingests, and any operation that
  leaves the log as it is.
\<close>

inductive log_step :: "env \<Rightarrow> Settings \<Rightarrow> db \<Rightarrow> db \<Rightarrow> bool" for E S where
  other: "log_part d' = log_part d \<Longrightarrow> log_step E S d d'"
| ingest: "ingest_event E S now No_race h v d = (res, d') \<Longrightarrow> log_step E S d d'"
| raced_flush: "log_step E S d dr \<Longrightarrow> ingest_event E S now (Raced_at_flush dr) h v d = (res, d') \<Longrightarrow>
    log_step E S d d'"
| raced_commit: "log_step E S d dr \<Longrightarrow> ingest_event E S now (Raced_at_commit dr) h v d = (res, d') \<Longrightarrow>
    log_step E S d d'"

lemma log_step_ok: "log_step E S d d' \<Longrightarrow> log_ok E S d \<Longrightarrow> log_ok E S d'"
  by (induction rule: log_step.induct) (auto intro: log_ok_part ingest_keeps_log_ok)

lemma log_step_appends: "log_step E S d d' \<Longrightarrow> prefix (db_raw_events d) (db_raw_events d')"
  by (induction rule: log_step.induct) (auto simp: log_part_def intro: ingest_appends)

interpretation log_inv: step_invariant "log_step E S" "log_ok E S" for E S
  by unfold_locales (rule log_step_ok)

interpretation raw_log: append_only_log "log_step E S" db_raw_events for E S
  by unfold_locales (rule log_step_appends)

lemma log_ok_empty: "log_part d = log_part empty_db \<Longrightarrow> log_ok E S d"
  by (auto simp: log_part_def log_ok_def empty_db_def)

lemma log_ok_verifies: "log_ok E S d \<Longrightarrow> fst (verify_integrity E S d) = Inr []"
  by (rule verify_clean)
    (auto simp: check_stream_def stream_rows_def log_ok_def rows_of_def intro: tail_verifies)

section \<open>Gates\<close>

text \<open>What a source showed to be authenticated.\<close>

definition shared_secret_ok :: "env \<Rightarrow> ingest_headers \<Rightarrow> EventSource \<Rightarrow> bool" where
  "shared_secret_ok E h src \<longleftrightarrow> has_id (h_source_token h) \<and>
     es_token_hash src = Some (token_hash E (the (h_source_token h)))"

definition signature_ok :: "env \<Rightarrow> Settings \<Rightarrow> time \<Rightarrow> ingest_headers \<Rightarrow> json \<Rightarrow> EventSource \<Rightarrow> db \<Rightarrow> bool" where
  "signature_ok E S now h body src d \<longleftrightarrow>
     (\<exists>ts nonce sig t secret. h_timestamp h = Some ts \<and> h_nonce h = Some nonce \<and> h_signature h = Some sig \<and>
        parse_transport_time E ts = Inr t \<and>
        \<bar>now - t\<bar> \<le> source_timestamp_tolerance_seconds S * 1000000 \<and>
        \<not> nonce_used (es_source_id src) nonce d \<and>
        hmac_secret E S (es_source_id src) = Inr (Some secret) \<and> secret \<noteq> [] \<and>
        expected_signature E secret ts nonce body = to_lower sig)"

lemma authenticate_hmac_Inr:
  assumes "authenticate_hmac E S now h body src d = (Inr s, d')"
  shows "s = src \<and> signature_ok E S now h body src d \<and> nonce_used (es_source_id src) (the (h_nonce h)) d' \<and>
    db_sources d' = db_sources d"
proof -
  from assms obtain ts nonce sig where h: "h_timestamp h = Some ts" "h_nonce h = Some nonce" "h_signature h = Some sig"
    by (auto simp: authenticate_hmac_def has_id_def split: if_splits)
  from assms obtain t where t: "parse_transport_time E ts = Inr t"
    by (auto simp: authenticate_hmac_def h Let_def split: if_splits sum.splits)
  from assms have n: "\<bar>now - t\<bar> \<le> source_timestamp_tolerance_seconds S * 1000000"
    "\<not> nonce_used (es_source_id src) nonce d"
    by (auto simp: authenticate_hmac_def h t Let_def split: if_splits)
  from assms obtain secret where s: "hmac_secret E S (es_source_id src) = Inr (Some secret)" "secret \<noteq> []"
    by (auto simp: authenticate_hmac_def h t n Let_def has_id_def split: if_splits sum.splits)
  from assms have sig: "expected_signature E secret ts nonce body = to_lower sig"
    and d': "d' = d\<lparr>db_nonces := db_nonces d @
        [\<lparr>tn_source_id = es_source_id src, tn_nonce = nonce, tn_timestamp = t\<rparr>]\<rparr>" "s = src"
    by (auto simp: authenticate_hmac_def h t n s Let_def has_id_def compare_digest_def split: if_splits)
  show ?thesis
    using h t n s sig by (auto simp: signature_ok_def d' nonce_used_def)
qed

lemma authenticate_source_Inr:
  assumes "authenticate_source E S now h body d = (Inr src, d')"
  shows "src \<in> set (db_sources d) \<and> h_source_id h = Some (es_source_id src) \<and> usable_source now src \<and>
    (if es_auth_method src = HMAC_V1
     then signature_ok E S now h body src d \<and> nonce_used (es_source_id src) (the (h_nonce h)) d'
     else shared_secret_ok E h src \<and> d' = d) \<and> db_sources d' = db_sources d"
proof -
  from assms obtain i s where i: "h_source_id h = Some i" "find_by es_source_id i (db_sources d) = Some s"
    "usable_source now s"
    by (auto simp: authenticate_source_def has_id_def split: if_splits option.splits)
  have s: "s \<in> set (db_sources d)" "es_source_id s = i"
    using find_by_SomeD [OF i(2)] by auto
  show ?thesis
  proof (cases "es_auth_method s = HMAC_V1")
    case True
    then have "authenticate_hmac E S now h body s d = (Inr src, d')"
      using assms i by (simp add: authenticate_source_def split: if_splits)
    from authenticate_hmac_Inr [OF this] show ?thesis
      using i s True by auto
  next
    case False
    then have "src = s" "d' = d" "shared_secret_ok E h s"
      using assms i by (auto simp: authenticate_source_def shared_secret_ok_def split: if_splits)
    then show ?thesis
      using i s False by simp
  qed
qed

text \<open>The rights of a source, as the code's guards state them.\<close>

definition within_rights :: "EventSource \<Rightarrow> EventEnvelope \<Rightarrow> bool" where
  "within_rights src e \<longleftrightarrow> source_id (source e) = es_source_id src \<and> source_type (source e) = es_source_type src \<and>
     event_type e \<in> set (es_allowed_event_types src) \<and>
     in_scope (es_allowed_line_ids src) (payload_line (payload e)) \<and>
     in_scope (es_allowed_station_ids src) (payload_station (payload e)) \<and>
     (event_type e = ''control_device.invalidated'' \<longrightarrow> es_source_type src = ''calibration_system'')"

lemma authorize_event_iff: "authorize_event src e = Inr () \<longleftrightarrow> within_rights src e"
  by (auto simp: authorize_event_def within_rights_def)

lemma admit_Inr:
  assumes "admit E S now h v d = (Inr (src, e), d')"
  shows "authenticate_source E S now h v d = (Inr src, d') \<and> validate_event (validator E) v = Inr e \<and>
    within_rights src e"
  using assms
  by (auto simp: admit_def rbind_Inr_iff authorize_event_iff [symmetric] split: prod.splits sum.splits)

text \<open>A nonce that is stored is refused, whatever else the request carries.\<close>

lemma used_nonce_refused:
  assumes "find_by es_source_id (es_source_id src) (db_sources d) = Some src" "es_auth_method src = HMAC_V1"
    and "h_source_id h = Some (es_source_id src)" "h_nonce h = Some nonce" "nonce_used (es_source_id src) nonce d"
  shows "\<exists>x. fst (authenticate_source E S now h body d) = Inl x"
proof (cases "fst (authenticate_source E S now h body d)")
  case (Inr s)
  then obtain d' where a: "authenticate_source E S now h body d = (Inr s, d')"
    by (cases "authenticate_source E S now h body d") simp
  from authenticate_source_Inr [OF this] have "s \<in> set (db_sources d)" "es_source_id s = es_source_id src"
    using assms(3) by auto
  moreover have "s = src"
    using a assms(1-3) authenticate_hmac_Inr by (auto simp: authenticate_source_def split: if_splits)
  ultimately have "signature_ok E S now h body src d"
    using authenticate_source_Inr [OF a] assms(2) by simp
  then show ?thesis
    using assms(4,5) by (auto simp: signature_ok_def)
qed simp

section \<open>Refusals and repetitions\<close>

text \<open>What an ingest may write besides the log.\<close>

definition ingest_frame :: "db \<Rightarrow> db" where
  "ingest_frame d = d\<lparr>db_sources := [], db_attempts := [], db_nonces := [], db_alerts := [], db_audit := []\<rparr>"

lemma frame_simps [simp]:
  "ingest_frame (alert a s t x d) = ingest_frame d" "ingest_frame (add_attempt r d) = ingest_frame d"
  "ingest_frame (d\<lparr>db_audit := u\<rparr>) = ingest_frame d" "ingest_frame (d\<lparr>db_nonces := n\<rparr>) = ingest_frame d"
  "ingest_frame (d\<lparr>db_sources := w\<rparr>) = ingest_frame d"
  by (simp_all add: ingest_frame_def alert_def add_attempt_def)

lemma record_rejected_frame [simp]:
  "ingest_frame (record_rejected_attempt now s c code m d) = ingest_frame d"
  by (simp add: record_rejected_attempt_def Let_def split: option.split)

lemma track_sequence_frame [simp]: "ingest_frame (track_sequence src e d) = ingest_frame d"
  by (simp add: track_sequence_def Let_def split: option.split)

lemma authenticate_frame: "ingest_frame (snd (authenticate_source E S now h v d)) = ingest_frame d"
  by (simp add: authenticate_source_def authenticate_hmac_def Let_def split: option.split sum.split)

lemma admit_frame: "ingest_frame (snd (admit E S now h v d)) = ingest_frame d"
  using authenticate_frame [of E S now h v d] by (auto simp: admit_def split: prod.split sum.split)

lemma attempts_simps [simp]:
  "db_attempts (alert a s t x d) = db_attempts d" "db_attempts (add_attempt r d) = db_attempts d @ [r]"
  "db_attempts (track_sequence src e d) = db_attempts d"
  by (simp_all add: alert_def add_attempt_def track_sequence_def Let_def split: option.split)

lemma record_rejected_attempts [simp]:
  "db_attempts (record_rejected_attempt now s c code m d) = db_attempts d @
     [attempt_row now s c Attempt_rejected (Some code) None None (JObj [(''message'', JStr (py_take 1000 m))])]"
  by (simp add: record_rejected_attempt_def Let_def split: option.split)

lemma authenticate_attempts: "db_attempts (snd (authenticate_source E S now h v d)) = db_attempts d"
  by (simp add: authenticate_source_def authenticate_hmac_def Let_def split: option.split sum.split)

lemma admit_attempts: "db_attempts (snd (admit E S now h v d)) = db_attempts d"
  using authenticate_attempts [of E S now h v d] by (auto simp: admit_def split: prod.split sum.split)

text \<open>Storing an event fails only outside the service's own errors.\<close>

lemma to_bytes_Inl: "to_bytes k n = Inl x \<Longrightarrow> x = PyError ''OverflowError''"
  by (auto simp: to_bytes_def split: if_splits)

lemma frame_Inl: "frame p m c n k = Inl x \<Longrightarrow> x = PyError ''OverflowError''"
  by (auto simp: frame_def rbind_Inl_iff dest: to_bytes_Inl)

lemma seal_event_Inl: "seal_event E S i st = Inl x \<Longrightarrow> x = PyError ''OverflowError''"
  by (auto simp: seal_event_def compute_integrity_mac_def Let_def rbind_Inl_iff dest: frame_Inl)

lemma append_sealed_Inl:
  "append_sealed E S now src e p hash d = Inl x \<Longrightarrow> x \<in> {PyError ''DataError'', PyError ''OverflowError''}"
  by (auto simp: append_sealed_def encrypt_event_def Let_def rbind_Inl_iff stream_for_def
      dest: seal_event_Inl split: option.splits if_splits)

lemma store_event_Inl:
  assumes "store_event E S now src e p hash d = Inl x"
  shows "x \<in> {PyError ''DataError'', PyError ''OverflowError'', PyError ''TypeError''}"
proof -
  have n: "note_raw E i d1 = Inl x \<Longrightarrow> x = PyError ''TypeError''" for i d1
    by (auto simp: note_raw_def split: if_splits option.splits)
  have "append_sealed E S now src e p hash d = Inl x \<or> (\<exists>d1. note_raw E (item_id e) d1 = Inl x)"
    using assms by (auto simp: store_event_def rbind_Inl_iff split: prod.splits)
  then show ?thesis
    using n append_sealed_Inl by fastforce
qed

lemma commit_event_Inl:
  assumes "commit_event E S now No_race src e d0 d = (Inl x, d')"
  shows "(d' = d0 \<and> x \<in> {PyError ''DataError'', PyError ''OverflowError'', PyError ''TypeError''}) \<or>
    (ingest_frame d' = ingest_frame d \<and> err_code x = ''EVENT_ID_CONFLICT'' \<and>
     (\<exists>a. db_attempts d' = db_attempts d @ [a] \<and> ia_error_code a = Some ''EVENT_ID_CONFLICT''))"
proof -
  let ?p = "canonical_json_bytes (float_repr E) (canonical_event_dict (validator E) e)"
  let ?h = "sha256_hex E ?p"
  show ?thesis
  proof (cases "find_by re_event_id (event_id e) (db_raw_events d)")
    case (Some r)
    then show ?thesis
      using assms by (auto simp: commit_event_def Let_def settle_existing_def attempt_row_def split: if_splits)
  next
    case None
    then have "store_event E S now src e ?p ?h d = Inl x" "d' = d0"
      using assms by (auto simp: commit_event_def Let_def split: sum.splits prod.splits)
    then show ?thesis
      using store_event_Inl by blast
  qed
qed

lemma ingest_refusal:
  assumes "ingest_event E S now No_race h v d = (Inl x, d')"
  shows "ingest_frame d' = ingest_frame d"
    and "x = TraceQError c m s \<Longrightarrow>
      \<exists>a. db_attempts d' = db_attempts d @ [a] \<and> ia_error_code a = Some c"
proof -
  note adm = admit_frame [of E S now h v d] admit_attempts [of E S now h v d]
  have "ingest_frame d' = ingest_frame d \<and> (x = TraceQError c m s \<longrightarrow>
      (\<exists>a. db_attempts d' = db_attempts d @ [a] \<and> ia_error_code a = Some c))" for c m s
    using assms
  proof (cases rule: ingest_event_cases)
    case (refused c m s d1)
    then show ?thesis
      using adm by (auto simp: attempt_row_def)
  next
    case (crashed y d1)
    then show ?thesis
      using adm by auto
  next
    case (admitted src e d1)
    then show ?thesis
      using adm commit_event_Inl [OF admitted(2)] by auto
  qed
  then show "ingest_frame d' = ingest_frame d"
    and "x = TraceQError c m s \<Longrightarrow> \<exists>a. db_attempts d' = db_attempts d @ [a] \<and> ia_error_code a = Some c"
    by blast+
qed

text \<open>An event identifier the log holds is settled without an append.\<close>

lemma known_event:
  assumes a: "admit E S now h v d = (Inr (src, e), d1)"
    and r: "find_by re_event_id (event_id e) (db_raw_events d) = Some r"
    and i: "ingest_event E S now race h v d = (res, d')"
  shows "ingest_frame d' = ingest_frame d \<and>
    (if re_content_hash r = sha256_hex E (canonical_json_bytes (float_repr E) (canonical_event_dict (validator E) e))
     then \<exists>x. res = Inr x \<and> res_ingestion_status x = ''duplicate''
     else \<exists>m. res = Inl (TraceQError ''EVENT_ID_CONFLICT'' m 409))"
proof -
  have "db_raw_events (track_sequence src e d1) = db_raw_events d"
    using arg_cong [OF admit_log [of E S now h v d], of fst] arg_cong [OF track_sequence_log [of src e d1], of fst] a
    by (simp add: log_part_def)
  then show ?thesis
    using i r a admit_frame [of E S now h v d]
    by (auto simp: ingest_event_def commit_event_def Let_def settle_existing_def duplicate_result_def)
qed

text \<open>The row of an accepted event opens to the document that was received.\<close>

lemma accepted_row:
  assumes "append_sealed E S now src e p hash d = Inr d'"
    and "\<And>k n pt a. aesgcm_decrypt E k n (aesgcm_encrypt E k n pt a) a = Some pt"
  shows "\<exists>r. db_raw_events d' = db_raw_events d @ [r] \<and> re_event_id r = event_id e \<and>
    re_item_id r = item_id e \<and> re_occurred_at r = occurred_at e \<and> re_content_hash r = hash \<and>
    decrypt_event E (re_payload_ciphertext r) (re_nonce r) (aes_key S) (build_aad E (raw_aad r)) = Inr p"
  using assms(1)
proof (rule append_sealed_cases)
  fix st d2 i r
  assume i: "si_event i = e" "si_received i = now" "si_content_hash i = hash"
    "si_ciphertext i = aesgcm_encrypt E (aes_key S) (si_nonce i) p (build_aad E (event_aad S now e))"
    and r: "seal_event E S i st = Inr r" and d': "d' = append_raw r d2"
    and sf: "stream_for (''source:'' @ es_source_id src) (d\<lparr>db_nonce_draws := Suc (db_nonce_draws d)\<rparr>) = Inr (st, d2)"
  have "db_raw_events d' = db_raw_events d @ [r]"
    using stream_for_log [OF sf] by (simp add: d' append_raw_def)
  then show ?thesis
    using seal_event_fields [OF r] i assms(2) by (intro exI [of _ r]) (simp add: decrypt_event_def)
qed

lemma accepted_event:
  assumes "ingest_event E S now No_race h v d = (Inr res, d')" and "res_ingestion_status res = ''accepted''"
  obtains src e d1 d2 where "admit E S now h v d = (Inr (src, e), d1)"
    "append_sealed E S now src e (canonical_json_bytes (float_repr E) (canonical_event_dict (validator E) e))
       (res_content_hash res) (track_sequence src e d1) = Inr d2"
    "log_part d' = log_part d2" "res_event_id res = event_id e"
    "res_content_hash res = sha256_hex E (canonical_json_bytes (float_repr E) (canonical_event_dict (validator E) e))"
    "event_id e \<notin> re_event_id ` set (db_raw_events d)" "log_part (track_sequence src e d1) = log_part d"
  using assms(1)
proof (cases rule: ingest_event_cases)
  case (admitted src e d1)
  let ?p = "canonical_json_bytes (float_repr E) (canonical_event_dict (validator E) e)"
  let ?h = "sha256_hex E ?p"
  have lp: "log_part (track_sequence src e d1) = log_part d"
    using admit_log [of E S now h v d] admitted(1) by simp
  then have raws: "db_raw_events (track_sequence src e d1) = db_raw_events d"
    by (simp add: log_part_def)
  have none: "find_by re_event_id (event_id e) (db_raw_events d) = None"
    using admitted(2) assms(2)
    by (cases "find_by re_event_id (event_id e) (db_raw_events d)")
      (auto simp: commit_event_def Let_def raws settle_existing_def duplicate_result_def split: if_splits)
  then obtain affected where st: "store_event E S now src e ?p ?h (track_sequence src e d1) = Inr (affected, d')"
    and res: "res_event_id res = event_id e" "res_content_hash res = ?h"
    using admitted(2) by (auto simp: commit_event_def Let_def raws split: sum.splits prod.splits)
  obtain d2 where "append_sealed E S now src e ?p ?h (track_sequence src e d1) = Inr d2" "log_part d' = log_part d2"
    using store_event_steps [OF st] by blast
  then show ?thesis
    using admitted(1) lp res none by (intro that [of src e d1 d2]) (simp_all add: find_by_None_iff)
qed simp_all

end
