(* ===== verification/TQ_Sample.thy ===== *)
theory TQ_Sample
  imports TQ_Ingestion_Facts
begin

text \<open>
  A small installation on which the properties are evaluated: concrete stand-ins for the libraries
  (they satisfy the documented behaviour the properties rely on), settings, two sources and a
  few events. The stand-ins are not models of the libraries.
\<close>

fun mark_of :: "time \<Rightarrow> string" where
  "mark_of t = (if 0 \<le> t then replicate (nat t) CHR ''p'' else replicate (nat (- t)) CHR ''n'')"

definition time_of :: "string \<Rightarrow> time" where
  "time_of s = (case s of [] \<Rightarrow> 0 | c # _ \<Rightarrow> if c = CHR ''p'' then int (length s) else - int (length s))"

lemma time_of_mark [simp]: "time_of (mark_of t) = t"
  by (cases "nat t"; cases "nat (- t)") (auto simp: time_of_def split: list.split)

lemma sample_marks: "mark_of 3 = ''ppp''" "mark_of 9 = ''ppppppppp''"
  by (simp_all add: numeral_nat)

declare mark_of.simps [simp del]

definition sample_validator :: validator where
  "sample_validator = \<lparr>
     as_int = (\<lambda>v. case v of JInt i \<Rightarrow> Some i | _ \<Rightarrow> None),
     as_float = (\<lambda>v. case v of JFloat r \<Rightarrow> Some r | JInt i \<Rightarrow> Some (rat_of_int i) | _ \<Rightarrow> None),
     as_datetime = (\<lambda>v. case v of JStr s \<Rightarrow> Some (time_of s) | _ \<Rightarrow> None),
     iso = mark_of\<rparr>"

lemma sample_validator_faithful: "faithful_validator sample_validator"
  by (simp add: faithful_validator_def sample_validator_def)

text \<open>The documents \<open>json.loads\<close> knows are given as a table.\<close>

definition sample_env :: "(bytes \<times> json) list \<Rightarrow> env" where
  "sample_env docs = \<lparr>
     validator = sample_validator,
     float_repr = (\<lambda>r. ''f''),
     json_loads = map_of docs,
     isoformat_utc = mark_of,
     isoformat = mark_of,
     parse_epoch = (\<lambda>s. Some (int (length s))),
     parse_iso = (\<lambda>s. None),
     sha256 = (\<lambda>b. b),
     hmac_sha256 = (\<lambda>k m. k @ m),
     aesgcm_encrypt = (\<lambda>k n p a. p),
     aesgcm_decrypt = (\<lambda>k n c a. Some c),
     urandom = (\<lambda>n. replicate n 0),
     uuid4 = (\<lambda>n. replicate n CHR ''u''),
     uuid5 = (\<lambda>s. ''ns-'' @ s),
     parse_uuid = Some,
     verify_password = (\<lambda>p h. h = p),
     hash_password = (\<lambda>n p. p),
     token_urlsafe = (\<lambda>n. replicate n CHR ''t''),
     jwt_encode = (\<lambda>u s k i e. u @ ''/'' @ s),
     jwt_decode = (\<lambda>now t. Some (Some (takeWhile (\<lambda>c. c \<noteq> CHR ''/'') t),
        Some (drop 1 (dropWhile (\<lambda>c. c \<noteq> CHR ''/'') t)))),
     ecdsa_sign = (\<lambda>k n m. Inr (Some m)),
     orm_pending = (\<lambda>x. None),
     exn_str = (\<lambda>e. ''''),
     container_repr = (\<lambda>v. '''')\<rparr>"

lemma sample_env_simps [simp]:
  "validator (sample_env docs) = sample_validator" "json_loads (sample_env docs) = map_of docs"
  "uuid4 (sample_env docs) = (\<lambda>n. replicate n CHR ''u'')"
  "aesgcm_encrypt (sample_env docs) = (\<lambda>k n p a. p)"
  "aesgcm_decrypt (sample_env docs) = (\<lambda>k n c a. Some c)"
  by (simp_all add: sample_env_def)

lemma sample_uuid4_inj: "inj (uuid4 (sample_env docs))"
  by (auto simp: inj_on_def dest: arg_cong [of _ _ length])

definition sample_settings :: Settings where
  "sample_settings = \<lparr>demo_mode = True, access_token_ttl_minutes = 15, refresh_token_ttl_hours = 8,
     aes_key = [1], aes_key_id = ''k1'', integrity_key = [2], erp_timeout_seconds = 5,
     outbox_max_attempts = 8, source_demo_token = Some ''demo'', source_hmac_secrets_json = None,
     source_timestamp_tolerance_seconds = 300, mass_containment_threshold = 2,
     integrity_key_id = ''k2'', checkpoint_key = Some ''pem'',
     demo_controller_password = Some ''c'', demo_master_password = Some ''m'',
     demo_technologist_password = Some ''t'', demo_manager_password = Some ''g'',
     demo_admin_password = Some ''a'', demo_privileged_database_url = Some ''owner''\<rparr>"

definition sample_source :: EventSource where
  "sample_source = \<lparr>es_source_id = ''cam'', es_source_type = ''camera'', es_enabled = True,
     es_status = Source_active, es_auth_method = Shared_secret_legacy,
     es_token_hash = Some (hexdigest (encode ''tok'')),
     es_allowed_event_types = [''inspection.result'', ''machine.state''], es_allowed_line_ids = [],
     es_allowed_station_ids = [], es_valid_from = None, es_valid_to = None, es_revoked_at = None,
     es_last_source_sequence = None, es_created_at = 0\<rparr>"

definition sample_hmac_source :: EventSource where
  "sample_hmac_source = sample_source\<lparr>es_source_id := ''plc'', es_auth_method := HMAC_V1\<rparr>"

definition sample_db :: db where
  "sample_db = empty_db\<lparr>db_sources := [sample_source, sample_hmac_source]\<rparr>"

definition sample_headers :: ingest_headers where
  "sample_headers = \<lparr>h_source_id = Some ''cam'', h_source_token = Some ''tok'', h_timestamp = None,
     h_nonce = None, h_signature = None\<rparr>"

text \<open>A machine state without an item.\<close>

definition sample_body :: "string \<Rightarrow> json" where
  "sample_body i = JObj [(''event_id'', JStr i), (''event_type'', JStr ''machine.state''),
     (''schema_version'', JStr ''1.0''), (''occurred_at'', JStr ''ppp''),
     (''source'', JObj [(''source_id'', JStr ''cam''), (''source_type'', JStr ''camera'')]),
     (''payload'', JObj [(''equipment_id'', JStr ''press''), (''state'', JStr ''hot'')])]"

lemmas field_defs = only_keys_def req_str_def opt_str_def opt_int_def opt_dict_def req_datetime_def
  str_list_def req_lit_def opt_lit_def

definition sample_event :: "string \<Rightarrow> EventEnvelope" where
  "sample_event i = \<lparr>event_id = i, event_type = ''machine.state'', schema_version = ''1.0'',
     occurred_at = 3, source = \<lparr>source_id = ''cam'', source_type = ''camera'', sequence = None\<rparr>,
     item_id = None, operation_run_id = None,
     payload = Machine_state \<lparr>ms_equipment_id = ''press'', ms_state = ''hot'', ms_code = None,
       ms_parameters = None\<rparr>\<rparr>"

lemma sample_validates:
  "1 \<le> py_len i \<Longrightarrow> py_len i \<le> 128 \<Longrightarrow>
     validate_event sample_validator (sample_body i) = Inr (sample_event i)"
  by (simp add: sample_event_def sample_body_def validate_event_def SUPPORTED_EVENT_TYPES_def
      SCHEMA_REGISTRY_def dict_get_def hashable_def normalize_legacy_def lift_legacy_def
      lift_duration_def Let_def dict_pop_def read_payload_def read_MachineState_def
      read_envelope_def field_defs read_SourceRef_def sample_validator_def
      required_envelope_ids_def is_cont_def time_of_def has_id_def)

lemma hexdigest_Cons: "hexdigest (b # bs) \<noteq> []"
  by (simp add: hexdigest_def)

lemma sample_admitted_at:
  assumes "1 \<le> py_len i" and "py_len i \<le> 128"
    and "find_by es_source_id ''cam'' (db_sources d) = Some sample_source"
  shows "admit (sample_env docs) sample_settings 9 sample_headers (sample_body i) d =
    (Inr (sample_source, sample_event i), d)"
proof -
  have h: "sha256 (sample_env docs) b = b" for b
    by (simp add: sample_env_def)
  have "encode ''tok'' \<noteq> []"
    by (simp add: encode_def)
  then have "hexdigest (encode ''tok'') \<noteq> []"
    by (cases "encode ''tok''") (simp_all add: hexdigest_Cons)
  then show ?thesis
    using assms
    by (simp add: admit_def authenticate_source_def sample_validates sample_headers_def
        sample_source_def authorize_event_def sample_event_def usable_source_def in_scope_def
        has_id_def token_hash_def sha256_hex_def h)
qed

lemma sample_admitted:
  assumes "1 \<le> py_len i" and "py_len i \<le> 128"
  shows "admit (sample_env docs) sample_settings 9 sample_headers (sample_body i) sample_db =
    (Inr (sample_source, sample_event i), sample_db)"
  by (rule sample_admitted_at [OF assms]) (simp add: sample_db_def sample_source_def)

text \<open>A signed request of the second source.\<close>

definition sample_signed :: ingest_headers where
  "sample_signed = \<lparr>h_source_id = Some ''plc'', h_source_token = None, h_timestamp = Some ''1'',
     h_nonce = Some ''n'',
     h_signature = Some (expected_signature (sample_env []) ''demo'' ''1'' ''n'' (JObj []))\<rparr>"

lemma hex_char: "n < 16 \<Longrightarrow> to_lower [hex_digit n] = [hex_digit n] \<and> (of_char (hex_digit n) :: nat) < 128"
  by (auto simp: to_lower_def hex_digit_def digit_char_def Let_def of_char_of)

lemma hexdigest_lower: "to_lower (hexdigest bs) = hexdigest bs" "is_ascii (hexdigest bs)"
proof (induction bs)
  case (Cons b bs)
  have "unat b div 16 < 16" "unat b mod 16 < 16"
    using unsigned_less [of b, where ?'a = nat] by (simp_all add: less_mult_imp_div_less)
  from hex_char [OF this(1)] hex_char [OF this(2)]
  show "to_lower (hexdigest (b # bs)) = hexdigest (b # bs)" "is_ascii (hexdigest (b # bs))"
    using Cons by (simp_all add: hexdigest_def to_lower_def is_ascii_def)
qed (simp_all add: hexdigest_def to_lower_def is_ascii_def)

lemma sample_signed_accepted:
  "authenticate_source (sample_env []) sample_settings 9 sample_signed (JObj []) sample_db =
    (Inr sample_hmac_source, sample_db\<lparr>db_nonces := [\<lparr>tn_source_id = ''plc'', tn_nonce = ''n'', tn_timestamp = 1\<rparr>]\<rparr>)"
proof -
  have "parse_transport_time (sample_env []) ''1'' = Inr 1"
    by (simp add: parse_transport_time_def is_digits_def less_eq_char_def sample_env_def)
  moreover have "to_lower (expected_signature (sample_env []) a b c j) = expected_signature (sample_env []) a b c j"
    "is_ascii (expected_signature (sample_env []) a b c j)" for a b c j
    by (simp_all add: expected_signature_def hexdigest_lower)
  moreover have "expected_signature (sample_env []) ''demo'' b c j \<noteq> []" for b c j
    by (simp add: expected_signature_def sample_env_def encode_def hexdigest_Cons)
  moreover have "db_nonces sample_db = []" "find_by es_source_id ''plc'' (db_sources sample_db) = Some sample_hmac_source"
    by (simp_all add: sample_db_def empty_db_def sample_source_def sample_hmac_source_def)
  ultimately show ?thesis
    by (simp add: authenticate_source_def authenticate_hmac_def sample_signed_def has_id_def Let_def
        usable_source_def nonce_used_def hmac_secret_def demo_secret_def sample_settings_def compare_digest_def)
      (simp add: sample_hmac_source_def sample_source_def)
qed

text \<open>The first event of the sample source is stored.\<close>

definition sample_plaintext :: bytes where
  "sample_plaintext = canonical_json_bytes (\<lambda>r. ''f'') (canonical_event_dict sample_validator (sample_event ''e1''))"

lemma sample_lengths:
  "length (integrity_metadata (sample_env docs) \<lparr>md_event_id = ''e1'', md_event_type = ''machine.state'',
     md_schema_version = ''1.0'', md_source_id = ''cam'', md_occurred_at = 3, md_received_at = 9,
     md_stream_id = ''source:cam'', md_seq = 1\<rparr>) < 1000"
  "length sample_plaintext < 1000"
  by (simp_all add: sample_plaintext_def sample_marks integrity_metadata_def canonical_json_bytes_def encode_def
      sample_env_def quote_def escape_char_def int_str_def digit_char_def nat_str.simps [of 1]
      nat_str.simps [of "Suc 0"] canonical_event_dict_def sample_validator_def sample_event_def
      dump_SourceRef_def dump_MachineState_def)

lemma sample_mac:
  "\<exists>t. compute_integrity_mac (sample_env docs) [2] [] (integrity_metadata (sample_env docs)
     \<lparr>md_event_id = ''e1'', md_event_type = ''machine.state'', md_schema_version = ''1.0'',
      md_source_id = ''cam'', md_occurred_at = 3, md_received_at = 9, md_stream_id = ''source:cam'',
      md_seq = 1\<rparr>) sample_plaintext [] ''k1'' = Inr t"
proof -
  have "\<exists>f. frame [] (integrity_metadata (sample_env docs) \<lparr>md_event_id = ''e1'',
      md_event_type = ''machine.state'', md_schema_version = ''1.0'', md_source_id = ''cam'',
      md_occurred_at = 3, md_received_at = 9, md_stream_id = ''source:cam'', md_seq = 1\<rparr>)
      sample_plaintext [] ''k1'' = Inr f"
    using sample_lengths(1) [of docs] sample_lengths(2) by (intro frame_total) simp_all
  then show ?thesis
    by (auto simp: compute_integrity_mac_def)
qed

definition sample_ingest :: "(bytes \<times> json) list \<Rightarrow> db \<Rightarrow> IngestionResult result \<times> db" where
  "sample_ingest docs d =
     ingest_event (sample_env docs) sample_settings 9 No_race sample_headers (sample_body ''e1'') d"

lemma sample_ingested:
  obtains res d' where "sample_ingest docs sample_db = (Inr res, d')"
    "res_ingestion_status res = ''accepted''" "length (db_raw_events d') = 1"
    "find_by es_source_id ''cam'' (db_sources d') = Some sample_source" "db_nonce_draws d' = 1"
proof -
  have ne: "Suc 0 \<le> py_len ''e1''" "py_len ''e1'' \<le> 128"
    by (simp_all add: is_cont_def)
  have adm: "admit (sample_env docs) sample_settings 9 sample_headers (sample_body ''e1'') sample_db =
    (Inr (sample_source, sample_event ''e1''), sample_db)"
    using sample_admitted ne by simp
  have p: "canonical_json_bytes (float_repr (sample_env docs))
      (canonical_event_dict sample_validator (sample_event ''e1'')) = sample_plaintext"
    by (simp add: sample_plaintext_def sample_env_def)
  have tr: "track_sequence sample_source (sample_event ''e1'') sample_db = sample_db"
    by (simp add: track_sequence_def sample_event_def)
  obtain t where t: "compute_integrity_mac (sample_env docs) [2] [] (integrity_metadata (sample_env docs)
     \<lparr>md_event_id = ''e1'', md_event_type = ''machine.state'', md_schema_version = ''1.0'',
      md_source_id = ''cam'', md_occurred_at = 3, md_received_at = 9, md_stream_id = ''source:cam'',
      md_seq = 1\<rparr>) sample_plaintext [] ''k1'' = Inr t"
    using sample_mac by blast
  have n: "urandom (sample_env docs) 0 = []"
    by (simp add: sample_env_def)
  have st: "\<exists>d'. store_event (sample_env docs) sample_settings 9 sample_source (sample_event ''e1'')
      sample_plaintext hash sample_db = Inr ([], d') \<and> length (db_raw_events d') = 1 \<and>
      db_sources d' = db_sources sample_db \<and> db_nonce_draws d' = 1" for hash
    by (simp add: store_event_def append_sealed_def encrypt_event_def Let_def stream_for_def sample_db_def
        empty_db_def sample_source_def is_cont_def seal_event_def sample_event_def n t append_raw_def
        note_raw_def has_id_def note_invalidation_def add_attempt_def sample_settings_def)
  have new: "find_by re_event_id (event_id (sample_event ''e1'')) (db_raw_events sample_db) = None"
    by (simp add: sample_db_def empty_db_def)
  let ?h = "sha256_hex (sample_env docs) sample_plaintext"
  obtain d' where d': "store_event (sample_env docs) sample_settings 9 sample_source (sample_event ''e1'')
      sample_plaintext ?h sample_db = Inr ([], d')" "length (db_raw_events d') = 1"
    "db_sources d' = db_sources sample_db" "db_nonce_draws d' = 1"
    using st by blast
  have "find_by es_source_id ''cam'' (db_sources d') = Some sample_source"
    by (simp add: d' sample_db_def sample_source_def)
  then show ?thesis
    using that d' by (simp add: sample_ingest_def ingest_event_def adm commit_event_def Let_def p tr new)
qed

text \<open>An item with a passed inspection and, later, a crack, and the rebuild of its projection.\<close>

definition sample_raw :: "string \<Rightarrow> time \<Rightarrow> nat \<Rightarrow> int \<Rightarrow> RawEvent" where
  "sample_raw i t doc seq = \<lparr>re_event_id = i, re_event_type = ''inspection.result'', re_schema_version = ''1.0'',
     re_source_id = ''cam'', re_source_type = ''camera'', re_source_sequence = None, re_item_id = Some ''it'',
     re_operation_run_id = None, re_occurred_at = t, re_received_at = 9, re_ingest_seq = seq,
     re_payload_ciphertext = [of_nat doc], re_nonce = [], re_content_hash = '''',
     re_integrity_stream_id = ''source:cam'', re_integrity_seq = seq, re_prev_integrity_mac = [],
     re_integrity_mac = [], re_crypto_key_id = ''k1'', re_key_version = ''1'',
     re_crypto_profile_id = ''CLASSIC_V2''\<rparr>"

lemma sample_raw_simps [simp]:
  "re_event_id (sample_raw i t n s) = i" "re_event_type (sample_raw i t n s) = ''inspection.result''"
  "re_item_id (sample_raw i t n s) = Some ''it''" "re_occurred_at (sample_raw i t n s) = t"
  "re_operation_run_id (sample_raw i t n s) = None" "re_ingest_seq (sample_raw i t n s) = s"
  "re_payload_ciphertext (sample_raw i t n s) = [of_nat n]"
  by (simp_all add: sample_raw_def)

definition sample_good :: "(string \<times> json) list" where
  "sample_good = [(''inspection_result'', JStr ''no_defect''), (''observation_quality'', JStr ''good''),
     (''control_point_id'', JStr ''cp'')]"

definition sample_bad :: "(string \<times> json) list" where
  "sample_bad = [(''inspection_result'', JStr ''defect_detected''), (''observation_quality'', JStr ''good''),
     (''control_point_id'', JStr ''cp''), (''defects'', JArr [JObj [(''defect_type'', JStr ''crack'')]])]"

definition sample_docs :: "(bytes \<times> json) list" where
  "sample_docs = [([2], JObj [(''payload'', JObj sample_good)]), ([3], JObj [(''payload'', JObj sample_bad)])]"

definition sample_shop :: db where
  "sample_shop = sample_db\<lparr>db_raw_events := [sample_raw ''e2'' 400000000 3 1, sample_raw ''e1'' 10 2 2]\<rparr>"

definition good_payload :: InspectionResultPayload where
  "good_payload = \<lparr>in_inspection_result = No_defect, in_observation_quality = Quality_good, in_control_point_id = ''cp'',
    in_confidence = None, in_inspection_scope = None, in_defects = [], in_evidence_refs = [], in_component_instance_id = None,
    in_control_device_id = None, in_capture_session_id = None\<rparr>"
definition crack :: Defect where
  "crack = \<lparr>defect_type = ''crack'', defect_description = None, defect_severity = None, defect_component_instance_id = None\<rparr>"
definition bad_payload :: InspectionResultPayload where
  "bad_payload = good_payload\<lparr>in_inspection_result := Defect_detected, in_defects := [crack]\<rparr>"

lemma sample_payloads: "read_payload sample_validator ''inspection.result'' sample_good = Some (Inspection_result good_payload)"
  "read_payload sample_validator ''inspection.result'' sample_bad = Some (Inspection_result bad_payload)"
  by (simp_all add: sample_good_def sample_bad_def read_payload_def read_InspectionResult_def field_defs read_defects_def Let_def
    validate_defects_def read_quality_def read_inspection_result_def bad_payload_def good_payload_def is_cont_def crack_def read_Defect_def)

lemma sample_shop_simps [simp]:
  "db_raw_events sample_shop = [sample_raw ''e2'' 400000000 3 1, sample_raw ''e1'' 10 2 2]"
  "db_policies sample_shop = []" "db_invalidations sample_shop = []" "db_items sample_shop = []"
  "db_runs sample_shop = []" "db_ncrs sample_shop = []" "db_analyses sample_shop = []" "db_uuid_draws sample_shop = 0"
  "db_occurrences sample_shop = []" "db_projections sample_shop = []"
  by (simp_all add: sample_shop_def sample_db_def empty_db_def)

lemma sample_item_raws: "item_raws ''it'' (db_raw_events sample_shop) = [sample_raw ''e1'' 10 2 2, sample_raw ''e2'' 400000000 3 1]"
  by (simp add: item_raws_def business_key_def)

lemma sample_open:
  "open_raw (sample_env sample_docs) sample_settings (sample_raw i t 2 s) = Inr (sample_raw i t 2 s, Inspection_result good_payload)"
  "open_raw (sample_env sample_docs) sample_settings (sample_raw i t 3 s) = Inr (sample_raw i t 3 s, Inspection_result bad_payload)"
  by (simp_all add: open_raw_def decrypt_raw_def decrypt_event_def payload_of_def sample_docs_def dict_get_def sample_payloads)

definition good_obs :: obs_value where
  "good_obs = \<lparr>ov_payload = good_payload, ov_operation_run_id = None, ov_event_id = ''e1'', ov_occurred_at = 10, ov_trust_status = TRUSTED, ov_trust_reasons = []\<rparr>"
definition bad_obs :: obs_value where
  "bad_obs = \<lparr>ov_payload = bad_payload, ov_operation_run_id = None, ov_event_id = ''e2'', ov_occurred_at = 400000000, ov_trust_status = TRUSTED, ov_trust_reasons = []\<rparr>"

lemma sample_observe:
  "observe sample_shop (sample_raw ''e1'' 10 2 2) good_payload = good_obs"
  "observe sample_shop (sample_raw ''e2'' 400000000 3 1) bad_payload = bad_obs"
  by (simp_all add: observe_def trust_policy_def default_policy_def Let_def
     evaluate_trust_def trust_failures_def good_payload_def bad_payload_def device_invalidated_def has_id_def good_obs_def bad_obs_def)

lemma sample_conflicts: "mark_conflicts [good_obs, bad_obs] = [good_obs, bad_obs]"
  by (simp add: mark_conflicts_def conflicting_def group_key_def moment_of_def good_obs_def bad_obs_def good_payload_def bad_payload_def)

definition sample_values :: item_values where
  "sample_values = no_values\<lparr>iv_observations := [good_obs, bad_obs]\<rparr>"

lemma sample_values_simps [simp]:
  "iv_item sample_values = None" "iv_runs sample_values = []" "iv_machines sample_values = []"
  "iv_actions sample_values = []" "iv_observations sample_values = [good_obs, bad_obs]"
  by (simp_all add: sample_values_def no_values_def)

lemma sample_replay: "replay (sample_env sample_docs) sample_settings sample_shop [sample_raw ''e1'' 10 2 2, sample_raw ''e2'' 400000000 3 1] = Inr sample_values"
  by (simp add: replay_def sample_open Let_def sample_observe no_values_def sample_conflicts sample_values_def)

lemma sample_detected: "detected [good_obs, bad_obs] = [(bad_obs, crack)]"
  by (simp add: detected_def defects_of_def good_obs_def bad_obs_def good_payload_def bad_payload_def)

lemma sample_window: "\<exists>w. calculate_birth_window dv [good_obs, bad_obs] ops ms as lims = Inr w"
  by (rule window_total) (simp add: good_obs_def bad_obs_def good_payload_def bad_payload_def)

lemma sample_rebuilt:
  "\<exists>d'. rebuild_item (sample_env sample_docs) sample_settings 99 ''it'' sample_shop = (Inr (), d')"
proof -
  let ?E = "sample_env sample_docs"
  obtain item d0 where p: "project_item 99 ''it'' None (clear_item ''it'' sample_shop) = (item, d0)"
    by fastforce
  obtain d1 where st: "store_rows ?E 99 ''it'' sample_values sample_shop = Inr (item, d1)"
    by (simp add: store_rows_def p)
  have reg: "\<exists>d2. register_defect ?E ''it'' sample_values lims (bad_obs, crack) d1 = Inr d2" for lims
  proof -
    obtain u da where l: "link_occurrence ?E ''it'' bad_obs (defect_type crack) (defect_component bad_obs crack) d1 = (u, da)"
      by fastforce
    obtain nc db where n: "link_ncr ?E ''it'' bad_obs (defect_type crack) (defect_component bad_obs crack) u da = (nc, db)"
      by fastforce
    obtain w where w: "calculate_birth_window (the_defect bad_obs (defect_type crack) (defect_component bad_obs crack))
        [good_obs, bad_obs] [] [] [] lims = Inr w"
      using sample_window by blast
    have "ov_trust_status bad_obs = TRUSTED"
      by (simp add: bad_obs_def)
    then show ?thesis
      by (simp add: register_defect_def l n create_analysis_def w Let_def)
  qed
  then obtain d2 where "register_defect ?E ''it'' sample_values (missing_check_limitations d1 item (iv_runs sample_values)
      (iv_observations sample_values)) (bad_obs, crack) d1 = Inr d2"
    by blast
  then show ?thesis
    unfolding rebuild_item_def Let_def sample_item_raws
    by (simp add: rebuild_from_def sample_replay st sample_detected)
qed

end
