(* ===== verification/TQ_Auth.thy ===== *)
theory TQ_Auth
  imports TQ_Crypto
begin

text \<open>
  Identities: sessions and tokens (\<^verbatim>\<open>backend/app/api/auth.py\<close>), the principal of a request and the
  permission gates of the endpoints (\<^verbatim>\<open>backend/app/security/auth.py\<close>), and the permissions of the
  roles (\<^verbatim>\<open>backend/app/security/permissions.py\<close>). The locale \<open>gate\<close> is what an endpoint relies on;
  the two gates of the code provide it.
\<close>

section \<open>Roles\<close>

definition PERMISSIONS :: "string list" where
  "PERMISSIONS = [''VIEW_PRODUCT'', ''VIEW_TIMELINE'', ''VIEW_RAW_EVENT'', ''VIEW_NONCONFORMANCE'',
     ''REVIEW_NONCONFORMANCE'', ''ISSUE_QC_DECISION'', ''REQUEST_EXTRA_INSPECTION'', ''VIEW_LINE'',
     ''VIEW_ANALYTICS'', ''CREATE_INVESTIGATION_NOTE'', ''MANAGE_ROUTES'', ''PROPOSE_CONTAINMENT'',
     ''APPROVE_CONTAINMENT'', ''MANAGE_USERS'', ''MANAGE_INTEGRATIONS'', ''VIEW_AUDIT'',
     ''VERIFY_INTEGRITY'', ''REPLAY_REBUILD'', ''RUN_DEMO_SCENARIOS'', ''INVALIDATE_CONTROL_DEVICE'',
     ''MANAGE_TRUST_POLICY'', ''ROTATE_KEYS'', ''CHANGE_CRYPTO_PROFILE'', ''EXPORT_EVIDENCE'',
     ''APPROVE_CRITICAL_ACTION'', ''RUN_BLAST_RADIUS'']"

definition ROLE_PERMISSIONS :: "(string \<times> string list) list" where
  "ROLE_PERMISSIONS =
     [(''controller'', [''VIEW_PRODUCT'', ''VIEW_TIMELINE'', ''VIEW_RAW_EVENT'', ''VIEW_NONCONFORMANCE'',
        ''REVIEW_NONCONFORMANCE'', ''ISSUE_QC_DECISION'', ''REQUEST_EXTRA_INSPECTION'', ''VIEW_LINE'',
        ''CREATE_INVESTIGATION_NOTE'', ''APPROVE_CONTAINMENT'', ''INVALIDATE_CONTROL_DEVICE'',
        ''APPROVE_CRITICAL_ACTION'', ''RUN_DEMO_SCENARIOS'']),
      (''master'', [''VIEW_PRODUCT'', ''VIEW_TIMELINE'', ''VIEW_NONCONFORMANCE'', ''VIEW_LINE'',
        ''VIEW_ANALYTICS'', ''CREATE_INVESTIGATION_NOTE'', ''RUN_DEMO_SCENARIOS'']),
      (''technologist'', [''VIEW_PRODUCT'', ''VIEW_TIMELINE'', ''VIEW_RAW_EVENT'', ''VIEW_NONCONFORMANCE'',
        ''VIEW_LINE'', ''VIEW_ANALYTICS'', ''CREATE_INVESTIGATION_NOTE'', ''MANAGE_ROUTES'',
        ''PROPOSE_CONTAINMENT'', ''RUN_BLAST_RADIUS'', ''RUN_DEMO_SCENARIOS'']),
      (''manager'', [''VIEW_PRODUCT'', ''VIEW_NONCONFORMANCE'', ''VIEW_LINE'', ''VIEW_ANALYTICS'',
        ''VIEW_AUDIT'', ''RUN_DEMO_SCENARIOS'']),
      (''admin'', [''MANAGE_USERS'', ''MANAGE_INTEGRATIONS'', ''VIEW_AUDIT'', ''VERIFY_INTEGRITY'',
        ''REPLAY_REBUILD'', ''MANAGE_TRUST_POLICY'', ''ROTATE_KEYS'', ''CHANGE_CRYPTO_PROFILE'',
        ''EXPORT_EVIDENCE'', ''RUN_DEMO_SCENARIOS''])]"

section \<open>The principal of a request\<close>

record Principal =
  pr_user_id :: uuid
  pr_username :: string
  pr_session_id :: uuid
  pr_permissions :: "string list"
  pr_roles :: "string list"

definition roles_of :: "db \<Rightarrow> uuid \<Rightarrow> uuid list" where
  "roles_of d user = map snd (filter (\<lambda>ur. fst ur = user) (db_user_roles d))"

text \<open>\<open>_permissions_for_user\<close>: the join of user roles, role permissions and permissions.\<close>

definition permissions_for_user :: "db \<Rightarrow> uuid \<Rightarrow> string list" where
  "permissions_for_user d user = remdups (concat (map (\<lambda>role.
     concat (map (\<lambda>rp. if fst rp = role
       then map pe_name (filter (\<lambda>p. pe_id p = snd rp) (db_permissions d)) else [])
       (db_role_permissions d))) (roles_of d user)))"

definition role_names :: "db \<Rightarrow> uuid \<Rightarrow> string list" where
  "role_names d user = sort (map ro_name (filter (\<lambda>r. ro_id r \<in> set (roles_of d user)) (db_roles d)))"

definition invalid_token :: exn where
  "invalid_token = TraceQError ''INVALID_ACCESS_TOKEN'' ''Access token is invalid or expired'' 401"

definition live_session :: "time \<Rightarrow> AuthSession \<Rightarrow> bool" where
  "live_session now s \<longleftrightarrow> se_revoked_at s = None \<and> now < se_expires_at s"

text \<open>The claims of a bearer token, read at \<open>now\<close> (the library checks signature and expiry).\<close>

definition token_claims :: "env \<Rightarrow> time \<Rightarrow> string \<Rightarrow> (uuid \<times> uuid) option" where
  "token_claims E now token =
     (case jwt_decode E now token of
        Some (Some u, Some s) \<Rightarrow>
          (case (parse_uuid E u, parse_uuid E s) of
             (Some user, Some session) \<Rightarrow> Some (user, session)
           | _ \<Rightarrow> None)
      | _ \<Rightarrow> None)"

definition current_principal :: "env \<Rightarrow> time \<Rightarrow> (string \<times> string) option \<Rightarrow> db \<Rightarrow> Principal result" where
  "current_principal E now credentials d =
     (case credentials of
        None \<Rightarrow> Inl (TraceQError ''AUTHENTICATION_REQUIRED'' ''Authentication required'' 401)
      | Some (scheme, token) \<Rightarrow>
          if to_lower scheme \<noteq> ''bearer''
            then Inl (TraceQError ''AUTHENTICATION_REQUIRED'' ''Authentication required'' 401)
          else
            (case token_claims E now token of
               None \<Rightarrow> Inl invalid_token
             | Some (user_id, session_id) \<Rightarrow>
                 (case (find_by us_id user_id (db_users d), find_by se_id session_id (db_sessions d)) of
                    (Some user, Some session) \<Rightarrow>
                      if us_enabled user \<and> se_user_id session = user_id \<and> live_session now session
                      then Inr \<lparr>pr_user_id = us_id user, pr_username = us_username user,
                        pr_session_id = session_id, pr_permissions = permissions_for_user d (us_id user),
                        pr_roles = role_names d (us_id user)\<rparr>
                      else Inl invalid_token
                  | _ \<Rightarrow> Inl invalid_token)))"

section \<open>Gates\<close>

definition permission_required :: "string \<Rightarrow> exn" where
  "permission_required permission = ForbiddenError (''Permission '' @ permission @ '' is required'')"

definition require_permission :: "string \<Rightarrow> Principal \<Rightarrow> Principal result" where
  "require_permission permission p =
     (if permission \<notin> set (pr_permissions p) then Inl (permission_required permission) else Inr p)"

definition minutes :: "int \<Rightarrow> time" where
  "minutes n = n * 60000000"

definition hours :: "int \<Rightarrow> time" where
  "hours n = n * 3600000000"

definition require_critical_permission :: "string \<Rightarrow> time \<Rightarrow> Principal \<Rightarrow> db \<Rightarrow> Principal result" where
  "require_critical_permission permission now p d =
     (if permission \<notin> set (pr_permissions p) then Inl (permission_required permission)
      else
        (case find_by se_id (pr_session_id p) (db_sessions d) of
           None \<Rightarrow> Inl (TraceQError ''SESSION_REVOKED'' ''The authenticated session is no longer active'' 401)
         | Some session \<Rightarrow>
             if \<not> live_session now session
               then Inl (TraceQError ''SESSION_REVOKED'' ''The authenticated session is no longer active'' 401)
             else if se_last_authenticated_at session < now - minutes 30
               then Inl (TraceQError ''FRESH_AUTH_REQUIRED'' ''Fresh authentication is required'' 403)
             else Inr p))"

definition require_any_permission :: "string list \<Rightarrow> Principal \<Rightarrow> Principal result" where
  "require_any_permission allowed p =
     (if set (pr_permissions p) \<inter> set allowed = {}
      then Inl (ForbiddenError (''One of these permissions is required: '' @
             join '', '' (sort (remdups allowed))))
      else Inr p)"

text \<open>An endpoint with a gate as its dependency.\<close>

definition gated ::
  "(db \<Rightarrow> Principal result) \<Rightarrow> (Principal \<Rightarrow> db \<Rightarrow> 'r result \<times> db) \<Rightarrow> db \<Rightarrow> 'r result \<times> db" where
  "gated gate handler d = (case gate d of Inl e \<Rightarrow> (Inl e, d) | Inr p \<Rightarrow> handler p d)"

lemma gated_keeps:
  assumes "P d" and "\<And>p res d'. h p d = (res, d') \<Longrightarrow> P d'"
  shows "P (snd (gated g h d))"
  by (cases "g d") (simp_all add: gated_def assms(1) assms(2) [OF surjective_pairing])

definition permission_gate ::
  "env \<Rightarrow> time \<Rightarrow> (string \<times> string) option \<Rightarrow> string \<Rightarrow> db \<Rightarrow> Principal result" where
  "permission_gate E now credentials permission d =
     rbind (current_principal E now credentials d) (require_permission permission)"

definition critical_gate ::
  "env \<Rightarrow> time \<Rightarrow> (string \<times> string) option \<Rightarrow> string \<Rightarrow> db \<Rightarrow> Principal result" where
  "critical_gate E now credentials permission d =
     rbind (current_principal E now credentials d) (\<lambda>p. require_critical_permission permission now p d)"

section \<open>Tokens\<close>

definition create_access_token :: "env \<Rightarrow> Settings \<Rightarrow> time \<Rightarrow> User \<Rightarrow> uuid \<Rightarrow> string \<times> int" where
  "create_access_token E S now user session_id =
     (jwt_encode E (us_username user) (us_id user) session_id now (now + minutes (access_token_ttl_minutes S)),
      access_token_ttl_minutes S * 60)"

record TokenResponse =
  tr_access_token :: string
  tr_refresh_token :: string
  tr_expires_in :: int

text \<open>
  \<open>_token_response\<close>: a session is created, or one that exists is extended and counts as
  authenticated now. The token text and the row identifiers are drawn.
\<close>

definition token_response ::
  "env \<Rightarrow> Settings \<Rightarrow> time \<Rightarrow> User \<Rightarrow> uuid \<Rightarrow> db \<Rightarrow> (TokenResponse \<times> RefreshToken) \<times> db" where
  "token_response E S now user session_id d =
     (let expiry = now + hours (refresh_token_ttl_hours S);
          d1 = d\<lparr>db_sessions :=
             (if find_by se_id session_id (db_sessions d) = None then
                db_sessions d @ [\<lparr>se_id = session_id, se_user_id = us_id user,
                  se_last_authenticated_at = now, se_expires_at = expiry, se_revoked_at = None\<rparr>]
              else update_by se_id session_id
                (\<lambda>s. s\<lparr>se_last_authenticated_at := now, se_expires_at := expiry\<rparr>) (db_sessions d))\<rparr>;
          (access, expires_in) = create_access_token E S now user session_id;
          raw = token_urlsafe E (db_uuid_draws d1);
          d2 = drew_uuid d1;
          row = \<lparr>rt_id = new_uuid E d2, rt_user_id = us_id user, rt_session_id = session_id,
            rt_token_hash = token_hash E raw, rt_expires_at = expiry, rt_revoked_at = None,
            rt_replaced_by_hash = None\<rparr> in
      ((\<lparr>tr_access_token = access, tr_refresh_token = raw, tr_expires_in = expires_in\<rparr>, row),
       drew_uuid (d2\<lparr>db_refresh_tokens := db_refresh_tokens d2 @ [row]\<rparr>)))"

section \<open>Login, refresh and logout\<close>

definition auth_audit :: "string \<Rightarrow> string \<Rightarrow> uuid option \<Rightarrow> uuid option \<Rightarrow> string \<Rightarrow> string \<Rightarrow> string option \<Rightarrow> db \<Rightarrow> db" where
  "auth_audit action outcome actor session target_type target_id request_id =
     write_audit action outcome \<lparr>ac_actor = actor, ac_session = session, ac_target_type = Some target_type,
       ac_target_id = Some target_id, ac_request_id = request_id\<rparr> JNull"

text \<open>One more failed attempt of a user; the fifth locks the account for a quarter of an hour.\<close>

definition count_failure :: "time \<Rightarrow> User \<Rightarrow> User" where
  "count_failure now u =
     (let n = us_failed_login_attempts u + 1 in
      if 5 \<le> n then u\<lparr>us_failed_login_attempts := 0, us_locked_until := Some (now + minutes 15)\<rparr>
      else u\<lparr>us_failed_login_attempts := n\<rparr>)"

definition is_locked :: "time \<Rightarrow> User \<Rightarrow> bool" where
  "is_locked now u \<longleftrightarrow> (case us_locked_until u of None \<Rightarrow> False | Some t \<Rightarrow> now < t)"

definition set_user :: "uuid \<Rightarrow> (User \<Rightarrow> User) \<Rightarrow> db \<Rightarrow> db" where
  "set_user i f d = d\<lparr>db_users := update_by us_id i f (db_users d)\<rparr>"

definition login ::
  "env \<Rightarrow> Settings \<Rightarrow> time \<Rightarrow> string \<Rightarrow> string \<Rightarrow> string option \<Rightarrow> db \<Rightarrow> TokenResponse result \<times> db" where
  "login E S now username password request_id d =
     (case find_by us_username username (db_users d) of
        None \<Rightarrow>
          (Inl (TraceQError ''INVALID_CREDENTIALS'' ''Invalid username or password'' 401),
           auth_audit ''login_failure'' ''denied'' None None ''user'' username request_id d)
      | Some user \<Rightarrow>
          if is_locked now user then
            (Inl (TraceQError ''ACCOUNT_TEMPORARILY_LOCKED'' ''Account is temporarily locked'' 423),
             auth_audit ''login_failure'' ''locked'' None None ''user'' (us_id user) request_id d)
          else if \<not> us_enabled user \<or> \<not> verify_password E (us_password_hash user) password then
            (Inl (TraceQError ''INVALID_CREDENTIALS'' ''Invalid username or password'' 401),
             auth_audit ''login_failure'' ''denied'' None None ''user'' (us_id user) request_id
               (set_user (us_id user) (count_failure now) d))
          else
            (let d1 = set_user (us_id user)
                   (\<lambda>u. u\<lparr>us_failed_login_attempts := 0, us_locked_until := None\<rparr>) d;
                 session_id = new_uuid E d1;
                 ((response, row), d2) = token_response E S now user session_id (drew_uuid d1) in
             (Inr response,
              auth_audit ''login_success'' ''success'' (Some (us_id user)) (Some (rt_session_id row))
                ''user'' (us_id user) request_id d2)))"

definition invalid_refresh :: exn where
  "invalid_refresh = TraceQError ''INVALID_REFRESH_TOKEN'' ''Refresh token is invalid or expired'' 401"

definition refresh ::
  "env \<Rightarrow> Settings \<Rightarrow> time \<Rightarrow> string \<Rightarrow> string option \<Rightarrow> db \<Rightarrow> TokenResponse result \<times> db" where
  "refresh E S now token request_id d =
     (case find_by rt_token_hash (token_hash E token) (db_refresh_tokens d) of
        None \<Rightarrow> (Inl invalid_refresh, d)
      | Some row \<Rightarrow>
          if rt_revoked_at row \<noteq> None \<or> rt_expires_at row \<le> now then (Inl invalid_refresh, d)
          else
            (case find_by us_id (rt_user_id row) (db_users d) of
               None \<Rightarrow> (Inl invalid_refresh, d)
             | Some user \<Rightarrow>
                 if \<not> us_enabled user then (Inl invalid_refresh, d)
                 else
                   (let ((response, replacement), d1) = token_response E S now user (rt_session_id row) d;
                        d2 = d1\<lparr>db_refresh_tokens := update_by rt_id (rt_id row)
                          (\<lambda>r. r\<lparr>rt_revoked_at := Some now,
                             rt_replaced_by_hash := Some (rt_token_hash replacement)\<rparr>)
                          (db_refresh_tokens d1)\<rparr> in
                    (Inr response,
                     auth_audit ''refresh_rotation'' ''success'' (Some (us_id user))
                       (Some (rt_session_id row)) ''session'' (rt_session_id row) request_id d2))))"

definition revoke_token :: "time \<Rightarrow> RefreshToken \<Rightarrow> RefreshToken" where
  "revoke_token now r = (if rt_revoked_at r = None then r\<lparr>rt_revoked_at := Some now\<rparr> else r)"

definition revoke_session :: "time \<Rightarrow> AuthSession \<Rightarrow> AuthSession" where
  "revoke_session now s = (if se_revoked_at s = None then s\<lparr>se_revoked_at := Some now\<rparr> else s)"

definition logout :: "env \<Rightarrow> time \<Rightarrow> string \<Rightarrow> string option \<Rightarrow> db \<Rightarrow> unit result \<times> db" where
  "logout E now token request_id d =
     (case find_by rt_token_hash (token_hash E token) (db_refresh_tokens d) of
        None \<Rightarrow> (Inr (), d)
      | Some row \<Rightarrow>
          if rt_revoked_at row \<noteq> None then (Inr (), d)
          else (Inr (), auth_audit ''logout'' ''success'' (Some (rt_user_id row)) (Some (rt_session_id row))
            ''session'' (rt_session_id row) request_id
            (d\<lparr>db_refresh_tokens := update_by rt_session_id (rt_session_id row) (revoke_token now)
                 (update_by rt_id (rt_id row) (\<lambda>r. r\<lparr>rt_revoked_at := Some now\<rparr>) (db_refresh_tokens d)),
               db_sessions := update_by se_id (rt_session_id row) (revoke_session now) (db_sessions d)\<rparr>)))"

section \<open>What a gate guarantees\<close>

text \<open>An endpoint asks of its gate that a principal it returns is one it may act for.\<close>

locale gate =
  fixes check :: "db \<Rightarrow> Principal result" and may_act :: "db \<Rightarrow> Principal \<Rightarrow> bool"
  assumes check_sound: "check d = Inr p \<Longrightarrow> may_act d p"
begin

lemma gated_cases:
  assumes "gated check handler d = (res, d')"
  obtains (refused) e where "res = Inl e" "d' = d" "check d = Inl e"
  | (passed) p where "may_act d p" "handler p d = (res, d')" "check d = Inr p"
  using assms check_sound by (cases "check d") (auto simp: gated_def)

lemma change_needs_right: "snd (gated check handler d) \<noteq> d \<Longrightarrow> \<exists>p. may_act d p \<and> check d = Inr p"
  using check_sound by (cases "check d") (auto simp: gated_def)

end

text \<open>
  A principal stands for an enabled user with a live session, named by the claims of the token, and
  has the permissions of the user's roles.
\<close>

definition authentic :: "env \<Rightarrow> time \<Rightarrow> (string \<times> string) option \<Rightarrow> db \<Rightarrow> Principal \<Rightarrow> bool" where
  "authentic E now credentials d p \<longleftrightarrow>
     (\<exists>scheme token user session. credentials = Some (scheme, token) \<and>
        token_claims E now token = Some (pr_user_id p, pr_session_id p) \<and>
        find_by us_id (pr_user_id p) (db_users d) = Some user \<and> us_enabled user \<and>
        find_by se_id (pr_session_id p) (db_sessions d) = Some session \<and>
        se_user_id session = pr_user_id p \<and> live_session now session \<and>
        pr_permissions p = permissions_for_user d (pr_user_id p))"

lemma current_principal_authentic:
  assumes "current_principal E now credentials d = Inr p"
  shows "authentic E now credentials d p"
proof -
  from assms obtain scheme token where c: "credentials = Some (scheme, token)"
    by (auto simp: current_principal_def split: option.splits)
  from assms obtain u s where cl: "token_claims E now token = Some (u, s)"
    by (auto simp: current_principal_def c split: if_splits option.splits)
  from assms obtain user session where us: "find_by us_id u (db_users d) = Some user"
    "find_by se_id s (db_sessions d) = Some session"
    and ok: "us_enabled user" "se_user_id session = u" "live_session now session"
    and p: "p = \<lparr>pr_user_id = us_id user, pr_username = us_username user, pr_session_id = s,
      pr_permissions = permissions_for_user d (us_id user), pr_roles = role_names d (us_id user)\<rparr>"
    by (auto simp: current_principal_def c cl split: if_splits option.splits)
  have "us_id user = u"
    using find_by_SomeD [OF us(1)] by simp
  then show ?thesis
    using c cl us ok p by (auto simp: authentic_def)
qed

lemma authentic_permissions:
  "current_principal E now credentials d = Inr p \<Longrightarrow>
     pr_permissions p = permissions_for_user d (pr_user_id p)"
  by (drule current_principal_authentic) (auto simp: authentic_def)

interpretation permission: gate "permission_gate E now credentials perm"
    "\<lambda>d p. authentic E now credentials d p \<and> perm \<in> set (permissions_for_user d (pr_user_id p))"
  for E now credentials perm
proof unfold_locales
  fix d p
  assume "permission_gate E now credentials perm d = Inr p"
  then have p: "current_principal E now credentials d = Inr p" "perm \<in> set (pr_permissions p)"
    by (auto simp: permission_gate_def rbind_Inr_iff require_permission_def split: if_splits)
  show "authentic E now credentials d p \<and> perm \<in> set (permissions_for_user d (pr_user_id p))"
    using current_principal_authentic [OF p(1)] authentic_permissions [OF p(1)] p(2) by simp
qed

definition freshly_authenticated :: "time \<Rightarrow> db \<Rightarrow> Principal \<Rightarrow> bool" where
  "freshly_authenticated now d p \<longleftrightarrow>
     (\<exists>s. find_by se_id (pr_session_id p) (db_sessions d) = Some s \<and> live_session now s \<and>
        now - minutes 30 \<le> se_last_authenticated_at s)"

interpretation critical: gate "critical_gate E now credentials perm"
    "\<lambda>d p. authentic E now credentials d p \<and> perm \<in> set (permissions_for_user d (pr_user_id p)) \<and>
       freshly_authenticated now d p"
  for E now credentials perm
proof unfold_locales
  fix d p
  assume "critical_gate E now credentials perm d = Inr p"
  then have p: "current_principal E now credentials d = Inr p" "perm \<in> set (pr_permissions p)"
    "freshly_authenticated now d p"
    by (auto simp: critical_gate_def rbind_Inr_iff require_critical_permission_def
        freshly_authenticated_def split: if_splits option.splits)
  show "authentic E now credentials d p \<and> perm \<in> set (permissions_for_user d (pr_user_id p)) \<and>
      freshly_authenticated now d p"
    using current_principal_authentic [OF p(1)] authentic_permissions [OF p(1)] p(2,3) by simp
qed

section \<open>Lockout\<close>

lemma auth_audit_tables [simp]:
  "db_users (auth_audit a o' u s t i r d) = db_users d"
  "db_sessions (auth_audit a o' u s t i r d) = db_sessions d"
  "db_refresh_tokens (auth_audit a o' u s t i r d) = db_refresh_tokens d"
  "db_uuid_draws (auth_audit a o' u s t i r d) = db_uuid_draws d"
  by (simp_all add: auth_audit_def write_audit_def)

lemma set_user_tables [simp]:
  "db_users (set_user i f d) = update_by us_id i f (db_users d)"
  "db_sessions (set_user i f d) = db_sessions d"
  "db_refresh_tokens (set_user i f d) = db_refresh_tokens d"
  "db_uuid_draws (set_user i f d) = db_uuid_draws d"
  by (simp_all add: set_user_def)

lemma drew_uuid_tables [simp]:
  "db_users (drew_uuid d) = db_users d"
  "db_sessions (drew_uuid d) = db_sessions d"
  "db_refresh_tokens (drew_uuid d) = db_refresh_tokens d"
  "db_uuid_draws (drew_uuid d) = Suc (db_uuid_draws d)"
  by (simp_all add: drew_uuid_def)

text \<open>What \<open>_token_response\<close> does to the tables.\<close>

lemma token_response_effect:
  obtains resp row d' where "token_response E S now user sid d = ((resp, row), d')"
    and "db_users d' = db_users d" and "db_uuid_draws d' = Suc (Suc (db_uuid_draws d))"
    and "db_refresh_tokens d' = db_refresh_tokens d @ [row]"
    and "rt_session_id row = sid" and "rt_revoked_at row = None"
    and "db_sessions d' =
      (if find_by se_id sid (db_sessions d) = None then
         db_sessions d @ [\<lparr>se_id = sid, se_user_id = us_id user, se_last_authenticated_at = now,
           se_expires_at = now + hours (refresh_token_ttl_hours S), se_revoked_at = None\<rparr>]
       else update_by se_id sid (\<lambda>s. s\<lparr>se_last_authenticated_at := now,
         se_expires_at := now + hours (refresh_token_ttl_hours S)\<rparr>) (db_sessions d))"
proof -
  obtain resp row d' where t: "token_response E S now user sid d = ((resp, row), d')"
    by (metis surj_pair)
  show thesis
    by (rule that [OF t]) (use t in \<open>auto simp: token_response_def Let_def create_access_token_def\<close>)
qed

definition reset_failures :: "User \<Rightarrow> User" where
  "reset_failures u = u\<lparr>us_failed_login_attempts := 0, us_locked_until := None\<rparr>"

lemma login_success:
  assumes u: "find_by us_username n (db_users d) = Some u" and "\<not> is_locked now u" "us_enabled u"
    and "verify_password E (us_password_hash u) pw"
  obtains resp row d' where "login E S now n pw r d = (Inr resp, d')"
    and "db_users d' = update_by us_id (us_id u) reset_failures (db_users d)"
    and "db_uuid_draws d' = Suc (Suc (Suc (db_uuid_draws d)))"
    and "db_refresh_tokens d' = db_refresh_tokens d @ [row]"
    and "rt_session_id row = new_uuid E d" and "rt_revoked_at row = None"
    and "db_sessions d' =
      (if find_by se_id (new_uuid E d) (db_sessions d) = None then
         db_sessions d @ [\<lparr>se_id = new_uuid E d, se_user_id = us_id u, se_last_authenticated_at = now,
           se_expires_at = now + hours (refresh_token_ttl_hours S), se_revoked_at = None\<rparr>]
       else update_by se_id (new_uuid E d) (\<lambda>s. s\<lparr>se_last_authenticated_at := now,
         se_expires_at := now + hours (refresh_token_ttl_hours S)\<rparr>) (db_sessions d))"
proof -
  let ?d = "set_user (us_id u) reset_failures d"
  have id: "new_uuid E ?d = new_uuid E d"
    by (simp add: new_uuid_def)
  obtain resp row d' where t: "token_response E S now u (new_uuid E d) (drew_uuid ?d) = ((resp, row), d')"
    and e: "db_users d' = db_users (drew_uuid ?d)"
      "db_uuid_draws d' = Suc (Suc (db_uuid_draws (drew_uuid ?d)))"
      "db_refresh_tokens d' = db_refresh_tokens (drew_uuid ?d) @ [row]"
      "rt_session_id row = new_uuid E d" "rt_revoked_at row = None"
      "db_sessions d' =
        (if find_by se_id (new_uuid E d) (db_sessions (drew_uuid ?d)) = None then
           db_sessions (drew_uuid ?d) @ [\<lparr>se_id = new_uuid E d, se_user_id = us_id u, se_last_authenticated_at = now,
             se_expires_at = now + hours (refresh_token_ttl_hours S), se_revoked_at = None\<rparr>]
         else update_by se_id (new_uuid E d) (\<lambda>s. s\<lparr>se_last_authenticated_at := now,
           se_expires_at := now + hours (refresh_token_ttl_hours S)\<rparr>) (db_sessions (drew_uuid ?d)))"
    by (rule token_response_effect)
  have "login E S now n pw r d = (Inr resp, auth_audit ''login_success'' ''success'' (Some (us_id u))
      (Some (rt_session_id row)) ''user'' (us_id u) r d')"
    using assms t id unfolding reset_failures_def login_def Let_def by simp
  then show ?thesis
    by (rule that [where row = row]) (simp_all add: e)
qed

lemma login_failure:
  assumes "find_by us_username n (db_users d) = Some u" and "\<not> is_locked now u"
    and "\<not> us_enabled u \<or> \<not> verify_password E (us_password_hash u) pw"
  shows "login E S now n pw r d =
    (Inl (TraceQError ''INVALID_CREDENTIALS'' ''Invalid username or password'' 401),
     auth_audit ''login_failure'' ''denied'' None None ''user'' (us_id u) r
       (set_user (us_id u) (count_failure now) d))"
  using assms by (simp add: login_def)

text \<open>The counter of failed attempts stays below five.\<close>

definition counters_ok :: "db \<Rightarrow> bool" where
  "counters_ok d \<longleftrightarrow> (\<forall>u \<in> set (db_users d). 0 \<le> us_failed_login_attempts u \<and> us_failed_login_attempts u < 5)"

lemma count_failure_bounds:
  "0 \<le> us_failed_login_attempts u \<Longrightarrow> us_failed_login_attempts u < 5 \<Longrightarrow>
     0 \<le> us_failed_login_attempts (count_failure now u) \<and> us_failed_login_attempts (count_failure now u) < 5"
  by (simp add: count_failure_def Let_def)

lemma login_cases:
  obtains (unknown) "find_by us_username n (db_users d) = None"
  | (locked) u where "find_by us_username n (db_users d) = Some u" "is_locked now u"
  | (wrong) u where "find_by us_username n (db_users d) = Some u" "\<not> is_locked now u"
      "\<not> us_enabled u \<or> \<not> verify_password E (us_password_hash u) pw"
  | (right) u where "find_by us_username n (db_users d) = Some u" "\<not> is_locked now u"
      "us_enabled u" "verify_password E (us_password_hash u) pw"
  by (cases "find_by us_username n (db_users d)") auto

lemma login_counters:
  assumes "counters_ok d"
  shows "counters_ok (snd (login E S now n pw r d))"
proof (cases rule: login_cases [where n = n and d = d and now = now and E = E and pw = pw])
  case unknown
  then show ?thesis using assms by (simp add: login_def counters_ok_def)
next
  case (locked u)
  then show ?thesis using assms by (simp add: login_def counters_ok_def)
next
  case (wrong u)
  then show ?thesis
    using assms count_failure_bounds by (auto simp: login_failure counters_ok_def set_update_by)
next
  case (right u)
  then obtain resp row d' where "login E S now n pw r d = (Inr resp, d')"
    and "db_users d' = update_by us_id (us_id u) reset_failures (db_users d)"
    by (rule login_success)
  then show ?thesis
    using assms by (auto simp: counters_ok_def set_update_by reset_failures_def)
qed

text \<open>Attempts to log in under one name, one after the other: time, password, request.\<close>

fun attempts ::
  "env \<Rightarrow> Settings \<Rightarrow> string \<Rightarrow> (time \<times> string \<times> string option) list \<Rightarrow> db \<Rightarrow> db" where
  "attempts E S n [] d = d"
| "attempts E S n ((now, pw, r) # xs) d = attempts E S n xs (snd (login E S now n pw r d))"

lemma find_name_update:
  assumes "\<And>u. us_username (f u) = us_username u" and "find_by us_username n users = Some u"
  shows "find_by us_username n (update_by us_id (us_id u) f users) = Some (f u)"
  using assms(2) by (induction users) (auto simp: assms(1) split: if_splits)

lemma count_failure_name [simp]:
  "us_username (count_failure now u) = us_username u" "us_password_hash (count_failure now u) = us_password_hash u"
  "us_enabled (count_failure now u) = us_enabled u" "us_id (count_failure now u) = us_id u"
  by (simp_all add: count_failure_def Let_def)

lemma wrong_attempts_lock:
  assumes "find_by us_username n (db_users d) = Some u" and "us_locked_until u = None"
    and "us_failed_login_attempts u + int (length xs) = 5" and "xs \<noteq> []"
    and "\<forall>(t, pw, r) \<in> set xs. \<not> verify_password E (us_password_hash u) pw"
  shows "\<exists>v. find_by us_username n (db_users (attempts E S n xs d)) = Some v \<and>
    us_locked_until v = Some (fst (List.last xs) + minutes 15) \<and> us_password_hash v = us_password_hash u"
  using assms
proof (induction xs arbitrary: d u)
  case (Cons x xs)
  obtain t pw r where x: "x = (t, pw, r)" by (cases x)
  let ?d = "snd (login E S t n pw r d)"
  have "login E S t n pw r d = (Inl (TraceQError ''INVALID_CREDENTIALS'' ''Invalid username or password'' 401),
      auth_audit ''login_failure'' ''denied'' None None ''user'' (us_id u) r
        (set_user (us_id u) (count_failure t) d))"
    using Cons.prems by (intro login_failure) (auto simp: x is_locked_def)
  then have users: "find_by us_username n (db_users ?d) = Some (count_failure t u)"
    using Cons.prems(1) by (simp add: find_name_update)
  show ?case
  proof (cases xs)
    case Nil
    then show ?thesis
      using Cons.prems users by (simp add: x count_failure_def Let_def)
  next
    case (Cons y ys)
    have u: "us_failed_login_attempts (count_failure t u) = us_failed_login_attempts u + 1"
      "us_locked_until (count_failure t u) = None"
      using Cons.prems Cons by (simp_all add: count_failure_def Let_def)
    show ?thesis
      using Cons.IH [OF users u(2)] Cons.prems(3,5) Cons u(1) by (simp add: x)
  qed
qed simp

lemma login_when_locked:
  assumes "find_by us_username n (db_users d) = Some u" and "us_locked_until u = Some t" and "now < t"
  shows "fst (login E S now n pw r d) =
    Inl (TraceQError ''ACCOUNT_TEMPORARILY_LOCKED'' ''Account is temporarily locked'' 423)"
  using assms by (simp add: login_def is_locked_def)

section \<open>Revocation\<close>

lemma refresh_refused:
  assumes "\<And>row. find_by rt_token_hash (token_hash E token) (db_refresh_tokens d) = Some row \<Longrightarrow>
    rt_revoked_at row \<noteq> None"
  shows "refresh E S now token r d = (Inl invalid_refresh, d)"
  using assms by (cases "find_by rt_token_hash (token_hash E token) (db_refresh_tokens d)")
    (simp_all add: refresh_def)

text \<open>A refresh is refused and changes nothing, or rotates the token and renews the session.\<close>

lemma refresh_cases:
  obtains (refused) "refresh E S now token r d = (Inl invalid_refresh, d)"
  | (rotated) row user resp new d' where
      "find_by rt_token_hash (token_hash E token) (db_refresh_tokens d) = Some row"
      "rt_revoked_at row = None" "now < rt_expires_at row"
      "find_by us_id (rt_user_id row) (db_users d) = Some user" "us_enabled user"
      "refresh E S now token r d = (Inr resp, d')"
      "db_users d' = db_users d" "db_uuid_draws d' = Suc (Suc (db_uuid_draws d))"
      "db_refresh_tokens d' = update_by rt_id (rt_id row)
         (\<lambda>r. r\<lparr>rt_revoked_at := Some now, rt_replaced_by_hash := Some (rt_token_hash new)\<rparr>)
         (db_refresh_tokens d @ [new])"
      "rt_session_id new = rt_session_id row" "rt_revoked_at new = None"
      "db_sessions d' =
        (if find_by se_id (rt_session_id row) (db_sessions d) = None then
           db_sessions d @ [\<lparr>se_id = rt_session_id row, se_user_id = us_id user,
             se_last_authenticated_at = now,
             se_expires_at = now + hours (refresh_token_ttl_hours S), se_revoked_at = None\<rparr>]
         else update_by se_id (rt_session_id row) (\<lambda>s. s\<lparr>se_last_authenticated_at := now,
           se_expires_at := now + hours (refresh_token_ttl_hours S)\<rparr>) (db_sessions d))"
proof (cases "find_by rt_token_hash (token_hash E token) (db_refresh_tokens d)")
  case None
  then show thesis by (intro refused) (simp add: refresh_def)
next
  case (Some row)
  show thesis
  proof (cases "rt_revoked_at row = None \<and> now < rt_expires_at row \<and>
      (\<exists>user. find_by us_id (rt_user_id row) (db_users d) = Some user \<and> us_enabled user)")
    case False
    with Some show thesis
      by (intro refused) (auto simp: refresh_def not_less split: option.split)
  next
    case True
    then obtain user where u: "rt_revoked_at row = None" "now < rt_expires_at row"
      "find_by us_id (rt_user_id row) (db_users d) = Some user" "us_enabled user"
      by blast
    obtain resp new d' where t: "token_response E S now user (rt_session_id row) d = ((resp, new), d')"
      and e: "db_users d' = db_users d" "db_uuid_draws d' = Suc (Suc (db_uuid_draws d))"
        "db_refresh_tokens d' = db_refresh_tokens d @ [new]"
        "rt_session_id new = rt_session_id row" "rt_revoked_at new = None"
        "db_sessions d' =
          (if find_by se_id (rt_session_id row) (db_sessions d) = None then
             db_sessions d @ [\<lparr>se_id = rt_session_id row, se_user_id = us_id user,
               se_last_authenticated_at = now,
               se_expires_at = now + hours (refresh_token_ttl_hours S), se_revoked_at = None\<rparr>]
           else update_by se_id (rt_session_id row) (\<lambda>s. s\<lparr>se_last_authenticated_at := now,
             se_expires_at := now + hours (refresh_token_ttl_hours S)\<rparr>) (db_sessions d))"
      by (rule token_response_effect)
    have "refresh E S now token r d = (Inr resp,
        auth_audit ''refresh_rotation'' ''success'' (Some (us_id user)) (Some (rt_session_id row))
          ''session'' (rt_session_id row) r
          (d'\<lparr>db_refresh_tokens := update_by rt_id (rt_id row)
            (\<lambda>r. r\<lparr>rt_revoked_at := Some now, rt_replaced_by_hash := Some (rt_token_hash new)\<rparr>)
            (db_refresh_tokens d')\<rparr>))"
      using Some u t by (simp add: refresh_def not_le [symmetric])
    then show thesis
      by (rule rotated [OF Some u, where new = new]) (simp_all add: e)
  qed
qed

text \<open>The operations on identities, in any order.\<close>

inductive auth_step :: "env \<Rightarrow> Settings \<Rightarrow> db \<Rightarrow> db \<Rightarrow> bool" for E S where
  a_login: "auth_step E S d (snd (login E S now username password r d))"
| a_refresh: "auth_step E S d (snd (refresh E S now token r d))"
| a_logout: "auth_step E S d (snd (logout E now token r d))"

text \<open>A refresh token that is spent: its row is revoked.\<close>

definition spent :: "string \<Rightarrow> db \<Rightarrow> bool" where
  "spent h d \<longleftrightarrow> (\<exists>row. find_by rt_token_hash h (db_refresh_tokens d) = Some row \<and> rt_revoked_at row \<noteq> None)"

lemma find_revoked_update:
  assumes "find_by rt_token_hash h rows = Some row" and "rt_revoked_at row \<noteq> None"
    and "\<And>r. rt_token_hash (f r) = rt_token_hash r" and "\<And>r. rt_revoked_at r \<noteq> None \<Longrightarrow> rt_revoked_at (f r) \<noteq> None"
  shows "\<exists>row. find_by rt_token_hash h (update_by key k f rows) = Some row \<and> rt_revoked_at row \<noteq> None"
  using assms(1,2) by (induction rows) (auto simp: assms(3) assms(4) [unfolded not_None_eq] split: if_splits)

lemma logout_cases:
  obtains (ignored) "logout E now token r d = (Inr (), d)"
  | (revoked) row d' where
      "find_by rt_token_hash (token_hash E token) (db_refresh_tokens d) = Some row"
      "rt_revoked_at row = None" "logout E now token r d = (Inr (), d')"
      "db_users d' = db_users d" "db_uuid_draws d' = db_uuid_draws d"
      "db_refresh_tokens d' = update_by rt_session_id (rt_session_id row) (revoke_token now)
         (update_by rt_id (rt_id row) (\<lambda>r. r\<lparr>rt_revoked_at := Some now\<rparr>) (db_refresh_tokens d))"
      "db_sessions d' = update_by se_id (rt_session_id row) (revoke_session now) (db_sessions d)"
proof (cases "find_by rt_token_hash (token_hash E token) (db_refresh_tokens d)")
  case None
  then show thesis by (intro ignored) (simp add: logout_def)
next
  case (Some row)
  show thesis
  proof (cases "rt_revoked_at row = None")
    case True
    have "logout E now token r d = (Inr (), auth_audit ''logout'' ''success'' (Some (rt_user_id row))
      (Some (rt_session_id row)) ''session'' (rt_session_id row) r
      (d\<lparr>db_refresh_tokens := update_by rt_session_id (rt_session_id row) (revoke_token now)
           (update_by rt_id (rt_id row) (\<lambda>r. r\<lparr>rt_revoked_at := Some now\<rparr>) (db_refresh_tokens d)),
         db_sessions := update_by se_id (rt_session_id row) (revoke_session now) (db_sessions d)\<rparr>))"
      using True Some by (simp add: logout_def)
    then show thesis
      by (rule revoked [OF Some True]) simp_all
  next
    case False
    then show thesis
      by (intro ignored) (simp add: logout_def Some)
  qed
qed

text \<open>Once spent, a refresh token stays spent.\<close>

lemma login_tokens:
  "\<exists>new. db_refresh_tokens (snd (login E S now n pw r d)) = db_refresh_tokens d @ new"
proof (cases rule: login_cases [where n = n and d = d and now = now and E = E and pw = pw])
  case (right u)
  then obtain resp row d' where "login E S now n pw r d = (Inr resp, d')"
    and "db_refresh_tokens d' = db_refresh_tokens d @ [row]"
    by (rule login_success)
  then show ?thesis by simp
qed (simp_all add: login_def)

lemma spent_append: "spent h d \<Longrightarrow> db_refresh_tokens d' = db_refresh_tokens d @ new \<Longrightarrow> spent h d'"
  by (auto simp: spent_def find_by_append)

lemma auth_step_spent:
  assumes "spent h d" and "auth_step E S d d'"
  shows "spent h d'"
  using assms(2,1)
proof (induction rule: auth_step.induct)
  case (a_login d now username password r)
  then show ?case using login_tokens spent_append by blast
next
  case (a_refresh d now token r)
  show ?case
  proof (cases rule: refresh_cases [where E = E and S = S and now = now and token = token and r = r and d = d])
    case refused
    then show ?thesis using a_refresh by simp
  next
    case (rotated row user resp new d')
    obtain old where "find_by rt_token_hash h (db_refresh_tokens d @ [new]) = Some old" "rt_revoked_at old \<noteq> None"
      using a_refresh by (auto simp: spent_def find_by_append)
    then have "\<exists>old. find_by rt_token_hash h (db_refresh_tokens d') = Some old \<and> rt_revoked_at old \<noteq> None"
      unfolding rotated(9) by (rule find_revoked_update) simp_all
    then show ?thesis
      using rotated(6) by (simp add: spent_def)
  qed
next
  case (a_logout d now token r)
  show ?case
  proof (cases rule: logout_cases [where E = E and now = now and token = token and r = r and d = d])
    case ignored
    then show ?thesis using a_logout by simp
  next
    case (revoked row d')
    obtain old where "find_by rt_token_hash h (db_refresh_tokens d) = Some old" "rt_revoked_at old \<noteq> None"
      using a_logout by (auto simp: spent_def)
    then obtain old' where "find_by rt_token_hash h (update_by rt_id (rt_id row)
        (\<lambda>r. r\<lparr>rt_revoked_at := Some now\<rparr>) (db_refresh_tokens d)) = Some old'" "rt_revoked_at old' \<noteq> None"
      using find_revoked_update [of h "db_refresh_tokens d" old "\<lambda>r. r\<lparr>rt_revoked_at := Some now\<rparr>" rt_id]
      by auto
    then have "\<exists>old. find_by rt_token_hash h (db_refresh_tokens d') = Some old \<and> rt_revoked_at old \<noteq> None"
      unfolding revoked(6) by (rule find_revoked_update) (simp_all add: revoke_token_def)
    then show ?thesis
      using revoked(3) by (simp add: spent_def)
  qed
qed

interpretation spent_tokens: step_invariant "auth_step E S" "spent h" for E S h
  by unfold_locales (rule auth_step_spent)

lemma find_by_update_other:
  assumes "\<And>r. key (f r) = key r"
  shows "find_by key h (update_by key2 k f rows) =
    map_option (\<lambda>r. if key2 r = k then f r else r) (find_by key h rows)"
  by (induction rows) (auto simp: assms)

lemma refresh_spends:
  assumes "refresh E S now token r d = (Inr resp, d')"
  shows "spent (token_hash E token) d'"
proof (cases rule: refresh_cases [where E = E and S = S and now = now and token = token and r = r and d = d])
  case refused
  then show ?thesis using assms by simp
next
  case (rotated row user resp' new d'')
  have f: "find_by rt_token_hash (token_hash E token) (db_refresh_tokens d @ [new]) = Some row"
    using rotated(1) by (simp add: find_by_append)
  have d': "d' = d''"
    using assms rotated(6) by simp
  show ?thesis
    unfolding spent_def d' rotated(9) by (subst find_by_update_other) (simp_all add: f del: update_by_append)
qed

lemma spent_refused: "spent (token_hash E token) d \<Longrightarrow> refresh E S now token r d = (Inl invalid_refresh, d)"
  by (rule refresh_refused) (auto simp: spent_def)

text \<open>
  A session that is over: its row and every refresh token of it are revoked. Its identifier was
  drawn before, so a login cannot draw it again when the random identifiers never repeat.
\<close>

definition over :: "env \<Rightarrow> uuid \<Rightarrow> db \<Rightarrow> bool" where
  "over E sid d \<longleftrightarrow> inj (uuid4 E) \<and> sid \<in> uuid4 E ` {..<db_uuid_draws d} \<and>
     (\<forall>r \<in> set (db_refresh_tokens d). rt_session_id r = sid \<longrightarrow> rt_revoked_at r \<noteq> None) \<and>
     (\<forall>s \<in> set (db_sessions d). se_id s = sid \<longrightarrow> se_revoked_at s \<noteq> None)"

lemma over_new_uuid: "over E sid d \<Longrightarrow> new_uuid E d \<noteq> sid"
  by (auto simp: over_def new_uuid_def dest: injD)

lemma over_grow:
  assumes "over E sid d" and "db_uuid_draws d \<le> db_uuid_draws d'"
    and "\<forall>r \<in> set (db_refresh_tokens d'). rt_session_id r = sid \<longrightarrow> rt_revoked_at r \<noteq> None"
    and "\<forall>s \<in> set (db_sessions d'). se_id s = sid \<longrightarrow> se_revoked_at s \<noteq> None"
  shows "over E sid d'"
  using assms by (auto simp: over_def intro: less_le_trans)

lemma auth_step_over:
  assumes "over E sid d" and "auth_step E S d d'"
  shows "over E sid d'"
  using assms(2,1)
proof (induction rule: auth_step.induct)
  case (a_login d now username password r)
  show ?case
  proof (cases rule: login_cases [where n = username and d = d and now = now and E = E and pw = password])
    case (right u)
    then obtain resp row d' where l: "login E S now username password r d = (Inr resp, d')"
      "db_uuid_draws d' = Suc (Suc (Suc (db_uuid_draws d)))"
      "db_refresh_tokens d' = db_refresh_tokens d @ [row]" "rt_session_id row = new_uuid E d"
      "db_sessions d' =
        (if find_by se_id (new_uuid E d) (db_sessions d) = None then
           db_sessions d @ [\<lparr>se_id = new_uuid E d, se_user_id = us_id u, se_last_authenticated_at = now,
             se_expires_at = now + hours (refresh_token_ttl_hours S), se_revoked_at = None\<rparr>]
         else update_by se_id (new_uuid E d) (\<lambda>s. s\<lparr>se_last_authenticated_at := now,
           se_expires_at := now + hours (refresh_token_ttl_hours S)\<rparr>) (db_sessions d))"
      by (rule login_success)
    have "over E sid d'"
      by (rule over_grow [OF a_login])
        (use a_login over_new_uuid [OF a_login] in \<open>auto simp: l over_def set_update_by\<close>)
    then show ?thesis using l by simp
  qed (use a_login in \<open>auto simp: login_def over_def\<close>)
next
  case (a_refresh d now token r)
  show ?case
  proof (cases rule: refresh_cases [where E = E and S = S and now = now and token = token and r = r and d = d])
    case refused
    then show ?thesis using a_refresh by simp
  next
    case (rotated row user resp new d')
    have "rt_session_id row \<noteq> sid"
      using a_refresh find_by_SomeD [OF rotated(1)] rotated(2) by (auto simp: over_def)
    then have "over E sid d'"
      by (intro over_grow [OF a_refresh]) (use a_refresh in \<open>auto simp: rotated over_def set_update_by\<close>)
    then show ?thesis using rotated by simp
  qed
next
  case (a_logout d now token r)
  show ?case
  proof (cases rule: logout_cases [where E = E and now = now and token = token and r = r and d = d])
    case ignored
    then show ?thesis using a_logout by simp
  next
    case (revoked row d')
    have "over E sid d'"
      by (rule over_grow [OF a_logout])
        (use a_logout in \<open>auto simp: revoked over_def set_update_by revoke_token_def revoke_session_def\<close>)
    then show ?thesis using revoked by simp
  qed
qed

interpretation over_sessions: step_invariant "auth_step E S" "over E sid" for E S sid
  by unfold_locales (rule auth_step_over)

lemma logout_over:
  assumes "inj (uuid4 E)"
    and row: "find_by rt_token_hash (token_hash E token) (db_refresh_tokens d) = Some row"
    and "rt_revoked_at row = None" and "rt_session_id row \<in> uuid4 E ` {..<db_uuid_draws d}"
  shows "over E (rt_session_id row) (snd (logout E now token r d))"
proof (cases rule: logout_cases [where E = E and now = now and token = token and r = r and d = d])
  case ignored
  have "length (db_audit (snd (logout E now token r d))) = Suc (length (db_audit d))"
    using row assms(3) by (simp add: logout_def auth_audit_def write_audit_def)
  with ignored show ?thesis by simp
next
  case (revoked row' d')
  then show ?thesis
    using assms by (auto simp: over_def set_update_by revoke_token_def revoke_session_def)
qed

text \<open>Nobody acts on a session that is over, and no token of it refreshes.\<close>

lemma over_no_principal:
  assumes "over E sid d" and "token_claims E now token = Some (u, sid)"
  shows "current_principal E now (Some (scheme, token)) d \<noteq> Inr p"
proof
  assume "current_principal E now (Some (scheme, token)) d = Inr p"
  then have "authentic E now (Some (scheme, token)) d p"
    by (rule current_principal_authentic)
  then obtain s where "find_by se_id sid (db_sessions d) = Some s" "live_session now s"
    using assms by (auto simp: authentic_def)
  then show False
    using assms find_by_SomeD [of se_id sid "db_sessions d" s] by (auto simp: over_def live_session_def)
qed

lemma over_no_refresh:
  assumes "over E sid d"
    and "find_by rt_token_hash (token_hash E token) (db_refresh_tokens d) = Some row" "rt_session_id row = sid"
  shows "refresh E S now token r d = (Inl invalid_refresh, d)"
  using assms find_by_SomeD [OF assms(2)] by (intro refresh_refused) (auto simp: over_def)

text \<open>
  A refresh counts as an authentication: it moves \<open>last_authenticated_at\<close>, which is all that
  \<open>require_critical_permission\<close> looks at.
\<close>

lemma refresh_renews:
  assumes "refresh E S now token r d = (Inr resp, d')"
  shows "\<exists>s. find_by rt_token_hash (token_hash E token) (db_refresh_tokens d) \<noteq> None \<and>
    find_by se_id (rt_session_id (the (find_by rt_token_hash (token_hash E token) (db_refresh_tokens d))))
      (db_sessions d') = Some s \<and> se_last_authenticated_at s = now"
proof (cases rule: refresh_cases [where E = E and S = S and now = now and token = token and r = r and d = d])
  case refused
  then show ?thesis using assms by simp
next
  case (rotated row user resp' new d'')
  then have "d' = d''" using assms by simp
  then show ?thesis
    using rotated by (auto simp: find_by_append find_by_update_by)
qed

section \<open>Separation of the roles\<close>

lemma role_permissions_known: "list_all (\<lambda>rp. set (snd rp) \<subseteq> set PERMISSIONS) ROLE_PERMISSIONS"
  by (simp add: ROLE_PERMISSIONS_def PERMISSIONS_def)

lemma containment_separated:
  "list_all (\<lambda>rp. \<not> (''PROPOSE_CONTAINMENT'' \<in> set (snd rp) \<and> ''APPROVE_CONTAINMENT'' \<in> set (snd rp)))
     ROLE_PERMISSIONS"
  by (simp add: ROLE_PERMISSIONS_def)

lemma admin_no_quality_decision:
  "list_all (\<lambda>rp. ''MANAGE_USERS'' \<in> set (snd rp) \<longrightarrow>
     set (snd rp) \<inter> {''ISSUE_QC_DECISION'', ''APPROVE_CRITICAL_ACTION'', ''APPROVE_CONTAINMENT''} = {})
     ROLE_PERMISSIONS"
  by (simp add: ROLE_PERMISSIONS_def)

end
