(* ===== verification/TQ_Release.thy ===== *)
theory TQ_Release
  imports TQ_Auth TQ_Replay
begin

text \<open>
  Decisions on nonconformances and the release of quality results:
  \<open>OutboundReleasePolicy\<close> (\<^verbatim>\<open>backend/app/quality/release.py\<close>) and the writing endpoints of
  \<^verbatim>\<open>backend/app/api/nonconformances.py\<close>. An endpoint is a handler behind a gate of TQ_Auth; its
  session is rolled back when it raises. \<open>review_step\<close> is any of them, called in any order.
\<close>

section \<open>The release policy\<close>

definition exportable :: "disposition \<Rightarrow> bool" where
  "exportable x \<longleftrightarrow> x = RELEASED \<or> x = USE_AS_IS \<or> x = SCRAPPED"

definition final_verdict :: "verdict \<Rightarrow> bool" where
  "final_verdict v \<longleftrightarrow> v = Confirmed \<or> v = Rejected"

definition authorize :: "Nonconformance \<Rightarrow> ControllerDecision \<Rightarrow> unit result" where
  "authorize ncr decision =
     (if cd_nonconformance_id decision \<noteq> nc_id ncr \<or> \<not> final_verdict (cd_verdict decision)
        then Inl (TraceQError ''ACTION_NOT_AUTHORIZED'' ''An authorized controller decision is required'' 403)
      else if \<not> exportable (cd_disposition decision)
        then Inl (TraceQError ''ACTION_NOT_AUTHORIZED'' ''This disposition is not exportable'' 403)
      else if nc_resolution_type ncr = Some ''rework'' \<and>
              nc_verification_status ncr \<noteq> Some Verification_passed
        then Inl (TraceQError ''REWORK_VERIFICATION_REQUIRED''
               ''Successful controller verification is required'' 409)
      else Inr ())"

definition result_payload ::
  "env \<Rightarrow> time \<Rightarrow> Nonconformance \<Rightarrow> ControllerDecision \<Rightarrow> QualityPayload" where
  "result_payload E now ncr decision =
     \<lparr>qp_message_id = ''QR-'' @ cd_id decision, qp_item_id = nc_item_id ncr,
      qp_nonconformance_id = nc_id ncr, qp_decision_id = cd_id decision,
      qp_verdict = cd_verdict decision, qp_disposition = cd_disposition decision,
      qp_containment = cd_containment decision, qp_decided_at = isoformat E now\<rparr>"

definition set_item_status :: "string \<Rightarrow> disposition \<Rightarrow> db \<Rightarrow> db" where
  "set_item_status i x d = d\<lparr>db_items := update_by it_item_id i (\<lambda>it. it\<lparr>it_status := x\<rparr>) (db_items d)\<rparr>"

definition put_ncr :: "Nonconformance \<Rightarrow> db \<Rightarrow> db" where
  "put_ncr ncr d = d\<lparr>db_ncrs := update_by nc_id (nc_id ncr) (\<lambda>_. ncr) (db_ncrs d)\<rparr>"

definition close_occurrence :: "time \<Rightarrow> uuid \<Rightarrow> db \<Rightarrow> db" where
  "close_occurrence now i d = d\<lparr>db_occurrences := update_by oc_id i
     (\<lambda>oc. oc\<lparr>oc_status := Occurrence_closed, oc_closed_at := Some now\<rparr>) (db_occurrences d)\<rparr>"

text \<open>The two rows of a result: the quality result and the message that carries it.\<close>

definition add_result :: "env \<Rightarrow> time \<Rightarrow> Nonconformance \<Rightarrow> ControllerDecision \<Rightarrow> db \<Rightarrow> db" where
  "add_result E now ncr decision d =
     (let payload = result_payload E now ncr decision;
          message_id = ''QR-'' @ cd_id decision;
          d1 = drew_uuid (d\<lparr>db_quality_results := db_quality_results d @
            [\<lparr>qr_id = new_uuid E d, qr_message_id = message_id, qr_decision_id = cd_id decision,
              qr_item_id = nc_item_id ncr, qr_payload = payload\<rparr>]\<rparr>) in
      drew_uuid (d1\<lparr>db_outbox := db_outbox d1 @
        [\<lparr>ox_id = new_uuid E d1, ox_message_id = message_id, ox_destination = ''erp-emulator'',
          ox_message_type = ''quality.result'', ox_payload = payload, ox_state = PENDING,
          ox_attempts = 0, ox_next_attempt_at = now, ox_last_error = None, ox_created_at = now,
          ox_delivered_at = None\<rparr>]\<rparr>))"

definition create_result ::
  "env \<Rightarrow> time \<Rightarrow> Nonconformance \<Rightarrow> ControllerDecision \<Rightarrow> db \<Rightarrow> ((string \<times> QualityPayload) \<times> db) result" where
  "create_result E now ncr decision d =
     rbind (authorize ncr decision) (\<lambda>_.
       case find_by qr_decision_id (cd_id decision) (db_quality_results d) of
         Some existing \<Rightarrow> Inr ((qr_message_id existing, qr_payload existing), d)
       | None \<Rightarrow>
           Inr ((''QR-'' @ cd_id decision, result_payload E now ncr decision),
             close_occurrence now (nc_occurrence_id ncr)
               (put_ncr (ncr\<lparr>nc_closed_at := Some now\<rparr>)
                 (set_item_status (nc_item_id ncr) (cd_disposition decision)
                   (add_result E now ncr decision d)))))"

section \<open>What every endpoint does first\<close>

definition ncr_or_404 :: "uuid \<Rightarrow> db \<Rightarrow> Nonconformance result" where
  "ncr_or_404 i d = (case find_by nc_id i (db_ncrs d) of
     None \<Rightarrow> Inl (NotFoundError ''Nonconformance'') | Some ncr \<Rightarrow> Inr ncr)"

definition evidence_failed :: "string \<Rightarrow> db \<Rightarrow> bool" where
  "evidence_failed item d \<longleftrightarrow>
     list_ex (\<lambda>s. st_status s = INTEGRITY_FAILED \<and>
       list_ex (\<lambda>r. re_integrity_stream_id r = st_stream_id s \<and> re_item_id r = Some item) (db_raw_events d))
     (db_streams d)"

definition ensure_evidence_integrity :: "string \<Rightarrow> db \<Rightarrow> unit result" where
  "ensure_evidence_integrity item d =
     (if evidence_failed item d
      then Inl (TraceQError ''EVIDENCE_INTEGRITY_FAILED''
        ''A decision is blocked because supporting evidence failed integrity verification'' 409)
      else Inr ())"

definition latest_decision :: "uuid \<Rightarrow> db \<Rightarrow> ControllerDecision option" where
  "latest_decision ncr_id d = max_last cd_created_at (filter (\<lambda>c. cd_nonconformance_id c = ncr_id) (db_decisions d))"

definition add_decision :: "ControllerDecision \<Rightarrow> db \<Rightarrow> db" where
  "add_decision c d = drew_uuid (d\<lparr>db_decisions := db_decisions d @ [c]\<rparr>)"

text \<open>An endpoint commits what it returns with, and its session is rolled back when it raises.\<close>

definition atomically :: "(db \<Rightarrow> ('r \<times> db) result) \<Rightarrow> db \<Rightarrow> 'r result \<times> db" where
  "atomically f d = (case f d of Inl e \<Rightarrow> (Inl e, d) | Inr (x, d') \<Rightarrow> (Inr x, d'))"

definition invalid_request :: exn where
  "invalid_request = PyError ''RequestValidationError''"

definition text_between :: "nat \<Rightarrow> nat \<Rightarrow> string \<Rightarrow> bool" where
  "text_between lo hi s \<longleftrightarrow> lo \<le> py_len s \<and> py_len s \<le> hi"

definition acting :: "Principal \<Rightarrow> string \<Rightarrow> string \<Rightarrow> string option \<Rightarrow> audit_call" where
  "acting p target_type target_id request_id =
     \<lparr>ac_actor = Some (pr_user_id p), ac_session = Some (pr_session_id p),
      ac_target_type = Some target_type, ac_target_id = Some target_id, ac_request_id = request_id\<rparr>"

section \<open>Decisions\<close>

record DecisionRequest =
  dr_verdict :: verdict
  dr_disposition :: disposition
  dr_containment :: containment
  dr_reason :: string

definition valid_decision :: "DecisionRequest \<Rightarrow> bool" where
  "valid_decision b \<longleftrightarrow> final_verdict (dr_verdict b) \<and> text_between 3 2000 (dr_reason b) \<and>
     \<not> (dr_verdict b = Rejected \<and> dr_disposition b = REWORK_REQUIRED)"

definition decided_ncr :: "DecisionRequest \<Rightarrow> Nonconformance \<Rightarrow> Nonconformance" where
  "decided_ncr b ncr =
     (let n = ncr\<lparr>nc_verdict := dr_verdict b, nc_disposition := dr_disposition b,
                  nc_containment := dr_containment b\<rparr> in
      if dr_disposition b = REWORK_REQUIRED
      then n\<lparr>nc_resolution_type := Some ''rework'', nc_verification_status := Some Verification_pending\<rparr>
      else n)"

definition decision_row :: "env \<Rightarrow> time \<Rightarrow> Principal \<Rightarrow> Nonconformance \<Rightarrow> DecisionRequest \<Rightarrow> db \<Rightarrow> ControllerDecision" where
  "decision_row E now p ncr b d =
     \<lparr>cd_id = new_uuid E d, cd_nonconformance_id = nc_id ncr, cd_user_id = pr_user_id p,
      cd_verdict = dr_verdict b, cd_disposition = dr_disposition b, cd_containment = dr_containment b,
      cd_reason = dr_reason b, cd_analysis_version = nc_current_analysis_version ncr,
      cd_previous_decision_id = map_option cd_id (latest_decision (nc_id ncr) d), cd_created_at = now\<rparr>"

text \<open>A decision that \<open>ok\<close> lets out is turned into a result; its message is what is returned.\<close>

definition issue ::
  "env \<Rightarrow> time \<Rightarrow> bool \<Rightarrow> Nonconformance \<Rightarrow> ControllerDecision \<Rightarrow> db \<Rightarrow> (string option \<times> db) result" where
  "issue E now ok ncr decision d =
     (if ok then rbind (create_result E now ncr decision d) (\<lambda>(r, d'). Inr (Some (fst r), d'))
      else Inr (None, d))"

text \<open>What the endpoint returns: the decision and the message, if there is one.\<close>

type_synonym decision_response = "uuid \<times> string option"

definition decide_nonconformance ::
  "env \<Rightarrow> time \<Rightarrow> uuid \<Rightarrow> DecisionRequest \<Rightarrow> string option \<Rightarrow> Principal \<Rightarrow> db \<Rightarrow> decision_response result \<times> db" where
  "decide_nonconformance E now ncr_id b request_id p = atomically (\<lambda>d.
     if \<not> valid_decision b then Inl invalid_request else
     rbind (ncr_or_404 ncr_id d) (\<lambda>ncr.
     rbind (ensure_evidence_integrity (nc_item_id ncr) d) (\<lambda>_.
       let decision = decision_row E now p ncr b d;
           ncr' = decided_ncr b ncr;
           d1 = set_item_status (nc_item_id ncr) (dr_disposition b) (put_ncr ncr' (add_decision decision d)) in
       rbind (issue E now (exportable (dr_disposition b)) ncr' decision d1) (\<lambda>(message_id, d2).
       Inr ((cd_id decision, message_id),
         write_audit ''controller_decision'' ''success'' (acting p ''nonconformance'' (nc_id ncr) request_id)
           (JObj [(''verdict'', JStr (verdict_str (dr_verdict b))),
                  (''disposition'', JStr (disposition_str (dr_disposition b))),
                  (''containment'', JStr (containment_str (dr_containment b))),
                  (''analysis_version'', JInt (nc_current_analysis_version ncr))]) d2)))))"

section \<open>Verification of a rework\<close>

definition rework_run :: "Nonconformance \<Rightarrow> db \<Rightarrow> OperationRun option" where
  "rework_run ncr d = max_last (\<lambda>r. seq_key (or_finished_at r))
     (filter (\<lambda>r. or_item_id r = nc_item_id ncr \<and> or_run_reason r = Rework \<and>
        or_rework_for_nonconformance_id r = Some (nc_id ncr) \<and>
        or_completion_status r = Some Completed) (db_runs d))"

definition trusted_good_after :: "string \<Rightarrow> time \<Rightarrow> db \<Rightarrow> Observation option" where
  "trusted_good_after item t d = max_last ob_occurred_at
     (filter (\<lambda>o'. ob_item_id o' = item \<and> t \<le> ob_occurred_at o' \<and> ob_inspection_result o' = No_defect \<and>
        ob_trust_status o' = TRUSTED) (db_observations d))"

record ReworkVerificationRequest =
  wr_passed :: bool
  wr_reason :: string

definition rework_verdict :: "bool \<Rightarrow> string \<Rightarrow> DecisionRequest" where
  "rework_verdict ok reason = \<lparr>dr_verdict = Confirmed,
     dr_disposition = (if ok then RELEASED else REWORK_REQUIRED),
     dr_containment = (if ok then NO_CONTAINMENT else HOLD), dr_reason = reason\<rparr>"

definition verified_ncr :: "time \<Rightarrow> bool \<Rightarrow> uuid \<Rightarrow> Nonconformance \<Rightarrow> Nonconformance" where
  "verified_ncr now ok decision_id ncr =
     (if ok then ncr\<lparr>nc_verification_decision_id := Some decision_id,
        nc_verification_status := Some Verification_passed, nc_resolution_type := Some ''rework'',
        nc_resolved_at := Some now, nc_disposition := RELEASED, nc_containment := NO_CONTAINMENT\<rparr>
      else ncr\<lparr>nc_verification_decision_id := Some decision_id,
        nc_verification_status := Some Verification_failed, nc_disposition := REWORK_REQUIRED,
        nc_containment := HOLD\<rparr>)"

definition verify_rework ::
  "env \<Rightarrow> time \<Rightarrow> uuid \<Rightarrow> ReworkVerificationRequest \<Rightarrow> string option \<Rightarrow> Principal \<Rightarrow> db \<Rightarrow>
   decision_response result \<times> db" where
  "verify_rework E now ncr_id b request_id p = atomically (\<lambda>d.
     if \<not> text_between 3 3000 (wr_reason b) then Inl invalid_request else
     rbind (ncr_or_404 ncr_id d) (\<lambda>ncr.
     rbind (ensure_evidence_integrity (nc_item_id ncr) d) (\<lambda>_.
       case Option.bind (rework_run ncr d) or_finished_at of
         None \<Rightarrow> Inl (TraceQError ''REWORK_NOT_COMPLETED'' ''A completed rework operation is required'' 409)
       | Some finished_at \<Rightarrow>
           let good = trusted_good_after (nc_item_id ncr) finished_at d;
               ok = (wr_passed b \<and> good \<noteq> None);
               decision = decision_row E now p ncr (rework_verdict ok (wr_reason b)) d;
               ncr' = verified_ncr now ok (cd_id decision) ncr;
               d1 = put_ncr ncr' (add_decision decision d) in
           rbind (issue E now ok ncr' decision d1) (\<lambda>(message_id, d2).
           Inr ((cd_id decision, message_id),
             write_audit ''rework_verification'' (if ok then ''passed'' else ''failed'')
               (acting p ''nonconformance'' (nc_id ncr) request_id)
               (JObj [(''reason'', JStr (wr_reason b)),
                      (''repeat_inspection_event_id'', js_opt (\<lambda>o'. JStr (ob_event_id o')) good)]) d2)))))"

section \<open>Review, inspection, notes and containment\<close>

record ReviewRequest =
  rq_verdict :: verdict
  rq_reason :: string

definition valid_review :: "ReviewRequest \<Rightarrow> bool" where
  "valid_review b \<longleftrightarrow> (rq_verdict b = Pending_review \<or> rq_verdict b = Needs_extra_check) \<and>
     text_between 3 2000 (rq_reason b)"

definition review_nonconformance ::
  "uuid \<Rightarrow> ReviewRequest \<Rightarrow> string option \<Rightarrow> Principal \<Rightarrow> db \<Rightarrow> verdict result \<times> db" where
  "review_nonconformance ncr_id b request_id p = atomically (\<lambda>d.
     if \<not> valid_review b then Inl invalid_request else
     rbind (ncr_or_404 ncr_id d) (\<lambda>ncr.
     rbind (ensure_evidence_integrity (nc_item_id ncr) d) (\<lambda>_.
     Inr (rq_verdict b,
       write_audit ''nonconformance_review'' ''success'' (acting p ''nonconformance'' (nc_id ncr) request_id)
         (JObj [(''verdict'', JStr (verdict_str (rq_verdict b))), (''reason'', JStr (rq_reason b))])
         (put_ncr (ncr\<lparr>nc_verdict := rq_verdict b\<rparr>) d)))))"

record InspectionRequest =
  iq_reason :: string
  iq_control_point_id :: "string option"

definition valid_inspection :: "InspectionRequest \<Rightarrow> bool" where
  "valid_inspection b \<longleftrightarrow> text_between 3 2000 (iq_reason b) \<and>
     (case iq_control_point_id b of None \<Rightarrow> True | Some c \<Rightarrow> py_len c \<le> 128)"

definition request_inspection ::
  "env \<Rightarrow> time \<Rightarrow> uuid \<Rightarrow> InspectionRequest \<Rightarrow> string option \<Rightarrow> Principal \<Rightarrow> db \<Rightarrow> uuid result \<times> db" where
  "request_inspection E now ncr_id b request_id p = atomically (\<lambda>d.
     if \<not> valid_inspection b then Inl invalid_request else
     rbind (ncr_or_404 ncr_id d) (\<lambda>ncr.
       let decision = decision_row E now p ncr
             \<lparr>dr_verdict = Needs_extra_check, dr_disposition = nc_disposition ncr,
              dr_containment = REINSPECTION_REQUIRED, dr_reason = iq_reason b\<rparr> d in
       Inr (cd_id decision,
         write_audit ''extra_inspection_request'' ''success'' (acting p ''nonconformance'' (nc_id ncr) request_id)
           (JObj [(''control_point_id'', js_opt JStr (iq_control_point_id b)), (''reason'', JStr (iq_reason b))])
           (put_ncr (ncr\<lparr>nc_verdict := Needs_extra_check, nc_containment := REINSPECTION_REQUIRED\<rparr>)
             (add_decision decision d)))))"

definition add_investigation_note ::
  "env \<Rightarrow> time \<Rightarrow> uuid \<Rightarrow> string \<Rightarrow> string option \<Rightarrow> Principal \<Rightarrow> db \<Rightarrow> uuid result \<times> db" where
  "add_investigation_note E now ncr_id body request_id p = atomically (\<lambda>d.
     if \<not> text_between 3 5000 body then Inl invalid_request else
     rbind (ncr_or_404 ncr_id d) (\<lambda>ncr.
     Inr (new_uuid E d,
       write_audit ''investigation_note_create'' ''success'' (acting p ''nonconformance'' (nc_id ncr) request_id)
         JNull
         (drew_uuid (d\<lparr>db_notes := db_notes d @
           [\<lparr>no_id = new_uuid E d, no_nonconformance_id = nc_id ncr, no_author_user_id = pr_user_id p,
             no_body = body, no_created_at = now\<rparr>]\<rparr>)))))"

record ContainmentProposalRequest =
  pq_containment :: containment
  pq_rationale :: string

definition valid_proposal :: "ContainmentProposalRequest \<Rightarrow> bool" where
  "valid_proposal b \<longleftrightarrow> pq_containment b \<noteq> NO_CONTAINMENT \<and> text_between 3 3000 (pq_rationale b)"

definition propose_containment ::
  "env \<Rightarrow> time \<Rightarrow> uuid \<Rightarrow> ContainmentProposalRequest \<Rightarrow> string option \<Rightarrow> Principal \<Rightarrow> db \<Rightarrow>
   uuid result \<times> db" where
  "propose_containment E now ncr_id b request_id p = atomically (\<lambda>d.
     if \<not> valid_proposal b then Inl invalid_request else
     rbind (ncr_or_404 ncr_id d) (\<lambda>ncr.
     Inr (new_uuid E d,
       write_audit ''containment_proposal'' ''success'' (acting p ''nonconformance'' (nc_id ncr) request_id)
         (JObj [(''containment'', JStr (containment_str (pq_containment b)))])
         (drew_uuid (d\<lparr>db_proposals := db_proposals d @
           [\<lparr>cp_id = new_uuid E d, cp_nonconformance_id = Some (nc_id ncr), cp_blast_radius_query_id = None,
             cp_proposed_by = pr_user_id p, cp_containment = pq_containment b,
             cp_rationale = pq_rationale b, cp_status = Proposal_pending, cp_reviewed_by = None,
             cp_review_reason = None, cp_created_at = now, cp_reviewed_at = None\<rparr>]\<rparr>)))))"

record ContainmentReviewRequest =
  cq_approve :: bool
  cq_reason :: string

definition review_containment ::
  "time \<Rightarrow> uuid \<Rightarrow> ContainmentReviewRequest \<Rightarrow> string option \<Rightarrow> Principal \<Rightarrow> db \<Rightarrow>
   (proposal_status \<times> containment) result \<times> db" where
  "review_containment now proposal_id b request_id p = atomically (\<lambda>d.
     if \<not> text_between 3 3000 (cq_reason b) then Inl invalid_request else
     (case find_by cp_id proposal_id (db_proposals d) of
        None \<Rightarrow> Inl (NotFoundError ''Containment proposal'')
      | Some proposal \<Rightarrow>
          if cp_status proposal \<noteq> Proposal_pending
            then Inl (TraceQError ''PROPOSAL_ALREADY_REVIEWED'' ''Containment proposal was already reviewed'' 409)
          else
            rbind (case cp_nonconformance_id proposal of
                     None \<Rightarrow> Inl (NotFoundError ''Nonconformance'')
                   | Some i \<Rightarrow> ncr_or_404 i d) (\<lambda>ncr.
              let status = (if cq_approve b then Proposal_approved else Proposal_rejected);
                  ncr' = (if cq_approve b then ncr\<lparr>nc_containment := cp_containment proposal\<rparr> else ncr);
                  d1 = put_ncr ncr' (d\<lparr>db_proposals := update_by cp_id proposal_id
                    (\<lambda>cp. cp\<lparr>cp_status := status, cp_reviewed_by := Some (pr_user_id p),
                       cp_review_reason := Some (cq_reason b), cp_reviewed_at := Some now\<rparr>)
                    (db_proposals d)\<rparr>) in
              Inr ((status, nc_containment ncr'),
                write_audit (if cq_approve b then ''containment_approval'' else ''containment_rejection'')
                  ''success'' (acting p ''containment_proposal'' (cp_id proposal) request_id)
                  (JObj [(''containment'', JStr (containment_str (cp_containment proposal))),
                         (''reason'', JStr (cq_reason b))]) d1))))"

section \<open>The endpoints\<close>

text \<open>Each handler behind its gate; \<open>c\<close> is the authorization header of the request.\<close>

definition decision_endpoint where
  "decision_endpoint E now c i b r = gated (critical_gate E now c ''ISSUE_QC_DECISION'')
     (decide_nonconformance E now i b r)"

definition verify_rework_endpoint where
  "verify_rework_endpoint E now c i b r = gated (critical_gate E now c ''ISSUE_QC_DECISION'')
     (verify_rework E now i b r)"

definition review_endpoint where
  "review_endpoint E now c i b r = gated (permission_gate E now c ''REVIEW_NONCONFORMANCE'')
     (review_nonconformance i b r)"

definition inspection_endpoint where
  "inspection_endpoint E now c i b r = gated (permission_gate E now c ''REQUEST_EXTRA_INSPECTION'')
     (request_inspection E now i b r)"

definition note_endpoint where
  "note_endpoint E now c i b r = gated (permission_gate E now c ''CREATE_INVESTIGATION_NOTE'')
     (add_investigation_note E now i b r)"

definition proposal_endpoint where
  "proposal_endpoint E now c i b r = gated (permission_gate E now c ''PROPOSE_CONTAINMENT'')
     (propose_containment E now i b r)"

definition proposal_review_endpoint where
  "proposal_review_endpoint E now c i b r = gated (permission_gate E now c ''APPROVE_CONTAINMENT'')
     (review_containment now i b r)"

inductive review_step :: "env \<Rightarrow> db \<Rightarrow> db \<Rightarrow> bool" for E where
  rs_decide: "review_step E d (snd (decision_endpoint E now c i b r d))"
| rs_verify: "review_step E d (snd (verify_rework_endpoint E now c i w r d))"
| rs_review: "review_step E d (snd (review_endpoint E now c i q r d))"
| rs_inspect: "review_step E d (snd (inspection_endpoint E now c i iq r d))"
| rs_note: "review_step E d (snd (note_endpoint E now c i body r d))"
| rs_propose: "review_step E d (snd (proposal_endpoint E now c i pq r d))"
| rs_review_proposal: "review_step E d (snd (proposal_review_endpoint E now c i cq r d))"

section \<open>What the helpers change\<close>

lemma write_audit_tables [simp]:
  "db_decisions (write_audit a o' c j d) = db_decisions d"
  "db_quality_results (write_audit a o' c j d) = db_quality_results d"
  "db_outbox (write_audit a o' c j d) = db_outbox d"
  "db_ncrs (write_audit a o' c j d) = db_ncrs d"
  "db_items (write_audit a o' c j d) = db_items d"
  "db_proposals (write_audit a o' c j d) = db_proposals d"
  by (simp_all add: write_audit_def)

lemma put_ncr_tables [simp]:
  "db_decisions (put_ncr n d) = db_decisions d" "db_quality_results (put_ncr n d) = db_quality_results d"
  "db_outbox (put_ncr n d) = db_outbox d" "db_audit (put_ncr n d) = db_audit d"
  "db_items (put_ncr n d) = db_items d" "db_proposals (put_ncr n d) = db_proposals d"
  "db_ncrs (put_ncr n d) = update_by nc_id (nc_id n) (\<lambda>_. n) (db_ncrs d)"
  by (simp_all add: put_ncr_def)

lemma set_item_status_tables [simp]:
  "db_decisions (set_item_status i x d) = db_decisions d"
  "db_quality_results (set_item_status i x d) = db_quality_results d"
  "db_outbox (set_item_status i x d) = db_outbox d" "db_audit (set_item_status i x d) = db_audit d"
  "db_ncrs (set_item_status i x d) = db_ncrs d" "db_proposals (set_item_status i x d) = db_proposals d"
  by (simp_all add: set_item_status_def)

lemma close_occurrence_tables [simp]:
  "db_decisions (close_occurrence t i d) = db_decisions d"
  "db_quality_results (close_occurrence t i d) = db_quality_results d"
  "db_outbox (close_occurrence t i d) = db_outbox d" "db_audit (close_occurrence t i d) = db_audit d"
  "db_ncrs (close_occurrence t i d) = db_ncrs d" "db_items (close_occurrence t i d) = db_items d"
  "db_proposals (close_occurrence t i d) = db_proposals d"
  by (simp_all add: close_occurrence_def)

lemma add_decision_tables [simp]:
  "db_decisions (add_decision c d) = db_decisions d @ [c]"
  "db_quality_results (add_decision c d) = db_quality_results d"
  "db_outbox (add_decision c d) = db_outbox d" "db_audit (add_decision c d) = db_audit d"
  "db_ncrs (add_decision c d) = db_ncrs d" "db_items (add_decision c d) = db_items d"
  "db_proposals (add_decision c d) = db_proposals d"
  by (simp_all add: add_decision_def drew_uuid_def)

lemma add_result_tables [simp]:
  "db_decisions (add_result E now n c d) = db_decisions d" "db_audit (add_result E now n c d) = db_audit d"
  "db_ncrs (add_result E now n c d) = db_ncrs d" "db_items (add_result E now n c d) = db_items d"
  "db_proposals (add_result E now n c d) = db_proposals d"
  by (simp_all add: add_result_def drew_uuid_def Let_def)

lemma authorize_iff:
  "authorize n c = Inr () \<longleftrightarrow> cd_nonconformance_id c = nc_id n \<and> final_verdict (cd_verdict c) \<and>
     exportable (cd_disposition c) \<and>
     (nc_resolution_type n = Some ''rework'' \<longrightarrow> nc_verification_status n = Some Verification_passed)"
  by (auto simp: authorize_def)

lemma atomically_cases:
  assumes "atomically f d = (res, d')"
  obtains (raised) e where "f d = Inl e" "res = Inl e" "d' = d"
  | (returned) x where "f d = Inr (x, d')" "res = Inr x"
  using assms by (auto simp: atomically_def split: sum.splits)

lemma atomically_Inr: "atomically f d = (Inr x, d') \<Longrightarrow> f d = Inr (x, d')"
  by (auto simp: atomically_def split: sum.splits)

lemma atomically_Inl: "atomically f d = (Inl e, d') \<Longrightarrow> d' = d \<and> f d = Inl e"
  by (auto simp: atomically_def split: sum.splits)

lemma atomically_plain:
  "atomically f d = (res, d') \<Longrightarrow> (\<And>x. f d = Inr (x, d') \<Longrightarrow> P) \<Longrightarrow> (d' = d \<Longrightarrow> P) \<Longrightarrow> P"
  by (erule atomically_cases) auto

section \<open>What a result rests on\<close>

text \<open>
  Between two states decisions are only added, and results are left alone or one is added with its
  message, for a decision the policy authorised.
\<close>

definition released :: "db \<Rightarrow> db \<Rightarrow> Nonconformance \<Rightarrow> ControllerDecision \<Rightarrow> bool" where
  "released d d' n c \<longleftrightarrow>
     authorize n c = Inr () \<and> cd_id c \<notin> qr_decision_id ` set (db_quality_results d) \<and>
     (\<exists>E now i j. db_quality_results d' = db_quality_results d @
         [\<lparr>qr_id = i, qr_message_id = ''QR-'' @ cd_id c, qr_decision_id = cd_id c,
           qr_item_id = nc_item_id n, qr_payload = result_payload E now n c\<rparr>] \<and>
       db_outbox d' = db_outbox d @
         [\<lparr>ox_id = j, ox_message_id = ''QR-'' @ cd_id c, ox_destination = ''erp-emulator'',
           ox_message_type = ''quality.result'', ox_payload = result_payload E now n c,
           ox_state = PENDING, ox_attempts = 0, ox_next_attempt_at = now, ox_last_error = None,
           ox_created_at = now, ox_delivered_at = None\<rparr>])"

definition same_results :: "db \<Rightarrow> db \<Rightarrow> bool" where
  "same_results d d' \<longleftrightarrow> db_quality_results d' = db_quality_results d \<and> db_outbox d' = db_outbox d"

lemma create_result_effect:
  assumes "create_result E now n c d = Inr (r, d')"
  shows "db_decisions d' = db_decisions d \<and> db_audit d' = db_audit d \<and> authorize n c = Inr () \<and>
    (same_results d d' \<or> released d d' n c)"
proof -
  have a: "authorize n c = Inr ()"
    using assms by (cases "authorize n c") (simp_all add: create_result_def)
  show ?thesis
  proof (cases "find_by qr_decision_id (cd_id c) (db_quality_results d)")
    case None
    have d': "d' = close_occurrence now (nc_occurrence_id n) (put_ncr (n\<lparr>nc_closed_at := Some now\<rparr>)
        (set_item_status (nc_item_id n) (cd_disposition c) (add_result E now n c d)))"
      using assms a None by (simp add: create_result_def)
    show ?thesis
      using a None unfolding d' released_def find_by_None_iff
      by (simp add: add_result_def drew_uuid_def Let_def, blast)
  next
    case (Some q)
    then show ?thesis
      using assms a by (simp add: create_result_def same_results_def)
  qed
qed

definition decided :: "db \<Rightarrow> db \<Rightarrow> bool" where
  "decided d d' \<longleftrightarrow> (\<exists>cs. db_decisions d' = db_decisions d @ cs) \<and>
     (same_results d d' \<or> (\<exists>n c. db_decisions d' = db_decisions d @ [c] \<and> released d d' n c))"

text \<open>The part \<open>decide_nonconformance\<close> and \<open>verify_rework\<close> share.\<close>

lemma issue_effect:
  assumes "issue E now ok n c d1 = Inr (mid, d2)"
    and "db_decisions d1 = db_decisions d @ [c]" "same_results d d1" "db_audit d1 = db_audit d"
  shows "db_decisions d2 = db_decisions d @ [c] \<and> db_audit d2 = db_audit d \<and>
    (same_results d d2 \<or> released d d2 n c) \<and> (mid \<noteq> None \<longleftrightarrow> ok) \<and> (ok \<longrightarrow> authorize n c = Inr ())"
proof (cases ok)
  case True
  then obtain r where "create_result E now n c d1 = Inr (r, d2)" and m: "mid = Some (fst r)"
    using assms(1) by (auto simp: issue_def rbind_Inr_iff)
  from create_result_effect [OF this(1)] show ?thesis
    using assms True m by (auto simp: same_results_def released_def)
next
  case False
  then show ?thesis using assms by (simp add: issue_def)
qed

lemma decide_effect:
  assumes "decide_nonconformance E now i b r p d = (Inr (cid, mid), d')"
  obtains ncr decision a where "find_by nc_id i (db_ncrs d) = Some ncr" "valid_decision b"
    and "\<not> evidence_failed (nc_item_id ncr) d" and "decision = decision_row E now p ncr b d"
    and "cid = cd_id decision" and "db_decisions d' = db_decisions d @ [decision]"
    and "same_results d d' \<or> released d d' (decided_ncr b ncr) decision"
    and "mid \<noteq> None \<longleftrightarrow> exportable (dr_disposition b)"
    and "exportable (dr_disposition b) \<longrightarrow> authorize (decided_ncr b ncr) decision = Inr ()"
    and "db_audit d' = db_audit d @ [a]" "au_actor_user_id a = Some (pr_user_id p)"
      "au_action a = ''controller_decision''"
proof -
  from atomically_Inr [OF assms [unfolded decide_nonconformance_def]]
  have v: "valid_decision b" and *: "rbind (ncr_or_404 i d) (\<lambda>ncr.
     rbind (ensure_evidence_integrity (nc_item_id ncr) d) (\<lambda>_.
       let decision = decision_row E now p ncr b d;
           ncr' = decided_ncr b ncr;
           d1 = set_item_status (nc_item_id ncr) (dr_disposition b) (put_ncr ncr' (add_decision decision d)) in
       rbind (issue E now (exportable (dr_disposition b)) ncr' decision d1) (\<lambda>(message_id, d2).
       Inr ((cd_id decision, message_id),
         write_audit ''controller_decision'' ''success'' (acting p ''nonconformance'' (nc_id ncr) r)
           (JObj [(''verdict'', JStr (verdict_str (dr_verdict b))),
                  (''disposition'', JStr (disposition_str (dr_disposition b))),
                  (''containment'', JStr (containment_str (dr_containment b))),
                  (''analysis_version'', JInt (nc_current_analysis_version ncr))]) d2)))) = Inr ((cid, mid), d')"
    by (simp_all split: if_splits)
  then obtain ncr where n: "ncr_or_404 i d = Inr ncr"
    and ok: "ensure_evidence_integrity (nc_item_id ncr) d = Inr ()"
    by (auto simp: rbind_Inr_iff)
  let ?c = "decision_row E now p ncr b d"
  let ?d1 = "set_item_status (nc_item_id ncr) (dr_disposition b) (put_ncr (decided_ncr b ncr) (add_decision ?c d))"
  from * n ok obtain d2 where i: "issue E now (exportable (dr_disposition b)) (decided_ncr b ncr) ?c ?d1 = Inr (mid, d2)"
    and d': "db_decisions d' = db_decisions d2" "db_quality_results d' = db_quality_results d2"
      "db_outbox d' = db_outbox d2" "cid = cd_id ?c"
      "\<exists>a. db_audit d' = db_audit d2 @ [a] \<and> au_actor_user_id a = Some (pr_user_id p) \<and>
         au_action a = ''controller_decision''"
    unfolding Let_def by (auto simp: rbind_Inr_iff write_audit_def acting_def)
  have "find_by nc_id i (db_ncrs d) = Some ncr" "\<not> evidence_failed (nc_item_id ncr) d"
    using n ok by (auto simp: ncr_or_404_def ensure_evidence_integrity_def split: option.splits if_splits)
  then show thesis
    using issue_effect [OF i, of d] d' v
    by (auto simp: same_results_def released_def intro!: that [of ncr ?c])
qed

lemma verify_effect:
  assumes "verify_rework E now i b r p d = (Inr (cid, mid), d')"
  obtains ncr run t ok decision a where "find_by nc_id i (db_ncrs d) = Some ncr"
    and "\<not> evidence_failed (nc_item_id ncr) d"
    and "rework_run ncr d = Some run" "or_finished_at run = Some t"
    and "ok \<longleftrightarrow> wr_passed b \<and> trusted_good_after (nc_item_id ncr) t d \<noteq> None"
    and "decision = decision_row E now p ncr (rework_verdict ok (wr_reason b)) d"
    and "cid = cd_id decision" and "db_decisions d' = db_decisions d @ [decision]"
    and "same_results d d' \<or> released d d' (verified_ncr now ok cid ncr) decision"
    and "mid \<noteq> None \<longleftrightarrow> ok"
    and "db_audit d' = db_audit d @ [a]" "au_actor_user_id a = Some (pr_user_id p)"
      "au_action a = ''rework_verification''"
proof -
  from atomically_Inr [OF assms [unfolded verify_rework_def]]
  have *: "rbind (ncr_or_404 i d) (\<lambda>ncr.
     rbind (ensure_evidence_integrity (nc_item_id ncr) d) (\<lambda>_.
       case Option.bind (rework_run ncr d) or_finished_at of
         None \<Rightarrow> Inl (TraceQError ''REWORK_NOT_COMPLETED'' ''A completed rework operation is required'' 409)
       | Some finished_at \<Rightarrow>
           let good = trusted_good_after (nc_item_id ncr) finished_at d;
               ok = (wr_passed b \<and> good \<noteq> None);
               decision = decision_row E now p ncr (rework_verdict ok (wr_reason b)) d;
               ncr' = verified_ncr now ok (cd_id decision) ncr;
               d1 = put_ncr ncr' (add_decision decision d) in
           rbind (issue E now ok ncr' decision d1) (\<lambda>(message_id, d2).
           Inr ((cd_id decision, message_id),
             write_audit ''rework_verification'' (if ok then ''passed'' else ''failed'')
               (acting p ''nonconformance'' (nc_id ncr) r)
               (JObj [(''reason'', JStr (wr_reason b)),
                      (''repeat_inspection_event_id'', js_opt (\<lambda>o'. JStr (ob_event_id o')) good)]) d2)))) =
      Inr ((cid, mid), d')"
    by (simp split: if_splits)
  then obtain ncr where n: "ncr_or_404 i d = Inr ncr"
    and e: "ensure_evidence_integrity (nc_item_id ncr) d = Inr ()"
    by (auto simp: rbind_Inr_iff)
  with * obtain t where t: "Option.bind (rework_run ncr d) or_finished_at = Some t"
    by (cases "Option.bind (rework_run ncr d) or_finished_at") auto
  then obtain run where run: "rework_run ncr d = Some run" "or_finished_at run = Some t"
    by (auto simp: bind_eq_Some_conv)
  define ok where "ok \<longleftrightarrow> wr_passed b \<and> trusted_good_after (nc_item_id ncr) t d \<noteq> None"
  have ok: "(wr_passed b \<and> (\<exists>y. trusted_good_after (nc_item_id ncr) t d = Some y)) = ok"
    by (simp add: ok_def)
  let ?c = "decision_row E now p ncr (rework_verdict ok (wr_reason b)) d"
  let ?d1 = "put_ncr (verified_ncr now ok (cd_id ?c) ncr) (add_decision ?c d)"
  from * n e t obtain d2 where i: "issue E now ok (verified_ncr now ok (cd_id ?c) ncr) ?c ?d1 = Inr (mid, d2)"
    and d': "db_decisions d' = db_decisions d2" "db_quality_results d' = db_quality_results d2"
      "db_outbox d' = db_outbox d2" "cid = cd_id ?c"
      "\<exists>a. db_audit d' = db_audit d2 @ [a] \<and> au_actor_user_id a = Some (pr_user_id p) \<and>
         au_action a = ''rework_verification''"
    unfolding Let_def by (auto simp: ok rbind_Inr_iff write_audit_def acting_def)
  have "find_by nc_id i (db_ncrs d) = Some ncr" "\<not> evidence_failed (nc_item_id ncr) d"
    using n e by (auto simp: ncr_or_404_def ensure_evidence_integrity_def split: option.splits if_splits)
  then show thesis
    using issue_effect [OF i, of d] d' ok_def
    by (auto simp: same_results_def released_def intro!: that [of ncr run t ok ?c, OF _ _ run])
qed

text \<open>The right each audited action of these endpoints needs.\<close>

definition action_right :: "string \<Rightarrow> string" where
  "action_right action =
     (if action \<in> {''controller_decision'', ''rework_verification''} then ''ISSUE_QC_DECISION''
      else if action = ''nonconformance_review'' then ''REVIEW_NONCONFORMANCE''
      else if action = ''extra_inspection_request'' then ''REQUEST_EXTRA_INSPECTION''
      else if action = ''investigation_note_create'' then ''CREATE_INVESTIGATION_NOTE''
      else if action = ''containment_proposal'' then ''PROPOSE_CONTAINMENT''
      else ''APPROVE_CONTAINMENT'')"

definition accounted :: "env \<Rightarrow> db \<Rightarrow> db \<Rightarrow> bool" where
  "accounted E d d' \<longleftrightarrow> (\<exists>a now c p. db_audit d' = db_audit d @ [a] \<and> authentic E now c d p \<and>
     au_actor_user_id a = Some (pr_user_id p) \<and>
     action_right (au_action a) \<in> set (permissions_for_user d (pr_user_id p)))"

lemma accountedI:
  "db_audit d' = db_audit d @ [a] \<Longrightarrow> au_actor_user_id a = Some (pr_user_id p) \<Longrightarrow> authentic E now c d p \<Longrightarrow>
   action_right (au_action a) = perm \<Longrightarrow> perm \<in> set (permissions_for_user d (pr_user_id p)) \<Longrightarrow>
   accounted E d d'"
  by (auto simp: accounted_def intro!: exI [of _ now] exI [of _ c] exI [of _ p])

text \<open>What a handler that succeeds leaves: the decisions, and one audit entry of its actor.\<close>

definition recorded :: "string list \<Rightarrow> Principal \<Rightarrow> db \<Rightarrow> db \<Rightarrow> bool" where
  "recorded actions p d d' \<longleftrightarrow> decided d d' \<and> (\<exists>a. db_audit d' = db_audit d @ [a] \<and>
     au_actor_user_id a = Some (pr_user_id p) \<and> au_action a \<in> set actions)"

lemma recorded_audit:
  assumes "same_results d d1" "db_decisions d1 = db_decisions d @ cs" "db_audit d1 = db_audit d"
    and "action \<in> set actions"
  shows "recorded actions p d (write_audit action outcome (acting p t i r) j d1)"
  using assms by (simp add: recorded_def decided_def same_results_def)
    (simp add: write_audit_def acting_def)

lemma review_effect:
  "review_nonconformance i q r p d = (res, d') \<Longrightarrow> d' = d \<or> recorded [''nonconformance_review''] p d d'"
  unfolding review_nonconformance_def
  by (erule atomically_plain) (auto simp: rbind_Inr_iff same_results_def intro: recorded_audit split: if_splits)

lemma inspection_effect:
  "request_inspection E now i q r p d = (res, d') \<Longrightarrow> d' = d \<or> recorded [''extra_inspection_request''] p d d'"
  unfolding request_inspection_def Let_def
  by (erule atomically_plain) (auto simp: rbind_Inr_iff same_results_def intro!: recorded_audit split: if_splits)

lemma note_effect:
  "add_investigation_note E now i b r p d = (res, d') \<Longrightarrow> d' = d \<or> recorded [''investigation_note_create''] p d d'"
  unfolding add_investigation_note_def
  by (erule atomically_plain)
    (auto simp: rbind_Inr_iff same_results_def drew_uuid_def intro!: recorded_audit split: if_splits)

lemma proposal_effect:
  "propose_containment E now i q r p d = (res, d') \<Longrightarrow> d' = d \<or> recorded [''containment_proposal''] p d d'"
  unfolding propose_containment_def
  by (erule atomically_plain)
    (auto simp: rbind_Inr_iff same_results_def drew_uuid_def intro!: recorded_audit split: if_splits)

lemma proposal_review_effect:
  "review_containment now i q r p d = (res, d') \<Longrightarrow>
     d' = d \<or> recorded [''containment_approval'', ''containment_rejection''] p d d'"
  unfolding review_containment_def Let_def
  by (erule atomically_plain)
    (auto simp: rbind_Inr_iff same_results_def intro!: recorded_audit split: if_splits option.splits)

lemma decide_recorded:
  assumes "decide_nonconformance E now i b r p d = (res, d')"
  shows "d' = d \<or> recorded [''controller_decision''] p d d'"
proof (cases res)
  case (Inl e)
  then show ?thesis
    using assms by (auto simp: decide_nonconformance_def dest: atomically_Inl)
next
  case (Inr x)
  then obtain cid mid where "decide_nonconformance E now i b r p d = (Inr (cid, mid), d')"
    using assms by (cases x) auto
  then show ?thesis
    by (rule decide_effect) (auto simp: recorded_def decided_def)
qed

lemma verify_recorded:
  assumes "verify_rework E now i b r p d = (res, d')"
  shows "d' = d \<or> recorded [''rework_verification''] p d d'"
proof (cases res)
  case (Inl e)
  then show ?thesis
    using assms by (auto simp: verify_rework_def dest: atomically_Inl)
next
  case (Inr x)
  then obtain cid mid where "verify_rework E now i b r p d = (Inr (cid, mid), d')"
    using assms by (cases x) auto
  then show ?thesis
    by (rule verify_effect) (auto simp: recorded_def decided_def)
qed

lemmas recorded_handlers = decide_recorded verify_recorded review_effect inspection_effect
  note_effect proposal_effect proposal_review_effect

text \<open>Behind its gate, a handler acts for an authentic user who has the right.\<close>

lemma gated_recorded:
  assumes "gated (permission_gate E now c perm) h d = (res, d')"
    and "\<And>p res. h p d = (res, d') \<Longrightarrow> d' = d \<or> recorded actions p d d'"
    and "\<forall>a \<in> set actions. action_right a = perm"
  shows "d' = d \<or> decided d d' \<and> accounted E d d'"
  using assms(1)
proof (cases rule: permission.gated_cases)
  case refused
  then show ?thesis by simp
next
  case (passed p)
  then show ?thesis
    using assms(2) [of p res] assms(3) by (auto simp: recorded_def intro: accountedI)
qed

lemma critical_recorded:
  assumes "gated (critical_gate E now c perm) h d = (res, d')"
    and "\<And>p res. h p d = (res, d') \<Longrightarrow> d' = d \<or> recorded actions p d d'"
    and "\<forall>a \<in> set actions. action_right a = perm"
  shows "d' = d \<or> decided d d' \<and> accounted E d d'"
  using assms(1)
proof (cases rule: critical.gated_cases)
  case refused
  then show ?thesis by simp
next
  case (passed p)
  then show ?thesis
    using assms(2) [of p res] assms(3) by (auto simp: recorded_def intro: accountedI)
qed

lemma review_step_effect: "review_step E d d' \<Longrightarrow> d' = d \<or> decided d d' \<and> accounted E d d'"
proof (induction rule: review_step.induct)
  case (rs_decide d now c i b r)
  show ?case
    by (rule critical_recorded [OF surjective_pairing [of "decision_endpoint E now c i b r d",
        unfolded decision_endpoint_def], unfolded decision_endpoint_def [symmetric]])
      (erule decide_recorded, simp add: action_right_def)
next
  case (rs_verify d now c i w r)
  show ?case
    by (rule critical_recorded [OF surjective_pairing [of "verify_rework_endpoint E now c i w r d",
        unfolded verify_rework_endpoint_def], unfolded verify_rework_endpoint_def [symmetric]])
      (erule verify_recorded, simp add: action_right_def)
next
  case (rs_review d now c i q r)
  show ?case
    by (rule gated_recorded [OF surjective_pairing [of "review_endpoint E now c i q r d",
        unfolded review_endpoint_def], unfolded review_endpoint_def [symmetric]])
      (erule review_effect, simp add: action_right_def)
next
  case (rs_inspect d now c i iq r)
  show ?case
    by (rule gated_recorded [OF surjective_pairing [of "inspection_endpoint E now c i iq r d",
        unfolded inspection_endpoint_def], unfolded inspection_endpoint_def [symmetric]])
      (erule inspection_effect, simp add: action_right_def)
next
  case (rs_note d now c i body r)
  show ?case
    by (rule gated_recorded [OF surjective_pairing [of "note_endpoint E now c i body r d",
        unfolded note_endpoint_def], unfolded note_endpoint_def [symmetric]])
      (erule note_effect, simp add: action_right_def)
next
  case (rs_propose d now c i pq r)
  show ?case
    by (rule gated_recorded [OF surjective_pairing [of "proposal_endpoint E now c i pq r d",
        unfolded proposal_endpoint_def], unfolded proposal_endpoint_def [symmetric]])
      (erule proposal_effect, simp add: action_right_def)
next
  case (rs_review_proposal d now c i cq r)
  show ?case
    by (rule gated_recorded [OF surjective_pairing [of "proposal_review_endpoint E now c i cq r d",
        unfolded proposal_review_endpoint_def], unfolded proposal_review_endpoint_def [symmetric]])
      (erule proposal_review_effect, simp add: action_right_def)
qed

section \<open>Invariants of the endpoints\<close>

text \<open>
  Every quality result belongs to one decision that was final and exportable, says what the decision
  says, and has one outbox message with the same identifier and payload.
\<close>

definition backed :: "db \<Rightarrow> QualityResult \<Rightarrow> bool" where
  "backed d q \<longleftrightarrow> (\<exists>c \<in> set (db_decisions d). cd_id c = qr_decision_id q \<and>
     final_verdict (cd_verdict c) \<and> exportable (cd_disposition c) \<and>
     qr_message_id q = ''QR-'' @ cd_id c \<and> qp_message_id (qr_payload q) = qr_message_id q \<and>
     qp_verdict (qr_payload q) = cd_verdict c \<and> qp_disposition (qr_payload q) = cd_disposition c \<and>
     qp_nonconformance_id (qr_payload q) = cd_nonconformance_id c)"

definition mail :: "OutboxMessage \<Rightarrow> string \<times> QualityPayload" where
  "mail o' = (ox_message_id o', ox_payload o')"

definition results_ok :: "db \<Rightarrow> bool" where
  "results_ok d \<longleftrightarrow> (\<forall>q \<in> set (db_quality_results d). backed d q) \<and>
     distinct (map qr_decision_id (db_quality_results d)) \<and>
     map mail (db_outbox d) = map (\<lambda>q. (qr_message_id q, qr_payload q)) (db_quality_results d)"

lemma backed_grow: "backed d q \<Longrightarrow> db_decisions d' = db_decisions d @ cs \<Longrightarrow> backed d' q"
  by (auto simp: backed_def)

lemma decided_results_ok:
  assumes "results_ok d" and "decided d d'"
  shows "results_ok d'"
proof -
  obtain cs where cs: "db_decisions d' = db_decisions d @ cs"
    using assms by (auto simp: decided_def)
  consider "same_results d d'" | n c where "db_decisions d' = db_decisions d @ [c]" "released d d' n c"
    using assms(2) by (auto simp: decided_def)
  then show ?thesis
  proof cases
    case 1
    then show ?thesis
      using assms(1) backed_grow [OF _ cs] by (auto simp: results_ok_def same_results_def)
  next
    case (2 n c)
    then show ?thesis
      using assms(1) backed_grow [OF _ cs]
      by (auto simp: results_ok_def released_def mail_def authorize_iff backed_def result_payload_def)
  qed
qed

lemma review_step_results_ok: "results_ok d \<Longrightarrow> review_step E d d' \<Longrightarrow> results_ok d'"
  using review_step_effect decided_results_ok by blast

interpretation results_inv: step_invariant "review_step E" results_ok for E
  by unfold_locales (rule review_step_results_ok)

text \<open>Decisions and results are append-only, and so is the audit trail.\<close>

interpretation decision_log: append_only_log "review_step E" db_decisions for E
  by unfold_locales (auto dest!: review_step_effect simp: decided_def)

interpretation result_log: append_only_log "review_step E" db_quality_results for E
  by unfold_locales (auto dest!: review_step_effect simp: decided_def same_results_def released_def)

interpretation audit_log: append_only_log "review_step E" db_audit for E
  by unfold_locales (auto dest!: review_step_effect simp: accounted_def)

section \<open>What the policy lets through\<close>

text \<open>A result is made once: asking again returns the same message and payload and adds nothing.\<close>

lemma create_result_again:
  assumes "create_result E now n c d = Inr (r, d')"
  shows "create_result E now' n c d' = Inr (r, d')"
proof -
  have a: "authorize n c = Inr ()"
    using assms by (cases "authorize n c") (simp_all add: create_result_def)
  show ?thesis
  proof (cases "find_by qr_decision_id (cd_id c) (db_quality_results d)")
    case None
    then have "r = (''QR-'' @ cd_id c, result_payload E now n c)"
      and "find_by qr_decision_id (cd_id c) (db_quality_results d') =
        Some \<lparr>qr_id = new_uuid E d, qr_message_id = ''QR-'' @ cd_id c, qr_decision_id = cd_id c,
          qr_item_id = nc_item_id n, qr_payload = result_payload E now n c\<rparr>"
      using assms a by (auto simp: create_result_def add_result_def Let_def drew_uuid_def find_by_append)
    then show ?thesis
      using a by (simp add: create_result_def)
  next
    case (Some q)
    then show ?thesis
      using assms a by (auto simp: create_result_def)
  qed
qed

lemma failed_evidence_blocks:
  assumes "find_by nc_id i (db_ncrs d) = Some ncr" and "evidence_failed (nc_item_id ncr) d"
  shows "valid_decision b \<Longrightarrow> decide_nonconformance E now i b r p d =
      (Inl (TraceQError ''EVIDENCE_INTEGRITY_FAILED''
        ''A decision is blocked because supporting evidence failed integrity verification'' 409), d)"
    and "text_between 3 3000 (wr_reason w) \<Longrightarrow> verify_rework E now i w r p d =
      (Inl (TraceQError ''EVIDENCE_INTEGRITY_FAILED''
        ''A decision is blocked because supporting evidence failed integrity verification'' 409), d)"
  using assms by (simp_all add: decide_nonconformance_def verify_rework_def atomically_def ncr_or_404_def
      ensure_evidence_integrity_def)

lemma rework_blocks_release:
  assumes "find_by nc_id i (db_ncrs d) = Some ncr" and "\<not> evidence_failed (nc_item_id ncr) d"
    and "valid_decision b" "exportable (dr_disposition b)"
    and "nc_resolution_type ncr = Some ''rework''" "nc_verification_status ncr \<noteq> Some Verification_passed"
  shows "decide_nonconformance E now i b r p d =
    (Inl (TraceQError ''REWORK_VERIFICATION_REQUIRED'' ''Successful controller verification is required'' 409), d)"
proof -
  have "authorize (decided_ncr b ncr) (decision_row E now p ncr b d) =
    Inl (TraceQError ''REWORK_VERIFICATION_REQUIRED'' ''Successful controller verification is required'' 409)"
    using assms(3-6)
    by (auto simp: authorize_def decided_ncr_def decision_row_def valid_decision_def exportable_def Let_def)
  then show ?thesis
    using assms by (simp add: decide_nonconformance_def atomically_def ncr_or_404_def
        ensure_evidence_integrity_def issue_def create_result_def Let_def)
qed

text \<open>
  A rework that is let out was completed, and the item was inspected afterwards without a defect by
  an observation that is trusted.
\<close>

lemma rework_run_Some:
  "rework_run ncr d = Some run \<Longrightarrow> run \<in> set (db_runs d) \<and> or_item_id run = nc_item_id ncr \<and>
     or_run_reason run = Rework \<and> or_rework_for_nonconformance_id run = Some (nc_id ncr) \<and>
     or_completion_status run = Some Completed"
  by (auto simp: rework_run_def dest: max_last_Some)

lemma trusted_good_Some:
  "trusted_good_after i t d = Some o' \<Longrightarrow> o' \<in> set (db_observations d) \<and> ob_item_id o' = i \<and>
     t \<le> ob_occurred_at o' \<and> ob_inspection_result o' = No_defect \<and> ob_trust_status o' = TRUSTED"
  by (auto simp: trusted_good_after_def dest: max_last_Some)

lemma rework_release:
  assumes "verify_rework E now i b r p d = (Inr (cid, Some m), d')"
  shows "\<exists>ncr run t o'. find_by nc_id i (db_ncrs d) = Some ncr \<and> wr_passed b \<and>
    run \<in> set (db_runs d) \<and> or_item_id run = nc_item_id ncr \<and> or_run_reason run = Rework \<and>
    or_rework_for_nonconformance_id run = Some (nc_id ncr) \<and> or_completion_status run = Some Completed \<and>
    or_finished_at run = Some t \<and> o' \<in> set (db_observations d) \<and> ob_item_id o' = nc_item_id ncr \<and>
    t \<le> ob_occurred_at o' \<and> ob_inspection_result o' = No_defect \<and> ob_trust_status o' = TRUSTED"
  using assms
proof (rule verify_effect)
  fix ncr run t ok decision a
  assume *: "find_by nc_id i (db_ncrs d) = Some ncr" "rework_run ncr d = Some run"
    "or_finished_at run = Some t"
    "ok \<longleftrightarrow> wr_passed b \<and> trusted_good_after (nc_item_id ncr) t d \<noteq> None" "(Some m \<noteq> None) = ok"
  then obtain o' where "trusted_good_after (nc_item_id ncr) t d = Some o'"
    by auto
  then show ?thesis
    using * rework_run_Some trusted_good_Some by blast
qed

text \<open>A new decision is linked to the latest one of its nonconformance.\<close>

lemma latest_decision_Some:
  assumes "latest_decision n d = Some c"
  shows "c \<in> set (db_decisions d) \<and> cd_nonconformance_id c = n \<and>
    (\<forall>c' \<in> set (db_decisions d). cd_nonconformance_id c' = n \<longrightarrow> cd_created_at c' \<le> cd_created_at c)"
  using max_last_Some [OF assms [unfolded latest_decision_def]] by simp

lemma latest_decision_None:
  "latest_decision n d = None \<longleftrightarrow> n \<notin> cd_nonconformance_id ` set (db_decisions d)"
  by (auto simp: latest_decision_def filter_empty_conv)

end
