(* ===== verification/TQ_Outbox.thy ===== *)
theory TQ_Outbox
  imports TQ_Release
begin

text \<open>
  The outbox worker (\<^verbatim>\<open>worker/main.py\<close>) with the adapter it calls
  (\<^verbatim>\<open>backend/app/integrations/adapters.py\<close>) and the manual retry of \<^verbatim>\<open>backend/app/api/integrations.py\<close>.
  The system the messages go to is an argument: a function from the payload and its own state to an
  HTTP response. The locale \<open>erp_port\<close> says what the worker relies on; TQ_Erp models the emulator
  and provides it.
\<close>

section \<open>Sending a message\<close>

text \<open>
  What \<open>httpx\<close> gives back: a response with its status and its body parsed, or the text of the
  parse error; a timeout or network exception by its class; any other exception.
\<close>

datatype http_response =
    Http_response nat "string + json"
  | Transport_error string
  | Other_error

datatype send_outcome =
    Reply json
  | Status_error nat
  | Retryable_error string
  | Value_error string
  | Escapes

text \<open>\<open>EmulatorAdapter.send_quality_result\<close>: \<open>raise_for_status\<close>, then the parsed body.\<close>

fun send_quality_result :: "http_response \<Rightarrow> send_outcome" where
  "send_quality_result (Http_response status body) =
     (if \<not> (200 \<le> status \<and> status < 300) then Status_error status
      else case body of Inl message \<Rightarrow> Value_error message | Inr j \<Rightarrow> Reply j)"
| "send_quality_result (Transport_error name) = Retryable_error name"
| "send_quality_result Other_error = Escapes"

text \<open>\<open>FixtureAdapter.send_quality_result\<close>.\<close>

definition fixture_send :: "QualityPayload \<Rightarrow> send_outcome" where
  "fixture_send qp = Reply (JObj [(''status'', JStr ''fixture_ack''), (''message_id'', JStr (qp_message_id qp))])"

section \<open>The worker\<close>

definition heartbeat :: "string \<Rightarrow> time \<Rightarrow> db \<Rightarrow> db" where
  "heartbeat worker_id now d = d\<lparr>db_heartbeats :=
     (if find_by wh_worker_id worker_id (db_heartbeats d) = None
      then db_heartbeats d @ [\<lparr>wh_worker_id = worker_id, wh_worker_type = ''outbox'',
        wh_heartbeat_at = now, wh_status = ''healthy''\<rparr>]
      else update_by wh_worker_id worker_id (\<lambda>w. w\<lparr>wh_heartbeat_at := now, wh_status := ''healthy''\<rparr>)
        (db_heartbeats d))\<rparr>"

definition due :: "time \<Rightarrow> OutboxMessage \<Rightarrow> bool" where
  "due now m \<longleftrightarrow> (ox_state m = PENDING \<or> ox_state m = RETRYING) \<and> ox_next_attempt_at m \<le> now"

text \<open>The oldest message that is due and not locked by another worker.\<close>

definition next_message :: "time \<Rightarrow> string list \<Rightarrow> db \<Rightarrow> OutboxMessage option" where
  "next_message now locked d =
     (case sort_key ox_created_at (filter (\<lambda>m. due now m \<and> ox_message_id m \<notin> set locked) (db_outbox d)) of
        [] \<Rightarrow> None | m # _ \<Rightarrow> Some m)"

definition seconds :: "int \<Rightarrow> time" where
  "seconds n = n * 1000000"

definition backoff :: "int \<Rightarrow> time" where
  "backoff n = seconds (min (2 ^ nat n) 300)"

definition retryable_status :: "nat \<Rightarrow> bool" where
  "retryable_status status \<longleftrightarrow> status = 408 \<or> status = 429 \<or> 500 \<le> status"

definition put_message :: "OutboxMessage \<Rightarrow> db \<Rightarrow> db" where
  "put_message m d = d\<lparr>db_outbox := update_by ox_message_id (ox_message_id m) (\<lambda>_. m) (db_outbox d)\<rparr>"

definition log_message :: "OutboxMessage \<Rightarrow> string \<Rightarrow> json \<Rightarrow> db \<Rightarrow> db" where
  "log_message m status safe d = d\<lparr>db_integration_messages := db_integration_messages d @
     [\<lparr>im_message_id = ox_message_id m, im_direction = ''outbound'',
       im_external_system = ox_destination m, im_status = status, im_safe_payload = safe\<rparr>]\<rparr>"

definition mark_healthy :: "string \<Rightarrow> time \<Rightarrow> db \<Rightarrow> db" where
  "mark_healthy i now d = d\<lparr>db_health := update_by ih_integration_id i
     (\<lambda>h. h\<lparr>ih_status := ''HEALTHY'', ih_last_success_at := Some now, ih_safe_error := None\<rparr>) (db_health d)\<rparr>"

definition invalid_ack_alert :: "OutboxMessage \<Rightarrow> json \<Rightarrow> db \<Rightarrow> db" where
  "invalid_ack_alert m ack_id d = d\<lparr>db_alerts := db_alerts d @
     [\<lparr>sa_alert_type = ''INVALID_ACK'', sa_severity = ''HIGH'', sa_source_id = None,
       sa_target_type = Some ''outbox_message'', sa_target_id = Some (ox_message_id m),
       sa_details = JObj [(''ack_message_id'', ack_id)]\<rparr>]\<rparr>"

fun state_str :: "outbox_state \<Rightarrow> string" where
  "state_str PENDING = ''PENDING''" | "state_str RETRYING = ''RETRYING''"
| "state_str DELIVERED = ''DELIVERED''" | "state_str FAILED = ''FAILED''"

definition acknowledges :: "string \<Rightarrow> json \<Rightarrow> bool" where
  "acknowledges message_id ack \<longleftrightarrow> (case ack of
     JObj a \<Rightarrow> dict_get ''message_id'' a = JStr message_id \<and> dict_get ''status'' a = JStr ''ACK'' | _ \<Rightarrow> False)"

text \<open>The message after the attempt; its attempt is counted already.\<close>

definition delivered_message :: "time \<Rightarrow> OutboxMessage \<Rightarrow> OutboxMessage" where
  "delivered_message now m = m\<lparr>ox_state := DELIVERED, ox_delivered_at := Some now, ox_last_error := None\<rparr>"

definition status_message :: "Settings \<Rightarrow> time \<Rightarrow> nat \<Rightarrow> OutboxMessage \<Rightarrow> OutboxMessage" where
  "status_message S now status m =
     (let m' = m\<lparr>ox_state := (if retryable_status status \<and> ox_attempts m < outbox_max_attempts S
                             then RETRYING else FAILED),
                 ox_last_error := Some (''HTTP '' @ nat_str status)\<rparr> in
      if ox_state m' = RETRYING then m'\<lparr>ox_next_attempt_at := now + backoff (ox_attempts m)\<rparr> else m')"

definition transport_message :: "Settings \<Rightarrow> time \<Rightarrow> string \<Rightarrow> OutboxMessage \<Rightarrow> OutboxMessage" where
  "transport_message S now name m =
     m\<lparr>ox_state := (if ox_attempts m < outbox_max_attempts S then RETRYING else FAILED),
       ox_last_error := Some name, ox_next_attempt_at := now + backoff (ox_attempts m)\<rparr>"

definition invalid_message :: "string \<Rightarrow> OutboxMessage \<Rightarrow> OutboxMessage" where
  "invalid_message message m = m\<lparr>ox_state := FAILED, ox_last_error := Some message\<rparr>"

text \<open>
  What one outcome does. None is an exception that leaves the inner \<open>try\<close>: a reply that is not a
  dictionary (\<open>ack.get\<close>), or any other exception of the call.
\<close>

definition settle :: "Settings \<Rightarrow> time \<Rightarrow> OutboxMessage \<Rightarrow> send_outcome \<Rightarrow> db \<Rightarrow> db option" where
  "settle S now m outcome d =
     (case outcome of
        Reply (JObj ack) \<Rightarrow>
          if acknowledges (ox_message_id m) (JObj ack) then
            Some (mark_healthy (ox_destination m) now
              (log_message m ''DELIVERED'' (JObj [(''ack'', JObj ack)])
                (put_message (delivered_message now m) d)))
          else
            Some (log_message m ''FAILED'' (JObj [(''error_type'', JStr ''INVALID_ACK'')])
              (put_message (invalid_message ''ERP acknowledgement correlation mismatch'' m)
                (invalid_ack_alert m (dict_get ''message_id'' ack) d)))
      | Reply _ \<Rightarrow> None
      | Status_error status \<Rightarrow>
          (let m' = status_message S now status m in
           Some (log_message m (state_str (ox_state m'))
             (JObj [(''http_status'', JInt (int status)), (''attempt'', JInt (ox_attempts m))])
             (put_message m' d)))
      | Retryable_error name \<Rightarrow>
          (let m' = transport_message S now name m in
           Some (log_message m (state_str (ox_state m'))
             (JObj [(''error_type'', JStr name), (''attempt'', JInt (ox_attempts m))])
             (put_message m' d)))
      | Value_error message \<Rightarrow>
          Some (log_message m ''FAILED'' (JObj [(''error_type'', JStr ''INVALID_ACK'')])
            (put_message (invalid_message message m) d))
      | Escapes \<Rightarrow> None)"

text \<open>
  One turn: whether a message was processed, the committed database, and the other side's state.
  An escaping exception rolls the session back, the heartbeat included.
\<close>

definition process_one ::
  "Settings \<Rightarrow> string \<Rightarrow> time \<Rightarrow> string list \<Rightarrow> (QualityPayload \<Rightarrow> 'w \<Rightarrow> http_response \<times> 'w) \<Rightarrow> db \<Rightarrow> 'w \<Rightarrow>
   bool \<times> db \<times> 'w" where
  "process_one S worker_id now locked post d w =
     (let d1 = heartbeat worker_id now d in
      case next_message now locked d of
        None \<Rightarrow> (False, d1, w)
      | Some m \<Rightarrow>
          (let m1 = m\<lparr>ox_attempts := ox_attempts m + 1\<rparr>;
               (response, w') = post (ox_payload m) w in
           case settle S now m1 (send_quality_result response) d1 of
             None \<Rightarrow> (False, d, w')
           | Some d' \<Rightarrow> (True, d', w')))"

text \<open>The loop \<open>run\<close>, turn after turn: a list of the instants of its turns.\<close>

fun run_turns ::
  "Settings \<Rightarrow> string \<Rightarrow> (time \<Rightarrow> QualityPayload \<Rightarrow> 'w \<Rightarrow> http_response \<times> 'w) \<Rightarrow> time list \<Rightarrow> db \<Rightarrow> 'w \<Rightarrow> db \<times> 'w" where
  "run_turns S worker_id post [] d w = (d, w)"
| "run_turns S worker_id post (now # nows) d w =
     (let (processed, d', w') = process_one S worker_id now [] (post now) d w in
      run_turns S worker_id post nows d' w')"

section \<open>Manual retry\<close>

definition retry_outbox ::
  "time \<Rightarrow> string \<Rightarrow> string option \<Rightarrow> Principal \<Rightarrow> db \<Rightarrow> (string \<times> outbox_state) result \<times> db" where
  "retry_outbox now message_id request_id p = atomically (\<lambda>d.
     case find_by ox_message_id message_id (db_outbox d) of
       None \<Rightarrow> Inl (NotFoundError ''Outbox message'')
     | Some m \<Rightarrow>
         if ox_state m = DELIVERED
           then Inl (TraceQError ''OUTBOX_ALREADY_DELIVERED'' ''Delivered messages cannot be retried'' 409)
         else Inr ((message_id, PENDING),
           write_audit ''manual_retry'' ''success'' (acting p ''outbox_message'' message_id request_id) JNull
             (put_message (m\<lparr>ox_state := PENDING, ox_next_attempt_at := now, ox_last_error := None\<rparr>) d)))"

definition retry_endpoint where
  "retry_endpoint E now c i r = gated (permission_gate E now c ''MANAGE_INTEGRATIONS'') (retry_outbox now i r)"

section \<open>What a turn does to the outbox\<close>

lemma outbox_simps [simp]:
  "db_outbox (heartbeat i t d) = db_outbox d" "db_outbox (log_message m x j d) = db_outbox d"
  "db_outbox (mark_healthy i t d) = db_outbox d" "db_outbox (invalid_ack_alert m j d) = db_outbox d"
  "db_outbox (put_message m d) = update_by ox_message_id (ox_message_id m) (\<lambda>_. m) (db_outbox d)"
  "db_decisions (heartbeat i t d) = db_decisions d" "db_decisions (log_message m x j d) = db_decisions d"
  "db_decisions (mark_healthy i t d) = db_decisions d" "db_decisions (invalid_ack_alert m j d) = db_decisions d"
  "db_decisions (put_message m d) = db_decisions d"
  "db_quality_results (heartbeat i t d) = db_quality_results d"
  "db_quality_results (log_message m x j d) = db_quality_results d"
  "db_quality_results (mark_healthy i t d) = db_quality_results d"
  "db_quality_results (invalid_ack_alert m j d) = db_quality_results d"
  "db_quality_results (put_message m d) = db_quality_results d"
  by (simp_all add: heartbeat_def log_message_def mark_healthy_def invalid_ack_alert_def put_message_def)

lemma next_message_Some:
  assumes "next_message now locked d = Some m"
  shows "m \<in> set (db_outbox d) \<and> due now m \<and> ox_message_id m \<notin> set locked \<and>
    (\<forall>m' \<in> set (db_outbox d). due now m' \<and> ox_message_id m' \<notin> set locked \<longrightarrow>
       ox_created_at m \<le> ox_created_at m')"
proof -
  let ?xs = "filter (\<lambda>m. due now m \<and> ox_message_id m \<notin> set locked) (db_outbox d)"
  obtain ms where s: "sort_key ox_created_at ?xs = m # ms"
    using assms by (auto simp: next_message_def split: list.splits)
  have mem: "set (m # ms) = set ?xs"
    unfolding s [symmetric] by simp
  have "sorted (map ox_created_at (m # ms))"
    unfolding s [symmetric] by simp
  then have "\<forall>m' \<in> set (m # ms). ox_created_at m \<le> ox_created_at m'"
    by auto
  then have "\<forall>m' \<in> set ?xs. ox_created_at m \<le> ox_created_at m'"
    unfolding mem .
  moreover have "m \<in> set ?xs"
    unfolding mem [symmetric] by simp
  ultimately show ?thesis by simp
qed

lemma sort_key_Nil_iff: "sort_key f xs = [] \<longleftrightarrow> xs = []"
  using length_sort [of f xs] by (cases xs) auto

lemma next_message_None:
  "next_message now locked d = None \<longleftrightarrow>
     (\<forall>m \<in> set (db_outbox d). due now m \<longrightarrow> ox_message_id m \<in> set locked)"
proof -
  let ?xs = "filter (\<lambda>m. due now m \<and> ox_message_id m \<notin> set locked) (db_outbox d)"
  have "next_message now locked d = None \<longleftrightarrow> sort_key ox_created_at ?xs = []"
    by (cases "sort_key ox_created_at ?xs") (simp_all add: next_message_def)
  then show ?thesis
    unfolding sort_key_Nil_iff by (auto simp: filter_empty_conv)
qed

text \<open>
  What an attempt may make of a message: its identity stays, it is delivered only when the reply
  acknowledged it, and it waits for another attempt only while attempts are left.
\<close>

definition attempt_result :: "Settings \<Rightarrow> time \<Rightarrow> send_outcome \<Rightarrow> OutboxMessage \<Rightarrow> OutboxMessage \<Rightarrow> bool" where
  "attempt_result S now outcome m m' \<longleftrightarrow>
     mail m' = mail m \<and> ox_created_at m' = ox_created_at m \<and> ox_attempts m' = ox_attempts m \<and>
     (case ox_state m' of
        PENDING \<Rightarrow> False
      | DELIVERED \<Rightarrow> (\<exists>ack. outcome = Reply ack \<and> acknowledges (ox_message_id m) ack)
      | RETRYING \<Rightarrow> ox_attempts m < outbox_max_attempts S \<and>
          ox_next_attempt_at m' = now + backoff (ox_attempts m)
      | FAILED \<Rightarrow> True)"

lemma settle_outbox:
  assumes "settle S now m outcome d = Some d'"
  shows "\<exists>m'. attempt_result S now outcome m m' \<and>
    db_outbox d' = update_by ox_message_id (ox_message_id m) (\<lambda>_. m') (db_outbox d) \<and>
    db_decisions d' = db_decisions d \<and> db_quality_results d' = db_quality_results d"
proof (cases outcome)
  case (Reply j)
  then obtain ack where j: "j = JObj ack"
    using assms by (cases j) (simp_all add: settle_def)
  show ?thesis
  proof (cases "acknowledges (ox_message_id m) (JObj ack)")
    case True
    then show ?thesis
      using assms Reply j
      by (intro exI [of _ "delivered_message now m"])
        (auto simp: settle_def attempt_result_def delivered_message_def mail_def)
  next
    case False
    then show ?thesis
      using assms Reply j
      by (intro exI [of _ "invalid_message ''ERP acknowledgement correlation mismatch'' m"])
        (auto simp: settle_def attempt_result_def invalid_message_def mail_def)
  qed
next
  case (Status_error x)
  then show ?thesis
    using assms by (intro exI [of _ "status_message S now x m"])
      (auto simp: settle_def attempt_result_def status_message_def mail_def Let_def)
next
  case (Retryable_error x)
  then show ?thesis
    using assms by (intro exI [of _ "transport_message S now x m"])
      (auto simp: settle_def attempt_result_def transport_message_def mail_def Let_def)
next
  case (Value_error x)
  then show ?thesis
    using assms by (intro exI [of _ "invalid_message x m"])
      (auto simp: settle_def attempt_result_def invalid_message_def mail_def)
next
  case Escapes
  then show ?thesis
    using assms by (simp add: settle_def)
qed

definition counted :: "OutboxMessage \<Rightarrow> OutboxMessage" where
  "counted m = m\<lparr>ox_attempts := ox_attempts m + 1\<rparr>"

lemma process_one_cases:
  assumes "process_one S wid now locked post d w = (b, d', w')"
  obtains (idle) "next_message now locked d = None" "\<not> b" "w' = w" "db_outbox d' = db_outbox d"
      "db_decisions d' = db_decisions d" "db_quality_results d' = db_quality_results d"
  | (escaped) m response where "next_message now locked d = Some m" "\<not> b" "d' = d"
      "post (ox_payload m) w = (response, w')"
  | (sent) m response m' where "next_message now locked d = Some m" "b"
      "post (ox_payload m) w = (response, w')"
      "attempt_result S now (send_quality_result response) (counted m) m'"
      "db_outbox d' = update_by ox_message_id (ox_message_id m) (\<lambda>_. m') (db_outbox d)"
      "db_decisions d' = db_decisions d" "db_quality_results d' = db_quality_results d"
proof (cases "next_message now locked d")
  case None
  then show thesis
    using assms by (intro idle) (auto simp: process_one_def Let_def)
next
  case (Some m)
  obtain response w1 where r: "post (ox_payload m) w = (response, w1)"
    by fastforce
  show thesis
  proof (cases "settle S now (counted m) (send_quality_result response) (heartbeat wid now d)")
    case None
    then show thesis
      using assms Some r by (intro escaped [of m response]) (auto simp: process_one_def counted_def Let_def)
  next
    case (Some d1)
    then have e: "b" "d' = d1" "w' = w1"
      using assms \<open>next_message now locked d = Some m\<close> r by (auto simp: process_one_def counted_def Let_def)
    obtain m' where "attempt_result S now (send_quality_result response) (counted m) m'"
      "db_outbox d1 = update_by ox_message_id (ox_message_id (counted m)) (\<lambda>_. m') (db_outbox (heartbeat wid now d))"
      "db_decisions d1 = db_decisions (heartbeat wid now d)"
      "db_quality_results d1 = db_quality_results (heartbeat wid now d)"
      using settle_outbox [OF Some] by blast
    then show thesis
      using e r \<open>next_message now locked d = Some m\<close>
      by (intro sent [of m response m']) (auto simp: counted_def)
  qed
qed

section \<open>Histories of the outbox\<close>

text \<open>Worker turns (any reply, any locks), manual retries and the endpoints that add messages.\<close>

inductive outbox_step :: "Settings \<Rightarrow> env \<Rightarrow> db \<Rightarrow> db \<Rightarrow> bool" for S E where
  os_turn: "outbox_step S E d (fst (snd (process_one S wid now locked (\<lambda>_ _. (response, ())) d ())))"
| os_retry: "outbox_step S E d (snd (retry_endpoint E now c i r d))"
| os_review: "review_step E d d' \<Longrightarrow> outbox_step S E d d'"

lemma retry_cases:
  assumes "retry_endpoint E now c i r d = (res, d')"
  obtains (unchanged) "d' = d"
  | (retried) m p where "find_by ox_message_id i (db_outbox d) = Some m" "ox_state m \<noteq> DELIVERED"
      "authentic E now c d p" "res = Inr (i, PENDING)"
      "db_outbox d' = update_by ox_message_id i
        (\<lambda>_. m\<lparr>ox_state := PENDING, ox_next_attempt_at := now, ox_last_error := None\<rparr>) (db_outbox d)"
      "db_decisions d' = db_decisions d" "db_quality_results d' = db_quality_results d"
  using assms unfolding retry_endpoint_def
proof (cases rule: permission.gated_cases)
  case refused
  then show thesis by (intro unchanged) simp
next
  case (passed p)
  then show thesis
  proof (cases "find_by ox_message_id i (db_outbox d)")
    case None
    then show thesis
      using passed by (intro unchanged) (simp add: retry_outbox_def atomically_def)
  next
    case (Some m)
    note i = find_by_SomeD [OF Some]
    show thesis
    proof (cases "ox_state m = DELIVERED")
      case True
      then show thesis
        using passed Some by (intro unchanged) (simp add: retry_outbox_def atomically_def)
    next
      case False
      then show thesis
        using passed Some i
        by (intro retried [OF Some False, of p]) (auto simp: retry_outbox_def atomically_def)
    qed
  qed
qed

lemma find_by_replace:
  assumes "key r' = k"
  shows "find_by key j (update_by key k (\<lambda>_. r') rows) =
    (if j = k \<and> k \<in> key ` set rows then Some r' else find_by key j rows)"
  using assms by (induction rows) auto

lemma mail_same_id: "mail m = mail m' \<Longrightarrow> ox_message_id m = ox_message_id m'"
  by (simp add: mail_def)

lemma map_mail_replace:
  assumes "distinct (map ox_message_id ms)" and "m \<in> set ms" and "mail m' = mail m"
  shows "map mail (update_by ox_message_id (ox_message_id m) (\<lambda>_. m') ms) = map mail ms"
  using assms by (induction ms) (auto simp: update_by_absent rev_image_eqI)

lemma results_ok_ids: "results_ok d \<Longrightarrow> distinct (map ox_message_id (db_outbox d))"
proof -
  assume ok: "results_ok d"
  have "map fst (map mail (db_outbox d)) = map (\<lambda>q. ''QR-'' @ qr_decision_id q) (db_quality_results d)"
    using ok by (auto simp: results_ok_def backed_def)
  then have "map ox_message_id (db_outbox d) = map (append ''QR-'') (map qr_decision_id (db_quality_results d))"
    by (simp add: mail_def comp_def)
  then show ?thesis
    using ok by (auto simp: results_ok_def distinct_map inj_on_def)
qed

text \<open>A turn and a retry replace one message by one of the same identity.\<close>

definition replaces :: "db \<Rightarrow> db \<Rightarrow> OutboxMessage \<Rightarrow> OutboxMessage \<Rightarrow> bool" where
  "replaces d d' m m' \<longleftrightarrow> m \<in> set (db_outbox d) \<and> mail m' = mail m \<and>
     db_outbox d' = update_by ox_message_id (ox_message_id m) (\<lambda>_. m') (db_outbox d) \<and>
     db_decisions d' = db_decisions d \<and> db_quality_results d' = db_quality_results d"

lemma replaces_results_ok: "results_ok d \<Longrightarrow> replaces d d' m m' \<Longrightarrow> results_ok d'"
  using map_mail_replace [OF results_ok_ids, of d m m']
  by (auto simp: replaces_def results_ok_def backed_def)

lemma same_results_ok:
  "results_ok d \<Longrightarrow> db_outbox d' = db_outbox d \<Longrightarrow> db_decisions d' = db_decisions d \<Longrightarrow>
   db_quality_results d' = db_quality_results d \<Longrightarrow> results_ok d'"
  by (simp add: results_ok_def backed_def)

lemma outbox_step_cases:
  assumes "outbox_step S E d d'"
  obtains (same) "db_outbox d' = db_outbox d" "db_decisions d' = db_decisions d"
      "db_quality_results d' = db_quality_results d"
  | (attempt) now m out m' where "due now m" "attempt_result S now out (counted m) m'" "replaces d d' m m'"
  | (retry) now m where "ox_state m \<noteq> DELIVERED"
      "replaces d d' m (m\<lparr>ox_state := PENDING, ox_next_attempt_at := now, ox_last_error := None\<rparr>)"
  | (review) "decided d d'"
  using assms
proof (cases rule: outbox_step.cases)
  case (os_turn wid now locked response)
  obtain b w where p: "process_one S wid now locked (\<lambda>_ _. (response, ())) d () = (b, d', w)"
    using os_turn by (metis prod.collapse)
  then show thesis
  proof (cases rule: process_one_cases)
    case idle
    then show thesis by (intro same) simp_all
  next
    case (escaped m response)
    then show thesis by (intro same) simp_all
  next
    case (sent m response m')
    then show thesis
      using next_message_Some [OF sent(1)]
      by (intro attempt [of now m _ m']) (auto simp: replaces_def attempt_result_def counted_def mail_def)
  qed
next
  case (os_retry now c i r)
  obtain res where "retry_endpoint E now c i r d = (res, d')"
    using os_retry by (metis prod.collapse)
  then show thesis
  proof (cases rule: retry_cases)
    case unchanged
    then show thesis by (intro same) simp_all
  next
    case (retried m p)
    then show thesis
      using find_by_SomeD [OF retried(1)] by (intro retry [of m now]) (auto simp: replaces_def mail_def)
  qed
next
  case os_review
  then show thesis
    using review_step_effect [of E d d'] by (auto intro: same review)
qed

lemma outbox_step_results_ok: "results_ok d \<Longrightarrow> outbox_step S E d d' \<Longrightarrow> results_ok d'"
  by (erule outbox_step_cases)
    (auto intro: same_results_ok replaces_results_ok decided_results_ok)

interpretation outbox_results: step_invariant "outbox_step S E" results_ok for S E
  by unfold_locales (rule outbox_step_results_ok)

section \<open>The messages as a state machine\<close>

text \<open>
  The contract of one message: an attempt takes it from a waiting state to delivered, waiting again
  or failed; a manual retry takes it back to pending from anything but delivered. The outbox as a
  whole is the map from message identifiers to states, where messages are also added.
\<close>

inductive message_step :: "outbox_state \<Rightarrow> outbox_state \<Rightarrow> bool" where
  attempted: "s = PENDING \<or> s = RETRYING \<Longrightarrow> t \<noteq> PENDING \<Longrightarrow> message_step s t"
| retried: "s \<noteq> DELIVERED \<Longrightarrow> message_step s PENDING"

inductive_cases message_step_delivered: "message_step DELIVERED t"

inductive spec_step :: "(string \<Rightarrow> outbox_state option) \<Rightarrow> (string \<Rightarrow> outbox_state option) \<Rightarrow> bool" where
  moves: "v i = Some s \<Longrightarrow> message_step s t \<Longrightarrow> spec_step v (v(i \<mapsto> t))"
| arrives: "v i = None \<Longrightarrow> spec_step v (v(i \<mapsto> PENDING))"

definition view :: "db \<Rightarrow> string \<Rightarrow> outbox_state option" where
  "view d i = map_option ox_state (find_by ox_message_id i (db_outbox d))"

text \<open>A refinement mapping: every step is matched by steps of the specification.\<close>

locale refines =
  fixes step :: "'s \<Rightarrow> 's \<Rightarrow> bool" and good :: "'s \<Rightarrow> bool"
    and spec :: "'a \<Rightarrow> 'a \<Rightarrow> bool" and abs :: "'s \<Rightarrow> 'a"
  assumes good_step: "good s \<Longrightarrow> step s t \<Longrightarrow> good t"
    and step_refines: "good s \<Longrightarrow> step s t \<Longrightarrow> spec\<^sup>*\<^sup>* (abs s) (abs t)"
begin

lemma good_steps: "step\<^sup>*\<^sup>* s t \<Longrightarrow> good s \<Longrightarrow> good t"
  by (induction rule: rtranclp_induct) (auto intro: good_step)

lemma steps_refine: "step\<^sup>*\<^sup>* s t \<Longrightarrow> good s \<Longrightarrow> spec\<^sup>*\<^sup>* (abs s) (abs t)"
proof (induction rule: rtranclp_induct)
  case (step y z)
  then show ?case
    using step_refines [of y z] good_steps [of s y] rtranclp_trans [of spec] by blast
qed simp

end

lemma view_replaced:
  assumes "results_ok d" and "replaces d d' m m'"
  shows "view d (ox_message_id m) = Some (ox_state m) \<and> view d' = (view d)(ox_message_id m \<mapsto> ox_state m')"
proof -
  have m: "m \<in> set (db_outbox d)" "ox_message_id m' = ox_message_id m"
    using assms by (auto simp: replaces_def dest: mail_same_id)
  have "find_by ox_message_id (ox_message_id m) (db_outbox d) = Some m"
    using m results_ok_ids [OF assms(1)] by (intro find_by_in)
  moreover have "view d' i = ((view d)(ox_message_id m \<mapsto> ox_state m')) i" for i
    using assms(2) m find_by_replace [of ox_message_id m' "ox_message_id m" i "db_outbox d"]
    by (auto simp: replaces_def view_def)
  ultimately show ?thesis
    by (auto simp: view_def)
qed

lemma view_decided:
  assumes "results_ok d" and "decided d d'"
  shows "spec_step\<^sup>*\<^sup>* (view d) (view d')"
proof -
  consider "same_results d d'" | n c where "released d d' n c"
    using assms(2) by (auto simp: decided_def)
  then show ?thesis
  proof cases
    case 1
    then show ?thesis by (simp add: view_def [abs_def] same_results_def)
  next
    case (2 n c)
    then obtain o' where o': "db_outbox d' = db_outbox d @ [o']" "ox_state o' = PENDING"
      by (auto simp: released_def)
    have "distinct (map ox_message_id (db_outbox d'))"
      using results_ok_ids decided_results_ok assms by blast
    then have "find_by ox_message_id (ox_message_id o') (db_outbox d) = None"
      using o' by (simp add: find_by_None_iff)
    then have "view d (ox_message_id o') = None" "view d' = (view d)(ox_message_id o' \<mapsto> PENDING)"
      using o' by (auto simp: view_def find_by_append fun_eq_iff split: option.split)
    then show ?thesis
      by (simp add: spec_step.arrives r_into_rtranclp)
  qed
qed

lemma outbox_step_refines:
  assumes "results_ok d" and "outbox_step S E d d'"
  shows "spec_step\<^sup>*\<^sup>* (view d) (view d')"
  using assms(2)
proof (cases rule: outbox_step_cases)
  case same
  then show ?thesis by (simp add: view_def [abs_def])
next
  case (attempt now m out m')
  have "message_step (ox_state m) (ox_state m')"
    using attempt(1,2) by (intro message_step.attempted) (auto simp: due_def attempt_result_def split: outbox_state.splits)
  then show ?thesis
    using view_replaced [OF assms(1) attempt(3)] by (auto intro!: r_into_rtranclp spec_step.moves)
next
  case (retry now m)
  then show ?thesis
    using view_replaced [OF assms(1) retry(2)]
    by (auto intro!: r_into_rtranclp spec_step.moves message_step.retried)
next
  case review
  then show ?thesis by (rule view_decided [OF assms(1)])
qed

interpretation outbox: refines "outbox_step S E" results_ok spec_step view for S E
  by unfold_locales (auto intro: outbox_step_results_ok outbox_step_refines)

text \<open>In the contract a delivered message stays delivered, so it does in the outbox.\<close>

lemma spec_delivered: "spec_step\<^sup>*\<^sup>* v v' \<Longrightarrow> v i = Some DELIVERED \<Longrightarrow> v' i = Some DELIVERED"
proof (induction rule: rtranclp_induct)
  case (step v' v'')
  then show ?case
    by (auto elim!: spec_step.cases message_step_delivered)
qed simp

lemma spec_never_lost: "spec_step\<^sup>*\<^sup>* v v' \<Longrightarrow> v i \<noteq> None \<Longrightarrow> v' i \<noteq> None"
  by (induction rule: rtranclp_induct) (auto elim!: spec_step.cases)

section \<open>Attempts are bounded\<close>

definition attempts_ok :: "Settings \<Rightarrow> db \<Rightarrow> bool" where
  "attempts_ok S d \<longleftrightarrow> (\<forall>m \<in> set (db_outbox d). 0 \<le> ox_attempts m \<and>
     (ox_state m = RETRYING \<longrightarrow> ox_attempts m < outbox_max_attempts S))"

lemma outbox_step_attempts_ok:
  assumes "attempts_ok S d" and "outbox_step S E d d'"
  shows "attempts_ok S d'"
  using assms(2)
proof (cases rule: outbox_step_cases)
  case same
  then show ?thesis using assms(1) by (simp add: attempts_ok_def)
next
  case (attempt now m out m')
  have "0 \<le> ox_attempts m' \<and> (ox_state m' = RETRYING \<longrightarrow> ox_attempts m' < outbox_max_attempts S)"
    using attempt assms(1) by (auto simp: attempt_result_def counted_def replaces_def attempts_ok_def split: outbox_state.splits)
  then show ?thesis
    using attempt(3) assms(1) by (auto simp: replaces_def attempts_ok_def set_update_by)
next
  case (retry now m)
  then show ?thesis
    using assms(1) by (auto simp: replaces_def attempts_ok_def set_update_by)
next
  case review
  then show ?thesis
    using assms(1) by (auto simp: decided_def same_results_def released_def attempts_ok_def)
qed

interpretation outbox_attempts: step_invariant "outbox_step S E" "attempts_ok S" for S E
  by unfold_locales (rule outbox_step_attempts_ok)

lemma backoff_bounds: "0 \<le> n \<Longrightarrow> seconds 1 \<le> backoff n \<and> backoff n \<le> seconds 300"
  by (simp add: backoff_def seconds_def)

lemma backoff_mono:
  assumes "0 \<le> n" and "n \<le> k"
  shows "backoff n \<le> backoff k"
proof -
  have "(2 :: int) ^ nat n \<le> 2 ^ nat k"
    using assms by (intro power_increasing) auto
  then have "min (2 ^ nat n) 300 \<le> min (2 ^ nat k) (300 :: int)"
    by (rule min.mono) simp
  then show ?thesis
    unfolding backoff_def seconds_def by (rule mult_right_mono) simp
qed

section \<open>Draining the outbox\<close>

text \<open>
  When every request is acknowledged, each turn delivers the oldest message that is due. \<open>up\<close> is the
  condition of the other side under which it acknowledges, and which it keeps.
\<close>

definition always_acks ::
  "(time \<Rightarrow> QualityPayload \<Rightarrow> 'w \<Rightarrow> http_response \<times> 'w) \<Rightarrow> ('w \<Rightarrow> bool) \<Rightarrow> (QualityPayload \<Rightarrow> bool) \<Rightarrow> bool" where
  "always_acks post up valid \<longleftrightarrow> (\<forall>now p w. up w \<and> valid p \<longrightarrow>
     (\<exists>ack w'. post now p w = (Http_response 200 (Inr (JObj ack)), w') \<and> up w' \<and>
       acknowledges (qp_message_id p) (JObj ack)))"

lemma always_acksE:
  assumes "always_acks post up valid" and "up w" and "valid p"
  obtains ack w' where "post now p w = (Http_response 200 (Inr (JObj ack)), w')" "up w'"
    "acknowledges (qp_message_id p) (JObj ack)"
  using assms unfolding always_acks_def by blast

lemma results_ok_mail:
  assumes "results_ok d" and "m \<in> set (db_outbox d)"
  shows "qp_message_id (ox_payload m) = ox_message_id m"
proof -
  have "map mail (db_outbox d) = map (\<lambda>q. (qr_message_id q, qr_payload q)) (db_quality_results d)"
    and b: "\<forall>q \<in> set (db_quality_results d). backed d q"
    using assms(1) by (simp_all add: results_ok_def)
  moreover have "mail m \<in> set (map mail (db_outbox d))"
    using assms(2) by simp
  ultimately obtain q where "q \<in> set (db_quality_results d)" "mail m = (qr_message_id q, qr_payload q)"
    by auto
  then show ?thesis
    using b by (auto simp: mail_def backed_def)
qed

lemma process_acknowledged:
  assumes "results_ok d" and "always_acks post up valid" and m: "next_message now [] d = Some m"
    and "up w" and "valid (ox_payload m)"
  obtains d' w' where "process_one S wid now [] (post now) d w = (True, d', w')"
    and "db_outbox d' = update_by ox_message_id (ox_message_id m) (\<lambda>_. delivered_message now (counted m)) (db_outbox d)"
    and "results_ok d'" "up w'"
proof -
  have i: "qp_message_id (ox_payload m) = ox_message_id m" and mem: "m \<in> set (db_outbox d)"
    using results_ok_mail [OF assms(1)] next_message_Some [OF m] by auto
  obtain ack w' where r: "post now (ox_payload m) w = (Http_response 200 (Inr (JObj ack)), w')" and "up w'"
    and a: "acknowledges (ox_message_id m) (JObj ack)"
    using always_acksE [OF assms(2,4,5)] i by metis
  define d' where "d' = mark_healthy (ox_destination m) now
    (log_message (counted m) ''DELIVERED'' (JObj [(''ack'', JObj ack)])
      (put_message (delivered_message now (counted m)) (heartbeat wid now d)))"
  have "process_one S wid now [] (post now) d w = (True, d', w')"
    using m r a by (simp add: process_one_def settle_def counted_def d'_def Let_def)
  moreover have o': "db_outbox d' = update_by ox_message_id (ox_message_id m)
      (\<lambda>_. delivered_message now (counted m)) (db_outbox d)"
    by (simp add: d'_def delivered_message_def counted_def)
  moreover have "replaces d d' m (delivered_message now (counted m))"
    using mem o' by (simp add: replaces_def mail_def delivered_message_def counted_def d'_def)
  ultimately show thesis
    using that replaces_results_ok [OF assms(1)] \<open>up w'\<close> by blast
qed

definition waiting :: "time \<Rightarrow> db \<Rightarrow> nat" where
  "waiting now d = length (filter (due now) (db_outbox d))"

lemma waiting_delivered:
  assumes "distinct (map ox_message_id ms)" and "m \<in> set ms" and "due now m"
  shows "Suc (length (filter (due now)
    (update_by ox_message_id (ox_message_id m) (\<lambda>_. delivered_message now (counted m)) ms))) =
    length (filter (due now) ms)"
  using assms
proof (induction ms)
  case (Cons a ms)
  have nd: "\<not> due now (delivered_message now (counted m))"
    by (simp add: due_def delivered_message_def)
  show ?case
  proof (cases "a = m")
    case True
    then have "ox_message_id m \<notin> ox_message_id ` set ms"
      using Cons.prems by auto
    then show ?thesis
      using True Cons.prems nd by (simp add: update_by_absent)
  next
    case False
    then have "ox_message_id a \<noteq> ox_message_id m" "m \<in> set ms"
      using Cons.prems by (auto simp: rev_image_eqI)
    then show ?thesis
      using Cons by simp
  qed
qed simp

lemma drain:
  assumes "results_ok d" and "always_acks post up valid" and "waiting now d \<le> k"
    and "up w" and "\<forall>m \<in> set (db_outbox d). valid (ox_payload m)"
  shows "\<exists>d' w'. run_turns S wid post (replicate k now) d w = (d', w') \<and> waiting now d' = 0 \<and>
    (\<forall>m \<in> set (db_outbox d). due now m \<longrightarrow> view d' (ox_message_id m) = Some DELIVERED) \<and>
    (\<forall>i. view d i = Some DELIVERED \<longrightarrow> view d' i = Some DELIVERED)"
  using assms(1,3-)
proof (induction k arbitrary: d w)
  case 0
  then show ?case by (simp add: waiting_def filter_empty_conv)
next
  case (Suc k)
  show ?case
  proof (cases "next_message now [] d")
    case None
    obtain b d1 w1 where p: "process_one S wid now [] (post now) d w = (b, d1, w1)"
      by (metis prod.collapse)
    then have same: "db_outbox d1 = db_outbox d" "db_decisions d1 = db_decisions d"
      "db_quality_results d1 = db_quality_results d" "w1 = w"
      using None by (auto elim: process_one_cases)
    have none: "\<forall>m \<in> set (db_outbox d). \<not> due now m"
      using None by (simp add: next_message_None)
    then have "waiting now d1 \<le> k"
      by (simp add: waiting_def same)
    then show ?thesis
      using Suc.IH [of d1 w1] same_results_ok [OF Suc.prems(1) same(1-3)] p none Suc.prems(3,4)
      by (simp add: same view_def [of d] view_def [of d1])
  next
    case (Some m)
    have "valid (ox_payload m)"
      using Suc.prems(4) next_message_Some [OF Some] by blast
    from Suc.prems(1) assms(2) Some Suc.prems(3) this obtain d1 w1 where
      p: "process_one S wid now [] (post now) d w = (True, d1, w1)"
      and o1: "db_outbox d1 = update_by ox_message_id (ox_message_id m)
        (\<lambda>_. delivered_message now (counted m)) (db_outbox d)"
      and ok1: "results_ok d1" and up1: "up w1"
      by (rule process_acknowledged)
    have valid1: "\<forall>m \<in> set (db_outbox d1). valid (ox_payload m)"
      using Suc.prems(4) \<open>valid (ox_payload m)\<close> by (auto simp: o1 set_update_by delivered_message_def counted_def)
    note ids = results_ok_ids [OF Suc.prems(1)] and mem = next_message_Some [OF Some]
    have "Suc (waiting now d1) = waiting now d"
      unfolding waiting_def o1 using ids mem by (intro waiting_delivered) auto
    then obtain d' w' where r: "run_turns S wid post (replicate k now) d1 w1 = (d', w')" "waiting now d' = 0"
      and all: "\<forall>m \<in> set (db_outbox d1). due now m \<longrightarrow> view d' (ox_message_id m) = Some DELIVERED"
      and keep: "\<forall>i. view d1 i = Some DELIVERED \<longrightarrow> view d' i = Some DELIVERED"
      using Suc.IH [OF ok1 _ up1 valid1] Suc.prems(2) by auto
    have v1: "view d1 i = (if i = ox_message_id m then Some DELIVERED else view d i)" for i
      using mem find_by_replace [of ox_message_id "delivered_message now (counted m)" "ox_message_id m" i "db_outbox d"]
      by (auto simp: view_def o1 delivered_message_def counted_def)
    have "view d' (ox_message_id m') = Some DELIVERED" if "m' \<in> set (db_outbox d)" "due now m'" for m'
    proof (cases "ox_message_id m' = ox_message_id m")
      case True
      then show ?thesis using keep v1 by simp
    next
      case False
      then have "m' \<in> set (db_outbox d1)"
        using that by (auto simp: o1 set_update_by)
      then show ?thesis using all that by blast
    qed
    moreover have "\<forall>i. view d i = Some DELIVERED \<longrightarrow> view d' i = Some DELIVERED"
      using keep v1 by auto
    ultimately show ?thesis
      using r p by simp
  qed
qed

section \<open>The worker and the system it delivers to\<close>

text \<open>
  The database and the other side together: worker turns, manual retries, new messages, and what the
  other side does on its own (\<open>moves\<close>).
\<close>

inductive system_step ::
  "Settings \<Rightarrow> env \<Rightarrow> (time \<Rightarrow> QualityPayload \<Rightarrow> 'w \<Rightarrow> http_response \<times> 'w) \<Rightarrow> ('w \<Rightarrow> 'w \<Rightarrow> bool) \<Rightarrow>
   db \<times> 'w \<Rightarrow> db \<times> 'w \<Rightarrow> bool" for S E post moves where
  sys_turn: "process_one S wid now locked (post now) d w = (b, d', w') \<Longrightarrow>
     system_step S E post moves (d, w) (d', w')"
| sys_retry: "retry_endpoint E now c i r d = (res, d') \<Longrightarrow> system_step S E post moves (d, w) (d', w)"
| sys_review: "review_step E d d' \<Longrightarrow> system_step S E post moves (d, w) (d', w)"
| sys_moves: "moves w w' \<Longrightarrow> system_step S E post moves (d, w) (d, w')"

text \<open>
  What the worker relies on: the other side knows only what it was sent, keeps what it recorded, has
  one record per message, and acknowledges only what it has recorded.
\<close>

locale erp_port =
  fixes post :: "time \<Rightarrow> QualityPayload \<Rightarrow> 'w \<Rightarrow> http_response \<times> 'w"
    and moves :: "'w \<Rightarrow> 'w \<Rightarrow> bool"
    and held :: "'w \<Rightarrow> QualityPayload \<Rightarrow> bool"
    and known :: "'w \<Rightarrow> QualityPayload \<Rightarrow> bool"
    and fine :: "'w \<Rightarrow> bool"
  assumes post_fine: "fine w \<Longrightarrow> post now p w = (r, w') \<Longrightarrow> fine w'"
    and moves_fine: "fine w \<Longrightarrow> moves w w' \<Longrightarrow> fine w'"
    and held_known: "held w p \<Longrightarrow> known w p"
    and post_known: "post now p w = (r, w') \<Longrightarrow> known w' q \<Longrightarrow> known w q \<or> q = p"
    and post_held: "post now p w = (r, w') \<Longrightarrow> held w q \<Longrightarrow> held w' q"
    and post_ack: "fine w \<Longrightarrow> post now p w = (r, w') \<Longrightarrow> send_quality_result r = Reply ack \<Longrightarrow>
      acknowledges (qp_message_id p) ack \<Longrightarrow> \<exists>q. held w' q \<and> qp_message_id q = qp_message_id p"
    and moves_known: "moves w w' \<Longrightarrow> known w' q \<Longrightarrow> known w q"
    and moves_held: "moves w w' \<Longrightarrow> held w q \<Longrightarrow> held w' q"
begin

text \<open>What is delivered is recorded on the other side, which knows nothing but messages of the outbox.\<close>

definition consistent :: "db \<times> 'w \<Rightarrow> bool" where
  "consistent s \<longleftrightarrow> results_ok (fst s) \<and> fine (snd s) \<and>
     (\<forall>p. known (snd s) p \<longrightarrow> p \<in> ox_payload ` set (db_outbox (fst s))) \<and>
     (\<forall>m \<in> set (db_outbox (fst s)). ox_state m = DELIVERED \<longrightarrow> held (snd s) (ox_payload m))"

lemma replaced_payloads:
  assumes "results_ok d" and "replaces d d' m m'"
  shows "ox_payload ` set (db_outbox d') = ox_payload ` set (db_outbox d)"
proof -
  have "map mail (db_outbox d') = map mail (db_outbox d)"
    using map_mail_replace [OF results_ok_ids [OF assms(1)], of m m'] assms(2) by (simp add: replaces_def)
  then have "map snd (map mail (db_outbox d')) = map snd (map mail (db_outbox d))"
    by simp
  then show ?thesis
    by (metis (mono_tags, lifting) comp_apply list.map_comp list.set_map mail_def map_cong snd_conv)
qed

lemma one_payload_per_id:
  assumes "results_ok d" and "p \<in> ox_payload ` set (db_outbox d)" and "q \<in> ox_payload ` set (db_outbox d)"
    and "qp_message_id p = qp_message_id q"
  shows "p = q"
proof -
  obtain m n where "m \<in> set (db_outbox d)" "p = ox_payload m" "n \<in> set (db_outbox d)" "q = ox_payload n"
    using assms(2,3) by blast
  moreover from this have "m = n"
    using results_ok_mail [OF assms(1)] assms(4) results_ok_ids [OF assms(1)]
    by (auto simp: distinct_map inj_on_def)
  ultimately show ?thesis by simp
qed

lemma consistent_turn:
  assumes c: "consistent (d, w)" and "process_one S wid now locked (post now) d w = (b, d', w')"
  shows "consistent (d', w')"
  using assms(2)
proof (cases rule: process_one_cases)
  case idle
  then show ?thesis
    using c same_results_ok [of d d'] by (simp add: consistent_def)
next
  case (escaped m response)
  then have "ox_payload m \<in> ox_payload ` set (db_outbox d)"
    using next_message_Some [OF escaped(1)] by simp
  then show ?thesis
    using c escaped post_known [OF escaped(4)] post_held [OF escaped(4)] post_fine [OF _ escaped(4)]
    by (auto simp: consistent_def)
next
  case (sent m response m')
  have ok: "results_ok d" and fine: "fine w"
    using c by (simp_all add: consistent_def)
  have m: "m \<in> set (db_outbox d)"
    using next_message_Some [OF sent(1)] by simp
  have rep: "replaces d d' m m'"
    using m sent by (simp add: replaces_def attempt_result_def counted_def mail_def)
  have pay: "ox_payload m' = ox_payload m"
    using rep by (simp add: replaces_def mail_def)
  have known: "p \<in> ox_payload ` set (db_outbox d')" if "known w' p" for p
    using post_known [OF sent(3) that] c m replaced_payloads [OF ok rep] by (auto simp: consistent_def)
  have "held w' (ox_payload m)" if "ox_state m' = DELIVERED"
  proof -
    from that sent(4) obtain ack where "send_quality_result response = Reply ack"
      and "acknowledges (ox_message_id m) ack"
      by (auto simp: attempt_result_def counted_def)
    then obtain q where q: "held w' q" "qp_message_id q = qp_message_id (ox_payload m)"
      using post_ack [OF fine sent(3)] results_ok_mail [OF ok m] by auto
    then have "q \<in> ox_payload ` set (db_outbox d)"
      using known [OF held_known] replaced_payloads [OF ok rep] by blast
    then show ?thesis
      using q one_payload_per_id [OF ok, of q "ox_payload m"] m by auto
  qed
  then show ?thesis
    using c known pay rep replaces_results_ok [OF ok rep] post_held [OF sent(3)] post_fine [OF fine sent(3)]
    by (auto simp: consistent_def replaces_def set_update_by)
qed

lemma consistent_step:
  assumes "consistent s" and "system_step S E post moves s t"
  shows "consistent t"
  using assms(2,1)
proof (cases rule: system_step.cases)
  case (sys_turn wid now locked d w b d' w')
  then show ?thesis using assms(1) consistent_turn by blast
next
  case (sys_retry now c i r d res d' w)
  from sys_retry(3) show ?thesis
  proof (cases rule: retry_cases)
    case unchanged
    then show ?thesis using assms(1) sys_retry by simp
  next
    case (retried m p)
    let ?m = "m\<lparr>ox_state := PENDING, ox_next_attempt_at := now, ox_last_error := None\<rparr>"
    have ok: "results_ok d"
      using assms(1) sys_retry by (simp add: consistent_def)
    have rep: "replaces d d' m ?m"
      using retried find_by_SomeD [OF retried(1)] by (auto simp: replaces_def mail_def)
    then show ?thesis
      using assms(1) sys_retry replaces_results_ok [OF ok rep] replaced_payloads [OF ok rep]
      by (auto simp: consistent_def replaces_def set_update_by)
  qed
next
  case (sys_review d d' w)
  then consider "d' = d" | "decided d d'"
    using review_step_effect by blast
  then show ?thesis
  proof cases
    case 2
    then have "\<exists>ms. db_outbox d' = db_outbox d @ ms \<and> (\<forall>m \<in> set ms. ox_state m = PENDING)"
      by (auto simp: decided_def same_results_def released_def)
    then show ?thesis
      using assms(1) sys_review decided_results_ok [OF _ 2] by (auto simp: consistent_def)
  qed (use assms sys_review in simp)
next
  case (sys_moves w w' d)
  then show ?thesis
    using assms(1) moves_known moves_held moves_fine by (auto simp: consistent_def)
qed

end

text \<open>So whatever provides the port has an invariant of the whole system.\<close>

sublocale erp_port \<subseteq> system: step_invariant "system_step S E post moves" consistent for S E
  by unfold_locales (rule consistent_step)

end
