(* ===== verification/TQ_Erp.thy ===== *)
theory TQ_Erp
  imports TQ_Outbox
begin

text \<open>
  The ERP emulator (\<^verbatim>\<open>erp_emulator/app/main.py\<close>) as the other side of the outbox, reached over a
  network that may lose a request or its reply. It provides the locale \<open>erp_port\<close>: what the worker
  marks delivered is recorded in the emulator exactly once.
\<close>

datatype erp_mode = NORMAL | TIMEOUT_ONCE | ERROR_503 | REJECT_400 | OFFLINE

text \<open>\<open>State\<close>, with the requests that are asleep in \<open>asyncio.sleep(12)\<close>.\<close>

record erp =
  erp_mode :: erp_mode
  erp_timeout_consumed :: bool
  erp_deliveries :: "(string \<times> QualityPayload \<times> (string \<times> json) list) list"
  erp_asleep :: "QualityPayload list"

definition new_erp :: erp where
  "new_erp = \<lparr>erp_mode = NORMAL, erp_timeout_consumed = False, erp_deliveries = [], erp_asleep = []\<rparr>"

definition pad5 :: "string \<Rightarrow> string" where
  "pad5 s = replicate (5 - length s) CHR ''0'' @ s"

definition make_ack :: "env \<Rightarrow> time \<Rightarrow> QualityPayload \<Rightarrow> nat \<Rightarrow> (string \<times> json) list" where
  "make_ack E now body n = [(''message_id'', JStr (qp_message_id body)), (''status'', JStr ''ACK''),
     (''external_result_id'', JStr (''ERP-QR-'' @ pad5 (nat_str n))),
     (''received_at'', JStr (isoformat_utc E now))]"

text \<open>The second critical section: a message already delivered gets the acknowledgement it got then.\<close>

definition record_delivery :: "env \<Rightarrow> time \<Rightarrow> QualityPayload \<Rightarrow> erp \<Rightarrow> (string \<times> json) list \<times> erp" where
  "record_delivery E now body s =
     (case map_of (erp_deliveries s) (qp_message_id body) of
        Some existing \<Rightarrow> (snd existing, s)
      | None \<Rightarrow>
          (let ack = make_ack E now body (length (erp_deliveries s) + 1) in
           (ack, s\<lparr>erp_deliveries := erp_deliveries s @ [(qp_message_id body, body, ack)]\<rparr>)))"

definition error_detail :: "string \<Rightarrow> string + json" where
  "error_detail detail = Inr (JObj [(''detail'', JStr detail)])"

text \<open>
  \<open>POST /quality-results\<close>. The client gives up after its timeout, before the twelve seconds a
  request of mode \<open>TIMEOUT_ONCE\<close> sleeps; the request goes on (\<open>wake\<close> below).
\<close>

definition quality_results :: "env \<Rightarrow> time \<Rightarrow> QualityPayload \<Rightarrow> erp \<Rightarrow> http_response \<times> erp" where
  "quality_results E now body s =
     (if \<not> (1 \<le> py_len (qp_message_id body) \<and> py_len (qp_message_id body) \<le> 128)
        then (Http_response 422 (error_detail ''string length''), s)
      else
        (let should_timeout = (erp_mode s = TIMEOUT_ONCE \<and> \<not> erp_timeout_consumed s);
             s1 = (if should_timeout then s\<lparr>erp_timeout_consumed := True\<rparr> else s) in
         if erp_mode s = OFFLINE then (Http_response 503 (error_detail ''emulator offline''), s1)
         else if erp_mode s = ERROR_503 then (Http_response 503 (error_detail ''simulated temporary failure''), s1)
         else if erp_mode s = REJECT_400 then (Http_response 400 (error_detail ''simulated schema rejection''), s1)
         else if should_timeout then (Transport_error ''ReadTimeout'', s1\<lparr>erp_asleep := erp_asleep s1 @ [body]\<rparr>)
         else
           (let (ack, s2) = record_delivery E now body s1 in (Http_response 200 (Inr (JObj ack)), s2))))"

text \<open>A request that slept goes on.\<close>

definition wake :: "env \<Rightarrow> time \<Rightarrow> QualityPayload \<Rightarrow> erp \<Rightarrow> erp" where
  "wake E now body s = (if body \<in> set (erp_asleep s)
     then snd (record_delivery E now body (s\<lparr>erp_asleep := remove1 body (erp_asleep s)\<rparr>)) else s)"

definition behavior :: "erp_mode \<Rightarrow> erp \<Rightarrow> erp" where
  "behavior mode s = s\<lparr>erp_mode := mode, erp_timeout_consumed := False\<rparr>"

definition reset :: "erp \<Rightarrow> erp" where
  "reset s = s\<lparr>erp_mode := NORMAL, erp_timeout_consumed := False, erp_deliveries := []\<rparr>"

definition quality_result :: "string \<Rightarrow> erp \<Rightarrow> (QualityPayload \<times> (string \<times> json) list) result" where
  "quality_result message_id s = (case map_of (erp_deliveries s) message_id of
     None \<Rightarrow> Inl (TraceQError ''HTTPException'' ''delivery not found'' 404) | Some dl \<Rightarrow> Inr dl)"

section \<open>The network\<close>

datatype delivery = Goes_through | Request_lost string | Reply_lost string

definition over_network ::
  "(time \<Rightarrow> delivery) \<Rightarrow> (time \<Rightarrow> QualityPayload \<Rightarrow> 'w \<Rightarrow> http_response \<times> 'w) \<Rightarrow>
   time \<Rightarrow> QualityPayload \<Rightarrow> 'w \<Rightarrow> http_response \<times> 'w" where
  "over_network net post now body w =
     (case net now of
        Goes_through \<Rightarrow> post now body w
      | Request_lost name \<Rightarrow> (Transport_error name, w)
      | Reply_lost name \<Rightarrow> (Transport_error name, snd (post now body w)))"

text \<open>What the emulator does besides answering: a request wakes, a demonstrator changes its mode.\<close>

inductive erp_moves :: "env \<Rightarrow> erp \<Rightarrow> erp \<Rightarrow> bool" for E where
  wakes: "erp_moves E s (wake E now body s)"
| behaves: "erp_moves E s (behavior mode s)"

definition recorded_at :: "erp \<Rightarrow> QualityPayload \<Rightarrow> bool" where
  "recorded_at s p \<longleftrightarrow> (\<exists>ack. map_of (erp_deliveries s) (qp_message_id p) = Some (p, ack))"

definition knows :: "erp \<Rightarrow> QualityPayload \<Rightarrow> bool" where
  "knows s p \<longleftrightarrow> recorded_at s p \<or> p \<in> set (erp_asleep s)"

section \<open>The emulator provides the port\<close>

text \<open>A delivery is filed under its own message, with an acknowledgement of it; no message has two.\<close>

definition filed :: "erp \<Rightarrow> bool" where
  "filed s \<longleftrightarrow> distinct (map fst (erp_deliveries s)) \<and>
     (\<forall>(i, p, ack) \<in> set (erp_deliveries s). qp_message_id p = i \<and> acknowledges i (JObj ack))"

lemma make_ack_acknowledges: "acknowledges (qp_message_id b) (JObj (make_ack E now b n))"
  by (simp add: acknowledges_def make_ack_def dict_get_def)

lemma record_delivery_cases:
  assumes "record_delivery E now b s = (ack, s')"
  obtains (again) p where "map_of (erp_deliveries s) (qp_message_id b) = Some (p, ack)" "s' = s"
  | (new) n where "map_of (erp_deliveries s) (qp_message_id b) = None" "ack = make_ack E now b n"
      "s' = s\<lparr>erp_deliveries := erp_deliveries s @ [(qp_message_id b, b, ack)]\<rparr>"
  using assms by (cases "map_of (erp_deliveries s) (qp_message_id b)") (auto simp: record_delivery_def Let_def)

lemma record_delivery_effect:
  assumes "record_delivery E now b s = (ack, s')"
  shows "erp_asleep s' = erp_asleep s"
    and "recorded_at s' q \<Longrightarrow> recorded_at s q \<or> q = b"
    and "recorded_at s q \<Longrightarrow> recorded_at s' q"
  using assms
  by (cases rule: record_delivery_cases,
      auto simp: recorded_at_def map_add_def split: option.splits if_splits)+

lemma record_delivery_filed:
  assumes "record_delivery E now b s = (ack, s')" and "filed s"
  shows "filed s' \<and> (\<exists>q. recorded_at s' q \<and> qp_message_id q = qp_message_id b)"
  using assms(1)
proof (cases rule: record_delivery_cases)
  case (again p)
  then have "qp_message_id p = qp_message_id b"
    using assms(2) map_of_SomeD [OF again(1)] by (auto simp: filed_def)
  then show ?thesis
    using again assms(2) unfolding recorded_at_def by (intro conjI exI [of _ p] exI [of _ ack]) simp_all
next
  case (new n)
  then have "filed s'"
    using assms(2) make_ack_acknowledges by (auto simp: filed_def map_of_eq_None_iff)
  moreover have "recorded_at s' b"
    using new by (simp add: recorded_at_def map_add_def)
  ultimately show ?thesis by blast
qed

lemma quality_results_cases:
  assumes "quality_results E now b s = (r, s')"
  obtains (refused) "erp_deliveries s' = erp_deliveries s" "set (erp_asleep s') \<subseteq> insert b (set (erp_asleep s))"
      "set (erp_asleep s) \<subseteq> set (erp_asleep s')" "\<forall>ack. send_quality_result r \<noteq> Reply ack"
  | (recorded) s1 ack where "record_delivery E now b s1 = (ack, s')"
      "erp_deliveries s1 = erp_deliveries s" "erp_asleep s1 = erp_asleep s"
      "r = Http_response 200 (Inr (JObj ack))"
proof (cases "erp_mode s = NORMAL \<or> erp_mode s = TIMEOUT_ONCE \<and> erp_timeout_consumed s")
  case True
  show thesis
  proof (cases "1 \<le> py_len (qp_message_id b) \<and> py_len (qp_message_id b) \<le> 128")
    case True
    obtain ack t where "record_delivery E now b s = (ack, t)"
      by fastforce
    then show thesis
      using assms True \<open>erp_mode s = NORMAL \<or> _\<close>
      by (intro recorded [of s ack]) (auto simp: quality_results_def Let_def)
  next
    case False
    then show thesis
      using assms by (intro refused) (auto simp: quality_results_def error_detail_def)
  qed
next
  case False
  then show thesis
    using assms by (cases "erp_mode s")
      (auto simp: quality_results_def Let_def error_detail_def split: if_splits intro!: refused)
qed

lemma recorded_at_cong: "erp_deliveries s = erp_deliveries t \<Longrightarrow> recorded_at s = recorded_at t"
  by (simp add: recorded_at_def fun_eq_iff)

lemma filed_cong: "erp_deliveries s = erp_deliveries t \<Longrightarrow> filed s = filed t"
  by (simp add: filed_def)

lemma quality_results_effect:
  assumes "quality_results E now b s = (r, s')"
  shows "knows s' q \<Longrightarrow> knows s q \<or> q = b"
    and "recorded_at s q \<Longrightarrow> recorded_at s' q"
    and "filed s \<Longrightarrow> filed s'"
    and "filed s \<Longrightarrow> send_quality_result r = Reply ack \<Longrightarrow> \<exists>q. recorded_at s' q \<and> qp_message_id q = qp_message_id b"
proof -
  have "(knows s' q \<longrightarrow> knows s q \<or> q = b) \<and> (recorded_at s q \<longrightarrow> recorded_at s' q) \<and> (filed s \<longrightarrow> filed s') \<and>
    (filed s \<and> send_quality_result r = Reply ack \<longrightarrow> (\<exists>q. recorded_at s' q \<and> qp_message_id q = qp_message_id b))"
    using assms
  proof (cases rule: quality_results_cases)
    case refused
    then show ?thesis
      using recorded_at_cong [OF refused(1)] filed_cong [OF refused(1)] by (auto simp: knows_def)
  next
    case (recorded s1 a)
    then show ?thesis
      using recorded_at_cong [OF recorded(2)] filed_cong [OF recorded(2)]
        record_delivery_effect [OF recorded(1)] record_delivery_filed [OF recorded(1)]
      by (auto simp: knows_def)
  qed
  then show "knows s' q \<Longrightarrow> knows s q \<or> q = b" "recorded_at s q \<Longrightarrow> recorded_at s' q" "filed s \<Longrightarrow> filed s'"
    "filed s \<Longrightarrow> send_quality_result r = Reply ack \<Longrightarrow> \<exists>q. recorded_at s' q \<and> qp_message_id q = qp_message_id b"
    by blast+
qed

lemma wake_effect:
  "knows (wake E now b s) q \<Longrightarrow> knows s q" "recorded_at s q \<Longrightarrow> recorded_at (wake E now b s) q"
  "filed s \<Longrightarrow> filed (wake E now b s)"
proof -
  obtain ack t where t: "record_delivery E now b (s\<lparr>erp_asleep := remove1 b (erp_asleep s)\<rparr>) = (ack, t)"
    by fastforce
  note e = record_delivery_effect [OF t] record_delivery_filed [OF t]
  have r: "recorded_at (s\<lparr>erp_asleep := x\<rparr>) = recorded_at s" "filed (s\<lparr>erp_asleep := x\<rparr>) = filed s" for x
    by (simp_all add: recorded_at_def filed_def fun_eq_iff)
  show "knows (wake E now b s) q \<Longrightarrow> knows s q"
    using e t notin_set_remove1 [of q "erp_asleep s" b] by (auto simp: wake_def knows_def r split: if_splits)
  show "recorded_at s q \<Longrightarrow> recorded_at (wake E now b s) q" "filed s \<Longrightarrow> filed (wake E now b s)"
    using e t by (auto simp: wake_def r)
qed

lemma behavior_effect [simp]:
  "knows (behavior mode s) = knows s" "recorded_at (behavior mode s) = recorded_at s" "filed (behavior mode s) = filed s"
  by (simp_all add: behavior_def knows_def recorded_at_def filed_def fun_eq_iff)

lemma over_network_cases:
  assumes "over_network net post now b w = (r, w')"
  obtains (through) "post now b w = (r, w')" | (lost) name where "r = Transport_error name" "w' = w"
  | (reply_lost) name r' where "r = Transport_error name" "post now b w = (r', w')"
  using assms by (cases "net now") (auto simp: over_network_def intro: surjective_pairing)

interpretation emulator: erp_port "over_network net (quality_results E)" "erp_moves E" recorded_at knows filed
  for net E
proof unfold_locales
  fix w w' q p ack r now
  show "filed w \<Longrightarrow> erp_moves E w w' \<Longrightarrow> filed w'" "erp_moves E w w' \<Longrightarrow> knows w' q \<Longrightarrow> knows w q"
    "erp_moves E w w' \<Longrightarrow> recorded_at w q \<Longrightarrow> recorded_at w' q"
    by (auto elim!: erp_moves.cases simp: wake_effect dest: wake_effect(1))
  show "recorded_at w p \<Longrightarrow> knows w p"
    by (simp add: knows_def)
  assume o': "over_network net (quality_results E) now p w = (r, w')"
  show "filed w \<Longrightarrow> filed w'" "knows w' q \<Longrightarrow> knows w q \<or> q = p" "recorded_at w q \<Longrightarrow> recorded_at w' q"
    "filed w \<Longrightarrow> send_quality_result r = Reply ack \<Longrightarrow> acknowledges (qp_message_id p) ack \<Longrightarrow>
      \<exists>q. recorded_at w' q \<and> qp_message_id q = qp_message_id p"
    using o' by (cases rule: over_network_cases, auto dest: quality_results_effect)+
qed

text \<open>The emulator in its normal mode acknowledges everything it is sent.\<close>

lemma normal_acks:
  assumes "erp_mode s = NORMAL" and "1 \<le> py_len (qp_message_id b)" "py_len (qp_message_id b) \<le> 128" and "filed s"
  obtains ack s' where "quality_results E now b s = (Http_response 200 (Inr (JObj ack)), s')"
    and "acknowledges (qp_message_id b) (JObj ack)" and "erp_mode s' = NORMAL" "filed s'"
proof -
  obtain ack s' where r: "record_delivery E now b s = (ack, s')"
    by fastforce
  then have "quality_results E now b s = (Http_response 200 (Inr (JObj ack)), s')"
    using assms by (simp add: quality_results_def Let_def)
  moreover have "acknowledges (qp_message_id b) (JObj ack) \<and> erp_mode s' = NORMAL"
    using r
  proof (cases rule: record_delivery_cases)
    case (again p)
    then show ?thesis
      using assms map_of_SomeD [OF again(1)] by (auto simp: filed_def)
  next
    case (new n)
    then show ?thesis using assms make_ack_acknowledges by simp
  qed
  ultimately show thesis
    using that record_delivery_filed [OF r assms(4)] by blast
qed

definition erp_up :: "erp \<Rightarrow> bool" where
  "erp_up s \<longleftrightarrow> erp_mode s = NORMAL \<and> filed s"

lemma emulator_acks:
  "always_acks (quality_results E) erp_up (\<lambda>p. 1 \<le> py_len (qp_message_id p) \<and> py_len (qp_message_id p) \<le> 128)"
  unfolding always_acks_def
proof (intro allI impI)
  fix now w and p :: QualityPayload
  assume "erp_up w \<and> 1 \<le> py_len (qp_message_id p) \<and> py_len (qp_message_id p) \<le> 128"
  then obtain ack s' where "quality_results E now p w = (Http_response 200 (Inr (JObj ack)), s')"
    "acknowledges (qp_message_id p) (JObj ack)" "erp_mode s' = NORMAL" "filed s'"
    using normal_acks [of w p E now] by (auto simp: erp_up_def)
  then show "\<exists>ack w'. quality_results E now p w = (Http_response 200 (Inr (JObj ack)), w') \<and> erp_up w' \<and>
      acknowledges (qp_message_id p) (JObj ack)"
    by (auto simp: erp_up_def)
qed

end
