(* ===== verification/TQ_Sample_Quality.thy ===== *)
theory TQ_Sample_Quality
  imports TQ_Sample TQ_Erp
begin

text \<open>
  A second small installation: one inspector with a live session, nonconformances in the states the
  release policy tells apart, and an emulator, on which the properties of identities, releases and
  the outbox are evaluated.
\<close>

definition sample_user :: User where
  "sample_user = \<lparr>us_id = ''u'', us_username = ''inspector'', us_display_name = ''I'',
     us_password_hash = ''pw'', us_enabled = True, us_failed_login_attempts = 0, us_locked_until = None\<rparr>"

definition sample_session :: AuthSession where
  "sample_session = \<lparr>se_id = ''uu'', se_user_id = ''u'', se_last_authenticated_at = 0,
     se_expires_at = 1000000, se_revoked_at = None\<rparr>"

definition sample_refresh :: RefreshToken where
  "sample_refresh = \<lparr>rt_id = ''r1'', rt_user_id = ''u'', rt_session_id = ''uu'',
     rt_token_hash = token_hash (sample_env []) ''rt'', rt_expires_at = 1000000, rt_revoked_at = None,
     rt_replaced_by_hash = None\<rparr>"

definition sample_ncr :: "string \<Rightarrow> string \<Rightarrow> string option \<Rightarrow> Nonconformance" where
  "sample_ncr i item resolution = \<lparr>nc_id = i, nc_occurrence_id = ''o1'', nc_item_id = item,
     nc_defect_type = ''crack'', nc_component_instance_id = None, nc_verdict = Pending_review,
     nc_cause_status = ''not_established'', nc_disposition = IN_PROCESS, nc_containment = REVIEW_REQUIRED,
     nc_opened_at = 1, nc_closed_at = None, nc_current_analysis_version = 1,
     nc_resolution_type = resolution, nc_resolved_at = None, nc_verification_decision_id = None,
     nc_verification_status = map_option (\<lambda>_. Verification_pending) resolution\<rparr>"

definition sample_run :: OperationRun where
  "sample_run = \<lparr>or_operation_run_id = ''run'', or_item_id = ''it2'', or_operation_id = None,
     or_operator_id = None, or_equipment_id = None, or_station_id = None, or_started_at = Some 1,
     or_finished_at = Some 2, or_completion_status = Some Completed, or_duration_value = None,
     or_duration_unit = None, or_duration_meaning = None, or_previous_operation_run_id = None,
     or_run_reason = Rework, or_rework_for_nonconformance_id = Some ''n2'', or_parameters = None\<rparr>"

definition sample_observation :: Observation where
  "sample_observation = \<lparr>ob_id = ''ob'', ob_event_id = ''e9'', ob_item_id = ''it2'',
     ob_operation_run_id = None, ob_occurred_at = 3, ob_inspection_result = No_defect,
     ob_observation_quality = Quality_good, ob_control_point_id = ''cp'', ob_confidence = None,
     ob_inspection_scope = None, ob_component_instance_id = None, ob_control_device_id = None,
     ob_capture_session_id = None, ob_evidence_refs = [], ob_trust_status = TRUSTED, ob_trust_reasons = []\<rparr>"

definition sample_quality :: db where
  "sample_quality = empty_db\<lparr>db_users := [sample_user], db_roles := [\<lparr>ro_id = ''rc'', ro_name = ''controller''\<rparr>],
     db_permissions := [\<lparr>pe_id = ''p1'', pe_name = ''ISSUE_QC_DECISION''\<rparr>,
       \<lparr>pe_id = ''p2'', pe_name = ''MANAGE_INTEGRATIONS''\<rparr>],
     db_role_permissions := [(''rc'', ''p1''), (''rc'', ''p2'')], db_user_roles := [(''u'', ''rc'')],
     db_sessions := [sample_session], db_refresh_tokens := [sample_refresh],
     db_ncrs := [sample_ncr ''n1'' ''it1'' None, sample_ncr ''n2'' ''it2'' (Some ''rework''),
       sample_ncr ''n3'' ''it'' None],
     db_runs := [sample_run], db_observations := [sample_observation],
     db_raw_events := [sample_raw ''e1'' 10 2 2],
     db_streams := [\<lparr>st_stream_id = ''source:cam'', st_last_seq = 0, st_last_mac = [], st_status = INTEGRITY_FAILED\<rparr>],
     db_uuid_draws := 3\<rparr>"

lemma sample_quality_simps [simp]:
  "db_users sample_quality = [sample_user]" "db_sessions sample_quality = [sample_session]"
  "db_refresh_tokens sample_quality = [sample_refresh]"
  "db_ncrs sample_quality = [sample_ncr ''n1'' ''it1'' None, sample_ncr ''n2'' ''it2'' (Some ''rework''),
     sample_ncr ''n3'' ''it'' None]"
  "db_runs sample_quality = [sample_run]" "db_observations sample_quality = [sample_observation]"
  "db_raw_events sample_quality = [sample_raw ''e1'' 10 2 2]" "db_decisions sample_quality = []"
  "db_quality_results sample_quality = []" "db_outbox sample_quality = []" "db_audit sample_quality = []"
  "db_streams sample_quality =
     [\<lparr>st_stream_id = ''source:cam'', st_last_seq = 0, st_last_mac = [], st_status = INTEGRITY_FAILED\<rparr>]"
  "db_uuid_draws sample_quality = 3"
  by (simp_all add: sample_quality_def empty_db_def)

lemma sample_ncr_simps [simp]:
  "nc_id (sample_ncr i j r) = i" "nc_item_id (sample_ncr i j r) = j" "nc_resolution_type (sample_ncr i j r) = r"
  by (simp_all add: sample_ncr_def)

abbreviation sample_E :: env where "sample_E \<equiv> sample_env []"

abbreviation sample_credentials :: "(string \<times> string) option" where
  "sample_credentials \<equiv> Some (''Bearer'', ''u/uu'')"

lemma sample_claims: "token_claims (sample_env docs) now ''u/uu'' = Some (''u'', ''uu'')"
  by (simp add: token_claims_def sample_env_def)

lemma sample_permissions: "permissions_for_user sample_quality ''u'' = [''ISSUE_QC_DECISION'', ''MANAGE_INTEGRATIONS'']"
  by (simp add: permissions_for_user_def roles_of_def sample_quality_def empty_db_def)

definition sample_principal :: Principal where
  "sample_principal = \<lparr>pr_user_id = ''u'', pr_username = ''inspector'', pr_session_id = ''uu'',
     pr_permissions = [''ISSUE_QC_DECISION'', ''MANAGE_INTEGRATIONS''], pr_roles = [''controller'']\<rparr>"

lemma sample_principal: "current_principal (sample_env docs) 9 sample_credentials sample_quality = Inr sample_principal"
proof -
  have "to_lower ''Bearer'' = ''bearer''"
    by code_simp
  moreover have "role_names sample_quality ''u'' = [''controller'']"
    by (simp add: role_names_def roles_of_def sample_quality_def empty_db_def)
  ultimately show ?thesis
    by (simp add: current_principal_def sample_claims sample_user_def sample_session_def live_session_def
        sample_permissions sample_principal_def)
qed

lemma sample_gates:
  "critical_gate (sample_env docs) 9 sample_credentials ''ISSUE_QC_DECISION'' sample_quality = Inr sample_principal"
  "permission_gate (sample_env docs) 9 sample_credentials ''MANAGE_INTEGRATIONS'' sample_quality = Inr sample_principal"
  by (simp_all add: critical_gate_def permission_gate_def sample_principal require_critical_permission_def
      require_permission_def sample_session_def live_session_def minutes_def)
    (simp_all add: sample_principal_def sample_session_def)

definition sample_release :: DecisionRequest where
  "sample_release = \<lparr>dr_verdict = Confirmed, dr_disposition = RELEASED, dr_containment = NO_CONTAINMENT,
     dr_reason = ''fine''\<rparr>"

lemma sample_release_valid: "valid_decision sample_release" "exportable (dr_disposition sample_release)"
  by (simp_all add: valid_decision_def sample_release_def final_verdict_def text_between_def is_cont_def exportable_def)

text \<open>The release of the first nonconformance makes one message.\<close>

definition sample_released :: "(bytes \<times> json) list \<Rightarrow> db" where
  "sample_released docs =
     snd (decide_nonconformance (sample_env docs) 9 ''n1'' sample_release None sample_principal sample_quality)"

lemma sample_uuu: "uuid4 (sample_env docs) 3 = ''uuu''"
  by (simp add: numeral_nat)

lemma sample_no_failure: "\<not> evidence_failed ''it1'' sample_quality" "\<not> evidence_failed ''it2'' sample_quality"
  "evidence_failed ''it'' sample_quality"
  by (simp_all add: evidence_failed_def) (simp add: sample_raw_def)

lemma sample_decided:
  "fst (decide_nonconformance (sample_env docs) 9 ''n1'' sample_release None sample_principal sample_quality) =
     Inr (''uuu'', Some ''QR-uuu'')"
  "map ox_state (db_outbox (sample_released docs)) = [PENDING]"
  "map ox_message_id (db_outbox (sample_released docs)) = [''QR-uuu'']"
  "map ox_next_attempt_at (db_outbox (sample_released docs)) = [9]"
  "length (db_quality_results (sample_released docs)) = 1"
  "attempts_ok sample_settings (sample_released docs)"
  using sample_uuu [of docs]
  by (simp_all add: sample_released_def decide_nonconformance_def sample_release_valid atomically_def ncr_or_404_def
      ensure_evidence_integrity_def sample_no_failure Let_def issue_def create_result_def authorize_def
      decision_row_def new_uuid_def decided_ncr_def add_result_def drew_uuid_def attempts_ok_def)
    (simp_all add: sample_release_def final_verdict_def exportable_def)

lemma sample_results_ok: "results_ok sample_quality"
  by (simp add: results_ok_def)

lemma sample_step: "review_step (sample_env docs) sample_quality (sample_released docs)"
proof -
  have "decision_endpoint (sample_env docs) 9 sample_credentials ''n1'' sample_release None sample_quality =
      decide_nonconformance (sample_env docs) 9 ''n1'' sample_release None sample_principal sample_quality"
    by (simp add: decision_endpoint_def gated_def sample_gates)
  then show ?thesis
    unfolding sample_released_def by (metis rs_decide)
qed

lemma sample_released_ok: "results_ok (sample_released docs)"
  by (rule review_step_results_ok [OF sample_results_ok sample_step])

end
