(* ===== verification/TQ_Risk.thy ===== *)
theory TQ_Risk
  imports TQ_Release TQ_Rebuild_Effects "HOL-Library.AList"
begin

text \<open>
  Risk (\<^verbatim>\<open>backend/app/api/risk.py\<close>): the items a suspected factor may have touched, the containment
  proposal and the approvals it needs, and the invalidation of a control device with the rebuilds
  it causes. \<open>risk_ok\<close> ties every approved proposal to approvals by enough people who did not propose
  it; the last section shows that an invalidated device leaves no trusted observation behind.
\<close>

section \<open>Blast radius\<close>

record BlastRadiusRequest =
  br_factor_type :: factor_type
  br_factor_value :: string
  br_affected_from :: time
  br_affected_to :: time
  br_proposed_action :: containment
  br_rationale :: string

definition valid_blast :: "BlastRadiusRequest \<Rightarrow> bool" where
  "valid_blast b \<longleftrightarrow> text_between 1 256 (br_factor_value b) \<and> br_proposed_action b \<noteq> NO_CONTAINMENT \<and>
     text_between 3 3000 (br_rationale b) \<and> \<not> br_affected_to b < br_affected_from b"

fun parameter_key :: "factor_type \<Rightarrow> string option" where
  "parameter_key Tool_factor = Some ''tool_id''"
| "parameter_key Material_lot = Some ''material_lot_id''"
| "parameter_key Component_factor = Some ''component_instance_id''"
| "parameter_key _ = None"

definition matches :: "OperationRun \<Rightarrow> BlastRadiusRequest \<Rightarrow> bool" where
  "matches run b \<longleftrightarrow>
     (if br_factor_type b = Time_interval then True
      else if br_factor_type b = Equipment_factor then or_equipment_id run = Some (br_factor_value b)
      else
        (let params = (case or_parameters run of None \<Rightarrow> [] | Some p \<Rightarrow> p) in
         case parameter_key (br_factor_type b) of
           None \<Rightarrow> False
         | Some key \<Rightarrow> dict_get key params = JStr (br_factor_value b)))"

text \<open>The rows the two queries select; a comparison with NULL selects nothing.\<close>

definition suspect_observations :: "BlastRadiusRequest \<Rightarrow> db \<Rightarrow> Observation list" where
  "suspect_observations b d = filter (\<lambda>o'. ob_control_device_id o' = Some (br_factor_value b) \<and>
     br_affected_from b \<le> ob_occurred_at o' \<and> ob_occurred_at o' \<le> br_affected_to b) (db_observations d)"

definition suspect_runs :: "BlastRadiusRequest \<Rightarrow> db \<Rightarrow> OperationRun list" where
  "suspect_runs b d = filter (\<lambda>r. (\<exists>t. or_started_at r = Some t \<and> t \<le> br_affected_to b) \<and>
     (case or_finished_at r of None \<Rightarrow> True | Some t \<Rightarrow> br_affected_from b \<le> t) \<and> matches r b) (db_runs d)"

text \<open>
  The dictionary \<open>candidates\<close>: per item the last row that was seen, with the event or the run that
  exposed it. The order in which a query without \<open>order_by\<close> returns rows is the insertion order here.
\<close>

type_synonym exposure = "string option \<times> string option \<times> string list"

definition found :: "BlastRadiusRequest \<Rightarrow> db \<Rightarrow> (string \<times> exposure) list" where
  "found b d =
     (if br_factor_type b = Control_device
      then map (\<lambda>o'. (ob_item_id o', (Some (ob_event_id o'), ob_operation_run_id o',
             [''control_device'', br_factor_value b]))) (suspect_observations b d)
      else map (\<lambda>r. (or_item_id r, (None, Some (or_operation_run_id r),
             [factor_str (br_factor_type b), br_factor_value b]))) (suspect_runs b d))"

definition candidates :: "BlastRadiusRequest \<Rightarrow> db \<Rightarrow> (string \<times> exposure) list" where
  "candidates b d = fold (\<lambda>(i, x). AList.update i x) (found b d) []"

definition last_inspection :: "string \<Rightarrow> db \<Rightarrow> string option" where
  "last_inspection i d = map_option ob_event_id
     (max_last ob_occurred_at (filter (\<lambda>o'. ob_item_id o' = i) (db_observations d)))"

definition exposure_row ::
  "uuid \<Rightarrow> uuid \<Rightarrow> BlastRadiusRequest \<Rightarrow> string option \<Rightarrow> string \<times> exposure \<Rightarrow> BlastRadiusExposure" where
  "exposure_row i query b inspected x = (case x of (item, event, run, path) \<Rightarrow>
     \<lparr>bx_id = i, bx_query_id = query, bx_item_id = item, bx_relationship_path = path,
      bx_exposure_event_id = event, bx_operation_run_id = run,
      bx_last_inspection_event_id = inspected, bx_proposed_action = br_proposed_action b\<rparr>)"

definition add_exposure ::
  "env \<Rightarrow> uuid \<Rightarrow> BlastRadiusRequest \<Rightarrow> string \<times> exposure \<Rightarrow> db \<Rightarrow> db" where
  "add_exposure E query b x d = drew_uuid (d\<lparr>db_exposures := db_exposures d @
     [exposure_row (new_uuid E d) query b (last_inspection (fst x) d) x]\<rparr>)"

definition add_query :: "env \<Rightarrow> BlastRadiusRequest \<Rightarrow> Principal \<Rightarrow> db \<Rightarrow> db" where
  "add_query E b p d = drew_uuid (d\<lparr>db_queries := db_queries d @
     [\<lparr>bq_id = new_uuid E d, bq_factor_type = br_factor_type b, bq_factor_value = br_factor_value b,
       bq_affected_from = br_affected_from b, bq_affected_to = br_affected_to b,
       bq_requested_by = pr_user_id p\<rparr>]\<rparr>)"

definition add_proposal :: "env \<Rightarrow> time \<Rightarrow> uuid \<Rightarrow> BlastRadiusRequest \<Rightarrow> Principal \<Rightarrow> db \<Rightarrow> db" where
  "add_proposal E now query b p d = drew_uuid (d\<lparr>db_proposals := db_proposals d @
     [\<lparr>cp_id = new_uuid E d, cp_nonconformance_id = None, cp_blast_radius_query_id = Some query,
       cp_proposed_by = pr_user_id p, cp_containment = br_proposed_action b,
       cp_rationale = br_rationale b, cp_status = Proposal_pending, cp_reviewed_by = None,
       cp_review_reason = None, cp_created_at = now, cp_reviewed_at = None\<rparr>]\<rparr>)"

definition approvals_required :: "Settings \<Rightarrow> nat \<Rightarrow> int" where
  "approvals_required S n = (if mass_containment_threshold S \<le> int n then 2 else 1)"

definition add_approval_request ::
  "env \<Rightarrow> uuid \<Rightarrow> int \<Rightarrow> BlastRadiusRequest \<Rightarrow> Principal \<Rightarrow> db \<Rightarrow> db" where
  "add_approval_request E proposal required b p d = drew_uuid (d\<lparr>db_approvals := db_approvals d @
     [\<lparr>aq_id = new_uuid E d,
       aq_action_type = (if required = 2 then ''MASS_CONTAINMENT'' else ''CONTAINMENT''),
       aq_target_type = ''containment_proposal'', aq_target_id = proposal,
       aq_requester_id = pr_user_id p, aq_required_approvals = required, aq_approvals = [],
       aq_status = Approval_pending, aq_reason = br_rationale b, aq_completed_at = None\<rparr>]\<rparr>)"

record BlastRadiusResponse =
  bs_query_id :: uuid
  bs_proposal_id :: uuid
  bs_approval_request_id :: uuid
  bs_affected_items :: "string list"
  bs_required_approvals :: int

definition blast_radius ::
  "env \<Rightarrow> Settings \<Rightarrow> time \<Rightarrow> BlastRadiusRequest \<Rightarrow> string option \<Rightarrow> Principal \<Rightarrow> db \<Rightarrow>
   BlastRadiusResponse result \<times> db" where
  "blast_radius E S now b request_id p = atomically (\<lambda>d.
     if \<not> valid_blast b then Inl invalid_request else
     let query = new_uuid E d;
         affected = sort_key fst (candidates b d);
         d1 = fold (add_exposure E query b) affected (add_query E b p d);
         required = approvals_required S (length affected);
         d2 = add_proposal E now query b p d1;
         d3 = add_approval_request E (new_uuid E d1) required b p d2 in
     Inr (\<lparr>bs_query_id = query, bs_proposal_id = new_uuid E d1, bs_approval_request_id = new_uuid E d2,
           bs_affected_items = map fst affected, bs_required_approvals = required\<rparr>,
       write_audit ''containment_proposal'' ''pending'' (acting p ''blast_radius'' query request_id)
         (JObj [(''affected_items'', JInt (int (length affected))),
                (''required_approvals'', JInt required)]) d3))"

section \<open>Approvals\<close>

definition is_complete :: "ApprovalRequest \<Rightarrow> bool" where
  "is_complete a \<longleftrightarrow> aq_required_approvals a \<le> int (length (aq_approvals a))"

definition with_approval :: "env \<Rightarrow> time \<Rightarrow> string \<Rightarrow> Principal \<Rightarrow> ApprovalRequest \<Rightarrow> ApprovalRequest" where
  "with_approval E now reason p a =
     (let a' = a\<lparr>aq_approvals := aq_approvals a @
            [\<lparr>ap_user_id = pr_user_id p, ap_reason = reason, ap_at = isoformat E now\<rparr>]\<rparr> in
      if is_complete a' then a'\<lparr>aq_status := Approval_approved, aq_completed_at := Some now\<rparr> else a')"

definition approve_proposal :: "time \<Rightarrow> string \<Rightarrow> Principal \<Rightarrow> uuid \<Rightarrow> db \<Rightarrow> db" where
  "approve_proposal now reason p i d = d\<lparr>db_proposals := update_by cp_id i
     (\<lambda>cp. cp\<lparr>cp_status := Proposal_approved, cp_reviewed_by := Some (pr_user_id p),
        cp_review_reason := Some reason, cp_reviewed_at := Some now\<rparr>) (db_proposals d)\<rparr>"

definition put_approval :: "ApprovalRequest \<Rightarrow> db \<Rightarrow> db" where
  "put_approval a d = d\<lparr>db_approvals := update_by aq_id (aq_id a) (\<lambda>_. a) (db_approvals d)\<rparr>"

text \<open>Once complete, the proposal named by the request is approved too, if there is one.\<close>

definition finish_approval ::
  "env \<Rightarrow> time \<Rightarrow> string \<Rightarrow> Principal \<Rightarrow> ApprovalRequest \<Rightarrow> db \<Rightarrow> db result" where
  "finish_approval E now reason p a d =
     (if is_complete a
      then (case parse_uuid E (aq_target_id a) of
              None \<Rightarrow> Inl (PyError ''ValueError'')
            | Some i \<Rightarrow> Inr (approve_proposal now reason p i d))
      else Inr d)"

definition approve ::
  "env \<Rightarrow> time \<Rightarrow> uuid \<Rightarrow> string \<Rightarrow> string option \<Rightarrow> Principal \<Rightarrow> db \<Rightarrow>
   (approval_status \<times> nat \<times> int) result \<times> db" where
  "approve E now approval_id reason request_id p = atomically (\<lambda>d.
     if \<not> text_between 3 3000 reason then Inl invalid_request else
     (case find_by aq_id approval_id (db_approvals d) of
        None \<Rightarrow> Inl (NotFoundError ''Approval request'')
      | Some a \<Rightarrow>
          if aq_status a \<noteq> Approval_pending
            then Inl (TraceQError ''APPROVAL_ALREADY_COMPLETE'' ''Approval request is not pending'' 409)
          else if aq_requester_id a = pr_user_id p
            then Inl (TraceQError ''SEPARATION_OF_DUTIES'' ''Requester cannot approve this action'' 403)
          else if list_ex (\<lambda>row. ap_user_id row = pr_user_id p) (aq_approvals a)
            then Inl (TraceQError ''DUPLICATE_APPROVAL'' ''This user already approved'' 409)
          else
            (let a' = with_approval E now reason p a in
             rbind (finish_approval E now reason p a' (put_approval a' d)) (\<lambda>d'.
             Inr ((aq_status a', length (aq_approvals a'), aq_required_approvals a'),
               write_audit ''containment_approval'' (to_lower (approval_status_str (aq_status a')))
                 (acting p ''approval_request'' (aq_id a) request_id) JNull d')))))"

section \<open>Invalidation of a control device\<close>

record InvalidationInput =
  vi_device_id :: string
  vi_affected_from :: time
  vi_affected_to :: time
  vi_reason :: string
  vi_invalidation_type :: "string option"
  vi_supporting_evidence_refs :: "string list"

definition valid_invalidation :: "InvalidationInput \<Rightarrow> bool" where
  "valid_invalidation b \<longleftrightarrow> text_between 1 128 (vi_device_id b) \<and> text_between 3 2000 (vi_reason b) \<and>
     (case vi_invalidation_type b of None \<Rightarrow> True | Some t \<Rightarrow> py_len t \<le> 64) \<and>
     length (vi_supporting_evidence_refs b) \<le> 100"

definition hit :: "InvalidationInput \<Rightarrow> Observation \<Rightarrow> bool" where
  "hit b o' \<longleftrightarrow> ob_control_device_id o' = Some (vi_device_id b) \<and>
     vi_affected_from b \<le> ob_occurred_at o' \<and> ob_occurred_at o' \<le> vi_affected_to b"

definition hit_items :: "InvalidationInput \<Rightarrow> db \<Rightarrow> string list" where
  "hit_items b d = sort (remdups (map ob_item_id (filter (hit b) (db_observations d))))"

definition add_invalidation :: "InvalidationInput \<Rightarrow> Principal \<Rightarrow> db \<Rightarrow> db" where
  "add_invalidation b p d = drew_uuid (d\<lparr>db_invalidations := db_invalidations d @
     [\<lparr>ci_source_event_id = None, ci_device_id = vi_device_id b, ci_affected_from = vi_affected_from b,
       ci_affected_to = vi_affected_to b, ci_reason = vi_reason b,
       ci_invalidation_type = vi_invalidation_type b,
       ci_supporting_evidence_refs = vi_supporting_evidence_refs b,
       ci_created_by_user_id = Some (pr_user_id p)\<rparr>]\<rparr>)"

text \<open>
  Every rebuild commits, with it what the session has pending: an exception in a later rebuild rolls
  back to the state the last rebuild left.
\<close>

fun rebuild_all :: "env \<Rightarrow> Settings \<Rightarrow> time \<Rightarrow> string list \<Rightarrow> db \<Rightarrow> db \<Rightarrow> db result \<times> db" where
  "rebuild_all E S now [] committed pending = (Inr pending, committed)"
| "rebuild_all E S now (i # items) committed pending =
     (case rebuild_item E S now i pending of
        (Inl e, _) \<Rightarrow> (Inl e, committed)
      | (Inr _, d') \<Rightarrow> rebuild_all E S now items d' d')"

definition invalidate_device ::
  "env \<Rightarrow> Settings \<Rightarrow> time \<Rightarrow> InvalidationInput \<Rightarrow> string option \<Rightarrow> Principal \<Rightarrow> db \<Rightarrow>
   (uuid \<times> string list) result \<times> db" where
  "invalidate_device E S now b request_id p d =
     (if \<not> valid_invalidation b then (Inl invalid_request, d)
      else
        (let items = hit_items b d in
         case rebuild_all E S now items d (add_invalidation b p d) of
           (Inl e, committed) \<Rightarrow> (Inl e, committed)
         | (Inr d', _) \<Rightarrow>
             (Inr (new_uuid E d, items),
              write_audit ''control_device_invalidation'' ''success''
                (acting p ''control_device'' (vi_device_id b) request_id)
                (JObj [(''affected_items'', JArr (map JStr items)), (''reason'', JStr (vi_reason b))]) d')))"

section \<open>The endpoints\<close>

definition blast_endpoint where
  "blast_endpoint E S now c b r = gated (permission_gate E now c ''RUN_BLAST_RADIUS'') (blast_radius E S now b r)"

definition approve_endpoint where
  "approve_endpoint E now c i reason r =
     gated (critical_gate E now c ''APPROVE_CONTAINMENT'') (approve E now i reason r)"

definition invalidation_endpoint where
  "invalidation_endpoint E S now c b r =
     gated (critical_gate E now c ''INVALIDATE_CONTROL_DEVICE'') (invalidate_device E S now b r)"

section \<open>What an analysis exposes\<close>

lemma keys_candidates: "set (map fst (candidates b d)) = set (map fst (found b d))"
proof -
  have keys: "fst ` set (AList.update k v al) = insert k (fst ` set al)" for k v and al :: "(string \<times> exposure) list"
    using arg_cong [OF AList.update_keys [of k v al], of set] by (auto split: if_splits)
  have "fst ` set (fold (\<lambda>(i, x). AList.update i x) xs al) = fst ` set al \<union> fst ` set xs"
    for xs and al :: "(string \<times> exposure) list"
  proof (induction xs arbitrary: al)
    case (Cons x xs)
    then show ?case by (cases x) (simp add: keys)
  qed simp
  then show ?thesis
    by (simp add: candidates_def)
qed

lemma distinct_candidates: "distinct (map fst (candidates b d))"
proof -
  have "distinct (map fst al) \<Longrightarrow> distinct (map fst (fold (\<lambda>(i, x). AList.update i x) xs al))"
    for xs and al :: "(string \<times> exposure) list"
    by (induction xs arbitrary: al) (auto intro: AList.distinct_update)
  then show ?thesis
    by (simp add: candidates_def)
qed

definition exposures_of :: "uuid \<Rightarrow> db \<Rightarrow> BlastRadiusExposure list" where
  "exposures_of query d = filter (\<lambda>x. bx_query_id x = query) (db_exposures d)"

lemma exposure_row_fields [simp]:
  "bx_item_id (exposure_row i query b l x) = fst x" "bx_query_id (exposure_row i query b l x) = query"
  by (simp_all add: exposure_row_def split: prod.split)

lemma add_exposures:
  "\<exists>rows. fold (add_exposure E query b) xs d =
     d\<lparr>db_exposures := db_exposures d @ rows, db_uuid_draws := db_uuid_draws d + length xs\<rparr> \<and>
     map bx_item_id rows = map fst xs \<and> (\<forall>x \<in> set rows. bx_query_id x = query)"
proof (induction xs arbitrary: d)
  case Nil
  then show ?case by (intro exI [of _ "[]"]) simp
next
  case (Cons x xs)
  obtain rows where "fold (add_exposure E query b) xs (add_exposure E query b x d) =
      (add_exposure E query b x d)\<lparr>db_exposures := db_exposures (add_exposure E query b x d) @ rows,
        db_uuid_draws := db_uuid_draws (add_exposure E query b x d) + length xs\<rparr>"
    "map bx_item_id rows = map fst xs" "\<forall>x \<in> set rows. bx_query_id x = query"
    using Cons.IH by blast
  then show ?case
    by (intro exI [of _ "exposure_row (new_uuid E d) query b (last_inspection (fst x) d) x # rows"])
      (simp, simp add: add_exposure_def drew_uuid_def)
qed

text \<open>The tables a risk analysis adds to, in full.\<close>

lemma blast_radius_effect:
  assumes "blast_radius E S now b r p d = (Inr resp, d')"
  obtains rows cp aq where
    "db_exposures d' = db_exposures d @ rows" "map bx_item_id rows = bs_affected_items resp"
    "\<forall>x \<in> set rows. bx_query_id x = new_uuid E d"
    "bs_query_id resp = new_uuid E d" "bs_affected_items resp = map fst (sort_key fst (candidates b d))"
    "db_queries d' = db_queries d @ [\<lparr>bq_id = new_uuid E d, bq_factor_type = br_factor_type b,
       bq_factor_value = br_factor_value b, bq_affected_from = br_affected_from b,
       bq_affected_to = br_affected_to b, bq_requested_by = pr_user_id p\<rparr>]"
    "db_proposals d' = db_proposals d @ [cp]" "cp_id cp = uuid4 E (db_uuid_draws d + 1 + length rows)"
    "cp_nonconformance_id cp = None" "cp_blast_radius_query_id cp = Some (new_uuid E d)"
    "cp_proposed_by cp = pr_user_id p" "cp_status cp = Proposal_pending"
    "db_approvals d' = db_approvals d @ [aq]" "aq_id aq = uuid4 E (db_uuid_draws d + 2 + length rows)"
    "aq_target_id aq = cp_id cp" "aq_requester_id aq = pr_user_id p"
    "aq_required_approvals aq = approvals_required S (length rows)" "aq_approvals aq = []"
    "aq_status aq = Approval_pending" "db_uuid_draws d' = db_uuid_draws d + 3 + length rows"
    "bs_proposal_id resp = cp_id cp" "bs_approval_request_id resp = aq_id aq"
    "bs_required_approvals resp = aq_required_approvals aq"
    "db_items d' = db_items d" "db_ncrs d' = db_ncrs d" "valid_blast b"
proof -
  let ?xs = "sort_key fst (candidates b d)" and ?d0 = "add_query E b p d"
  obtain rows where rows: "fold (add_exposure E (new_uuid E d) b) ?xs ?d0 =
     ?d0\<lparr>db_exposures := db_exposures ?d0 @ rows, db_uuid_draws := db_uuid_draws ?d0 + length ?xs\<rparr>"
    "map bx_item_id rows = map fst ?xs" "\<forall>x \<in> set rows. bx_query_id x = new_uuid E d"
    using add_exposures by blast
  have n: "length ?xs = length rows"
    using arg_cong [OF rows(2), of length] by simp
  have v: "valid_blast b"
    using assms by (auto simp: blast_radius_def atomically_def split: if_splits)
  define d1 where "d1 = ?d0\<lparr>db_exposures := db_exposures ?d0 @ rows, db_uuid_draws := db_uuid_draws ?d0 + length rows\<rparr>"
  have d1: "db_exposures d1 = db_exposures d @ rows" "db_uuid_draws d1 = db_uuid_draws d + 1 + length rows"
    "db_proposals d1 = db_proposals d" "db_approvals d1 = db_approvals d" "db_items d1 = db_items d"
    "db_ncrs d1 = db_ncrs d" "db_queries d1 = db_queries d @ [\<lparr>bq_id = new_uuid E d, bq_factor_type = br_factor_type b,
       bq_factor_value = br_factor_value b, bq_affected_from = br_affected_from b,
       bq_affected_to = br_affected_to b, bq_requested_by = pr_user_id p\<rparr>]"
    by (simp_all add: d1_def add_query_def drew_uuid_def)
  have "fold (add_exposure E (new_uuid E d) b) ?xs ?d0 = d1"
    unfolding rows(1) d1_def n ..
  then have r: "resp = \<lparr>bs_query_id = new_uuid E d, bs_proposal_id = new_uuid E d1,
      bs_approval_request_id = new_uuid E (add_proposal E now (new_uuid E d) b p d1),
      bs_affected_items = map fst ?xs, bs_required_approvals = approvals_required S (length rows)\<rparr>"
    and d': "\<exists>c j. d' = write_audit ''containment_proposal'' ''pending'' c j
      (add_approval_request E (new_uuid E d1) (approvals_required S (length rows)) b p
        (add_proposal E now (new_uuid E d) b p d1))"
    using assms v by (auto simp: blast_radius_def atomically_def Let_def n [unfolded length_sort])
  from d' obtain c j where d': "d' = write_audit ''containment_proposal'' ''pending'' c j
      (add_approval_request E (new_uuid E d1) (approvals_required S (length rows)) b p
        (add_proposal E now (new_uuid E d) b p d1))" by blast
  show thesis
    by (rule that [of rows])
      (simp_all add: r d' d1 rows(2,3) v write_audit_def add_approval_request_def add_proposal_def drew_uuid_def,
       simp_all add: new_uuid_def d1)
qed

text \<open>The items a factor exposed.\<close>

definition exposed :: "BlastRadiusRequest \<Rightarrow> db \<Rightarrow> string \<Rightarrow> bool" where
  "exposed b d i \<longleftrightarrow>
     (if br_factor_type b = Control_device then \<exists>o' \<in> set (suspect_observations b d). ob_item_id o' = i
      else \<exists>r \<in> set (suspect_runs b d). or_item_id r = i)"

lemma blast_radius_exposes:
  assumes "blast_radius E S now b r p d = (Inr resp, d')"
  shows "set (bs_affected_items resp) = {i. exposed b d i}" and "sorted (bs_affected_items resp)"
    and "distinct (bs_affected_items resp)"
proof -
  have a: "bs_affected_items resp = map fst (sort_key fst (candidates b d))"
    using assms by (rule blast_radius_effect)
  show "set (bs_affected_items resp) = {i. exposed b d i}"
    using keys_candidates [of b d] by (auto simp: a exposed_def found_def image_iff split: if_splits)
  show "sorted (bs_affected_items resp)" "distinct (bs_affected_items resp)"
    using distinct_candidates [of b d] by (simp_all add: a distinct_map)
qed

section \<open>Containment needs enough approvals\<close>

text \<open>The approvals of a request are by different people, and none of them asked for it.\<close>

definition approvers_ok :: "ApprovalRequest \<Rightarrow> bool" where
  "approvers_ok a \<longleftrightarrow> distinct (map ap_user_id (aq_approvals a)) \<and>
     aq_requester_id a \<notin> ap_user_id ` set (aq_approvals a) \<and>
     (aq_status a = Approval_approved \<longrightarrow> is_complete a)"

text \<open>The proposal a request is about, with the number of approvals its reach calls for.\<close>

definition asks_for :: "Settings \<Rightarrow> db \<Rightarrow> ApprovalRequest \<Rightarrow> ContainmentProposal \<Rightarrow> bool" where
  "asks_for S d a cp \<longleftrightarrow> cp_id cp = aq_target_id a \<and> cp_proposed_by cp = aq_requester_id a \<and>
     (\<exists>q. cp_blast_radius_query_id cp = Some q \<and>
        aq_required_approvals a = approvals_required S (length (exposures_of q d)))"

definition risk_proposals :: "db \<Rightarrow> ContainmentProposal list" where
  "risk_proposals d = filter (\<lambda>cp. cp_blast_radius_query_id cp \<noteq> None) (db_proposals d)"

definition backed_proposal :: "Settings \<Rightarrow> db \<Rightarrow> ContainmentProposal \<Rightarrow> bool" where
  "backed_proposal S d cp \<longleftrightarrow> cp_nonconformance_id cp = None \<and>
     (cp_status cp = Proposal_approved \<longrightarrow>
        (\<exists>a \<in> set (db_approvals d). aq_status a = Approval_approved \<and> asks_for S d a cp))"

definition risk_ids :: "env \<Rightarrow> db \<Rightarrow> bool" where
  "risk_ids E d \<longleftrightarrow> distinct (map cp_id (db_proposals d)) \<and> cp_id ` set (db_proposals d) \<subseteq> drawn E d \<and>
     distinct (map aq_id (db_approvals d)) \<and> aq_id ` set (db_approvals d) \<subseteq> drawn E d \<and>
     bx_query_id ` set (db_exposures d) \<subseteq> drawn E d \<and>
     (\<forall>cp \<in> set (db_proposals d). \<forall>q. cp_blast_radius_query_id cp = Some q \<longrightarrow> q \<in> drawn E d)"

definition risk_ok :: "env \<Rightarrow> Settings \<Rightarrow> db \<Rightarrow> bool" where
  "risk_ok E S d \<longleftrightarrow> inj (uuid4 E) \<and> (\<forall>n. parse_uuid E (uuid4 E n) = Some (uuid4 E n)) \<and> risk_ids E d \<and>
     (\<forall>a \<in> set (db_approvals d). approvers_ok a \<and> (\<exists>cp \<in> set (db_proposals d). asks_for S d a cp)) \<and>
     (\<forall>cp \<in> set (risk_proposals d). backed_proposal S d cp)"

lemma risk_okD:
  assumes "risk_ok E S d"
  shows "inj (uuid4 E)" and "parse_uuid E (uuid4 E n) = Some (uuid4 E n)" and "risk_ids E d"
    and "a \<in> set (db_approvals d) \<Longrightarrow> approvers_ok a"
    and "a \<in> set (db_approvals d) \<Longrightarrow> \<exists>cp \<in> set (db_proposals d). asks_for S d a cp"
    and "cp \<in> set (risk_proposals d) \<Longrightarrow> backed_proposal S d cp"
  using assms by (auto simp: risk_ok_def)

text \<open>Nothing but the tables above matters, and proposals about nonconformances do not.\<close>

lemma asks_for_same: "db_exposures d' = db_exposures d \<Longrightarrow> asks_for S d' a cp = asks_for S d a cp"
  by (simp add: asks_for_def exposures_of_def)

lemma asks_for_risk: "asks_for S d a cp \<Longrightarrow> cp \<in> set (db_proposals d) \<Longrightarrow> cp \<in> set (risk_proposals d)"
  by (auto simp: asks_for_def risk_proposals_def)

lemma risk_ok_frame:
  assumes ok: "risk_ok E S d" and "db_exposures d' = db_exposures d" "db_approvals d' = db_approvals d"
    and p: "risk_proposals d' = risk_proposals d" and "distinct (map cp_id (db_proposals d'))"
    and "cp_id ` set (db_proposals d') \<subseteq> drawn E d'" and "db_uuid_draws d \<le> db_uuid_draws d'"
  shows "risk_ok E S d'"
proof -
  have "q \<in> drawn E d'" if "cp \<in> set (db_proposals d')" "cp_blast_radius_query_id cp = Some q" for cp q
  proof -
    have "cp \<in> set (risk_proposals d)"
      using that by (simp add: p [symmetric]) (simp add: risk_proposals_def)
    then have "cp \<in> set (db_proposals d)"
      by (simp add: risk_proposals_def)
    then show ?thesis
      using risk_okD(3) [OF ok] that(2) drawn_grows [OF assms(7), of E] by (auto simp: risk_ids_def)
  qed
  then have "risk_ids E d'"
    using risk_okD(3) [OF ok] assms(2,3,5,6) drawn_grows [OF assms(7), of E] by (auto simp: risk_ids_def)
  moreover have "\<exists>cp \<in> set (db_proposals d'). asks_for S d' a cp" if at: "a \<in> set (db_approvals d')" for a
  proof -
    obtain cp where cp: "cp \<in> set (db_proposals d)" "asks_for S d a cp"
      using risk_okD(5) [OF ok, of a] at assms(3) by auto
    then have "cp \<in> set (risk_proposals d')"
      using asks_for_risk p by simp
    then show ?thesis
      using cp(2) asks_for_same [OF assms(2)] by (auto simp: risk_proposals_def)
  qed
  ultimately show ?thesis
    using risk_okD(1,2,4,6) [OF ok] assms(3) p asks_for_same [OF assms(2)]
    by (simp add: risk_ok_def backed_proposal_def)
qed

lemma blast_radius_ok:
  assumes bl: "blast_radius E S now b r p d = (res, d')" and ok: "risk_ok E S d"
  shows "risk_ok E S d'"
proof (cases res)
  case (Inl e)
  then show ?thesis
    using assms by (auto simp: blast_radius_def dest: atomically_Inl)
next
  case (Inr resp)
  with bl have "blast_radius E S now b r p d = (Inr resp, d')" by simp
  then show ?thesis
  proof (rule blast_radius_effect)
    fix rows cp aq
    let ?q = "new_uuid E d"
    assume x: "db_exposures d' = db_exposures d @ rows" "\<forall>x \<in> set rows. bx_query_id x = ?q"
      and c: "db_proposals d' = db_proposals d @ [cp]" "cp_id cp = uuid4 E (db_uuid_draws d + 1 + length rows)"
        "cp_nonconformance_id cp = None" "cp_blast_radius_query_id cp = Some ?q"
        "cp_proposed_by cp = pr_user_id p" "cp_status cp = Proposal_pending"
      and a: "db_approvals d' = db_approvals d @ [aq]" "aq_id aq = uuid4 E (db_uuid_draws d + 2 + length rows)"
        "aq_target_id aq = cp_id cp" "aq_requester_id aq = pr_user_id p"
        "aq_required_approvals aq = approvals_required S (length rows)" "aq_approvals aq = []"
        "aq_status aq = Approval_pending"
      and n: "db_uuid_draws d' = db_uuid_draws d + 3 + length rows"
    have fresh: "uuid4 E (db_uuid_draws d + k) \<notin> drawn E d" for k
      using risk_okD(1) [OF ok] by (auto simp: drawn_def dest: injD)
    have new: "uuid4 E (db_uuid_draws d + k) \<in> drawn E d'" if "k < 3 + length rows" for k
      using that n by (auto simp: drawn_def)
    have sub: "drawn E d \<subseteq> drawn E d'"
      using n by (intro drawn_grows) simp
    have q: "?q = uuid4 E (db_uuid_draws d + 0)"
      by (simp add: new_uuid_def)
    have ids: "risk_ids E d'"
    proof -
      have "cp_id cp \<notin> drawn E d" "aq_id aq \<notin> drawn E d"
        using fresh [of "1 + length rows"] fresh [of "2 + length rows"] by (simp_all add: c(2) a(2) add.assoc)
      then have "cp_id cp \<notin> cp_id ` set (db_proposals d)" "aq_id aq \<notin> aq_id ` set (db_approvals d)"
        using risk_okD(3) [OF ok] by (auto simp: risk_ids_def)
      moreover have "cp_id cp \<in> drawn E d'" "aq_id aq \<in> drawn E d'" "?q \<in> drawn E d'"
        using new [of "1 + length rows"] new [of "2 + length rows"] new [of 0]
        by (simp_all add: c(2) a(2) q add.assoc)
      ultimately show ?thesis
        using risk_okD(3) [OF ok] sub x(2) by (auto simp: risk_ids_def x(1) c(1,4) a(1))
    qed
    have none: "exposures_of ?q d = []"
      using risk_okD(3) [OF ok] fresh [of 0] by (auto simp: exposures_of_def filter_empty_conv risk_ids_def q)
    have same: "exposures_of u d' = exposures_of u d" if "u \<in> drawn E d" for u
      using that x(2) fresh [of 0] by (auto simp: exposures_of_def x(1) filter_empty_conv q)
    have grow: "exposures_of ?q d' = rows"
      using none x(2) by (simp add: exposures_of_def x(1) filter_True)
    have asks: "asks_for S d' a' cp'" if "asks_for S d a' cp'" "cp' \<in> set (db_proposals d)" for a' cp'
      using that risk_okD(3) [OF ok] same by (auto simp: asks_for_def risk_ids_def)
    have "asks_for S d' aq cp"
      using a c grow by (auto simp: asks_for_def)
    moreover have "approvers_ok aq"
      by (simp add: approvers_ok_def a)
    moreover have "backed_proposal S d' cp"
      by (simp add: backed_proposal_def c)
    moreover have "backed_proposal S d' cp'" if "cp' \<in> set (risk_proposals d)" for cp'
      using risk_okD(6) [OF ok that] asks that by (auto simp: backed_proposal_def a(1) risk_proposals_def)
    moreover have "risk_proposals d' = risk_proposals d @ [cp]"
      by (simp add: risk_proposals_def c)
    moreover have "\<exists>cp \<in> set (db_proposals d'). asks_for S d' a' cp" if "a' \<in> set (db_approvals d)" for a'
      using risk_okD(5) [OF ok that] asks by (auto simp: c(1))
    ultimately show ?thesis
      using ids risk_okD(1,2,4) [OF ok] by (auto simp: risk_ok_def a(1) c(1))
  qed
qed

text \<open>An approval: the request gains a new approver, and a complete one takes its proposal along.\<close>

lemma with_approval_fields [simp]:
  "aq_id (with_approval E now reason p a) = aq_id a"
  "aq_target_id (with_approval E now reason p a) = aq_target_id a"
  "aq_requester_id (with_approval E now reason p a) = aq_requester_id a"
  "aq_required_approvals (with_approval E now reason p a) = aq_required_approvals a"
  by (simp_all add: with_approval_def Let_def)

lemma with_approval_users:
  "map ap_user_id (aq_approvals (with_approval E now reason p a)) = map ap_user_id (aq_approvals a) @ [pr_user_id p]"
  by (simp add: with_approval_def Let_def)

lemma with_approval_status:
  "aq_status a = Approval_pending \<Longrightarrow>
     aq_status (with_approval E now reason p a) = Approval_approved \<longleftrightarrow> is_complete (with_approval E now reason p a)"
  by (simp add: with_approval_def Let_def is_complete_def)

lemma approve_effect:
  assumes "approve E now i reason r p d = (Inr resp, d')"
  obtains a where "find_by aq_id i (db_approvals d) = Some a" "aq_status a = Approval_pending"
    "aq_requester_id a \<noteq> pr_user_id p" "pr_user_id p \<notin> ap_user_id ` set (aq_approvals a)"
    "db_approvals d' = update_by aq_id i (\<lambda>_. with_approval E now reason p a) (db_approvals d)"
    "db_proposals d' = (if is_complete (with_approval E now reason p a)
       then update_by cp_id (the (parse_uuid E (aq_target_id a)))
         (\<lambda>cp. cp\<lparr>cp_status := Proposal_approved, cp_reviewed_by := Some (pr_user_id p),
            cp_review_reason := Some reason, cp_reviewed_at := Some now\<rparr>) (db_proposals d)
       else db_proposals d)"
    "is_complete (with_approval E now reason p a) \<Longrightarrow> parse_uuid E (aq_target_id a) \<noteq> None"
    "db_exposures d' = db_exposures d" "db_uuid_draws d' = db_uuid_draws d"
proof -
  obtain a where a: "find_by aq_id i (db_approvals d) = Some a"
    using assms by (auto simp: approve_def atomically_def split: option.splits if_splits)
  have c: "aq_status a = Approval_pending" "aq_requester_id a \<noteq> pr_user_id p"
    "\<not> list_ex (\<lambda>row. ap_user_id row = pr_user_id p) (aq_approvals a)" "text_between 3 3000 reason"
    using assms by (auto simp: approve_def atomically_def a split: if_splits)
  let ?a = "with_approval E now reason p a"
  have i: "aq_id a = i"
    using find_by_SomeD [OF a] by simp
  obtain d1 y where d1: "finish_approval E now reason p ?a (put_approval ?a d) = Inr d1"
    and d': "d' = write_audit ''containment_approval'' (to_lower (approval_status_str (aq_status ?a))) y JNull d1"
    using assms c a by (cases "finish_approval E now reason p ?a (put_approval ?a d)")
      (auto simp: approve_def atomically_def Let_def)
  have "d1 = (if is_complete ?a then approve_proposal now reason p (the (parse_uuid E (aq_target_id a)))
      (put_approval ?a d) else put_approval ?a d)" "is_complete ?a \<Longrightarrow> parse_uuid E (aq_target_id a) \<noteq> None"
    using d1 by (auto simp: finish_approval_def split: if_splits option.splits)
  then show thesis
    using a c by (intro that [OF a]) (auto simp: d' write_audit_def approve_proposal_def put_approval_def i list_ex_iff)
qed

lemma approvers_ok_add:
  assumes "approvers_ok a" and "aq_status a = Approval_pending" "aq_requester_id a \<noteq> pr_user_id p"
    and "pr_user_id p \<notin> ap_user_id ` set (aq_approvals a)"
  shows "approvers_ok (with_approval E now reason p a)"
proof -
  let ?a = "with_approval E now reason p a"
  have "ap_user_id ` set (aq_approvals ?a) = insert (pr_user_id p) (ap_user_id ` set (aq_approvals a))"
    using arg_cong [OF with_approval_users, of set] by simp
  then show ?thesis
    using assms with_approval_status [OF assms(2)] by (simp add: approvers_ok_def with_approval_users)
qed

lemma approve_ok:
  assumes ap: "approve E now i reason r p d = (res, d')" and ok: "risk_ok E S d"
  shows "risk_ok E S d'"
proof (cases res)
  case (Inl e)
  then show ?thesis
    using assms by (auto simp: approve_def dest: atomically_Inl)
next
  case (Inr resp)
  with ap have "approve E now i reason r p d = (Inr resp, d')" by simp
  then show ?thesis
  proof (rule approve_effect)
    fix a
    let ?a = "with_approval E now reason p a"
    let ?f = "\<lambda>cp. cp\<lparr>cp_status := Proposal_approved, cp_reviewed_by := Some (pr_user_id p),
            cp_review_reason := Some reason, cp_reviewed_at := Some now\<rparr> :: ContainmentProposal"
    assume a: "find_by aq_id i (db_approvals d) = Some a" and pend: "aq_status a = Approval_pending"
      and new: "aq_requester_id a \<noteq> pr_user_id p" "pr_user_id p \<notin> ap_user_id ` set (aq_approvals a)"
      and aps: "db_approvals d' = update_by aq_id i (\<lambda>_. ?a) (db_approvals d)"
      and prs: "db_proposals d' = (if is_complete ?a
         then update_by cp_id (the (parse_uuid E (aq_target_id a))) ?f (db_proposals d) else db_proposals d)"
      and x: "db_exposures d' = db_exposures d" and n: "db_uuid_draws d' = db_uuid_draws d"
    have mem: "a \<in> set (db_approvals d)" and i: "aq_id a = i"
      using find_by_SomeD [OF a] by auto
    obtain t where t: "t \<in> set (db_proposals d)" "asks_for S d a t"
      using risk_okD(5) [OF ok mem] by auto
    then have "aq_target_id a \<in> drawn E d"
      using risk_okD(3) [OF ok] by (auto simp: asks_for_def risk_ids_def)
    then have target: "the (parse_uuid E (aq_target_id a)) = aq_target_id a"
      using risk_okD(2) [OF ok] by (auto simp: drawn_def)
    have asks: "asks_for S d' a' cp' = asks_for S d a' cp'" for a' cp'
      by (rule asks_for_same [OF x])
    have asks_a: "asks_for S d ?a cp' = asks_for S d a cp'" for cp'
      by (simp add: asks_for_def)
    have asks_f: "asks_for S d a' (?f cp') = asks_for S d a' cp'" for a' cp'
      by (simp add: asks_for_def)
    have aset: "set (db_approvals d') \<subseteq> insert ?a (set (db_approvals d))"
      "a' \<in> set (db_approvals d) \<Longrightarrow> aq_id a' \<noteq> i \<Longrightarrow> a' \<in> set (db_approvals d')"
      "?a \<in> set (db_approvals d')" for a'
      using mem i by (auto simp: aps set_update_by)
    have only: "a' = a" if "a' \<in> set (db_approvals d)" "aq_id a' = i" for a'
      using risk_okD(3) [OF ok] that mem i by (auto simp: risk_ids_def distinct_map inj_on_def)
    have cps: "map cp_id (db_proposals d') = map cp_id (db_proposals d)"
      "map cp_blast_radius_query_id (db_proposals d') = map cp_blast_radius_query_id (db_proposals d)"
      by (simp_all add: prs map_update_by)
    have in_cps: "\<exists>y \<in> set (db_proposals d'). y = cp' \<or> y = ?f cp'" if "cp' \<in> set (db_proposals d)" for cp'
      using that by (auto simp: prs update_by_def)
    have of_cps: "\<exists>y \<in> set (db_proposals d). cp' = y \<or> cp' = ?f y \<and> is_complete ?a \<and> cp_id y = aq_target_id a"
      if "cp' \<in> set (db_proposals d')" for cp'
      using that by (auto simp: prs update_by_def target split: if_splits)
    have ids: "risk_ids E d'"
    proof -
      have "map aq_id (db_approvals d') = map aq_id (db_approvals d)"
        unfolding aps update_by_def using i by (auto intro: map_cong)
      then have "aq_id ` set (db_approvals d') = aq_id ` set (db_approvals d)"
        "distinct (map aq_id (db_approvals d')) = distinct (map aq_id (db_approvals d))"
        using arg_cong [where f = set] by (metis list.set_map, simp)
      moreover have "cp_id ` set (db_proposals d') = cp_id ` set (db_proposals d)"
        using arg_cong [OF cps(1), of set] by simp
      moreover have "q \<in> drawn E d" if "cp' \<in> set (db_proposals d')" "cp_blast_radius_query_id cp' = Some q" for cp' q
        using of_cps [OF that(1)] that(2) risk_okD(3) [OF ok] by (auto simp: risk_ids_def)
      ultimately show ?thesis
        using risk_okD(3) [OF ok] n by (simp add: risk_ids_def cps x drawn_def)
    qed
    have "approvers_ok ?a"
      by (rule approvers_ok_add [OF risk_okD(4) [OF ok mem] pend new])
    then have apr: "approvers_ok a'" if "a' \<in> set (db_approvals d')" for a'
      using that aset(1) risk_okD(4) [OF ok] by auto
    have lnk: "\<exists>cp' \<in> set (db_proposals d'). asks_for S d' a' cp'" if at: "a' \<in> set (db_approvals d')" for a'
    proof -
      obtain cp' where "cp' \<in> set (db_proposals d)" "asks_for S d a' cp'"
        using at aset(1) t risk_okD(5) [OF ok] asks_a by blast
      then show ?thesis
        using in_cps asks asks_f by metis
    qed
    have bck: "backed_proposal S d' cp'" if cpt: "cp' \<in> set (risk_proposals d')" for cp'
    proof -
      obtain y where y: "y \<in> set (db_proposals d)"
        "cp' = y \<or> cp' = ?f y \<and> is_complete ?a \<and> cp_id y = aq_target_id a"
        using of_cps cpt by (auto simp: risk_proposals_def)
      have ry: "y \<in> set (risk_proposals d)"
        using y cpt by (auto simp: risk_proposals_def)
      show ?thesis
      proof (cases "cp' = y")
        case True
        have "\<exists>a' \<in> set (db_approvals d'). aq_status a' = Approval_approved \<and> asks_for S d' a' y"
          if ay: "a' \<in> set (db_approvals d)" "aq_status a' = Approval_approved" "asks_for S d a' y" for a'
        proof -
          have "aq_id a' \<noteq> i"
            using only [OF ay(1)] ay(2) pend by auto
          then show ?thesis
            using aset(2) ay asks by blast
        qed
        then show ?thesis
          using risk_okD(6) [OF ok ry] True by (auto simp: backed_proposal_def)
      next
        case False
        with y have f: "cp' = ?f y" "is_complete ?a" "cp_id y = aq_target_id a" by auto
        have "y = t"
          using f(3) y(1) t risk_okD(3) [OF ok] by (auto simp: asks_for_def risk_ids_def distinct_map inj_on_def)
        then have "asks_for S d' ?a cp'"
          using t(2) asks asks_a asks_f f(1) by simp
        moreover have "aq_status ?a = Approval_approved"
          using with_approval_status [OF pend] f(2) by simp
        ultimately show ?thesis
          using risk_okD(6) [OF ok ry] aset(3) f(1) by (auto simp: backed_proposal_def)
      qed
    qed
    show ?thesis
      using risk_okD(1,2) [OF ok] ids apr lnk bck by (simp add: risk_ok_def)
  qed
qed

subsection \<open>The other operations\<close>

text \<open>What the handlers about nonconformances leave alone of the tables above.\<close>

definition risk_view :: "db \<Rightarrow> BlastRadiusExposure list \<times> ApprovalRequest list \<times> ContainmentProposal list" where
  "risk_view d = (db_exposures d, db_approvals d, db_proposals d)"

definition risk_kept :: "db \<Rightarrow> db \<Rightarrow> bool" where
  "risk_kept d d' \<longleftrightarrow> risk_view d' = risk_view d \<and> db_uuid_draws d \<le> db_uuid_draws d'"

lemma risk_kept_refl [simp]: "risk_kept d d"
  by (simp add: risk_kept_def)

lemma risk_kept_trans: "risk_kept a b \<Longrightarrow> risk_kept b c \<Longrightarrow> risk_kept a c"
  by (simp add: risk_kept_def)

lemma risk_kept_helpers [simp]:
  "risk_kept d (write_audit a o' c j d1) = risk_kept d d1"
  "risk_kept d (put_ncr n d1) = risk_kept d d1"
  "risk_kept d (set_item_status i x d1) = risk_kept d d1"
  "risk_kept d (close_occurrence t i d1) = risk_kept d d1"
  "risk_kept (put_ncr n d1) d = risk_kept d1 d"
  "risk_kept (set_item_status i x d1) d = risk_kept d1 d"
  by (simp_all add: risk_kept_def risk_view_def write_audit_def put_ncr_def set_item_status_def close_occurrence_def)

lemma risk_kept_add_decision: "risk_kept d (add_decision c d)"
  by (simp add: risk_kept_def risk_view_def add_decision_def drew_uuid_def)

lemma risk_kept_create_result: "create_result E now n c d = Inr (r, d') \<Longrightarrow> risk_kept d d'"
  by (auto simp: create_result_def rbind_Inr_iff split: option.splits)
    (simp add: risk_kept_def risk_view_def add_result_def Let_def drew_uuid_def)

lemma risk_kept_issue: "issue E now ok n c d = Inr (r, d') \<Longrightarrow> risk_kept d d'"
  by (auto simp: issue_def rbind_Inr_iff split: if_splits dest: risk_kept_create_result)

lemma risk_ok_kept: "risk_ok E S d \<Longrightarrow> risk_kept d d' \<Longrightarrow> risk_ok E S d'"
  using drawn_grows [of d d' E] risk_okD(3) [of E S d]
  by (intro risk_ok_frame [of E S d d']) (auto simp: risk_kept_def risk_view_def risk_proposals_def risk_ids_def)

lemma decide_risk: "decide_nonconformance E now i b r p d = (res, d') \<Longrightarrow> risk_kept d d'"
  unfolding decide_nonconformance_def Let_def
  by (erule atomically_plain)
    (auto simp: rbind_Inr_iff split: if_splits dest!: risk_kept_issue intro: risk_kept_trans [OF risk_kept_add_decision])

lemma verify_risk: "verify_rework E now i b r p d = (res, d') \<Longrightarrow> risk_kept d d'"
proof (cases "text_between 3 3000 (wr_reason b)")
  case True
  then show "verify_rework E now i b r p d = (res, d') \<Longrightarrow> risk_kept d d'"
    unfolding verify_rework_def Let_def
    by (erule_tac atomically_plain)
      (auto simp: rbind_Inr_iff split del: if_split split: option.split_asm
        dest!: risk_kept_issue risk_kept_trans [OF risk_kept_add_decision])
qed (simp add: verify_rework_def atomically_def)

lemma review_risk: "review_nonconformance i q r p d = (res, d') \<Longrightarrow> risk_kept d d'"
  unfolding review_nonconformance_def by (erule atomically_plain) (auto simp: rbind_Inr_iff split: if_splits)

lemma inspection_risk: "request_inspection E now i q r p d = (res, d') \<Longrightarrow> risk_kept d d'"
  unfolding request_inspection_def Let_def
  by (erule atomically_plain) (auto simp: rbind_Inr_iff risk_kept_add_decision split: if_splits)

lemma note_risk: "add_investigation_note E now i b r p d = (res, d') \<Longrightarrow> risk_kept d d'"
  unfolding add_investigation_note_def
  by (erule atomically_plain)
    (auto simp: rbind_Inr_iff split: if_splits, simp_all add: risk_kept_def risk_view_def drew_uuid_def)

text \<open>A proposal about a nonconformance is new to the table of proposals and none of a risk analysis.\<close>

lemma proposal_risk_ok:
  assumes "propose_containment E now i q r p d = (res, d')" and ok: "risk_ok E S d"
  shows "risk_ok E S d'"
proof (cases res)
  case (Inl e)
  then show ?thesis
    using assms by (auto simp: propose_containment_def dest: atomically_Inl)
next
  case (Inr x)
  then obtain cp where cp: "db_proposals d' = db_proposals d @ [cp]" "cp_id cp = new_uuid E d"
    "cp_blast_radius_query_id cp = None" and d': "db_exposures d' = db_exposures d"
    "db_approvals d' = db_approvals d" "db_uuid_draws d' = Suc (db_uuid_draws d)"
    using assms(1)
    by (auto simp: propose_containment_def rbind_Inr_iff drew_uuid_def write_audit_def dest!: atomically_Inr
        split: if_splits)
  have "new_uuid E d \<notin> cp_id ` set (db_proposals d)"
    using new_uuid_fresh [OF risk_okD(1) [OF ok]] risk_okD(3) [OF ok] by (auto simp: risk_ids_def)
  moreover have "new_uuid E d \<in> drawn E d'" "drawn E d \<subseteq> drawn E d'"
    using drawn_new [of d d' E] drawn_grows [of d d' E] d' by simp_all
  ultimately show ?thesis
    using risk_okD(3) [OF ok] cp d'
    by (intro risk_ok_frame [OF ok]) (auto simp: risk_proposals_def risk_ids_def)
qed

text \<open>A review of a proposal finds its nonconformance or fails, so it never touches one of a risk analysis.\<close>

lemma proposal_review_risk_ok:
  assumes "review_containment now i q r p d = (res, d')" and ok: "risk_ok E S d"
  shows "risk_ok E S d'"
proof (cases res)
  case (Inl e)
  then show ?thesis
    using assms by (auto simp: review_containment_def dest: atomically_Inl)
next
  case (Inr x)
  have e: "review_containment now i q r p d = (Inr x, d')"
    using assms(1) Inr by simp
  obtain cp where f: "find_by cp_id i (db_proposals d) = Some cp"
    using e by (cases "find_by cp_id i (db_proposals d)")
      (auto simp: review_containment_def atomically_def split: if_splits)
  obtain k ncr where cp: "cp_nonconformance_id cp = Some k" "ncr_or_404 k d = Inr ncr"
    using e by (cases "cp_nonconformance_id cp"; cases "ncr_or_404 (the (cp_nonconformance_id cp)) d")
      (auto simp: review_containment_def atomically_def f split: if_splits)
  define st where "st = (if cq_approve q then Proposal_approved else Proposal_rejected)"
  have d': "db_proposals d' = update_by cp_id i (\<lambda>cp. cp\<lparr>cp_status := st, cp_reviewed_by := Some (pr_user_id p),
       cp_review_reason := Some (cq_reason q), cp_reviewed_at := Some now\<rparr>) (db_proposals d)"
    "db_exposures d' = db_exposures d" "db_approvals d' = db_approvals d" "db_uuid_draws d' = db_uuid_draws d"
    using e by (auto simp: review_containment_def atomically_def f cp Let_def st_def write_audit_def put_ncr_def
        split: if_splits)
  have "cp_blast_radius_query_id y = None" if "y \<in> set (db_proposals d)" "cp_id y = i" for y
  proof -
    have "y = cp"
      using that find_by_SomeD [OF f] risk_okD(3) [OF ok] by (auto simp: risk_ids_def distinct_map inj_on_def)
    then show ?thesis
      using risk_okD(6) [OF ok, of cp] that(1) cp(1)
      by (cases "cp_blast_radius_query_id cp") (auto simp: risk_proposals_def backed_proposal_def)
  qed
  moreover have "filter (\<lambda>cp. cp_blast_radius_query_id cp \<noteq> None) (update_by cp_id i
      (\<lambda>cp. cp\<lparr>cp_status := st, cp_reviewed_by := Some (pr_user_id p), cp_review_reason := Some (cq_reason q),
        cp_reviewed_at := Some now\<rparr>) cps) = filter (\<lambda>cp. cp_blast_radius_query_id cp \<noteq> None) cps"
    if "\<forall>y \<in> set cps. cp_id y = i \<longrightarrow> cp_blast_radius_query_id y = None" for cps
    using that by (induction cps) auto
  ultimately have "risk_proposals d' = risk_proposals d"
    unfolding risk_proposals_def d'(1) by blast
  moreover have "map cp_id (db_proposals d') = map cp_id (db_proposals d)"
    by (simp add: d'(1) map_update_by)
  then have "cp_id ` set (db_proposals d') = cp_id ` set (db_proposals d)" "distinct (map cp_id (db_proposals d'))"
    using arg_cong [where f = set] risk_okD(3) [OF ok] by (metis list.set_map, simp add: risk_ids_def)
  ultimately show ?thesis
    using d' risk_okD(3) [OF ok] by (intro risk_ok_frame [OF ok]) (auto simp: risk_ids_def drawn_def)
qed

lemma review_step_risk_ok:
  assumes "review_step E d d'" and "risk_ok E S d"
  shows "risk_ok E S d'"
  using assms
proof (induction rule: review_step.induct)
  case (rs_decide d now c i b r)
  then show ?case
    unfolding decision_endpoint_def by (rule gated_keeps) (use rs_decide risk_ok_kept decide_risk in blast)
next
  case (rs_verify d now c i w r)
  then show ?case
    unfolding verify_rework_endpoint_def by (rule gated_keeps) (use rs_verify risk_ok_kept verify_risk in blast)
next
  case (rs_review d now c i q r)
  then show ?case
    unfolding review_endpoint_def by (rule gated_keeps) (use rs_review risk_ok_kept review_risk in blast)
next
  case (rs_inspect d now c i iq r)
  then show ?case
    unfolding inspection_endpoint_def by (rule gated_keeps) (use rs_inspect risk_ok_kept inspection_risk in blast)
next
  case (rs_note d now c i body r)
  then show ?case
    unfolding note_endpoint_def by (rule gated_keeps) (use rs_note risk_ok_kept note_risk in blast)
next
  case (rs_propose d now c i pq r)
  then show ?case
    unfolding proposal_endpoint_def by (rule gated_keeps) (use rs_propose proposal_risk_ok in blast)
next
  case (rs_review_proposal d now c i cq r)
  then show ?case
    unfolding proposal_review_endpoint_def by (rule gated_keeps) (use rs_review_proposal proposal_review_risk_ok in blast)
qed

text \<open>An invalidation adds its record and rebuilds; what it commits is the start or a run of rebuilds.\<close>

definition rebuilt :: "db \<Rightarrow> db \<Rightarrow> bool" where
  "rebuilt d d' \<longleftrightarrow> rebuild_frame d' = rebuild_frame d \<and> db_uuid_draws d \<le> db_uuid_draws d'"

lemma rebuilt_tables:
  assumes "rebuilt d d'"
  shows "db_exposures d' = db_exposures d" "db_approvals d' = db_approvals d" "db_proposals d' = db_proposals d"
    "db_invalidations d' = db_invalidations d" "db_raw_events d' = db_raw_events d" "db_audit d' = db_audit d"
proof -
  have same: "f d' = f d" if "\<And>d. f (rebuild_frame d) = f d" for f :: "db \<Rightarrow> 'a"
    using assms that unfolding rebuilt_def by metis
  show "db_exposures d' = db_exposures d" "db_approvals d' = db_approvals d" "db_proposals d' = db_proposals d"
    "db_invalidations d' = db_invalidations d" "db_raw_events d' = db_raw_events d" "db_audit d' = db_audit d"
    by (rule same, simp add: rebuild_frame_def)+
qed

lemma rebuild_item_rebuilt: "rebuild_item E S now i d = (res, d') \<Longrightarrow> rebuilt d d'"
  using rebuild_item_rel [of i d E S now] by (simp add: rebuild_rel_def rebuilt_def)

lemma rebuilt_trans: "rebuilt a b \<Longrightarrow> rebuilt b c \<Longrightarrow> rebuilt a c"
  by (simp add: rebuilt_def)

lemma rebuild_all_rebuilt:
  "rebuild_all E S now items c d = (res, d') \<Longrightarrow>
     (case res of Inr d1 \<Rightarrow> rebuilt d d1 | Inl e \<Rightarrow> d' = c \<or> rebuilt d d')"
proof (induction items arbitrary: c d)
  case Nil
  then show ?case by (auto simp: rebuilt_def)
next
  case (Cons i items)
  obtain r1 d1 where r: "rebuild_item E S now i d = (r1, d1)" by fastforce
  show ?case
  proof (cases r1)
    case (Inl e)
    then show ?thesis
      using Cons.prems r by auto
  next
    case (Inr x)
    then show ?thesis
      using Cons.IH [of d1 d1] Cons.prems r rebuilt_trans [OF rebuild_item_rebuilt [OF r]] rebuild_item_rebuilt [OF r]
      by (auto split: sum.split_asm sum.split)
  qed
qed

lemma risk_kept_rebuilt: "rebuilt d d' \<Longrightarrow> risk_kept d d'"
  by (simp add: risk_kept_def risk_view_def rebuilt_tables) (simp add: rebuilt_def)

lemma invalidate_risk: "invalidate_device E S now b r p d = (res, d') \<Longrightarrow> risk_kept d d'"
proof -
  assume a: "invalidate_device E S now b r p d = (res, d')"
  obtain r1 d1 where r: "rebuild_all E S now (hit_items b d) d (add_invalidation b p d) = (r1, d1)" by fastforce
  have "risk_kept d (add_invalidation b p d)"
    by (simp add: risk_kept_def risk_view_def add_invalidation_def drew_uuid_def)
  then show ?thesis
    using a rebuild_all_rebuilt [OF r] risk_kept_rebuilt risk_kept_trans
    by (cases r1) (auto simp: invalidate_device_def r Let_def split: if_splits)
qed

inductive risk_step :: "env \<Rightarrow> Settings \<Rightarrow> db \<Rightarrow> db \<Rightarrow> bool" for E S where
  rk_blast: "risk_step E S d (snd (blast_endpoint E S now c b r d))"
| rk_approve: "risk_step E S d (snd (approve_endpoint E now c i reason r d))"
| rk_invalidate: "risk_step E S d (snd (invalidation_endpoint E S now c v r d))"
| rk_review: "review_step E d d' \<Longrightarrow> risk_step E S d d'"
| rk_other: "risk_kept d d' \<Longrightarrow> risk_step E S d d'"

lemma risk_step_ok:
  assumes "risk_step E S d d'" and "risk_ok E S d"
  shows "risk_ok E S d'"
  using assms
proof (induction rule: risk_step.induct)
  case (rk_blast d now c b r)
  then show ?case
    unfolding blast_endpoint_def by (rule gated_keeps) (erule blast_radius_ok [OF _ rk_blast])
next
  case (rk_approve d now c i reason r)
  then show ?case
    unfolding approve_endpoint_def by (rule gated_keeps) (erule approve_ok [OF _ rk_approve])
next
  case (rk_invalidate d now c v r)
  then show ?case
    unfolding invalidation_endpoint_def by (rule gated_keeps) (use rk_invalidate risk_ok_kept invalidate_risk in blast)
next
  case (rk_review d d')
  then show ?case by (rule review_step_risk_ok)
next
  case (rk_other d d')
  then show ?case using risk_ok_kept by simp
qed

interpretation risk_inv: step_invariant "risk_step E S" "risk_ok E S" for E S
  by unfold_locales (rule risk_step_ok)

lemma no_risk_ok:
  "inj (uuid4 E) \<Longrightarrow> \<forall>n. parse_uuid E (uuid4 E n) = Some (uuid4 E n) \<Longrightarrow> db_proposals d = [] \<Longrightarrow>
     db_approvals d = [] \<Longrightarrow> db_exposures d = [] \<Longrightarrow> risk_ok E S d"
  by (simp add: risk_ok_def risk_ids_def risk_proposals_def)

text \<open>What stands behind an approved proposal of a risk analysis.\<close>

lemma approved_containment:
  assumes ok: "risk_ok E S d" and "cp \<in> set (db_proposals d)" and q: "cp_blast_radius_query_id cp = Some q"
    and "cp_status cp = Proposal_approved"
  shows "\<exists>a \<in> set (db_approvals d). aq_target_id a = cp_id cp \<and>
    distinct (map ap_user_id (aq_approvals a)) \<and> cp_proposed_by cp \<notin> ap_user_id ` set (aq_approvals a) \<and>
    approvals_required S (length (exposures_of q d)) \<le> int (length (aq_approvals a))"
proof -
  have "cp \<in> set (risk_proposals d)"
    using assms(2) q by (simp add: risk_proposals_def)
  then obtain a where a: "a \<in> set (db_approvals d)" "aq_status a = Approval_approved" "asks_for S d a cp"
    using risk_okD(6) [OF ok] assms(4) by (auto simp: backed_proposal_def)
  moreover have "approvers_ok a"
    by (rule risk_okD(4) [OF ok a(1)])
  ultimately show ?thesis
    using q by (auto simp: approvers_ok_def asks_for_def is_complete_def)
qed

section \<open>An invalidated device is not trusted\<close>

lemma observe_untrusted:
  "device_invalidated d (in_control_device_id p) (re_occurred_at r) \<Longrightarrow> ov_trust_status (observe d r p) \<noteq> TRUSTED"
  by (simp add: observe_def Let_def trust_status_cases)

definition distrusts :: "db \<Rightarrow> obs_value \<Rightarrow> bool" where
  "distrusts d v \<longleftrightarrow>
     (device_invalidated d (in_control_device_id (ov_payload v)) (ov_occurred_at v) \<longrightarrow> ov_trust_status v \<noteq> TRUSTED)"

lemma project_event_distrusts:
  assumes "\<forall>v \<in> set (iv_observations w). distrusts d v"
  shows "\<forall>v \<in> set (iv_observations (project_event d e w)). distrusts d v"
proof -
  have "distrusts d (observe d r p)" for r p
    using observe_untrusted [of d p r] by (simp add: distrusts_def observe_def Let_def)
  with assms show ?thesis
    by (cases "(d, e, w)" rule: project_event.cases) auto
qed

lemma replay_distrusts:
  assumes "replay E S d raws = Inr w"
  shows "\<forall>v \<in> set (iv_observations w). distrusts d v"
proof -
  have fold: "\<forall>v \<in> set (iv_observations (fold (project_event d) es u)). distrusts d v"
    if "\<forall>v \<in> set (iv_observations u). distrusts d v" for es u
    using that
  proof (induction es arbitrary: u)
    case (Cons e es)
    show ?case
      using Cons.IH [OF project_event_distrusts [OF Cons.prems]] by simp
  qed simp
  obtain es where w: "iv_observations w = mark_conflicts (iv_observations (fold (project_event d) es no_values))"
    using assms by (auto simp: replay_def rbind_Inr_iff Let_def)
  have "\<forall>v \<in> set (iv_observations (fold (project_event d) es no_values)). distrusts d v"
    by (rule fold) (simp add: no_values_def)
  then show ?thesis
    by (auto simp: w mark_conflicts_def distrusts_def)
qed

definition clean :: "InvalidationInput \<Rightarrow> db \<Rightarrow> string \<Rightarrow> bool" where
  "clean b d i \<longleftrightarrow> (\<forall>o' \<in> set (db_observations d). ob_item_id o' = i \<and> hit b o' \<longrightarrow> ob_trust_status o' \<noteq> TRUSTED)"

definition on_record :: "InvalidationInput \<Rightarrow> db \<Rightarrow> bool" where
  "on_record b d \<longleftrightarrow> vi_device_id b \<noteq> [] \<and> (\<exists>v \<in> set (db_invalidations d). ci_device_id v = vi_device_id b \<and>
     ci_affected_from v = vi_affected_from b \<and> ci_affected_to v = vi_affected_to b)"

lemma rebuild_item_cleans:
  assumes "rebuild_item E S now i d = (Inr u, d')" and "on_record b d" and raws: "item_raws i (db_raw_events d) \<noteq> []"
  shows "clean b d' i"
proof -
  obtain w where w: "replay E S d (item_raws i (db_raw_events d)) = Inr w"
    and f: "filter (\<lambda>r. ob_item_id r = i) (db_observations d') = map (observation_row E i) (iv_observations w)"
    using rebuild_from_read_model [OF rebuild_item_done [OF _ raws]] assms(1) by (metis old.unit.exhaust)
  show ?thesis
    unfolding clean_def
  proof (intro ballI impI)
    fix o'
    assume "o' \<in> set (db_observations d')" and h: "ob_item_id o' = i \<and> hit b o'"
    then have "o' \<in> set (filter (\<lambda>r. ob_item_id r = i) (db_observations d'))" by simp
    then obtain v where v: "v \<in> set (iv_observations w)" "o' = observation_row E i v"
      unfolding f by auto
    have "device_invalidated d (in_control_device_id (ov_payload v)) (ov_occurred_at v)"
      using assms(2) h by (auto simp: v(2) observation_row_def Let_def hit_def on_record_def device_invalidated_def
          has_id_def list_ex_iff)
    then show "ob_trust_status o' \<noteq> TRUSTED"
      using replay_distrusts [OF w] v by (auto simp: distrusts_def observation_row_def Let_def)
  qed
qed

lemma rebuild_item_others_clean:
  assumes "rebuild_item E S now i d = (res, d')" and "j \<noteq> i"
  shows "clean b d' j = clean b d j"
proof -
  have "read_model_of j d' = read_model_of j d"
    using rebuild_item_rel [of i d E S now] assms by (simp add: rebuild_rel_def)
  then have "set (filter (\<lambda>r. ob_item_id r = j) (db_observations d')) = set (filter (\<lambda>r. ob_item_id r = j) (db_observations d))"
    by (simp add: read_model_of_def)
  then show ?thesis
    unfolding clean_def by auto
qed

lemma on_record_rebuilt: "rebuilt d d' \<Longrightarrow> on_record b d' = on_record b d"
  by (simp add: on_record_def rebuilt_tables)

text \<open>The rebuilds clean every item they are asked for and soil none.\<close>

lemma rebuild_all_cleans:
  assumes "rebuild_all E S now items c d = (Inr d', c')" and "on_record b d"
    and "\<forall>i \<in> set items. item_raws i (db_raw_events d) \<noteq> []" and "\<forall>j. j \<notin> set items \<longrightarrow> clean b d j"
  shows "clean b d' j"
  using assms
proof (induction items arbitrary: c d j)
  case Nil
  then show ?case by simp
next
  case (Cons i items)
  obtain u d1 where r: "rebuild_item E S now i d = (Inr u, d1)" and rest: "rebuild_all E S now items d1 d1 = (Inr d', c')"
    using Cons.prems(1) by (cases "rebuild_item E S now i d") (auto split: sum.splits)
  have rb: "rebuilt d d1"
    by (rule rebuild_item_rebuilt [OF r])
  have "clean b d1 i"
    by (rule rebuild_item_cleans [OF r Cons.prems(2)]) (use Cons.prems(3) in simp)
  then have "\<forall>k. k \<notin> set items \<longrightarrow> clean b d1 k"
    using Cons.prems(4) rebuild_item_others_clean [OF r] by (metis set_ConsD)
  then show ?case
    using Cons.IH [OF rest] Cons.prems(2,3) on_record_rebuilt [OF rb] rebuilt_tables(5) [OF rb] by simp
qed

lemma invalidation_distrusts:
  assumes "invalidate_device E S now b r p d = (Inr x, d')"
    and logged: "\<forall>o' \<in> set (db_observations d). item_raws (ob_item_id o') (db_raw_events d) \<noteq> []"
    and "o' \<in> set (db_observations d')" and "hit b o'"
  shows "ob_trust_status o' \<noteq> TRUSTED"
proof -
  have v: "valid_invalidation b"
    using assms(1) by (auto simp: invalidate_device_def split: if_splits)
  obtain d1 c1 where r: "rebuild_all E S now (hit_items b d) d (add_invalidation b p d) = (Inr d1, c1)"
    and d': "db_observations d' = db_observations d1"
    using assms(1) v
    by (cases "rebuild_all E S now (hit_items b d) d (add_invalidation b p d)")
      (auto simp: invalidate_device_def Let_def write_audit_def split: sum.splits)
  have "clean b d1 (ob_item_id o')"
  proof (rule rebuild_all_cleans [OF r])
    show "on_record b (add_invalidation b p d)"
      using v by (auto simp: on_record_def add_invalidation_def drew_uuid_def valid_invalidation_def text_between_def)
    show "\<forall>i \<in> set (hit_items b d). item_raws i (db_raw_events (add_invalidation b p d)) \<noteq> []"
      using logged by (auto simp: hit_items_def add_invalidation_def drew_uuid_def)
    show "\<forall>j. j \<notin> set (hit_items b d) \<longrightarrow> clean b (add_invalidation b p d) j"
      by (auto simp: hit_items_def clean_def add_invalidation_def drew_uuid_def)
  qed
  then show ?thesis
    using assms(3,4) by (simp add: clean_def d')
qed

text \<open>
  An exception in a later rebuild leaves the record and the earlier rebuilds committed, without an
  entry in the audit trail.
\<close>

lemma partial_invalidation:
  assumes "rebuild_item E S now i (add_invalidation b p d) = (Inr u, d1)"
    and "rebuild_item E S now j d1 = (Inl e, d2)"
  shows "rebuild_all E S now [i, j] d (add_invalidation b p d) = (Inl e, d1) \<and>
    db_invalidations d1 = db_invalidations (add_invalidation b p d) \<and> db_audit d1 = db_audit d"
proof -
  have rb: "rebuilt (add_invalidation b p d) d1"
    by (rule rebuild_item_rebuilt [OF assms(1)])
  have "db_audit (add_invalidation b p d) = db_audit d"
    by (simp add: add_invalidation_def drew_uuid_def)
  then show ?thesis
    by (simp add: assms rebuilt_tables(4,6) [OF rb])
qed

end
