(* ===== verification/TQ_Routes.thy ===== *)
theory TQ_Routes
  imports TQ_Release
begin

text \<open>
  The technological routes: the rules for the steps of a revision
  (\<^verbatim>\<open>backend/app/domain/routes.py\<close>) and the endpoints that create, import, activate and read
  revisions (\<^verbatim>\<open>backend/app/api/routes.py\<close>). \<open>routes_ok\<close> is what every history of the endpoints keeps:
  revisions are numbered without gaps, steps are numbered and unambiguous, and the active revision
  of a route is an active revision of that route. Steps are never changed once they are stored.
\<close>

section \<open>Steps\<close>

record StepInput =
  si_operation_id :: string
  si_operation_name :: string
  si_control_point_id :: "string option"
  si_required :: bool
  si_inspection_scope :: "scope option"
  si_trust_policy_id :: "uuid option"

definition valid_step :: "StepInput \<Rightarrow> bool" where
  "valid_step s \<longleftrightarrow> text_between 1 128 (si_operation_id s) \<and> text_between 1 255 (si_operation_name s) \<and>
     (case si_control_point_id s of None \<Rightarrow> True | Some c \<Rightarrow> py_len c \<le> 128) \<and>
     \<not> (si_required s \<and> \<not> has_id (si_control_point_id s))"

text \<open>The control points of the steps that name one; an empty text counts as none.\<close>

definition control_points :: "StepInput list \<Rightarrow> string list" where
  "control_points steps = map (\<lambda>s. the (si_control_point_id s))
     (filter (\<lambda>s. has_id (si_control_point_id s)) steps)"

definition validate_steps :: "StepInput list \<Rightarrow> unit result" where
  "validate_steps steps =
     (if \<not> distinct (map si_operation_id steps)
        then Inl (TraceQError ''INVALID_ROUTE'' ''Operation IDs must be unique within a revision'' 422)
      else if \<not> distinct (control_points steps)
        then Inl (TraceQError ''INVALID_ROUTE'' ''Control point IDs must be unique within a revision'' 422)
      else Inr ())"

section \<open>Revisions\<close>

definition next_revision :: "uuid \<Rightarrow> db \<Rightarrow> int" where
  "next_revision route d =
     (case max_last rr_revision (filter (\<lambda>r. rr_route_id r = route) (db_revisions d)) of
        None \<Rightarrow> 0 | Some r \<Rightarrow> rr_revision r) + 1"

definition step_row :: "uuid \<Rightarrow> uuid \<Rightarrow> int \<Rightarrow> StepInput \<Rightarrow> RouteStep" where
  "step_row i revision position s =
     \<lparr>rs_id = i, rs_route_revision_id = revision, rs_position = position,
      rs_operation_id = si_operation_id s, rs_operation_name = si_operation_name s,
      rs_control_point_id = si_control_point_id s, rs_required_inspection = si_required s,
      rs_inspection_scope = si_inspection_scope s, rs_trust_policy_id = si_trust_policy_id s\<rparr>"

text \<open>\<open>enumerate(steps, start=...)\<close>: one row per step.\<close>

fun add_steps :: "env \<Rightarrow> uuid \<Rightarrow> int \<Rightarrow> StepInput list \<Rightarrow> db \<Rightarrow> db" where
  "add_steps E revision position [] d = d"
| "add_steps E revision position (s # steps) d =
     add_steps E revision (position + 1) steps
       (drew_uuid (d\<lparr>db_steps := db_steps d @ [step_row (new_uuid E d) revision position s]\<rparr>))"

definition revision_row :: "env \<Rightarrow> uuid \<Rightarrow> Principal \<Rightarrow> db \<Rightarrow> RouteRevision" where
  "revision_row E route p d =
     \<lparr>rr_id = new_uuid E d, rr_route_id = route, rr_revision = next_revision route d,
      rr_status = ''draft'', rr_immutable_after = None, rr_created_by = Some (pr_user_id p)\<rparr>"

definition new_revision ::
  "env \<Rightarrow> uuid \<Rightarrow> StepInput list \<Rightarrow> Principal \<Rightarrow> db \<Rightarrow> (RouteRevision \<times> db) result" where
  "new_revision E route steps p d =
     rbind (validate_steps steps) (\<lambda>_.
       let revision = revision_row E route p d in
       Inr (revision, add_steps E (rr_id revision) 1 steps
         (drew_uuid (d\<lparr>db_revisions := db_revisions d @ [revision]\<rparr>))))"

section \<open>The endpoints that write\<close>

record RouteCreate =
  rc_code :: string
  rc_name :: string
  rc_steps :: "StepInput list"

definition code_char :: "char \<Rightarrow> bool" where
  "code_char c \<longleftrightarrow> (let n = (of_char c :: nat) in
     65 \<le> n \<and> n \<le> 90 \<or> 97 \<le> n \<and> n \<le> 122 \<or> 48 \<le> n \<and> n \<le> 57 \<or> c \<in> set ''_.-'')"

definition valid_steps :: "StepInput list \<Rightarrow> bool" where
  "valid_steps steps \<longleftrightarrow> steps \<noteq> [] \<and> list_all valid_step steps"

definition valid_route :: "RouteCreate \<Rightarrow> bool" where
  "valid_route b \<longleftrightarrow> text_between 1 96 (rc_code b) \<and> list_all code_char (rc_code b) \<and>
     text_between 1 255 (rc_name b) \<and> valid_steps (rc_steps b)"

definition add_route :: "env \<Rightarrow> string \<Rightarrow> string \<Rightarrow> db \<Rightarrow> db" where
  "add_route E code name d = drew_uuid (d\<lparr>db_routes := db_routes d @
     [\<lparr>rd_id = new_uuid E d, rd_code = code, rd_name = name, rd_active_revision_id = None\<rparr>]\<rparr>)"

definition create_route ::
  "env \<Rightarrow> RouteCreate \<Rightarrow> Principal \<Rightarrow> db \<Rightarrow> (uuid \<times> uuid) result \<times> db" where
  "create_route E b p = atomically (\<lambda>d.
     if \<not> valid_route b then Inl invalid_request else
     if find_by rd_code (rc_code b) (db_routes d) \<noteq> None
       then Inl (TraceQError ''ROUTE_CODE_EXISTS'' ''Route code already exists'' 409) else
     rbind (new_revision E (new_uuid E d) (rc_steps b) p (add_route E (rc_code b) (rc_name b) d))
       (\<lambda>(revision, d'). Inr ((new_uuid E d, rr_id revision), d')))"

definition create_revision ::
  "env \<Rightarrow> uuid \<Rightarrow> StepInput list \<Rightarrow> Principal \<Rightarrow> db \<Rightarrow> (uuid \<times> int) result \<times> db" where
  "create_revision E route_id steps p = atomically (\<lambda>d.
     if \<not> valid_steps steps then Inl invalid_request else
     (case find_by rd_id route_id (db_routes d) of
        None \<Rightarrow> Inl (NotFoundError ''Route'')
      | Some route \<Rightarrow>
          rbind (new_revision E (rd_id route) steps p d)
            (\<lambda>(revision, d'). Inr ((rr_id revision, rr_revision revision), d'))))"

definition set_revision :: "uuid \<Rightarrow> (RouteRevision \<Rightarrow> RouteRevision) \<Rightarrow> db \<Rightarrow> db" where
  "set_revision i f d = d\<lparr>db_revisions := update_by rr_id i f (db_revisions d)\<rparr>"

definition set_active :: "uuid \<Rightarrow> uuid \<Rightarrow> db \<Rightarrow> db" where
  "set_active route revision d = d\<lparr>db_routes := update_by rd_id route
     (\<lambda>r. r\<lparr>rd_active_revision_id := Some revision\<rparr>) (db_routes d)\<rparr>"

text \<open>The revision that is active until now is superseded, unless it is the one to be activated.\<close>

definition supersede :: "RouteDefinition \<Rightarrow> uuid \<Rightarrow> db \<Rightarrow> db" where
  "supersede route revision d =
     (case rd_active_revision_id route of
        None \<Rightarrow> d
      | Some old \<Rightarrow> if old = revision then d
          else set_revision old (\<lambda>r. r\<lparr>rr_status := ''superseded''\<rparr>) d)"

definition activated :: "time \<Rightarrow> RouteRevision \<Rightarrow> RouteRevision" where
  "activated now r = r\<lparr>rr_status := ''active'',
     rr_immutable_after := (case rr_immutable_after r of None \<Rightarrow> Some now | Some t \<Rightarrow> Some t)\<rparr>"

definition activate_revision ::
  "time \<Rightarrow> uuid \<Rightarrow> uuid \<Rightarrow> string \<Rightarrow> string option \<Rightarrow> Principal \<Rightarrow> db \<Rightarrow> uuid result \<times> db" where
  "activate_revision now route_id revision_id reason request_id p = atomically (\<lambda>d.
     case (find_by rd_id route_id (db_routes d), find_by rr_id revision_id (db_revisions d)) of
       (Some route, Some revision) \<Rightarrow>
         if rr_route_id revision \<noteq> rd_id route then Inl (NotFoundError ''Route revision'')
         else Inr (rr_id revision,
           write_audit ''route_revision_activation'' ''success''
             (acting p ''route_revision'' (rr_id revision) request_id)
             (JObj [(''route_id'', JStr (rd_id route)), (''revision'', JInt (rr_revision revision)),
                    (''reason'', JStr (py_take 1000 reason))])
             (set_active (rd_id route) (rr_id revision)
               (set_revision (rr_id revision) (activated now) (supersede route (rr_id revision) d))))
     | _ \<Rightarrow> Inl (NotFoundError ''Route revision''))"

text \<open>An import into a route that exists keeps its name; \<open>activate\<close> does not supersede.\<close>

definition import_into :: "env \<Rightarrow> RouteCreate \<Rightarrow> db \<Rightarrow> uuid \<times> db" where
  "import_into E b d =
     (case find_by rd_code (rc_code b) (db_routes d) of
        Some route \<Rightarrow> (rd_id route, d)
      | None \<Rightarrow> (new_uuid E d, add_route E (rc_code b) (rc_name b) d))"

definition import_route ::
  "env \<Rightarrow> time \<Rightarrow> RouteCreate \<Rightarrow> bool \<Rightarrow> Principal \<Rightarrow> db \<Rightarrow> (uuid \<times> uuid) result \<times> db" where
  "import_route E now b activate p = atomically (\<lambda>d.
     if \<not> valid_route b then Inl invalid_request else
     let (route, d1) = import_into E b d in
     rbind (new_revision E route (rc_steps b) p d1) (\<lambda>(revision, d2).
       Inr ((route, rr_id revision),
         if activate
         then set_active route (rr_id revision)
           (set_revision (rr_id revision)
             (\<lambda>r. r\<lparr>rr_status := ''active'', rr_immutable_after := Some now\<rparr>) d2)
         else d2)))"

section \<open>The endpoints that read\<close>

definition step_view :: "RouteStep \<Rightarrow> json" where
  "step_view s = JObj [(''id'', JStr (rs_id s)), (''position'', JInt (rs_position s)),
     (''operation_id'', JStr (rs_operation_id s)), (''operation_name'', JStr (rs_operation_name s)),
     (''control_point_id'', js_opt JStr (rs_control_point_id s)),
     (''required'', JBool (rs_required_inspection s)),
     (''inspection_scope'', js_opt dump_scope (rs_inspection_scope s)),
     (''trust_policy_id'', js_opt JStr (rs_trust_policy_id s))]"

definition revision_view :: "env \<Rightarrow> db \<Rightarrow> RouteRevision \<Rightarrow> json" where
  "revision_view E d r = JObj [(''id'', JStr (rr_id r)), (''revision'', JInt (rr_revision r)),
     (''status'', JStr (rr_status r)),
     (''immutable_after'', js_opt (\<lambda>t. JStr (isoformat E t)) (rr_immutable_after r)),
     (''steps'', JArr (map step_view (sort_key rs_position
        (filter (\<lambda>s. rs_route_revision_id s = rr_id r) (db_steps d)))))]"

definition serialize :: "env \<Rightarrow> db \<Rightarrow> RouteDefinition \<Rightarrow> json" where
  "serialize E d route = JObj [(''id'', JStr (rd_id route)), (''code'', JStr (rd_code route)),
     (''name'', JStr (rd_name route)),
     (''active_revision_id'', js_opt JStr (rd_active_revision_id route)),
     (''revisions'', JArr (map (revision_view E d) (sort_key rr_revision
        (filter (\<lambda>r. rr_route_id r = rd_id route) (db_revisions d)))))]"

definition list_routes :: "env \<Rightarrow> Principal \<Rightarrow> db \<Rightarrow> json result \<times> db" where
  "list_routes E p d = (Inr (JArr (map (serialize E d) (sort_key rd_code (db_routes d)))), d)"

definition get_route :: "env \<Rightarrow> uuid \<Rightarrow> Principal \<Rightarrow> db \<Rightarrow> json result \<times> db" where
  "get_route E route_id p d =
     (case find_by rd_id route_id (db_routes d) of
        None \<Rightarrow> (Inl (NotFoundError ''Route''), d)
      | Some route \<Rightarrow> (Inr (serialize E d route), d))"

definition export_route :: "env \<Rightarrow> uuid \<Rightarrow> Principal \<Rightarrow> db \<Rightarrow> json result \<times> db" where
  "export_route E route_id p d =
     (case find_by rd_id route_id (db_routes d) of
        None \<Rightarrow> (Inl (NotFoundError ''Route''), d)
      | Some route \<Rightarrow> (Inr (serialize E d route), d))"

section \<open>Any history of the endpoints\<close>

definition create_route_endpoint where
  "create_route_endpoint E now c b = gated (permission_gate E now c ''MANAGE_ROUTES'') (create_route E b)"

definition create_revision_endpoint where
  "create_revision_endpoint E now c i steps =
     gated (permission_gate E now c ''MANAGE_ROUTES'') (create_revision E i steps)"

definition activate_endpoint where
  "activate_endpoint E now c i j reason r =
     gated (critical_gate E now c ''MANAGE_ROUTES'') (activate_revision now i j reason r)"

definition import_endpoint where
  "import_endpoint E now c b a = gated (permission_gate E now c ''MANAGE_ROUTES'') (import_route E now b a)"

text \<open>The other operations draw identifiers and leave the three tables alone.\<close>

definition route_tables :: "db \<Rightarrow> RouteDefinition list \<times> RouteRevision list \<times> RouteStep list" where
  "route_tables d = (db_routes d, db_revisions d, db_steps d)"

inductive route_step :: "env \<Rightarrow> db \<Rightarrow> db \<Rightarrow> bool" for E where
  rt_create: "route_step E d (snd (create_route_endpoint E now c b d))"
| rt_revision: "route_step E d (snd (create_revision_endpoint E now c i steps d))"
| rt_activate: "route_step E d (snd (activate_endpoint E now c i j reason r d))"
| rt_import: "route_step E d (snd (import_endpoint E now c b a d))"
| rt_other: "route_tables d' = route_tables d \<Longrightarrow> db_uuid_draws d \<le> db_uuid_draws d' \<Longrightarrow> route_step E d d'"

section \<open>Well-formed routes\<close>

definition revisions_of :: "uuid \<Rightarrow> db \<Rightarrow> RouteRevision list" where
  "revisions_of route d = filter (\<lambda>r. rr_route_id r = route) (db_revisions d)"

definition steps_of :: "uuid \<Rightarrow> db \<Rightarrow> RouteStep list" where
  "steps_of revision d = filter (\<lambda>s. rs_route_revision_id s = revision) (db_steps d)"

definition well_stepped :: "RouteStep list \<Rightarrow> bool" where
  "well_stepped ss \<longleftrightarrow> map rs_position ss = [1..int (length ss)] \<and> distinct (map rs_operation_id ss) \<and>
     distinct (filter has_id (map rs_control_point_id ss)) \<and>
     (\<forall>s \<in> set ss. rs_required_inspection s \<longrightarrow> has_id (rs_control_point_id s))"

definition active_ok :: "db \<Rightarrow> RouteDefinition \<Rightarrow> bool" where
  "active_ok d route \<longleftrightarrow> (\<forall>i. rd_active_revision_id route = Some i \<longrightarrow>
     (\<exists>r. find_by rr_id i (db_revisions d) = Some r \<and> rr_route_id r = rd_id route \<and> rr_status r = ''active''))"

definition route_ids_drawn :: "env \<Rightarrow> db \<Rightarrow> bool" where
  "route_ids_drawn E d \<longleftrightarrow> rd_id ` set (db_routes d) \<subseteq> drawn E d \<and> rr_id ` set (db_revisions d) \<subseteq> drawn E d \<and>
     rr_route_id ` set (db_revisions d) \<subseteq> drawn E d \<and> rs_route_revision_id ` set (db_steps d) \<subseteq> drawn E d"

definition routes_ok :: "env \<Rightarrow> db \<Rightarrow> bool" where
  "routes_ok E d \<longleftrightarrow> inj (uuid4 E) \<and> route_ids_drawn E d \<and> distinct (map rd_code (db_routes d)) \<and>
     (\<forall>i. map rr_revision (revisions_of i d) = [1..int (length (revisions_of i d))]) \<and>
     (\<forall>i. well_stepped (steps_of i d)) \<and> (\<forall>route \<in> set (db_routes d). active_ok d route)"

lemma routes_okD:
  assumes "routes_ok E d"
  shows "inj (uuid4 E)" and "route_ids_drawn E d" and "distinct (map rd_code (db_routes d))"
    and "map rr_revision (revisions_of i d) = [1..int (length (revisions_of i d))]"
    and "well_stepped (steps_of i d)" and "route \<in> set (db_routes d) \<Longrightarrow> active_ok d route"
  using assms by (auto simp: routes_ok_def)

subsection \<open>A new revision\<close>

lemma next_revision_count:
  assumes "map rr_revision (revisions_of i d) = [1..int (length (revisions_of i d))]"
  shows "next_revision i d = int (length (revisions_of i d)) + 1"
proof (cases "max_last rr_revision (revisions_of i d)")
  case None
  then show ?thesis
    by (simp add: next_revision_def revisions_of_def)
next
  case (Some m)
  have m: "m \<in> set (revisions_of i d)" "\<forall>r \<in> set (revisions_of i d). rr_revision r \<le> rr_revision m"
    using max_last_Some [OF Some] by auto
  have s: "rr_revision ` set (revisions_of i d) = {1..int (length (revisions_of i d))}"
    using arg_cong [OF assms, of set] by simp
  then have "rr_revision m \<le> int (length (revisions_of i d))" "1 \<le> rr_revision m"
    using m(1) by auto
  moreover have "int (length (revisions_of i d)) \<in> rr_revision ` set (revisions_of i d)"
    unfolding s using calculation by simp
  then have "int (length (revisions_of i d)) \<le> rr_revision m"
    using m(2) by auto
  ultimately show ?thesis
    using Some by (simp add: next_revision_def revisions_of_def)
qed

lemma add_steps_tables [simp]:
  "db_routes (add_steps E rv k ss d) = db_routes d"
  "db_revisions (add_steps E rv k ss d) = db_revisions d"
  "db_audit (add_steps E rv k ss d) = db_audit d"
  "db_uuid_draws (add_steps E rv k ss d) = db_uuid_draws d + length ss"
  by (induction E rv k ss d rule: add_steps.induct) (simp_all add: drew_uuid_def)

text \<open>The rows of the steps, field by field.\<close>

lemma add_steps_rows:
  "\<exists>rows. db_steps (add_steps E rv k ss d) = db_steps d @ rows \<and>
     map rs_position rows = [k..k + int (length ss) - 1] \<and> map rs_operation_id rows = map si_operation_id ss \<and>
     map rs_control_point_id rows = map si_control_point_id ss \<and>
     map rs_required_inspection rows = map si_required ss \<and>
     rs_route_revision_id ` set rows \<subseteq> {rv}"
proof (induction E rv k ss d rule: add_steps.induct)
  case (1 E rv k d)
  then show ?case by (intro exI [of _ "[]"]) simp
next
  case (2 E rv k s ss d)
  then obtain rows where rows: "db_steps (add_steps E rv k (s # ss) d) =
      db_steps (drew_uuid (d\<lparr>db_steps := db_steps d @ [step_row (new_uuid E d) rv k s]\<rparr>)) @ rows"
    "map rs_position rows = [k + 1..k + 1 + int (length ss) - 1]" "map rs_operation_id rows = map si_operation_id ss"
    "map rs_control_point_id rows = map si_control_point_id ss"
    "map rs_required_inspection rows = map si_required ss" "rs_route_revision_id ` set rows \<subseteq> {rv}"
    by auto
  have "[k..k + int (length (s # ss)) - 1] = k # [k + 1..k + 1 + int (length ss) - 1]"
    by (simp add: upto_rec1)
  with rows show ?case
    by (intro exI [of _ "step_row (new_uuid E d) rv k s # rows"]) (simp add: drew_uuid_def step_row_def)
qed

lemma control_points_rows: "filter has_id (map si_control_point_id ss) = map Some (control_points ss)"
  by (induction ss) (auto simp: control_points_def has_id_def)

lemma steps_checked:
  assumes "validate_steps ss = Inr ()" and "list_all valid_step ss"
    and "map rs_position rows = [1..int (length ss)]" "map rs_operation_id rows = map si_operation_id ss"
    and "map rs_control_point_id rows = map si_control_point_id ss"
    and "map rs_required_inspection rows = map si_required ss"
  shows "well_stepped rows"
proof -
  have n: "length rows = length ss"
    using assms(4) map_eq_imp_length_eq by blast
  have "has_id (rs_control_point_id (rows ! k))" if "k < length rows" "rs_required_inspection (rows ! k)" for k
  proof -
    have "si_required (ss ! k)" "rs_control_point_id (rows ! k) = si_control_point_id (ss ! k)"
      using that n arg_cong [OF assms(5), of "\<lambda>xs. xs ! k"] arg_cong [OF assms(6), of "\<lambda>xs. xs ! k"] by auto
    moreover have "valid_step (ss ! k)"
      using assms(2) that n by (auto simp: list_all_length)
    ultimately show ?thesis
      by (simp add: valid_step_def)
  qed
  then have "\<forall>s \<in> set rows. rs_required_inspection s \<longrightarrow> has_id (rs_control_point_id s)"
    by (auto simp: in_set_conv_nth)
  moreover have "distinct (map si_operation_id ss)" "distinct (control_points ss)"
    using assms(1) by (auto simp: validate_steps_def split: if_splits)
  ultimately show ?thesis
    using assms(3-5) n control_points_rows [of ss] by (simp add: well_stepped_def distinct_map)
qed

lemma new_revision_effect:
  assumes "new_revision E route ss p d = Inr (rv, d')"
  obtains rows where "rv = revision_row E route p d" "db_routes d' = db_routes d"
    "db_revisions d' = db_revisions d @ [rv]" "db_steps d' = db_steps d @ rows"
    "rs_route_revision_id ` set rows \<subseteq> {rr_id rv}" "list_all valid_step ss \<Longrightarrow> well_stepped rows"
    "db_uuid_draws d < db_uuid_draws d'"
proof -
  let ?d1 = "drew_uuid (d\<lparr>db_revisions := db_revisions d @ [revision_row E route p d]\<rparr>)"
  have v: "validate_steps ss = Inr ()" and rv: "rv = revision_row E route p d"
    and d': "d' = add_steps E (rr_id rv) 1 ss ?d1"
    using assms by (auto simp: new_revision_def rbind_Inr_iff Let_def)
  obtain rows where rows: "db_steps d' = db_steps ?d1 @ rows" "map rs_position rows = [1..int (length ss)]"
    "map rs_operation_id rows = map si_operation_id ss"
    "map rs_control_point_id rows = map si_control_point_id ss"
    "map rs_required_inspection rows = map si_required ss" "rs_route_revision_id ` set rows \<subseteq> {rr_id rv}"
    using add_steps_rows [of E "rr_id rv" 1 ss ?d1] d' by auto
  show thesis
    by (rule that [of rows])
      (use rv d' rows steps_checked [OF v] in \<open>simp_all add: drew_uuid_def\<close>)
qed

lemma revisions_of_snoc:
  "db_revisions d' = db_revisions d @ [rv] \<Longrightarrow>
     revisions_of i d' = revisions_of i d @ (if rr_route_id rv = i then [rv] else [])"
  by (simp add: revisions_of_def)

lemma steps_of_append:
  "db_steps d' = db_steps d @ rows \<Longrightarrow> rs_route_revision_id ` set rows \<subseteq> {k} \<Longrightarrow>
     steps_of i d' = steps_of i d @ (if i = k then rows else [])"
  by (auto simp: steps_of_def filter_empty_conv intro: filter_True)

lemma active_ok_append:
  "db_revisions d' = db_revisions d @ new \<Longrightarrow> active_ok d route \<Longrightarrow> active_ok d' route"
  by (auto simp: active_ok_def find_by_append)

lemma new_revision_ok:
  assumes ok: "routes_ok E d" and "list_all valid_step ss" and "route \<in> drawn E d"
    and new: "new_revision E route ss p d = Inr (rv, d')"
  shows "routes_ok E d'"
proof -
  obtain rows where e: "rv = revision_row E route p d" "db_routes d' = db_routes d"
    "db_revisions d' = db_revisions d @ [rv]" "db_steps d' = db_steps d @ rows"
    "rs_route_revision_id ` set rows \<subseteq> {rr_id rv}" "well_stepped rows" "db_uuid_draws d < db_uuid_draws d'"
    using new_revision_effect [OF new] assms(2) by metis
  have fresh: "rr_id rv \<notin> drawn E d" and id: "rr_id rv \<in> drawn E d'"
    using new_uuid_fresh routes_okD(1) [OF ok] drawn_new [OF e(7)] by (simp_all add: e(1) revision_row_def)
  have sub: "drawn E d \<subseteq> drawn E d'"
    using e(7) by (intro drawn_grows) simp
  have ids: "route_ids_drawn E d'"
    using routes_okD(2) [OF ok] sub id e(2-5) assms(3) by (auto simp: route_ids_drawn_def e(1) revision_row_def)
  have revs: "map rr_revision (revisions_of i d') = [1..int (length (revisions_of i d'))]" for i
  proof -
    have "rr_route_id rv = i \<Longrightarrow> rr_revision rv = int (length (revisions_of i d)) + 1"
      using next_revision_count [OF routes_okD(4) [OF ok]] by (auto simp: e(1) revision_row_def)
    then show ?thesis
      using routes_okD(4) [OF ok, of i] upto_snoc [of "int (length (revisions_of i d))"]
      by (auto simp: revisions_of_snoc [OF e(3)] add.commute)
  qed
  have none: "steps_of (rr_id rv) d = []"
    using routes_okD(2) [OF ok] fresh by (auto simp: steps_of_def filter_empty_conv route_ids_drawn_def)
  have "well_stepped (steps_of i d')" for i
    using routes_okD(5) [OF ok, of i] none e(6) by (simp add: steps_of_append [OF e(4,5)])
  then show ?thesis
    using ids revs routes_okD(1,3) [OF ok] active_ok_append [OF e(3)] routes_okD(6) [OF ok]
    by (simp add: routes_ok_def e(2))
qed

subsection \<open>A new route, an activation\<close>

lemma active_ok_same: "db_revisions d' = db_revisions d \<Longrightarrow> active_ok d' = active_ok d"
  by (simp add: active_ok_def fun_eq_iff)

lemma same_revisions_ok:
  assumes "routes_ok E d" and "db_revisions d' = db_revisions d" "db_steps d' = db_steps d"
    and "rd_id ` set (db_routes d') \<subseteq> drawn E d'" "distinct (map rd_code (db_routes d'))"
    and "db_uuid_draws d \<le> db_uuid_draws d'" and "\<forall>route \<in> set (db_routes d'). active_ok d route"
  shows "routes_ok E d'"
  using assms drawn_grows [OF assms(6), of E] active_ok_same [OF assms(2)]
  by (auto simp: routes_ok_def route_ids_drawn_def revisions_of_def steps_of_def)

lemma add_route_ok:
  assumes "routes_ok E d" and "find_by rd_code code (db_routes d) = None"
  shows "routes_ok E (add_route E code name d)"
proof (rule same_revisions_ok [OF assms(1)])
  show "rd_id ` set (db_routes (add_route E code name d)) \<subseteq> drawn E (add_route E code name d)"
    using routes_okD(2) [OF assms(1)] by (auto simp: route_ids_drawn_def add_route_def drawn_def drew_uuid_def new_uuid_def)
  show "distinct (map rd_code (db_routes (add_route E code name d)))"
    using routes_okD(3) [OF assms(1)] assms(2) by (auto simp: add_route_def drew_uuid_def find_by_None_iff)
  show "\<forall>route \<in> set (db_routes (add_route E code name d)). active_ok d route"
    using routes_okD(6) [OF assms(1)] by (auto simp: add_route_def drew_uuid_def active_ok_def)
qed (simp_all add: add_route_def drew_uuid_def)

lemma set_revision_tables [simp]:
  "db_routes (set_revision i f d) = db_routes d" "db_steps (set_revision i f d) = db_steps d"
  "db_uuid_draws (set_revision i f d) = db_uuid_draws d" "db_audit (set_revision i f d) = db_audit d"
  by (simp_all add: set_revision_def)

text \<open>Only the status and the time of activation of a revision ever change.\<close>

definition keeps_identity :: "(RouteRevision \<Rightarrow> RouteRevision) \<Rightarrow> bool" where
  "keeps_identity f \<longleftrightarrow>
     (\<forall>r. rr_id (f r) = rr_id r \<and> rr_route_id (f r) = rr_route_id r \<and> rr_revision (f r) = rr_revision r \<and>
        rr_created_by (f r) = rr_created_by r)"

definition revision_core :: "RouteRevision \<Rightarrow> uuid \<times> uuid \<times> int \<times> uuid option" where
  "revision_core r = (rr_id r, rr_route_id r, rr_revision r, rr_created_by r)"

lemma set_revision_ids:
  assumes "keeps_identity f"
  shows "map rr_id (db_revisions (set_revision i f d)) = map rr_id (db_revisions d)"
    and "map rr_route_id (db_revisions (set_revision i f d)) = map rr_route_id (db_revisions d)"
    and "map rr_revision (revisions_of j (set_revision i f d)) = map rr_revision (revisions_of j d)"
proof -
  let ?g = "\<lambda>r. if rr_id r = i then f r else r"
  have "rr_id (?g r) = rr_id r" "rr_route_id (?g r) = rr_route_id r" "rr_revision (?g r) = rr_revision r" for r
    using assms by (simp_all add: keeps_identity_def)
  then show "map rr_id (db_revisions (set_revision i f d)) = map rr_id (db_revisions d)"
    "map rr_route_id (db_revisions (set_revision i f d)) = map rr_route_id (db_revisions d)"
    "map rr_revision (revisions_of j (set_revision i f d)) = map rr_revision (revisions_of j d)"
    by (simp_all add: set_revision_def revisions_of_def update_by_def filter_map comp_def)
qed

lemma revised_ok:
  assumes "routes_ok E d" and "map rr_id (db_revisions d') = map rr_id (db_revisions d)"
    and "map rr_route_id (db_revisions d') = map rr_route_id (db_revisions d)"
    and revs: "\<And>j. map rr_revision (revisions_of j d') = map rr_revision (revisions_of j d)"
    and "db_steps d' = db_steps d" "db_uuid_draws d' = db_uuid_draws d"
    and "map rd_id (db_routes d') = map rd_id (db_routes d)"
    and "map rd_code (db_routes d') = map rd_code (db_routes d)"
    and "\<forall>route \<in> set (db_routes d'). active_ok d' route"
  shows "routes_ok E d'"
proof -
  have "rr_id ` set (db_revisions d') = rr_id ` set (db_revisions d)"
    "rr_route_id ` set (db_revisions d') = rr_route_id ` set (db_revisions d)"
    "rd_id ` set (db_routes d') = rd_id ` set (db_routes d)"
    using arg_cong [OF assms(2), of set] arg_cong [OF assms(3), of set] arg_cong [OF assms(7), of set]
    by simp_all
  moreover have "length (revisions_of j d') = length (revisions_of j d)" for j
    using arg_cong [OF revs, of length] by simp
  ultimately show ?thesis
    using assms by (simp add: routes_ok_def route_ids_drawn_def steps_of_def drawn_def)
qed

lemma supersede_tables [simp]:
  "db_routes (supersede route i d) = db_routes d" "db_steps (supersede route i d) = db_steps d"
  "db_uuid_draws (supersede route i d) = db_uuid_draws d"
  by (simp_all add: supersede_def split: option.split)

lemma supersede_ids:
  "map rr_id (db_revisions (supersede route i d)) = map rr_id (db_revisions d)"
  "map rr_route_id (db_revisions (supersede route i d)) = map rr_route_id (db_revisions d)"
  "map rr_revision (revisions_of j (supersede route i d)) = map rr_revision (revisions_of j d)"
  using set_revision_ids [of "\<lambda>r. r\<lparr>rr_status := ''superseded''\<rparr>"]
  by (simp_all add: supersede_def keeps_identity_def split: option.split)

lemma supersede_other:
  "rd_active_revision_id route \<noteq> Some j \<or> j = i \<Longrightarrow>
     find_by rr_id j (db_revisions (supersede route i d)) = find_by rr_id j (db_revisions d)"
  by (auto simp: supersede_def set_revision_def find_by_update_by split: option.split)

lemma activated_ids: "keeps_identity (activated now)"
  by (simp add: keeps_identity_def activated_def)

definition activation :: "time \<Rightarrow> RouteDefinition \<Rightarrow> uuid \<Rightarrow> db \<Rightarrow> db" where
  "activation now route i d =
     set_active (rd_id route) i (set_revision i (activated now) (supersede route i d))"

lemma find_activation:
  assumes "rd_active_revision_id route \<noteq> Some j \<or> j = i"
  shows "find_by rr_id j (db_revisions (activation now route i d)) =
    (if j = i then map_option (activated now) (find_by rr_id j (db_revisions d)) else find_by rr_id j (db_revisions d))"
  using supersede_other [OF assms]
  by (cases "j = i") (simp_all add: activation_def set_active_def set_revision_def find_by_update_by activated_def)

lemma activation_routes:
  "db_routes (activation now route i d) =
     update_by rd_id (rd_id route) (\<lambda>r. r\<lparr>rd_active_revision_id := Some i\<rparr>) (db_routes d)"
  by (simp add: activation_def set_active_def)

lemma activation_active:
  assumes ok: "routes_ok E d" and route: "find_by rd_id k (db_routes d) = Some route"
    and rv: "find_by rr_id i (db_revisions d) = Some rv" and belongs: "rr_route_id rv = rd_id route"
    and r0: "r0 \<in> set (db_routes (activation now route i d))"
  shows "active_ok (activation now route i d) r0"
proof (cases "rd_id r0 = rd_id route")
  case True
  then have "rd_active_revision_id r0 = Some i"
    using r0 by (auto simp: activation_routes set_update_by)
  then show ?thesis
    using rv belongs True by (simp add: active_ok_def find_activation activated_def)
next
  case False
  then have r0: "r0 \<in> set (db_routes d)"
    using r0 by (auto simp: activation_routes set_update_by)
  show ?thesis
    unfolding active_ok_def
  proof (intro allI impI)
    fix j
    assume "rd_active_revision_id r0 = Some j"
    then obtain r where r: "find_by rr_id j (db_revisions d) = Some r" "rr_route_id r = rd_id r0" "rr_status r = ''active''"
      using routes_okD(6) [OF ok r0] by (auto simp: active_ok_def)
    have "j \<noteq> i"
      using r(1,2) rv belongs False by auto
    moreover have "active_ok d route"
      using routes_okD(6) [OF ok] find_by_SomeD [OF route] by simp
    then have "rd_active_revision_id route \<noteq> Some j"
      using r(1,2) False by (auto simp: active_ok_def)
    ultimately show "\<exists>r. find_by rr_id j (db_revisions (activation now route i d)) = Some r \<and>
        rr_route_id r = rd_id r0 \<and> rr_status r = ''active''"
      using r by (simp add: find_activation)
  qed
qed

lemma activation_ok:
  assumes "routes_ok E d" and "find_by rd_id k (db_routes d) = Some route"
    and "find_by rr_id i (db_revisions d) = Some rv" and "rr_route_id rv = rd_id route"
  shows "routes_ok E (activation now route i d)"
proof (rule revised_ok [OF assms(1)])
  show "map rr_id (db_revisions (activation now route i d)) = map rr_id (db_revisions d)"
    "map rr_route_id (db_revisions (activation now route i d)) = map rr_route_id (db_revisions d)"
    "map rr_revision (revisions_of j (activation now route i d)) = map rr_revision (revisions_of j d)" for j
    using set_revision_ids [OF activated_ids] supersede_ids
    by (simp_all add: activation_def set_active_def revisions_of_def)
  show "map rd_id (db_routes (activation now route i d)) = map rd_id (db_routes d)"
    "map rd_code (db_routes (activation now route i d)) = map rd_code (db_routes d)"
    by (simp_all add: activation_routes map_update_by)
  show "\<forall>r0 \<in> set (db_routes (activation now route i d)). active_ok (activation now route i d) r0"
    using activation_active [OF assms] by blast
qed (simp_all add: activation_def set_active_def)

subsection \<open>A revision does not change\<close>

text \<open>Between two states no revision is removed, renumbered or moved, and none gains or loses a step.\<close>

definition history_kept :: "db \<Rightarrow> db \<Rightarrow> bool" where
  "history_kept d d' \<longleftrightarrow> prefix (map revision_core (db_revisions d)) (map revision_core (db_revisions d')) \<and>
     (\<forall>i \<in> rr_id ` set (db_revisions d). steps_of i d' = steps_of i d)"

lemma history_kept_same:
  "map revision_core (db_revisions d') = map revision_core (db_revisions d) \<Longrightarrow> db_steps d' = db_steps d \<Longrightarrow>
     history_kept d d'"
  by (simp add: history_kept_def steps_of_def)

lemma history_kept_trans:
  assumes "history_kept d d1" and "history_kept d1 d2"
  shows "history_kept d d2"
proof -
  have "rr_id ` set (db_revisions d) \<subseteq> rr_id ` set (db_revisions d1)"
  proof
    fix i
    assume "i \<in> rr_id ` set (db_revisions d)"
    then obtain r where "r \<in> set (db_revisions d)" "i = rr_id r" by auto
    then obtain r' where "r' \<in> set (db_revisions d1)" "revision_core r' = revision_core r"
      using prefix_map_mem [of revision_core "db_revisions d" "db_revisions d1" r] assms(1)
      by (auto simp: history_kept_def)
    with \<open>i = rr_id r\<close> show "i \<in> rr_id ` set (db_revisions d1)"
      by (auto simp: revision_core_def rev_image_eqI)
  qed
  then have "\<forall>i \<in> rr_id ` set (db_revisions d). steps_of i d2 = steps_of i d"
    using assms unfolding history_kept_def by (metis subsetD)
  then show ?thesis
    using assms unfolding history_kept_def by (blast intro: prefix_order.trans)
qed

lemma new_revision_kept:
  assumes ok: "routes_ok E d" and new: "new_revision E route ss p d = Inr (rv, d')"
  shows "history_kept d d'"
proof -
  obtain rows where e: "rv = revision_row E route p d" "db_revisions d' = db_revisions d @ [rv]"
    "db_steps d' = db_steps d @ rows" "rs_route_revision_id ` set rows \<subseteq> {rr_id rv}"
    using new_revision_effect [OF new] by metis
  have "rr_id rv \<notin> drawn E d"
    using new_uuid_fresh [OF routes_okD(1) [OF ok]] by (simp add: e(1) revision_row_def)
  then have "rr_id rv \<notin> rr_id ` set (db_revisions d)"
    using routes_okD(2) [OF ok] by (auto simp: route_ids_drawn_def)
  then have "\<forall>i \<in> rr_id ` set (db_revisions d). steps_of i d' = steps_of i d"
    using steps_of_append [OF e(3,4)] by (metis append_Nil2)
  then show ?thesis
    by (simp add: history_kept_def e(2))
qed

lemma set_revision_core:
  "keeps_identity f \<Longrightarrow> map revision_core (db_revisions (set_revision i f d)) = map revision_core (db_revisions d)"
  by (simp add: set_revision_def map_update_by keeps_identity_def revision_core_def)

lemma activation_kept: "history_kept d (activation now route i d)"
proof (rule history_kept_same)
  have "map revision_core (db_revisions (supersede route i d)) = map revision_core (db_revisions d)"
    using set_revision_core [of "\<lambda>r. r\<lparr>rr_status := ''superseded''\<rparr>"]
    by (simp add: supersede_def keeps_identity_def split: option.split)
  then show "map revision_core (db_revisions (activation now route i d)) = map revision_core (db_revisions d)"
    using set_revision_core [OF activated_ids] by (simp add: activation_def set_active_def)
qed (simp add: activation_def set_active_def)

definition evolves :: "env \<Rightarrow> db \<Rightarrow> db \<Rightarrow> bool" where
  "evolves E d d' \<longleftrightarrow> routes_ok E d' \<and> history_kept d d'"

lemma evolves_refl: "routes_ok E d \<Longrightarrow> evolves E d d"
  by (simp add: evolves_def history_kept_same)

subsection \<open>The endpoints keep routes well-formed\<close>

lemma create_route_evolves:
  assumes "create_route E b p d = (res, d')" and ok: "routes_ok E d"
  shows "evolves E d d'"
  using assms(1) unfolding create_route_def
proof (rule atomically_cases)
  fix x
  assume x: "(if \<not> valid_route b then Inl invalid_request
      else if find_by rd_code (rc_code b) (db_routes d) \<noteq> None
        then Inl (TraceQError ''ROUTE_CODE_EXISTS'' ''Route code already exists'' 409)
      else rbind (new_revision E (new_uuid E d) (rc_steps b) p (add_route E (rc_code b) (rc_name b) d))
        (\<lambda>(revision, d'). Inr ((new_uuid E d, rr_id revision), d'))) = Inr (x, d')"
  then obtain rv where v: "valid_route b" and f: "find_by rd_code (rc_code b) (db_routes d) = None"
    and n: "new_revision E (new_uuid E d) (rc_steps b) p (add_route E (rc_code b) (rc_name b) d) = Inr (rv, d')"
    by (auto simp: rbind_Inr_iff split: if_splits)
  have "routes_ok E d'"
  proof (rule new_revision_ok [OF add_route_ok [OF ok f] _ _ n])
    show "new_uuid E d \<in> drawn E (add_route E (rc_code b) (rc_name b) d)"
      by (rule drawn_new) (simp add: add_route_def drew_uuid_def)
  qed (use v in \<open>simp add: valid_route_def valid_steps_def\<close>)
  moreover have "history_kept d (add_route E (rc_code b) (rc_name b) d)"
    by (rule history_kept_same) (simp_all add: add_route_def drew_uuid_def)
  ultimately show ?thesis
    using new_revision_kept [OF add_route_ok [OF ok f] n] history_kept_trans by (auto simp: evolves_def)
qed (use ok evolves_refl in simp)

lemma create_revision_evolves:
  assumes "create_revision E i steps p d = (res, d')" and ok: "routes_ok E d"
  shows "evolves E d d'"
  using assms(1) unfolding create_revision_def
proof (rule atomically_cases)
  fix x
  assume x: "(if \<not> valid_steps steps then Inl invalid_request
      else case find_by rd_id i (db_routes d) of None \<Rightarrow> Inl (NotFoundError ''Route'')
        | Some route \<Rightarrow> rbind (new_revision E (rd_id route) steps p d)
            (\<lambda>(revision, d'). Inr ((rr_id revision, rr_revision revision), d'))) = Inr (x, d')"
  then obtain route rv where v: "valid_steps steps" and f: "find_by rd_id i (db_routes d) = Some route"
    and n: "new_revision E (rd_id route) steps p d = Inr (rv, d')"
    by (auto simp: rbind_Inr_iff split: if_splits option.splits)
  have "routes_ok E d'"
  proof (rule new_revision_ok [OF ok _ _ n])
    show "rd_id route \<in> drawn E d"
      using routes_okD(2) [OF ok] find_by_SomeD [OF f] by (auto simp: route_ids_drawn_def)
  qed (use v in \<open>simp add: valid_steps_def\<close>)
  then show ?thesis
    using new_revision_kept [OF ok n] by (simp add: evolves_def)
qed (use ok evolves_refl in simp)

lemma same_tables_ok:
  assumes "routes_ok E d" and "route_tables d' = route_tables d" and "db_uuid_draws d \<le> db_uuid_draws d'"
  shows "routes_ok E d'"
proof (rule same_revisions_ok [OF assms(1)])
  have t: "db_routes d' = db_routes d" "db_revisions d' = db_revisions d" "db_steps d' = db_steps d"
    using assms(2) by (simp_all add: route_tables_def)
  show "db_revisions d' = db_revisions d" "db_steps d' = db_steps d" "db_uuid_draws d \<le> db_uuid_draws d'"
    using t assms(3) by simp_all
  show "rd_id ` set (db_routes d') \<subseteq> drawn E d'" "distinct (map rd_code (db_routes d'))"
    "\<forall>route \<in> set (db_routes d'). active_ok d route"
    using t routes_okD(2,3,6) [OF assms(1)] drawn_grows [OF assms(3), of E]
    by (auto simp: route_ids_drawn_def)
qed

lemma activate_revision_evolves:
  assumes "activate_revision now i j reason r p d = (res, d')" and ok: "routes_ok E d"
  shows "evolves E d d'"
proof (cases res)
  case (Inl e)
  then show ?thesis
    using assms evolves_refl by (auto simp: activate_revision_def dest: atomically_Inl)
next
  case (Inr x)
  then obtain route rv a o' c y where *: "find_by rd_id i (db_routes d) = Some route"
    "find_by rr_id j (db_revisions d) = Some rv" "rr_route_id rv = rd_id route"
    "d' = write_audit a o' c y (activation now route (rr_id rv) d)"
    using assms(1) by (auto simp: activate_revision_def activation_def dest!: atomically_Inr
        split: option.splits if_splits)
  have j: "rr_id rv = j"
    using find_by_SomeD [OF *(2)] by simp
  have "routes_ok E (write_audit a o' c y (activation now route j d))"
  proof (rule same_tables_ok [OF activation_ok [OF ok *(1-3)]])
    show "route_tables (write_audit a o' c y (activation now route j d)) = route_tables (activation now route j d)"
      by (simp add: route_tables_def write_audit_def)
    show "db_uuid_draws (activation now route j d) \<le> db_uuid_draws (write_audit a o' c y (activation now route j d))"
      by (simp add: write_audit_def)
  qed
  then show ?thesis
    using activation_kept [of d now route j] *(4)
    by (simp add: j evolves_def history_kept_def steps_of_def write_audit_def)
qed

text \<open>An activation by import is the activation of a revision that was just added, without superseding.\<close>

lemma set_active_members:
  assumes "r0 \<in> set (db_routes (set_active route i d))"
  shows "rd_id r0 = route \<Longrightarrow> rd_active_revision_id r0 = Some i"
    and "rd_id r0 \<noteq> route \<Longrightarrow> r0 \<in> set (db_routes d)"
proof -
  obtain r where r: "r \<in> set (db_routes d)"
    "r0 = (if rd_id r = route then r\<lparr>rd_active_revision_id := Some i\<rparr> else r)"
    using assms by (auto simp: set_active_def update_by_def)
  show "rd_id r0 = route \<Longrightarrow> rd_active_revision_id r0 = Some i" "rd_id r0 \<noteq> route \<Longrightarrow> r0 \<in> set (db_routes d)"
    using r by (cases "rd_id r = route"; simp)+
qed

lemma import_activation_ok:
  assumes ok: "routes_ok E d" and rv: "find_by rr_id i (db_revisions d) = Some rv"
    and belongs: "rr_route_id rv = route" and unused: "\<forall>r0 \<in> set (db_routes d). rd_active_revision_id r0 \<noteq> Some i"
    and f: "keeps_identity f" "\<And>r. rr_status (f r) = ''active''"
  shows "routes_ok E (set_active route i (set_revision i f d))"
proof (rule revised_ok [OF ok])
  let ?d = "set_active route i (set_revision i f d)"
  have find: "find_by rr_id j (db_revisions ?d) =
      (if j = i then map_option f (find_by rr_id j (db_revisions d)) else find_by rr_id j (db_revisions d))" for j
    using f(1) by (simp add: set_active_def set_revision_def find_by_update_by keeps_identity_def)
  show "map rr_id (db_revisions ?d) = map rr_id (db_revisions d)"
    "map rr_route_id (db_revisions ?d) = map rr_route_id (db_revisions d)"
    "map rr_revision (revisions_of j ?d) = map rr_revision (revisions_of j d)" for j
    using set_revision_ids [OF f(1)] by (simp_all add: set_active_def revisions_of_def)
  show "map rd_id (db_routes ?d) = map rd_id (db_routes d)" "map rd_code (db_routes ?d) = map rd_code (db_routes d)"
    by (simp_all add: set_active_def map_update_by)
  have "active_ok ?d r0" if r0: "r0 \<in> set (db_routes ?d)" for r0
  proof (cases "rd_id r0 = route")
    case True
    then have "rd_active_revision_id r0 = Some i"
      by (rule set_active_members(1) [OF r0])
    moreover have "find_by rr_id i (db_revisions ?d) = Some (f rv)"
      using rv by (simp only: find option.map refl if_True)
    moreover have "rr_route_id (f rv) = rd_id r0"
      using f(1) belongs True by (simp add: keeps_identity_def)
    ultimately show ?thesis
      using f(2) [of rv] by (simp add: active_ok_def)
  next
    case False
    then have "r0 \<in> set (db_routes d)"
      using set_active_members(2) [OF r0] by simp
    then have "rd_active_revision_id r0 \<noteq> Some i" "active_ok d r0"
      using routes_okD(6) [OF ok] unused by simp_all
    then show ?thesis
      unfolding active_ok_def by (metis find)
  qed
  then show "\<forall>r0 \<in> set (db_routes ?d). active_ok ?d r0" by blast
qed (simp_all add: set_active_def)

lemma import_into_ok:
  assumes "routes_ok E d" and "import_into E b d = (route, d1)"
  shows "routes_ok E d1" and "route \<in> drawn E d1"
proof -
  show "routes_ok E d1"
    using assms add_route_ok [OF assms(1)] by (auto simp: import_into_def split: option.splits)
  show "route \<in> drawn E d1"
    using assms(2) routes_okD(2) [OF assms(1)] find_by_SomeD [of rd_code "rc_code b" "db_routes d"]
      drawn_new [of d "add_route E (rc_code b) (rc_name b) d" E]
    by (auto simp: import_into_def route_ids_drawn_def add_route_def drew_uuid_def split: option.splits)
qed

lemma new_revision_unused:
  assumes ok: "routes_ok E d" and new: "new_revision E route ss p d = Inr (rv, d')"
  shows "find_by rr_id (rr_id rv) (db_revisions d') = Some rv" and "rr_route_id rv = route"
    and "\<forall>r0 \<in> set (db_routes d'). rd_active_revision_id r0 \<noteq> Some (rr_id rv)"
proof -
  obtain rows where e: "rv = revision_row E route p d" "db_routes d' = db_routes d"
    "db_revisions d' = db_revisions d @ [rv]"
    using new_revision_effect [OF new] by metis
  have "rr_id rv \<notin> drawn E d"
    using new_uuid_fresh [OF routes_okD(1) [OF ok]] by (simp add: e(1) revision_row_def)
  then have unused: "rr_id rv \<notin> rr_id ` set (db_revisions d)"
    using routes_okD(2) [OF ok] by (auto simp: route_ids_drawn_def)
  then show "find_by rr_id (rr_id rv) (db_revisions d') = Some rv"
    by (simp add: e(3) find_by_append find_by_None_iff [THEN iffD2])
  show "rr_route_id rv = route"
    by (simp add: e(1) revision_row_def)
  show "\<forall>r0 \<in> set (db_routes d'). rd_active_revision_id r0 \<noteq> Some (rr_id rv)"
  proof
    fix r0
    assume "r0 \<in> set (db_routes d')"
    then have "active_ok d r0"
      using routes_okD(6) [OF ok] by (simp add: e(2))
    moreover have "find_by rr_id (rr_id rv) (db_revisions d) = None"
      using unused by (simp add: find_by_None_iff)
    ultimately show "rd_active_revision_id r0 \<noteq> Some (rr_id rv)"
      unfolding active_ok_def by (metis option.distinct(1))
  qed
qed

lemma import_route_cases:
  assumes "import_route E now b a p d = (res, d')"
  obtains (refused) e where "res = Inl e" "d' = d"
  | (imported) route d1 rv d2 where "valid_steps (rc_steps b)" "import_into E b d = (route, d1)"
      "new_revision E route (rc_steps b) p d1 = Inr (rv, d2)"
      "d' = (if a then set_active route (rr_id rv) (set_revision (rr_id rv)
          (\<lambda>r. r\<lparr>rr_status := ''active'', rr_immutable_after := Some now\<rparr>) d2) else d2)"
      "res = Inr (route, rr_id rv)"
  using assms unfolding import_route_def
proof (rule atomically_cases)
  fix x
  assume *: "(if \<not> valid_route b then Inl invalid_request
     else let (route, d1) = import_into E b d in
       rbind (new_revision E route (rc_steps b) p d1) (\<lambda>(revision, d2).
         Inr ((route, rr_id revision),
           if a then set_active route (rr_id revision) (set_revision (rr_id revision)
             (\<lambda>r. r\<lparr>rr_status := ''active'', rr_immutable_after := Some now\<rparr>) d2) else d2))) = Inr (x, d')"
    and res: "res = Inr x"
  obtain route d1 where i: "import_into E b d = (route, d1)" by fastforce
  from * have v: "valid_route b"
    by (simp split: if_splits)
  with * obtain y where "new_revision E route (rc_steps b) p d1 = Inr y"
    "(case y of (revision, d2) \<Rightarrow> Inr ((route, rr_id revision),
        if a then set_active route (rr_id revision) (set_revision (rr_id revision)
          (\<lambda>r. r\<lparr>rr_status := ''active'', rr_immutable_after := Some now\<rparr>) d2) else d2)) = (Inr (x, d') :: (_ \<times> db) result)"
    by (auto simp only: i rbind_Inr_iff Let_def prod.case if_True if_False not_not HOL.simp_thms)
  then obtain rv d2 where "valid_route b" "new_revision E route (rc_steps b) p d1 = Inr (rv, d2)"
    "x = (route, rr_id rv)" "d' = (if a then set_active route (rr_id rv) (set_revision (rr_id rv)
          (\<lambda>r. r\<lparr>rr_status := ''active'', rr_immutable_after := Some now\<rparr>) d2) else d2)"
    using v by (cases y) simp
  then show thesis
    using imported [OF _ i] res by (simp add: valid_route_def)
qed (use refused in simp)

lemma import_route_evolves:
  assumes "import_route E now b a p d = (res, d')" and ok: "routes_ok E d"
  shows "evolves E d d'"
  using assms(1)
proof (cases rule: import_route_cases)
  case (imported route d1 rv d2)
  have d1: "routes_ok E d1" "route \<in> drawn E d1"
    using import_into_ok [OF ok imported(2)] by simp_all
  have d2: "routes_ok E d2"
    by (rule new_revision_ok [OF d1(1) _ d1(2) imported(3)]) (use imported(1) in \<open>simp add: valid_steps_def\<close>)
  let ?f = "\<lambda>r. r\<lparr>rr_status := ''active'', rr_immutable_after := Some now\<rparr> :: RouteRevision"
  have f: "keeps_identity ?f"
    by (simp add: keeps_identity_def)
  have "routes_ok E d'"
    unfolding imported(4)
    using d2 import_activation_ok [OF d2 new_revision_unused [OF d1(1) imported(3)] f] by simp
  moreover have "history_kept d d1"
    using imported(2) by (intro history_kept_same)
      (auto simp: import_into_def add_route_def drew_uuid_def split: option.splits)
  moreover have "history_kept d2 d'"
    using set_revision_core [OF f] by (intro history_kept_same) (simp_all add: imported(4) set_active_def)
  ultimately show ?thesis
    using new_revision_kept [OF d1(1) imported(3)] history_kept_trans unfolding evolves_def by blast
qed (use ok evolves_refl in simp)

lemma route_step_evolves:
  assumes "route_step E d d'" and "routes_ok E d"
  shows "evolves E d d'"
  using assms
proof (induction rule: route_step.induct)
  case (rt_create d now c b)
  show ?case
    unfolding create_route_endpoint_def
    by (rule gated_keeps [where P = "evolves E d"], rule evolves_refl [OF rt_create]) (erule create_route_evolves [OF _ rt_create])
next
  case (rt_revision d now c i steps)
  show ?case
    unfolding create_revision_endpoint_def
    by (rule gated_keeps [where P = "evolves E d"], rule evolves_refl [OF rt_revision]) (erule create_revision_evolves [OF _ rt_revision])
next
  case (rt_activate d now c i j reason r)
  show ?case
    unfolding activate_endpoint_def
    by (rule gated_keeps [where P = "evolves E d"], rule evolves_refl [OF rt_activate]) (erule activate_revision_evolves [OF _ rt_activate])
next
  case (rt_import d now c b a)
  show ?case
    unfolding import_endpoint_def
    by (rule gated_keeps [where P = "evolves E d"], rule evolves_refl [OF rt_import]) (erule import_route_evolves [OF _ rt_import])
next
  case (rt_other d' d)
  then show ?case
    using same_tables_ok by (auto simp: evolves_def history_kept_def steps_of_def route_tables_def)
qed

interpretation routes_inv: step_invariant "route_step E" "\<lambda>d. evolves E d0 d" for E d0
  by unfold_locales (use route_step_evolves history_kept_trans in \<open>fastforce simp: evolves_def\<close>)

text \<open>An installation without routes is where histories start.\<close>

lemma no_routes_ok: "inj (uuid4 E) \<Longrightarrow> db_routes d = [] \<Longrightarrow> db_revisions d = [] \<Longrightarrow> db_steps d = [] \<Longrightarrow> routes_ok E d"
  by (simp add: routes_ok_def route_ids_drawn_def revisions_of_def steps_of_def well_stepped_def)

text \<open>An import that activates leaves the revision that was active as it is: two are active then.\<close>

lemma import_leaves_active:
  assumes ok: "routes_ok E d" and "import_route E now b True p d = (Inr (i, j), d')"
    and r: "r \<in> set (db_revisions d)" and "rr_status r = ''active''"
  shows "r \<in> set (db_revisions d') \<and> rr_id r \<noteq> j \<and> rr_status r = ''active'' \<and>
    (\<exists>r'. find_by rr_id j (db_revisions d') = Some r' \<and> rr_status r' = ''active'')"
  using assms(2)
proof (cases rule: import_route_cases)
  case (refused e)
  then show ?thesis by simp
next
  case (imported route d1 rv d2)
  have d1: "routes_ok E d1" "db_revisions d1 = db_revisions d"
    using import_into_ok [OF ok imported(2)] imported(2)
    by (auto simp: import_into_def add_route_def drew_uuid_def split: option.splits)
  have new: "find_by rr_id (rr_id rv) (db_revisions d2) = Some rv"
    by (rule new_revision_unused(1) [OF d1(1) imported(3)])
  obtain rows where e: "db_revisions d2 = db_revisions d @ [rv]" "rv = revision_row E route p d1"
    using new_revision_effect [OF imported(3)] d1(2) by metis
  have "rr_id rv \<notin> drawn E d1"
    using new_uuid_fresh [OF routes_okD(1) [OF ok]] by (simp add: e(2) revision_row_def)
  then have ne: "rr_id r \<noteq> rr_id rv"
    using r routes_okD(2) [OF d1(1)] by (auto simp: route_ids_drawn_def d1(2))
  have "db_revisions d' = update_by rr_id (rr_id rv)
      (\<lambda>r. r\<lparr>rr_status := ''active'', rr_immutable_after := Some now\<rparr>) (db_revisions d2)"
    by (simp add: imported(4) set_active_def set_revision_def)
  then have "find_by rr_id (rr_id rv) (db_revisions d') =
      Some (rv\<lparr>rr_status := ''active'', rr_immutable_after := Some now\<rparr>)" "r \<in> set (db_revisions d')"
    using new r ne by (simp_all add: find_by_update_by e(1) set_update_by del: update_by_append)
  then show ?thesis
    using ne assms(4) imported(5) by auto
qed

end
