(* ===== verification/TQ_Admin.thy ===== *)
theory TQ_Admin
  imports TQ_Routes TQ_Ingestion
begin

text \<open>
  Administration (\<^verbatim>\<open>backend/app/api/admin.py\<close>): users and their roles, event sources, the crypto
  profile, checkpoints of an integrity stream (\<^verbatim>\<open>security/checkpoints.py\<close>), verification on request,
  rebuild on request and the demonstration of tampering; and the key provider
  (\<^verbatim>\<open>security/key_provider.py\<close>). What these operations mean for the rest of the system is in
  TQ_Admin_Facts; the listings of the audit log and the alerts are in TQ_Records.
\<close>

section \<open>Users\<close>

record UserCreate =
  uc_username :: string
  uc_display_name :: string
  uc_password :: string
  uc_roles :: "string list"

definition valid_user :: "UserCreate \<Rightarrow> bool" where
  "valid_user b \<longleftrightarrow> text_between 3 96 (uc_username b) \<and> list_all code_char (uc_username b) \<and>
     text_between 1 160 (uc_display_name b) \<and> text_between 12 512 (uc_password b) \<and> uc_roles b \<noteq> []"

text \<open>\<open>select(Role).where(Role.name.in_(names))\<close>, refused when a name stands for no role.\<close>

definition roles_named :: "string list \<Rightarrow> db \<Rightarrow> Role list result" where
  "roles_named names d =
     (let roles = filter (\<lambda>r. ro_name r \<in> set names) (db_roles d) in
      if length roles \<noteq> length (remdups names)
      then Inl (TraceQError ''UNKNOWN_ROLE'' ''One or more roles are unknown'' 422)
      else Inr roles)"

text \<open>\<open>user.roles = list(roles)\<close>: the associations of the user are replaced.\<close>

definition set_roles :: "uuid \<Rightarrow> Role list \<Rightarrow> db \<Rightarrow> db" where
  "set_roles user roles d = d\<lparr>db_user_roles :=
     filter (\<lambda>ur. fst ur \<noteq> user) (db_user_roles d) @ map (\<lambda>r. (user, ro_id r)) roles\<rparr>"

definition strs :: "string list \<Rightarrow> json" where
  "strs xs = JArr (map JStr xs)"

definition user_row :: "env \<Rightarrow> UserCreate \<Rightarrow> db \<Rightarrow> User" where
  "user_row E b d = \<lparr>us_id = new_uuid E d, us_username = uc_username b,
     us_display_name = uc_display_name b,
     us_password_hash = hash_password E (db_uuid_draws d) (uc_password b), us_enabled = True,
     us_failed_login_attempts = 0, us_locked_until = None\<rparr>"

definition create_user ::
  "env \<Rightarrow> UserCreate \<Rightarrow> string option \<Rightarrow> Principal \<Rightarrow> db \<Rightarrow> (uuid \<times> string) result \<times> db" where
  "create_user E b request_id p = atomically (\<lambda>d.
     if \<not> valid_user b then Inl invalid_request else
     if find_by us_username (uc_username b) (db_users d) \<noteq> None
       then Inl (TraceQError ''USERNAME_EXISTS'' ''Username already exists'' 409) else
     rbind (roles_named (uc_roles b) d) (\<lambda>roles.
       let user = user_row E b d;
           d1 = set_roles (us_id user) roles (drew_uuid (d\<lparr>db_users := db_users d @ [user]\<rparr>)) in
       Inr ((us_id user, us_username user),
         write_audit ''user_create'' ''success'' (acting p ''user'' (us_id user) request_id)
           (JObj [(''username'', JStr (uc_username b)), (''roles'', strs (uc_roles b))]) d1)))"

record UserPatch =
  up_enabled :: "bool option"
  up_display_name :: "string option"
  up_roles :: "string list option"

definition valid_patch :: "UserPatch \<Rightarrow> bool" where
  "valid_patch b \<longleftrightarrow> (case up_display_name b of None \<Rightarrow> True | Some n \<Rightarrow> text_between 1 160 n)"

text \<open>\<open>body.model_dump(exclude_none=True)\<close>.\<close>

definition present :: "string \<Rightarrow> ('a \<Rightarrow> json) \<Rightarrow> 'a option \<Rightarrow> (string \<times> json) list" where
  "present k f x = (case x of None \<Rightarrow> [] | Some v \<Rightarrow> [(k, f v)])"

definition patched_user :: "UserPatch \<Rightarrow> User \<Rightarrow> User" where
  "patched_user b u =
     (let u1 = (case up_enabled b of None \<Rightarrow> u | Some e \<Rightarrow> u\<lparr>us_enabled := e\<rparr>) in
      case up_display_name b of None \<Rightarrow> u1 | Some n \<Rightarrow> u1\<lparr>us_display_name := n\<rparr>)"

definition patch_user ::
  "uuid \<Rightarrow> UserPatch \<Rightarrow> string option \<Rightarrow> Principal \<Rightarrow> db \<Rightarrow> (uuid \<times> bool) result \<times> db" where
  "patch_user user_id b request_id p = atomically (\<lambda>d.
     if \<not> valid_patch b then Inl invalid_request else
     (case find_by us_id user_id (db_users d) of
        None \<Rightarrow> Inl (NotFoundError ''User'')
      | Some user \<Rightarrow>
          if up_enabled b = Some False \<and> us_id user = pr_user_id p
            then Inl (TraceQError ''CANNOT_DISABLE_SELF'' ''You cannot disable your own account'' 409)
          else
            rbind (case up_roles b of
                     None \<Rightarrow> Inr d
                   | Some names \<Rightarrow> rbind (roles_named names d) (\<lambda>roles. Inr (set_roles (us_id user) roles d)))
              (\<lambda>d1. Inr ((us_id user, us_enabled (patched_user b user)),
                write_audit ''user_update'' ''success'' (acting p ''user'' (us_id user) request_id)
                  (JObj (present ''enabled'' JBool (up_enabled b) @
                         present ''display_name'' JStr (up_display_name b) @
                         present ''roles'' strs (up_roles b)))
                  (set_user (us_id user) (patched_user b) d1)))))"

definition effective_permissions :: "string list \<Rightarrow> string list" where
  "effective_permissions names = sort (remdups (concat (map (\<lambda>name.
     case map_of ROLE_PERMISSIONS name of None \<Rightarrow> [] | Some ps \<Rightarrow> ps) names)))"

definition user_view :: "db \<Rightarrow> User \<Rightarrow> json" where
  "user_view d u =
     (let names = map ro_name (filter (\<lambda>r. ro_id r \<in> set (roles_of d (us_id u))) (db_roles d)) in
      JObj [(''id'', JStr (us_id u)), (''username'', JStr (us_username u)),
        (''display_name'', JStr (us_display_name u)), (''enabled'', JBool (us_enabled u)),
        (''roles'', strs names), (''effective_permissions'', strs (effective_permissions names))])"

definition list_users :: "Principal \<Rightarrow> db \<Rightarrow> json result \<times> db" where
  "list_users p d = (Inr (JArr (map (user_view d) (sort_key us_username (db_users d)))), d)"

section \<open>Event sources\<close>

record SourceCreate =
  sc_source_id :: string
  sc_source_type :: string
  sc_allowed_event_types :: "string list"
  sc_token :: "string option"
  sc_auth_method :: auth_method
  sc_allowed_line_ids :: "string list"
  sc_allowed_station_ids :: "string list"

definition known_types :: "string list \<Rightarrow> bool" where
  "known_types ts \<longleftrightarrow> ts \<noteq> [] \<and> set ts \<subseteq> set SUPPORTED_EVENT_TYPES"

definition valid_source :: "SourceCreate \<Rightarrow> bool" where
  "valid_source b \<longleftrightarrow> text_between 1 128 (sc_source_id b) \<and>
     list_all (\<lambda>c. code_char c \<or> c = CHR '':'') (sc_source_id b) \<and>
     text_between 1 64 (sc_source_type b) \<and> known_types (sc_allowed_event_types b) \<and>
     (case sc_token b of None \<Rightarrow> True | Some t \<Rightarrow> text_between 24 512 t)"

definition sorted_set :: "string list \<Rightarrow> string list" where
  "sorted_set xs = sort (remdups xs)"

definition source_row :: "env \<Rightarrow> time \<Rightarrow> SourceCreate \<Rightarrow> string \<Rightarrow> EventSource" where
  "source_row E now b token = \<lparr>es_source_id = sc_source_id b, es_source_type = sc_source_type b,
     es_enabled = True, es_status = Source_active, es_auth_method = sc_auth_method b,
     es_token_hash = Some (token_hash E token),
     es_allowed_event_types = sorted_set (sc_allowed_event_types b),
     es_allowed_line_ids = sorted_set (sc_allowed_line_ids b),
     es_allowed_station_ids = sorted_set (sc_allowed_station_ids b), es_valid_from = None,
     es_valid_to = None, es_revoked_at = None, es_last_source_sequence = None, es_created_at = now\<rparr>"

text \<open>The token is returned once; only its hash is stored.\<close>

definition create_source ::
  "env \<Rightarrow> time \<Rightarrow> SourceCreate \<Rightarrow> string option \<Rightarrow> Principal \<Rightarrow> db \<Rightarrow> (string \<times> string) result \<times> db" where
  "create_source E now b request_id p = atomically (\<lambda>d.
     if \<not> valid_source b then Inl invalid_request else
     if find_by es_source_id (sc_source_id b) (db_sources d) \<noteq> None
       then Inl (TraceQError ''SOURCE_EXISTS'' ''Source ID already exists'' 409) else
     let token = (if has_id (sc_token b) then the (sc_token b) else token_urlsafe E (db_uuid_draws d));
         src = source_row E now b token in
     Inr ((es_source_id src, token),
       write_audit ''source_create'' ''success'' (acting p ''event_source'' (es_source_id src) request_id)
         (JObj [(''source_type'', JStr (sc_source_type b)),
                (''allowed_event_types'', strs (es_allowed_event_types src))])
         (drew_uuid (d\<lparr>db_sources := db_sources d @ [src]\<rparr>))))"

record SourcePatch =
  sp_enabled :: "bool option"
  sp_allowed_event_types :: "string list option"
  sp_status :: "source_status option"
  sp_allowed_line_ids :: "string list option"
  sp_allowed_station_ids :: "string list option"

fun source_status_str :: "source_status \<Rightarrow> string" where
  "source_status_str Source_active = ''ACTIVE''"
| "source_status_str Source_suspended = ''SUSPENDED''"
| "source_status_str Source_revoked = ''REVOKED''"
| "source_status_str Source_expired = ''EXPIRED''"

definition valid_source_patch :: "SourcePatch \<Rightarrow> bool" where
  "valid_source_patch b \<longleftrightarrow> (case sp_allowed_event_types b of None \<Rightarrow> True | Some ts \<Rightarrow> known_types ts)"

definition assign :: "('a \<Rightarrow> 'r \<Rightarrow> 'r) \<Rightarrow> 'a option \<Rightarrow> 'r \<Rightarrow> 'r" where
  "assign f x r = (case x of None \<Rightarrow> r | Some v \<Rightarrow> f v r)"

definition patched_source :: "SourcePatch \<Rightarrow> EventSource \<Rightarrow> EventSource" where
  "patched_source b =
     assign (\<lambda>xs r. r\<lparr>es_allowed_station_ids := sorted_set xs\<rparr>) (sp_allowed_station_ids b) \<circ>
     assign (\<lambda>xs r. r\<lparr>es_allowed_line_ids := sorted_set xs\<rparr>) (sp_allowed_line_ids b) \<circ>
     assign (\<lambda>x r. r\<lparr>es_status := x\<rparr>) (sp_status b) \<circ>
     assign (\<lambda>ts r. r\<lparr>es_allowed_event_types := sorted_set ts\<rparr>) (sp_allowed_event_types b) \<circ>
     assign (\<lambda>x r. r\<lparr>es_enabled := x\<rparr>) (sp_enabled b)"

definition patch_source ::
  "string \<Rightarrow> SourcePatch \<Rightarrow> string option \<Rightarrow> Principal \<Rightarrow> db \<Rightarrow> (string \<times> bool \<times> string list) result \<times> db" where
  "patch_source i b request_id p = atomically (\<lambda>d.
     if \<not> valid_source_patch b then Inl invalid_request else
     (case find_by es_source_id i (db_sources d) of
        None \<Rightarrow> Inl (NotFoundError ''Source'')
      | Some src \<Rightarrow>
          let src' = patched_source b src in
          Inr ((es_source_id src', es_enabled src', es_allowed_event_types src'),
            write_audit ''source_update'' ''success'' (acting p ''event_source'' (es_source_id src) request_id)
              (JObj (present ''enabled'' JBool (sp_enabled b) @
                     present ''allowed_event_types'' strs (sp_allowed_event_types b) @
                     present ''status'' (\<lambda>s. JStr (source_status_str s)) (sp_status b) @
                     present ''allowed_line_ids'' strs (sp_allowed_line_ids b) @
                     present ''allowed_station_ids'' strs (sp_allowed_station_ids b)))
              (d\<lparr>db_sources := update_by es_source_id i (patched_source b) (db_sources d)\<rparr>))))"

fun auth_method_str :: "auth_method \<Rightarrow> string" where
  "auth_method_str Shared_secret_legacy = ''shared_secret_legacy''"
| "auth_method_str HMAC_V1 = ''HMAC_V1''"

definition source_view :: "env \<Rightarrow> EventSource \<Rightarrow> json" where
  "source_view E s = JObj [(''source_id'', JStr (es_source_id s)), (''source_type'', JStr (es_source_type s)),
     (''enabled'', JBool (es_enabled s)), (''status'', JStr (source_status_str (es_status s))),
     (''auth_method'', JStr (auth_method_str (es_auth_method s))),
     (''allowed_event_types'', strs (es_allowed_event_types s)),
     (''allowed_line_ids'', strs (es_allowed_line_ids s)),
     (''allowed_station_ids'', strs (es_allowed_station_ids s)),
     (''created_at'', JStr (isoformat E (es_created_at s)))]"

definition list_sources :: "env \<Rightarrow> Principal \<Rightarrow> db \<Rightarrow> json result \<times> db" where
  "list_sources E p d = (Inr (JArr (map (source_view E) (sort_key es_source_id (db_sources d)))), d)"

section \<open>Keys, profiles and checkpoints\<close>

definition get_active_key :: "Settings \<Rightarrow> string \<Rightarrow> (string \<times> bytes) result" where
  "get_active_key S purpose =
     (if purpose = ''raw_encryption'' then Inr (aes_key_id S, aes_key S)
      else if purpose = ''raw_integrity'' \<or> purpose = ''audit_integrity''
        then Inr (integrity_key_id S, integrity_key S)
      else Inl (TraceQError ''KEY_UNAVAILABLE'' ''Requested key purpose is unavailable'' 503))"

fun key_of_purposes :: "Settings \<Rightarrow> string \<Rightarrow> string list \<Rightarrow> (string \<times> bytes) result" where
  "key_of_purposes S key_id [] = Inl (TraceQError ''KEY_UNAVAILABLE'' ''Requested key ID is unavailable'' 503)"
| "key_of_purposes S key_id (purpose # rest) =
     rbind (get_active_key S purpose) (\<lambda>material.
       if fst material = key_id then Inr material else key_of_purposes S key_id rest)"

definition get_key :: "Settings \<Rightarrow> string \<Rightarrow> (string \<times> bytes) result" where
  "get_key S key_id = key_of_purposes S key_id [''raw_encryption'', ''raw_integrity'']"

definition rotate_key :: "string \<Rightarrow> (string \<times> bytes) result" where
  "rotate_key purpose = Inl (TraceQError ''EXTERNAL_ROTATION_REQUIRED''
     ''Rotate the environment secret and deploy a new key ID'' 409)"

definition CRYPTO_PROFILES :: "(string \<times> (string \<times> json) list) list" where
  "CRYPTO_PROFILES =
     [(''CLASSIC_V1'', [(''encryption'', JStr ''AES-256-GCM''), (''integrity'', JStr ''HMAC-SHA256''),
        (''checkpoint'', JStr ''ECDSA-P256'')]),
      (''HYBRID_PQ_V1'', [(''encryption'', JStr ''AES-256-GCM''), (''integrity'', JStr ''HMAC-SHA256''),
        (''checkpoint'', JStr ''ECDSA-P256+ML-DSA-65''), (''optional_dependency'', JStr ''liboqs-python'')])]"

definition crypto_profile :: "Principal \<Rightarrow> db \<Rightarrow> json result \<times> db" where
  "crypto_profile p d =
     (let profile_id = (case find_by cy_status ''ACTIVE'' (db_crypto_profiles d) of
            Some active \<Rightarrow> cy_profile_id active | None \<Rightarrow> ''CLASSIC_V1'') in
      case map_of CRYPTO_PROFILES profile_id of
        None \<Rightarrow> (Inl (PyError ''KeyError''), d)
      | Some algorithms \<Rightarrow>
          (Inr (JObj [(''profile_id'', JStr profile_id), (''algorithms'', JObj algorithms),
             (''pq_available'', JBool False), (''keys_stored_in_database'', JBool False)]), d))"

text \<open>\<open>base64.b64encode\<close>.\<close>

definition b64_char :: "nat \<Rightarrow> char" where
  "b64_char n = (if n < 26 then char_of (65 + n) else if n < 52 then char_of (71 + n)
     else if n < 62 then char_of (n - 4) else if n = 62 then CHR ''+'' else CHR ''/'')"

fun b64encode :: "bytes \<Rightarrow> string" where
  "b64encode [] = []"
| "b64encode [a] = (let x = unat a in [b64_char (x div 4), b64_char (x mod 4 * 16), CHR ''='', CHR ''=''])"
| "b64encode [a, b] = (let x = unat a * 256 + unat b in
     [b64_char (x div 1024), b64_char (x div 16 mod 64), b64_char (x mod 16 * 4), CHR ''=''])"
| "b64encode (a # b # c # rest) = (let x = unat a * 65536 + unat b * 256 + unat c in
     b64_char (x div 262144) # b64_char (x div 4096 mod 64) # b64_char (x div 64 mod 64) #
     b64_char (x mod 64) # b64encode rest)"

definition checkpoint_payload :: "env \<Rightarrow> IntegrityStreamState \<Rightarrow> bytes" where
  "checkpoint_payload E st = canonical_json_bytes (float_repr E)
     (JObj [(''stream_id'', JStr (st_stream_id st)), (''sequence'', JInt (st_last_seq st)),
            (''root_mac'', JStr (b64encode (st_last_mac st))), (''profile'', JStr ''CLASSIC_V1'')])"

definition create_classic_checkpoint ::
  "env \<Rightarrow> Settings \<Rightarrow> string \<Rightarrow> db \<Rightarrow> (IntegrityCheckpoint \<times> db) result" where
  "create_classic_checkpoint E S stream_id d =
     (case find_by st_stream_id stream_id (db_streams d) of
        None \<Rightarrow> Inl (TraceQError ''CHECKPOINT_STREAM_NOT_FOUND'' ''Integrity stream does not exist'' 404)
      | Some state \<Rightarrow>
          if \<not> has_id (checkpoint_key S)
            then Inl (TraceQError ''KEY_UNAVAILABLE'' ''Checkpoint signing key is unavailable'' 503)
          else
            rbind (ecdsa_sign E (the (checkpoint_key S)) (db_uuid_draws d) (checkpoint_payload E state)) (\<lambda>s.
            case s of
              None \<Rightarrow> Inl (TraceQError ''UNSUPPORTED_CRYPTO_PROFILE'' ''Checkpoint key must be ECDSA P-256'' 422)
            | Some signature \<Rightarrow>
                let row = \<lparr>ck_id = new_uuid E d, ck_stream_type = ''raw'', ck_stream_id = stream_id,
                      ck_sequence = st_last_seq state, ck_root_mac = st_last_mac state,
                      ck_crypto_profile_id = ''CLASSIC_V1'', ck_classic_signature = signature,
                      ck_pq_signature = None\<rparr> in
                Inr (row, drew_uuid (d\<lparr>db_checkpoints := db_checkpoints d @ [row]\<rparr>))))"

definition checkpoint ::
  "env \<Rightarrow> Settings \<Rightarrow> string \<Rightarrow> string option \<Rightarrow> Principal \<Rightarrow> db \<Rightarrow> (uuid \<times> string \<times> int) result \<times> db" where
  "checkpoint E S stream_id request_id p = atomically (\<lambda>d.
     rbind (create_classic_checkpoint E S stream_id d) (\<lambda>(row, d').
     Inr ((ck_id row, ck_crypto_profile_id row, ck_sequence row),
       write_audit ''integrity_checkpoint'' ''success'' (acting p ''integrity_stream'' stream_id request_id)
         (JObj [(''profile'', JStr (ck_crypto_profile_id row)), (''sequence'', JInt (ck_sequence row))]) d')))"

section \<open>Verification, rebuild and tampering on request\<close>

definition integrity_check ::
  "env \<Rightarrow> Settings \<Rightarrow> string option \<Rightarrow> Principal \<Rightarrow> db \<Rightarrow> (string \<times> IntegrityFailure list) result \<times> db" where
  "integrity_check E S request_id p d =
     (case verify_integrity E S d of
        (Inl e, _) \<Rightarrow> (Inl e, d)
      | (Inr failures, d') \<Rightarrow>
          (Inr (if failures \<noteq> [] then ''FAILED'' else ''OK'', failures),
           write_audit ''integrity_verification'' (if failures \<noteq> [] then ''failure'' else ''success'')
             (acting p ''system'' ''raw_event_integrity'' request_id)
             (JObj [(''failure_count'', JInt (int (length failures)))]) d'))"

definition admin_rebuild ::
  "env \<Rightarrow> Settings \<Rightarrow> time \<Rightarrow> string \<Rightarrow> string option \<Rightarrow> Principal \<Rightarrow> db \<Rightarrow> unit result \<times> db" where
  "admin_rebuild E S now i request_id p d =
     (case rebuild_item E S now i d of
        (Inl e, _) \<Rightarrow>
          (Inl (TraceQError ''PROJECTION_REBUILD_FAILED'' ''Projection rebuild failed'' 500),
           mark_projection_failed i (describe E e) d)
      | (Inr _, d') \<Rightarrow>
          (Inr (), write_audit ''replay_rebuild'' ''success'' (acting p ''item'' i request_id) JNull d'))"

text \<open>
  \<open>set_byte(payload_ciphertext, 0, get_byte(payload_ciphertext, 0) # 1)\<close>; the database refuses an
  empty value. \<open>configured\<close> is whether the privileged connection of the demonstration is set.
\<close>

fun flip_first_bit :: "bytes \<Rightarrow> bytes option" where
  "flip_first_bit [] = None"
| "flip_first_bit (b # bs) = Some (xor b 1 # bs)"

definition demo_tamper ::
  "bool \<Rightarrow> string \<Rightarrow> string option \<Rightarrow> Principal \<Rightarrow> db \<Rightarrow> unit result \<times> db" where
  "demo_tamper configured i request_id p d =
     (if \<not> configured
        then (Inl (TraceQError ''DEMO_TAMPER_UNAVAILABLE'' ''Demo tamper connection is not configured'' 503), d)
      else
        (case find_by re_event_id i (db_raw_events d) of
           None \<Rightarrow> (Inl (NotFoundError ''Event''), d)
         | Some row \<Rightarrow>
             (case flip_first_bit (re_payload_ciphertext row) of
                None \<Rightarrow> (Inl (PyError ''DataError''), d)
              | Some ct \<Rightarrow>
                  (Inr (), write_audit ''demo_tamper'' ''success'' (acting p ''raw_event'' i request_id) JNull
                    (d\<lparr>db_raw_events := update_by re_event_id i
                      (\<lambda>r. r\<lparr>re_payload_ciphertext := ct\<rparr>) (db_raw_events d)\<rparr>)))))"

section \<open>The endpoints\<close>

definition create_user_endpoint where
  "create_user_endpoint E now c b r = gated (permission_gate E now c ''MANAGE_USERS'') (create_user E b r)"

definition patch_user_endpoint where
  "patch_user_endpoint E now c i b r = gated (permission_gate E now c ''MANAGE_USERS'') (patch_user i b r)"

definition create_source_endpoint where
  "create_source_endpoint E now c b r =
     gated (permission_gate E now c ''MANAGE_INTEGRATIONS'') (create_source E now b r)"

definition patch_source_endpoint where
  "patch_source_endpoint E now c i b r =
     gated (permission_gate E now c ''MANAGE_INTEGRATIONS'') (patch_source i b r)"

definition checkpoint_endpoint where
  "checkpoint_endpoint E S now c i r = gated (critical_gate E now c ''ROTATE_KEYS'') (checkpoint E S i r)"

definition integrity_endpoint where
  "integrity_endpoint E S now c r = gated (permission_gate E now c ''VERIFY_INTEGRITY'') (integrity_check E S r)"

definition rebuild_endpoint where
  "rebuild_endpoint E S now c i r = gated (permission_gate E now c ''REPLAY_REBUILD'') (admin_rebuild E S now i r)"

section \<open>A new account\<close>

text \<open>The account is there, enabled and unlocked, and has exactly the roles that were asked for.\<close>

lemma roles_named_names:
  assumes "roles_named names d = Inr roles" and "distinct (map ro_name (db_roles d))"
  shows "ro_name ` set roles = set names"
proof -
  have r: "roles = filter (\<lambda>r. ro_name r \<in> set names) (db_roles d)" and n: "length roles = card (set names)"
    using assms(1) by (auto simp: roles_named_def Let_def length_remdups_card_conv split: if_splits)
  have "distinct (map ro_name roles)"
    using assms(2) by (simp add: r distinct_map_filter)
  then have "card (ro_name ` set roles) = card (set names)"
    using n distinct_card by fastforce
  moreover have "ro_name ` set roles \<subseteq> set names"
    by (auto simp: r)
  ultimately show ?thesis
    by (simp add: card_subset_eq)
qed

lemma create_user_effect:
  assumes "create_user E b r p d = (Inr (uid, name), d')"
  obtains roles where "valid_user b" "find_by us_username (uc_username b) (db_users d) = None"
    "roles_named (uc_roles b) d = Inr roles" "uid = new_uuid E d" "name = uc_username b"
    "db_users d' = db_users d @ [user_row E b d]" "db_roles d' = db_roles d"
    "roles_of d' uid = map ro_id roles" "db_uuid_draws d' = Suc (db_uuid_draws d)"
    "db_sessions d' = db_sessions d" "db_refresh_tokens d' = db_refresh_tokens d"
  using assms
  by (auto simp: create_user_def rbind_Inr_iff user_row_def set_roles_def drew_uuid_def write_audit_def
      roles_of_def Let_def comp_def filter_map dest!: atomically_Inr split: if_splits)

lemma created_user_logs_in:
  assumes new: "create_user E b r p d = (Inr (uid, name), d')"
    and "\<And>n pw. verify_password E (hash_password E n pw) pw"
  shows "\<exists>resp d''. login E S now (uc_username b) (uc_password b) r' d' = (Inr resp, d'') \<and>
    roles_of d'' uid = roles_of d' uid"
proof -
  obtain roles where u: "find_by us_username (uc_username b) (db_users d) = None"
    "db_users d' = db_users d @ [user_row E b d]"
    using new by (rule create_user_effect)
  have f: "find_by us_username (uc_username b) (db_users d') = Some (user_row E b d)"
    using u by (simp add: find_by_append user_row_def)
  obtain resp d'' where l: "login E S now (uc_username b) (uc_password b) r' d' = (Inr resp, d'')"
    using f assms(2) by (fastforce simp: login_def is_locked_def user_row_def Let_def split: prod.split)
  moreover have "db_user_roles d'' = db_user_roles d'"
    using l f assms(2)
    by (auto simp: login_def is_locked_def user_row_def Let_def token_response_def auth_audit_def write_audit_def
        drew_uuid_def set_user_def split: prod.splits if_splits)
  ultimately show ?thesis
    by (auto simp: roles_of_def)
qed

end
