(* ===== verification/TQ_Admin_Facts.thy ===== *)
theory TQ_Admin_Facts
  imports TQ_Admin TQ_Ingestion_Facts
begin

text \<open>
  What administration means for the rest of the system: a source that is created is let in with its
  token and one that is switched off is not, and a row that is tampered with is reported by the next
  verification, after which no decision about its item goes through.
\<close>

section \<open>Sources\<close>

lemma create_source_effect:
  assumes "create_source E now b r p d = (Inr (i, token), d')"
  shows "i = sc_source_id b \<and> valid_source b \<and> db_sources d' = db_sources d @ [source_row E now b token] \<and>
    find_by es_source_id i (db_sources d') = Some (source_row E now b token) \<and>
    (\<forall>t. sc_token b = Some t \<longrightarrow> token = t)"
proof -
  have v: "valid_source b" and f: "find_by es_source_id (sc_source_id b) (db_sources d) = None"
    using assms by (auto simp: create_source_def atomically_def split: if_splits)
  have "sc_token b \<noteq> Some []"
    using v by (auto simp: valid_source_def text_between_def)
  then show ?thesis
    using assms v f
    by (auto simp: create_source_def atomically_def Let_def write_audit_def drew_uuid_def source_row_def
        has_id_def find_by_append)
qed

lemma hexdigest_not_Nil: "hexdigest bs = [] \<longleftrightarrow> bs = []"
  by (cases bs) (simp_all add: hexdigest_def)

text \<open>A request with the source's identifier and token is authenticated as the new source.\<close>

lemma created_source_authenticates:
  assumes new: "create_source E now b r p d = (Inr (i, token), d')"
    and "sc_auth_method b = Shared_secret_legacy" and "token \<noteq> []" and "\<And>m. sha256 E m \<noteq> []"
    and "h_source_id h = Some i" "h_source_token h = Some token"
  shows "authenticate_source E S now' h body d' = (Inr (source_row E now b token), d')"
proof -
  have *: "i = sc_source_id b" "valid_source b"
    "find_by es_source_id i (db_sources d') = Some (source_row E now b token)"
    using create_source_effect [OF new] by auto
  have "i \<noteq> []"
    using *(1,2) by (auto simp: valid_source_def text_between_def)
  moreover have "token_hash E token \<noteq> []"
    using assms(4) by (simp add: token_hash_def sha256_hex_def hexdigest_not_Nil)
  ultimately show ?thesis
    using *(3) assms(2,3,5,6)
    by (simp add: authenticate_source_def has_id_def usable_source_def source_row_def)
qed

text \<open>Once a source is disabled or its status is not active, every request in its name is refused.\<close>

lemma patched_source_fields [simp]:
  "es_source_id (patched_source b s) = es_source_id s"
  "es_enabled (patched_source b s) = (case sp_enabled b of None \<Rightarrow> es_enabled s | Some x \<Rightarrow> x)"
  "es_status (patched_source b s) = (case sp_status b of None \<Rightarrow> es_status s | Some x \<Rightarrow> x)"
  "es_token_hash (patched_source b s) = es_token_hash s"
  by (simp_all add: patched_source_def assign_def split: option.split)

lemma switched_off_source_refused:
  assumes "patch_source i b r p d = (Inr x, d')"
    and "sp_enabled b = Some False \<or> sp_status b \<in> {Some Source_suspended, Some Source_revoked, Some Source_expired}"
    and "h_source_id h = Some i"
  shows "\<exists>e. authenticate_source E S now h body d' = (Inl e, d')"
proof -
  obtain src where f: "find_by es_source_id i (db_sources d) = Some src"
    and d': "db_sources d' = update_by es_source_id i (patched_source b) (db_sources d)"
    using assms(1)
    by (auto simp: patch_source_def atomically_def Let_def write_audit_def split: if_splits option.splits)
  have "find_by es_source_id i (db_sources d') = Some (patched_source b src)"
    by (simp add: d' find_by_update_by f)
  moreover have "\<not> usable_source now (patched_source b src)"
    using assms(2) by (auto simp: usable_source_def)
  ultimately show ?thesis
    using assms(3) by (simp add: authenticate_source_def)
qed

section \<open>Tampering\<close>

lemma frame_same_lengths:
  assumes "frame p m ct n k = Inr f" and "length ct' = length ct"
  shows "\<exists>f'. frame p m ct' n k = Inr f'"
  using assms by (auto simp: frame_def rbind_Inr_iff)

lemma flip_first_bit_Some:
  assumes "flip_first_bit ct = Some ct'"
  shows "ct' \<noteq> ct" and "length ct' = length ct"
proof -
  obtain b bs where ct: "ct = b # bs" "ct' = xor b 1 # bs"
    using assms by (cases ct) auto
  have "xor b 1 \<noteq> b"
  proof
    assume "xor b 1 = b"
    then have "xor b (xor b 1) = xor b b" by simp
    then show False by (simp add: xor.assoc [symmetric])
  qed
  then show "ct' \<noteq> ct" "length ct' = length ct"
    by (simp_all add: ct)
qed

definition tampered :: "bytes \<Rightarrow> RawEvent \<Rightarrow> RawEvent" where
  "tampered ct r = r\<lparr>re_payload_ciphertext := ct\<rparr>"

lemma tampered_fields [simp]:
  "re_event_id (tampered ct r) = re_event_id r" "re_item_id (tampered ct r) = re_item_id r"
  "re_integrity_stream_id (tampered ct r) = re_integrity_stream_id r"
  "re_integrity_seq (tampered ct r) = re_integrity_seq r"
  "re_integrity_mac (tampered ct r) = re_integrity_mac r"
  by (simp_all add: tampered_def)

lemma demo_tamper_effect:
  assumes "demo_tamper c i r p d = (Inr (), d')"
  obtains row ct where "find_by re_event_id i (db_raw_events d) = Some row"
    "flip_first_bit (re_payload_ciphertext row) = Some ct"
    "db_raw_events d' = update_by re_event_id i (tampered ct) (db_raw_events d)"
    "db_streams d' = db_streams d" "db_ncrs d' = db_ncrs d"
proof -
  obtain row where f: "find_by re_event_id i (db_raw_events d) = Some row"
    using assms by (auto simp: demo_tamper_def split: if_splits option.splits)
  obtain ct where ct: "flip_first_bit (re_payload_ciphertext row) = Some ct"
    using assms f by (auto simp: demo_tamper_def split: if_splits option.splits)
  have "tampered ct = (\<lambda>r. r\<lparr>re_payload_ciphertext := ct\<rparr>)"
    by (simp add: tampered_def fun_eq_iff)
  then show thesis
    using assms f ct
    by (intro that [OF f ct]) (auto simp: demo_tamper_def write_audit_def split: if_splits)
qed

text \<open>Every row of a log in order has a MAC, and a row whose ciphertext keeps its length still has one.\<close>

lemma log_row_mac:
  assumes ok: "log_ok E S d" and r: "r \<in> set (db_raw_events d)"
  shows "row_mac E (integrity_key S) r = Inr (re_integrity_mac r)"
proof -
  obtain st where "st \<in> set (db_streams d)" "re_integrity_stream_id r = st_stream_id st"
    using ok r by (auto simp: log_ok_def)
  then have "tail_of E (integrity_key S) (rows_of (re_integrity_stream_id r) d) st"
    using ok by (auto simp: log_ok_def)
  moreover have "r \<in> set (rows_of (re_integrity_stream_id r) d)"
    using r by (simp add: rows_of_def)
  ultimately show ?thesis
    using linked_macs by (auto simp: tail_of_def)
qed

lemma tampered_mac_total:
  assumes "row_mac E secret r = Inr t" and "length ct = length (re_payload_ciphertext r)"
  shows "\<exists>t'. row_mac E secret (tampered ct r) = Inr t'"
  using assms frame_same_lengths [OF _ assms(2)]
  by (fastforce simp: row_mac_def compute_integrity_mac_def rbind_Inr_iff tampered_def row_metadata_def)

lemma check_rows_total:
  "\<forall>r \<in> set rs. \<exists>t. row_mac E secret r = Inr t \<Longrightarrow> \<exists>fs. check_rows E secret s rs p n = Inr fs"
proof (induction rs arbitrary: p n)
  case (Cons r rs)
  then obtain t fs where "row_mac E secret r = Inr t" "check_rows E secret s rs (re_integrity_mac r) (n + 1) = Inr fs"
    by fastforce
  then show ?case by simp
qed simp

lemma check_rows_stream: "check_rows E secret s rs p n = Inr fs \<Longrightarrow> f \<in> set fs \<Longrightarrow> if_stream_id f = s"
  by (induction rs arbitrary: p n fs) (auto simp: rbind_Inr_iff row_failures_def)

lemma map_r_total: "\<forall>x \<in> set xs. \<exists>y. f x = Inr y \<Longrightarrow> \<exists>ys. map_r f xs = Inr ys"
  by (induction xs) fastforce+

lemma map_r_reaches: "map_r f xs = Inr ys \<Longrightarrow> x \<in> set xs \<Longrightarrow> f x = Inr y \<Longrightarrow> y \<in> set ys"
  by (induction xs arbitrary: ys) (auto simp: rbind_Inr_iff)

text \<open>A stream with failures is marked and reported by the verification.\<close>

lemma verify_reports:
  assumes "\<forall>st \<in> set (db_streams d). \<exists>fs. check_stream E S d (st_stream_id st) = Inr fs"
    and st: "st \<in> set (db_streams d)" and bad: "check_stream E S d (st_stream_id st) \<noteq> Inr []"
  obtains failures d' where "verify_integrity E S d = (Inr failures, d')"
    "\<exists>f \<in> set failures. if_stream_id f = st_stream_id st" "db_raw_events d' = db_raw_events d"
    "db_ncrs d' = db_ncrs d" "st\<lparr>st_status := INTEGRITY_FAILED\<rparr> \<in> set (db_streams d')"
proof -
  let ?ids = "sort (map st_stream_id (db_streams d))"
  have "\<forall>s \<in> set ?ids. \<exists>fs. check_stream E S d s = Inr fs"
    using assms(1) by auto
  then obtain fss where fss: "map_r (check_stream E S d) ?ids = Inr fss"
    using map_r_total by blast
  obtain fs where fs: "check_stream E S d (st_stream_id st) = Inr fs" "fs \<noteq> []"
    using assms(1) st bad by fastforce
  have "fs \<in> set fss"
    using map_r_reaches [OF fss _ fs(1)] st by simp
  moreover obtain f where f: "f \<in> set fs" "if_stream_id f = st_stream_id st"
    using fs check_rows_stream [of E "integrity_key S" "st_stream_id st"] unfolding check_stream_def
    by (metis list.set_intros(1) neq_Nil_conv)
  ultimately have rep: "\<exists>f \<in> set (concat fss). if_stream_id f = st_stream_id st"
    by auto
  have "fst (verify_integrity E S d) = Inr (concat fss)"
    "db_ncrs (snd (verify_integrity E S d)) = db_ncrs d"
    "db_streams (snd (verify_integrity E S d)) = map (\<lambda>st. st\<lparr>st_status :=
       (if list_ex (\<lambda>f. if_stream_id f = st_stream_id st) (concat fss)
        then INTEGRITY_FAILED else Stream_ok)\<rparr>) (db_streams d)"
    by (simp_all add: verify_integrity_def fss Let_def)
  moreover from this(3) have "st\<lparr>st_status := INTEGRITY_FAILED\<rparr> \<in> set (db_streams (snd (verify_integrity E S d)))"
    using st rep by (auto simp: list_ex_iff image_iff intro!: bexI [of _ st])
  ultimately show thesis
    using rep verify_keeps_log by (intro that [of "concat fss" "snd (verify_integrity E S d)"]) (simp_all add: prod_eq_iff)
qed

text \<open>
  The tampered row no longer matches its MAC unless the hash collides there, so its stream fails.
\<close>

lemma alteration_reported:
  assumes ok: "log_ok E S d" and row: "find_by re_event_id i (db_raw_events d) = Some row"
    and flip: "flip_first_bit (re_payload_ciphertext row) = Some ct"
    and sep: "\<not> mac_collision E (integrity_key S) row (tampered ct row)"
    and raws: "db_raw_events d1 = update_by re_event_id i (tampered ct) (db_raw_events d)"
    and same: "db_streams d1 = db_streams d" "db_ncrs d1 = db_ncrs d"
  obtains failures d2 where "verify_integrity E S d1 = (Inr failures, d2)"
    "\<exists>f \<in> set failures. if_stream_id f = re_integrity_stream_id row"
    "db_ncrs d2 = db_ncrs d" "\<And>item. re_item_id row = Some item \<Longrightarrow> evidence_failed item d2"
proof -
  have ct: "ct \<noteq> re_payload_ciphertext row" "length ct = length (re_payload_ciphertext row)"
    using flip_first_bit_Some [OF flip] by auto
  have mem: "row \<in> set (db_raw_events d)" and i: "re_event_id row = i"
    using find_by_SomeD [OF row] by auto
  let ?row = "tampered ct row"
  have new: "?row \<in> set (db_raw_events d1)"
    using mem i by (auto simp: raws set_update_by)
  have total: "\<exists>t. row_mac E (integrity_key S) x = Inr t" if "x \<in> set (db_raw_events d1)" for x
  proof (cases "x \<in> set (db_raw_events d)")
    case True
    then show ?thesis using log_row_mac [OF ok] by blast
  next
    case False
    then obtain y where y: "y \<in> set (db_raw_events d)" "re_event_id y = i" "x = tampered ct y"
      using \<open>x \<in> set (db_raw_events d1)\<close> by (auto simp: raws set_update_by)
    have "y = row"
      using y(1,2) mem i ok by (auto simp: log_ok_def distinct_map inj_on_def)
    then show ?thesis
      using tampered_mac_total [OF log_row_mac [OF ok mem] ct(2)] y(3) by simp
  qed
  have checks: "\<forall>st \<in> set (db_streams d1). \<exists>fs. check_stream E S d1 (st_stream_id st) = Inr fs"
    using total by (auto simp: check_stream_def stream_rows_def intro!: check_rows_total)
  obtain st where st: "st \<in> set (db_streams d1)" "st_stream_id st = re_integrity_stream_id row"
    using ok mem same(1) by (auto simp: log_ok_def)
  have "check_stream E S d1 (st_stream_id st) \<noteq> Inr []"
  proof
    assume "check_stream E S d1 (st_stream_id st) = Inr []"
    then have "linked E (integrity_key S) (stream_rows (st_stream_id st) d1) [] 1"
      by (simp add: check_stream_def check_rows_Nil)
    moreover have "?row \<in> set (stream_rows (st_stream_id st) d1)"
      using new st(2) by (simp add: stream_rows_def)
    ultimately have "row_mac E (integrity_key S) ?row = Inr (re_integrity_mac row)"
      using linked_macs by fastforce
    then have "row_content E row = row_content E ?row"
      using row_mac_binds [OF log_row_mac [OF ok mem]] sep by blast
    then show False
      using ct(1) by (simp add: row_content_def tampered_def)
  qed
  with checks st(1) show thesis
  proof (rule verify_reports)
    fix failures d2
    assume v: "verify_integrity E S d1 = (Inr failures, d2)"
      "\<exists>f \<in> set failures. if_stream_id f = st_stream_id st" "db_raw_events d2 = db_raw_events d1"
      "db_ncrs d2 = db_ncrs d1" "st\<lparr>st_status := INTEGRITY_FAILED\<rparr> \<in> set (db_streams d2)"
    show thesis
    proof (rule that [OF v(1)])
      fix item
      assume item: "re_item_id row = Some item"
      show "evidence_failed item d2"
        unfolding evidence_failed_def list_ex_iff
        by (rule bexI [OF _ v(5)]) (use new v(3) st(2) item in \<open>auto intro!: bexI [of _ ?row]\<close>)
    qed (use v st(2) same(2) in simp_all)
  qed
qed

lemma tampering_reported:
  assumes ok: "log_ok E S d" and t: "demo_tamper c i r p d = (Inr (), d1)"
    and row: "find_by re_event_id i (db_raw_events d) = Some row"
    and flip: "flip_first_bit (re_payload_ciphertext row) = Some ct"
    and sep: "\<not> mac_collision E (integrity_key S) row (tampered ct row)"
  obtains failures d2 where "verify_integrity E S d1 = (Inr failures, d2)"
    "\<exists>f \<in> set failures. if_stream_id f = re_integrity_stream_id row"
    "db_ncrs d2 = db_ncrs d" "\<And>item. re_item_id row = Some item \<Longrightarrow> evidence_failed item d2"
  using t
proof (rule demo_tamper_effect)
  fix row' ct'
  assume "find_by re_event_id i (db_raw_events d) = Some row'"
    and "flip_first_bit (re_payload_ciphertext row') = Some ct'"
    and "db_raw_events d1 = update_by re_event_id i (tampered ct') (db_raw_events d)"
    and same: "db_streams d1 = db_streams d" "db_ncrs d1 = db_ncrs d"
  then have "db_raw_events d1 = update_by re_event_id i (tampered ct) (db_raw_events d)"
    using row flip by simp
  from alteration_reported [OF ok row flip sep this same] show thesis
    using that by blast
qed

text \<open>No decision about the item of a tampered row goes through once the log was verified.\<close>

lemma tampering_blocks:
  assumes ok: "log_ok E S d" and t: "demo_tamper c i r p d = (Inr (), d1)"
    and row: "find_by re_event_id i (db_raw_events d) = Some row" "re_item_id row = Some (nc_item_id ncr)"
    and flip: "flip_first_bit (re_payload_ciphertext row) = Some ct"
    and sep: "\<not> mac_collision E (integrity_key S) row (tampered ct row)"
    and ncr: "find_by nc_id n (db_ncrs d) = Some ncr" and b: "valid_decision b"
  shows "\<exists>failures d2 e. integrity_check E S r2 p2 d1 = (Inr (''FAILED'', failures), d2) \<and>
    (\<exists>f \<in> set failures. if_stream_id f = re_integrity_stream_id row) \<and>
    decide_nonconformance E now n b r3 p3 d2 = (Inl e, d2) \<and> err_code e = ''EVIDENCE_INTEGRITY_FAILED''"
  using ok t row(1) flip sep
proof (rule tampering_reported)
  fix failures d2
  assume v: "verify_integrity E S d1 = (Inr failures, d2)"
    "\<exists>f \<in> set failures. if_stream_id f = re_integrity_stream_id row"
    "db_ncrs d2 = db_ncrs d" "\<And>item. re_item_id row = Some item \<Longrightarrow> evidence_failed item d2"
  let ?d = "write_audit ''integrity_verification'' ''failure'' (acting p2 ''system'' ''raw_event_integrity'' r2)
    (JObj [(''failure_count'', JInt (int (length failures)))]) d2"
  have "failures \<noteq> []"
    using v(2) by auto
  then have check: "integrity_check E S r2 p2 d1 = (Inr (''FAILED'', failures), ?d)"
    by (simp add: integrity_check_def v(1))
  have "evidence_failed (nc_item_id ncr) ?d" "find_by nc_id n (db_ncrs ?d) = Some ncr"
    using v(3) v(4) [OF row(2)] ncr by (simp_all add: evidence_failed_def write_audit_def)
  then have "\<exists>e. decide_nonconformance E now n b r3 p3 ?d = (Inl e, ?d) \<and> err_code e = ''EVIDENCE_INTEGRITY_FAILED''"
    using failed_evidence_blocks(1) [OF _ _ b, of n ?d ncr] by simp
  with check v(2) show ?thesis by blast
qed

end
