(* ===== verification/TQ_Sample_Admin.thy ===== *)
theory TQ_Sample_Admin
  imports TQ_Sample_Quality TQ_Risk TQ_Admin_Facts
begin

text \<open>
  The installation of the office: two users with the rights for routes, risk analyses and approvals,
  and a device with one observation, on which the properties of routes, risk analyses, invalidations
  and administration are evaluated.
\<close>

section \<open>Two users\<close>

definition office_rights :: "string list" where
  "office_rights = [''MANAGE_ROUTES'', ''RUN_BLAST_RADIUS'', ''APPROVE_CONTAINMENT'']"

definition sample_office :: db where
  "sample_office = empty_db\<lparr>db_users := [sample_user, sample_user\<lparr>us_id := ''v''\<rparr>],
     db_roles := [\<lparr>ro_id = ''rc'', ro_name = ''chief''\<rparr>],
     db_permissions := map (\<lambda>n. \<lparr>pe_id = n, pe_name = n\<rparr>) office_rights,
     db_role_permissions := map (Pair ''rc'') office_rights,
     db_user_roles := [(''u'', ''rc''), (''v'', ''rc'')],
     db_sessions := [sample_session, sample_session\<lparr>se_id := ''vv'', se_user_id := ''v''\<rparr>],
     db_runs := [sample_run]\<rparr>"

definition identities :: "db \<Rightarrow> db" where
  "identities d = empty_db\<lparr>db_users := db_users d, db_roles := db_roles d, db_permissions := db_permissions d,
     db_role_permissions := db_role_permissions d, db_user_roles := db_user_roles d, db_sessions := db_sessions d\<rparr>"

lemma identities_same:
  assumes "identities d = identities d'"
  shows "db_users d = db_users d'" "db_roles d = db_roles d'" "db_permissions d = db_permissions d'"
    "db_role_permissions d = db_role_permissions d'" "db_user_roles d = db_user_roles d'" "db_sessions d = db_sessions d'"
proof -
  have f: "f d = f d'" if "\<And>d. f (identities d) = f d" for f :: "db \<Rightarrow> 'a"
    using assms that by metis
  show "db_users d = db_users d'" "db_roles d = db_roles d'" "db_permissions d = db_permissions d'"
    "db_role_permissions d = db_role_permissions d'" "db_user_roles d = db_user_roles d'" "db_sessions d = db_sessions d'"
    by (rule f, simp add: identities_def)+
qed

lemma sample_office_simps [simp]:
  "db_users sample_office = [sample_user, sample_user\<lparr>us_id := ''v''\<rparr>]"
  "db_sessions sample_office = [sample_session, sample_session\<lparr>se_id := ''vv'', se_user_id := ''v''\<rparr>]"
  "db_runs sample_office = [sample_run]" "db_routes sample_office = []" "db_revisions sample_office = []"
  "db_steps sample_office = []" "db_proposals sample_office = []" "db_approvals sample_office = []"
  "db_exposures sample_office = []" "db_observations sample_office = []" "db_uuid_draws sample_office = 0"
  by (simp_all add: sample_office_def empty_db_def)

definition office_principal :: "string \<Rightarrow> Principal" where
  "office_principal u = \<lparr>pr_user_id = u, pr_username = ''inspector'', pr_session_id = u @ u,
     pr_permissions = office_rights, pr_roles = [''chief'']\<rparr>"

abbreviation office_credentials :: "string \<Rightarrow> (string \<times> string) option" where
  "office_credentials u \<equiv> Some (''bearer'', u @ ''/'' @ u @ u)"

lemma office_claims: "token_claims (sample_env docs) now ''v/vv'' = Some (''v'', ''vv'')"
  by (simp add: token_claims_def sample_env_def)

lemma office_permissions: "u \<in> {''u'', ''v''} \<Longrightarrow> permissions_for_user sample_office u = office_rights"
  by (auto simp: permissions_for_user_def roles_of_def sample_office_def empty_db_def office_rights_def)

lemma office_principal:
  assumes "u \<in> {''u'', ''v''}" and "identities d = identities sample_office"
  shows "current_principal (sample_env docs) 9 (office_credentials u) d = Inr (office_principal u)"
proof -
  note same = identities_same [OF assms(2)]
  have "to_lower ''bearer'' = ''bearer''"
    by code_simp
  moreover have "role_names d u = [''chief'']"
    using assms(1) same by (auto simp: role_names_def roles_of_def sample_office_def empty_db_def)
  moreover have "permissions_for_user d u = office_rights"
    using office_permissions [OF assms(1)] unfolding permissions_for_user_def roles_of_def same(3-5) .
  ultimately show ?thesis
    using assms(1) same
    by (auto simp: current_principal_def sample_claims office_claims sample_user_def sample_session_def
        live_session_def office_principal_def)
qed

lemma office_gates:
  assumes "u \<in> {''u'', ''v''}" and "identities d = identities sample_office" and "right \<in> set office_rights"
  shows "permission_gate (sample_env docs) 9 (office_credentials u) right d = Inr (office_principal u)"
    and "critical_gate (sample_env docs) 9 (office_credentials u) right d = Inr (office_principal u)"
  using assms(1,3) identities_same(6) [OF assms(2)] office_principal [OF assms(1,2)]
  by (auto simp: permission_gate_def critical_gate_def require_permission_def
      require_critical_permission_def office_principal_def sample_session_def live_session_def minutes_def)

section \<open>A route\<close>

definition sample_step_input :: "string \<Rightarrow> StepInput" where
  "sample_step_input i = \<lparr>si_operation_id = i, si_operation_name = i, si_control_point_id = Some ''cp'',
     si_required = True, si_inspection_scope = None, si_trust_policy_id = None\<rparr>"

definition sample_route :: RouteCreate where
  "sample_route = \<lparr>rc_code = ''R1'', rc_name = ''route'', rc_steps = [sample_step_input ''weld'']\<rparr>"

definition sample_routed :: db where
  "sample_routed = snd (create_route_endpoint (sample_env []) 9 (office_credentials ''u'') sample_route sample_office)"

lemma sample_routed:
  "map rs_operation_id (db_steps sample_routed) = [''weld'']" "map rr_id (db_revisions sample_routed) = [''u'']"
  "map rs_route_revision_id (db_steps sample_routed) = [''u'']" "map rd_id (db_routes sample_routed) = [[]]"
proof -
  have v: "valid_route sample_route" "validate_steps [sample_step_input ''weld''] = Inr ()"
    by code_simp+
  have c: "sample_routed = snd (create_route (sample_env []) sample_route (office_principal ''u'') sample_office)"
    using office_gates(1) [of "''u''" sample_office "''MANAGE_ROUTES''" "[]"]
    by (simp add: sample_routed_def create_route_endpoint_def gated_def office_rights_def)
  show "map rs_operation_id (db_steps sample_routed) = [''weld'']" "map rr_id (db_revisions sample_routed) = [''u'']"
    "map rs_route_revision_id (db_steps sample_routed) = [''u'']" "map rd_id (db_routes sample_routed) = [[]]"
    using v
    by (simp_all add: c create_route_def atomically_def new_revision_def Let_def add_route_def
      drew_uuid_def new_uuid_def revision_row_def step_row_def sample_route_def)
      (simp_all add: sample_step_input_def)
qed

section \<open>A containment that is approved\<close>

definition sample_blast :: BlastRadiusRequest where
  "sample_blast = \<lparr>br_factor_type = Time_interval, br_factor_value = ''night'', br_affected_from = 0,
     br_affected_to = 5, br_proposed_action = HOLD, br_rationale = ''drift''\<rparr>"

definition sample_proposed :: db where
  "sample_proposed = snd (blast_endpoint (sample_env []) sample_settings 9 (office_credentials ''u'') sample_blast None sample_office)"

definition sample_approved :: db where
  "sample_approved = snd (approve_endpoint (sample_env []) 9 (office_credentials ''v'') ''uuu'' ''seen'' None sample_proposed)"

lemma sample_approved:
  "map cp_status (db_proposals sample_approved) = [Proposal_approved]"
  "map cp_blast_radius_query_id (db_proposals sample_approved) = [Some []]"
  "map cp_proposed_by (db_proposals sample_approved) = [''u'']"
  "map (map ap_user_id \<circ> aq_approvals) (db_approvals sample_approved) = [[''v'']]"
  "map bx_item_id (db_exposures sample_approved) = [''it2'']"
proof -
  let ?E = "sample_env []"
  have v: "valid_blast sample_blast" "text_between 3 3000 ''seen''" "factor_str Time_interval = ''time_interval''"
    by code_simp+
  have c: "candidates sample_blast sample_office = [(''it2'', None, Some ''run'', [''time_interval'', ''night''])]"
    using v(3) by (simp add: candidates_def found_def suspect_runs_def matches_def sample_blast_def) (simp add: sample_run_def)
  let ?b = "blast_radius ?E sample_settings 9 sample_blast None (office_principal ''u'') sample_office"
  have b: "sample_proposed = snd ?b"
    using office_gates(1) [of "''u''" sample_office "''RUN_BLAST_RADIUS''" "[]"]
    by (simp add: sample_proposed_def blast_endpoint_def gated_def office_rights_def)
  obtain resp where r: "?b = (Inr resp, sample_proposed)"
    unfolding b by (simp add: blast_radius_def atomically_def v Let_def)
  from r obtain rows cp aq where e:
    "db_exposures sample_proposed = db_exposures sample_office @ rows" "map bx_item_id rows = bs_affected_items resp"
    "bs_affected_items resp = map fst (sort_key fst (candidates sample_blast sample_office))"
    "db_proposals sample_proposed = db_proposals sample_office @ [cp]" 
    "cp_blast_radius_query_id cp = Some (new_uuid ?E sample_office)"
    "cp_proposed_by cp = pr_user_id (office_principal ''u'')"
    "cp_id cp = uuid4 ?E (db_uuid_draws sample_office + 1 + length rows)"
    "db_approvals sample_proposed = db_approvals sample_office @ [aq]" 
    "aq_id aq = uuid4 ?E (db_uuid_draws sample_office + 2 + length rows)"
    "aq_target_id aq = cp_id cp" "aq_requester_id aq = pr_user_id (office_principal ''u'')"
    "aq_required_approvals aq = approvals_required sample_settings (length rows)" "aq_approvals aq = []"
    "aq_status aq = Approval_pending"
    by (rule blast_radius_effect) metis
  have rows: "map bx_item_id rows = [''it2'']" "length rows = Suc 0"
    using e(2,3) c by (auto dest: arg_cong [of _ _ length])
  have ids: "aq_id aq = ''uuu''" "cp_id cp = ''uu''" "aq_target_id aq = ''uu''" "aq_required_approvals aq = 1"
    using e rows(2) by (simp_all add: numeral_nat approvals_required_def sample_settings_def)
  have "identities sample_proposed = identities sample_office"
    unfolding b by (simp add: blast_radius_def atomically_def v Let_def c identities_def add_exposure_def add_query_def
      add_proposal_def add_approval_request_def drew_uuid_def write_audit_def)
  then have ap: "sample_approved = snd (approve ?E 9 ''uuu'' ''seen'' None (office_principal ''v'') sample_proposed)"
    using office_gates(2) [of "''v''" sample_proposed "''APPROVE_CONTAINMENT''" "[]"]
    by (simp add: sample_approved_def approve_endpoint_def gated_def office_rights_def)
  have id: "parse_uuid ?E x = Some x" for x
    by (simp add: sample_env_def)
  have "db_proposals sample_approved = [cp\<lparr>cp_status := Proposal_approved, cp_reviewed_by := Some ''v'',
       cp_review_reason := Some ''seen'', cp_reviewed_at := Some 9\<rparr>] \<and>
    map (map ap_user_id \<circ> aq_approvals) (db_approvals sample_approved) = [[''v'']] \<and>
    db_exposures sample_approved = rows"
    using e(1,4,8,11,13,14) ids v(2)
    by (simp add: ap id approve_def atomically_def Let_def with_approval_def is_complete_def finish_approval_def
      put_approval_def approve_proposal_def write_audit_def office_principal_def)
  then show "map cp_status (db_proposals sample_approved) = [Proposal_approved]"
    "map cp_blast_radius_query_id (db_proposals sample_approved) = [Some []]"
    "map cp_proposed_by (db_proposals sample_approved) = [''u'']"
    "map (map ap_user_id \<circ> aq_approvals) (db_approvals sample_approved) = [[''v'']]"
    "map bx_item_id (db_exposures sample_approved) = [''it2'']"
    using e(5,6) rows(1) by (simp_all add: new_uuid_def office_principal_def)
qed

section \<open>A device that is invalidated\<close>

definition device_payload :: InspectionResultPayload where
  "device_payload = good_payload\<lparr>in_control_device_id := Some ''dev''\<rparr>"

definition device_docs :: "(bytes \<times> json) list" where
  "device_docs = [([2], JObj [(''payload'', JObj (sample_good @ [(''control_device_id'', JStr ''dev'')]))])]"

definition sample_device_shop :: db where
  "sample_device_shop = sample_db\<lparr>db_raw_events := [sample_raw ''e1'' 10 2 1],
     db_observations := [sample_observation\<lparr>ob_event_id := ''e1'', ob_item_id := ''it'', ob_occurred_at := 10,
       ob_control_device_id := Some ''dev''\<rparr>]\<rparr>"

definition sample_invalidation :: InvalidationInput where
  "sample_invalidation = \<lparr>vi_device_id = ''dev'', vi_affected_from = 5, vi_affected_to = 15, vi_reason = ''drift'',
     vi_invalidation_type = None, vi_supporting_evidence_refs = []\<rparr>"

lemma sample_device_shop_simps [simp]:
  "db_raw_events sample_device_shop = [sample_raw ''e1'' 10 2 1]"
  "db_observations sample_device_shop = [sample_observation\<lparr>ob_event_id := ''e1'', ob_item_id := ''it'',
     ob_occurred_at := 10, ob_control_device_id := Some ''dev''\<rparr>]"
  "db_policies sample_device_shop = []" "db_items sample_device_shop = []" "db_runs sample_device_shop = []"
  by (simp_all add: sample_device_shop_def sample_db_def empty_db_def)

lemma device_read: "read_payload sample_validator ''inspection.result'' (sample_good @ [(''control_device_id'', JStr ''dev'')])
    = Some (Inspection_result device_payload)"
  by (simp add: sample_good_def read_payload_def read_InspectionResult_def field_defs read_defects_def Let_def
    validate_defects_def read_quality_def read_inspection_result_def device_payload_def good_payload_def is_cont_def)

lemma sample_invalidated:
  obtains x d' where "invalidate_device (sample_env device_docs) sample_settings 99 sample_invalidation None p sample_device_shop = (Inr x, d')"
    "\<exists>o' \<in> set (db_observations d'). hit sample_invalidation o'"
proof -
  let ?E = "sample_env device_docs" and ?d = "add_invalidation sample_invalidation p sample_device_shop"
  let ?raw = "sample_raw ''e1'' 10 2 1"
  have d: "db_raw_events ?d = [?raw]" "db_policies ?d = []" "db_items ?d = []" "db_runs ?d = []"
    by (simp_all add: add_invalidation_def drew_uuid_def)
  have raws: "item_raws ''it'' [?raw] = [?raw]"
    by (simp add: item_raws_def)
  let ?v = "observe ?d ?raw device_payload"
  have "open_raw ?E sample_settings ?raw = Inr (?raw, Inspection_result device_payload)"
    by (simp add: open_raw_def decrypt_raw_def decrypt_event_def payload_of_def device_docs_def dict_get_def device_read)
  moreover have "mark_conflicts [?v] = [?v]"
    by (simp add: mark_conflicts_def conflicting_def)
  ultimately have rep: "replay ?E sample_settings ?d [?raw] = Inr (no_values\<lparr>iv_observations := [?v]\<rparr>)"
    by (simp add: replay_def Let_def no_values_def)
  have o': "in_control_device_id (ov_payload ?v) = Some ''dev''" "ov_occurred_at ?v = 10" "in_defects (ov_payload ?v) = []"
    by (simp_all add: observe_def Let_def device_payload_def good_payload_def)
  have "\<exists>d1. rebuild_item ?E sample_settings 99 ''it'' ?d = (Inr (), d1)"
    by (simp add: rebuild_item_def d raws rebuild_from_def rep store_rows_def no_values_def Let_def detected_def
        defects_of_def o' missing_check_limitations_def split: prod.split)
  then obtain d1 where d1: "rebuild_item ?E sample_settings 99 ''it'' ?d = (Inr (), d1)" by blast
  have from': "rebuild_from ?E sample_settings 99 ''it'' [?raw] ?d = Inr d1"
    using rebuild_item_done [OF d1] by (simp add: d raws)
  obtain w where "replay ?E sample_settings ?d [?raw] = Inr w"
    "filter (\<lambda>r. ob_item_id r = ''it'') (db_observations d1) = map (observation_row ?E ''it'') (iv_observations w)"
    by (rule rebuild_from_read_model [OF from']) (erule that, assumption)
  moreover from this(1) have "iv_observations w = [?v]"
    using rep by auto
  ultimately have eq: "filter (\<lambda>r. ob_item_id r = ''it'') (db_observations d1) = [observation_row ?E ''it'' ?v]"
    by (simp only: list.map)
  have "observation_row ?E ''it'' ?v \<in> set (filter (\<lambda>r. ob_item_id r = ''it'') (db_observations d1))"
    unfolding eq by (rule list.set_intros(1))
  then have "observation_row ?E ''it'' ?v \<in> set (db_observations d1)"
    by (rule subsetD [OF filter_is_subset])
  moreover have "hit sample_invalidation (observation_row ?E ''it'' ?v)"
    by (simp add: hit_def observation_row_def Let_def o') (simp add: sample_invalidation_def)
  moreover have "valid_invalidation sample_invalidation"
    by code_simp
  moreover have "hit_items sample_invalidation sample_device_shop = [''it'']"
    by (simp add: hit_items_def hit_def sample_invalidation_def)
  ultimately show thesis
    using that by (auto simp: invalidate_device_def Let_def d1 write_audit_def)
qed

section \<open>An event about an item\<close>

definition sample_item_body :: json where
  "sample_item_body = (case sample_body ''e1'' of JObj kvs \<Rightarrow> JObj (kvs @ [(''item_id'', JStr ''it'')]) | v \<Rightarrow> v)"

definition sample_item_event :: EventEnvelope where
  "sample_item_event = sample_event ''e1''\<lparr>item_id := Some ''it''\<rparr>"

definition sample_item_db :: db where
  "sample_item_db = sample_db\<lparr>db_projections := [fresh_projection ''it''], db_ncrs := [sample_ncr ''n3'' ''it'' None]\<rparr>"

lemma sample_item_db_simps [simp]:
  "db_sources sample_item_db = [sample_source, sample_hmac_source]" "db_raw_events sample_item_db = []"
  "db_streams sample_item_db = []" "db_ncrs sample_item_db = [sample_ncr ''n3'' ''it'' None]"
  "db_projections sample_item_db = [fresh_projection ''it'']" "db_nonce_draws sample_item_db = 0"
  by (simp_all add: sample_item_db_def sample_db_def empty_db_def)

lemma sample_item_validates: "validate_event sample_validator sample_item_body = Inr sample_item_event"
  by (simp add: sample_item_event_def sample_event_def sample_item_body_def sample_body_def validate_event_def
      SUPPORTED_EVENT_TYPES_def SCHEMA_REGISTRY_def dict_get_def hashable_def normalize_legacy_def lift_legacy_def
      lift_duration_def Let_def dict_pop_def read_payload_def read_MachineState_def
      read_envelope_def field_defs read_SourceRef_def sample_validator_def
      required_envelope_ids_def is_cont_def time_of_def has_id_def)

definition item_plaintext :: bytes where
  "item_plaintext = canonical_json_bytes (\<lambda>r. ''f'') (canonical_event_dict sample_validator sample_item_event)"

lemma item_plaintext_bounds: "length item_plaintext < 1000" "\<exists>b bs. item_plaintext = b # bs"
  by (simp_all add: item_plaintext_def sample_marks canonical_json_bytes_def encode_def
      quote_def escape_char_def int_str_def digit_char_def nat_str.simps [of 1]
      nat_str.simps [of "Suc 0"] canonical_event_dict_def sample_validator_def sample_item_event_def sample_event_def
      dump_SourceRef_def dump_MachineState_def)

definition sample_item_ingest :: "db \<Rightarrow> IngestionResult result \<times> db" where
  "sample_item_ingest d = ingest_event sample_E sample_settings 9 No_race sample_headers sample_item_body d"

lemma sample_item_admitted:
  "admit sample_E sample_settings 9 sample_headers sample_item_body sample_item_db = (Inr (sample_source, sample_item_event), sample_item_db)"
proof -
  have "authenticate_source sample_E sample_settings 9 sample_headers body sample_item_db = (Inr sample_source, sample_item_db)" for body
  proof -
    have "admit sample_E sample_settings 9 sample_headers (sample_body ''e1'') sample_item_db =
        (Inr (sample_source, sample_event ''e1''), sample_item_db)"
      by (rule sample_admitted_at) (simp_all add: is_cont_def sample_source_def)
    then show ?thesis
      by (auto simp: admit_def authenticate_source_def sample_headers_def sample_source_def sample_hmac_source_def
          split: if_splits sum.splits prod.splits)
  qed
  then show ?thesis
    by (simp add: admit_def sample_item_validates authorize_event_def sample_item_event_def sample_event_def
        sample_source_def in_scope_def has_id_def)
qed

text \<open>The event is stored; its ciphertext has a first byte, and the stand-in for the MAC has no collisions.\<close>

lemma sample_item_ingested:
  obtains d' r ct where "log_step sample_E sample_settings sample_item_db d'" "db_raw_events d' = [r]"
    "re_event_id r = ''e1''" "re_item_id r = Some ''it''" "flip_first_bit (re_payload_ciphertext r) = Some ct"
    "find_by nc_id ''n3'' (db_ncrs d') = Some (sample_ncr ''n3'' ''it'' None)"
proof -
  let ?md = "integrity_metadata sample_E \<lparr>md_event_id = ''e1'', md_event_type = ''machine.state'',
     md_schema_version = ''1.0'', md_source_id = ''cam'', md_occurred_at = 3, md_received_at = 9,
     md_stream_id = ''source:cam'', md_seq = 1\<rparr>"
  obtain t where t: "compute_integrity_mac sample_E [2] [] ?md item_plaintext [] ''k1'' = Inr t"
  proof -
    obtain f where "frame [] ?md item_plaintext [] ''k1'' = Inr f"
      using frame_total [of "[]" ?md item_plaintext "[]" "''k1''"] sample_lengths(1) [of "[]"] item_plaintext_bounds(1)
      by fastforce
    then show thesis
      using that by (simp add: compute_integrity_mac_def)
  qed
  have n: "urandom sample_E 0 = []"
    by (simp add: sample_env_def)
  have st: "\<exists>d'. store_event sample_E sample_settings 9 sample_source sample_item_event item_plaintext hash sample_item_db =
      Inr ([], d') \<and> db_ncrs d' = db_ncrs sample_item_db \<and> (\<exists>r. db_raw_events d' = [r] \<and> re_event_id r = ''e1'' \<and>
        re_item_id r = Some ''it'' \<and> re_payload_ciphertext r = item_plaintext)" for hash
    by (simp add: store_event_def append_sealed_def encrypt_event_def Let_def stream_for_def
        sample_source_def is_cont_def seal_event_def sample_item_event_def sample_event_def n t append_raw_def
        note_raw_def has_id_def note_invalidation_def add_attempt_def sample_settings_def fresh_projection_def
        touch_projection_def)
  have p: "canonical_json_bytes (float_repr sample_E) (canonical_event_dict sample_validator sample_item_event) = item_plaintext"
    by (simp add: item_plaintext_def sample_env_def)
  obtain d' r where d': "store_event sample_E sample_settings 9 sample_source sample_item_event item_plaintext
      (sha256_hex sample_E item_plaintext) sample_item_db = Inr ([], d')" "db_ncrs d' = db_ncrs sample_item_db"
    and r: "db_raw_events d' = [r]" "re_event_id r = ''e1''" "re_item_id r = Some ''it''" "re_payload_ciphertext r = item_plaintext"
    using st by blast
  have "track_sequence sample_source sample_item_event sample_item_db = sample_item_db"
    by (simp add: track_sequence_def sample_item_event_def sample_event_def)
  then have "\<exists>x. sample_item_ingest sample_item_db = (Inr x, d')"
    by (simp add: sample_item_ingest_def ingest_event_def sample_item_admitted commit_event_def Let_def p d'(1))
  then have "log_step sample_E sample_settings sample_item_db d'"
    unfolding sample_item_ingest_def by (metis log_step.ingest)
  moreover obtain ct where "flip_first_bit item_plaintext = Some ct"
    using item_plaintext_bounds(2) by (metis flip_first_bit.simps(2))
  ultimately show thesis
    using that [of d' r ct] r d'(2) by simp
qed

lemma sample_no_collision: "\<not> mac_collision sample_E secret r r'"
  by (auto simp: mac_collision_def sample_env_def)

end
