(* ===== verification/TQ_Readers.thy ===== *)
theory TQ_Readers
  imports TQ_Outbox TQ_Rebuild_Effects "HOL-Library.Option_ord"
begin

text \<open>
  The reading endpoints of the items (\<^verbatim>\<open>backend/app/api/items.py\<close>), the nonconformances (the two
  GET handlers of \<^verbatim>\<open>backend/app/api/nonconformances.py\<close>) and the integrations
  (\<^verbatim>\<open>list_integrations\<close> of \<^verbatim>\<open>backend/app/api/integrations.py\<close>). A response is a record with the fields
  the code returns, or the row where all of its columns are returned. Where an \<open>ORDER BY\<close> leaves rows tied,
  the model keeps them in the order of the table. The columns \<open>created_at\<close> and \<open>algorithm_version\<close> of an
  analysis, and the times an analysis is shown with because of them, are not kept.
\<close>

section \<open>Items\<close>

record ItemSummary =
  is_item_id :: string
  is_product_definition_id :: string
  is_revision :: string
  is_line_id :: "string option"
  is_status :: disposition
  is_structure_status :: string
  is_registered_at :: time

definition item_summary :: "Item \<Rightarrow> ItemSummary" where
  "item_summary item = \<lparr>is_item_id = it_item_id item, is_product_definition_id = it_product_definition_id item,
     is_revision = it_revision item, is_line_id = it_line_id item, is_status = it_status item,
     is_structure_status = it_structure_status item, is_registered_at = it_registered_at item\<rparr>"

definition valid_page :: "int \<Rightarrow> int \<Rightarrow> bool" where
  "valid_page limit off \<longleftrightarrow> 1 \<le> limit \<and> limit \<le> 500 \<and> 0 \<le> off"

definition page :: "int \<Rightarrow> int \<Rightarrow> 'a list \<Rightarrow> 'a list" where
  "page limit off rows = take (nat limit) (drop (nat off) rows)"

definition list_items :: "int \<Rightarrow> int \<Rightarrow> db \<Rightarrow> ItemSummary list" where
  "list_items limit off d =
     map item_summary (page limit off (sort_key (\<lambda>item. - it_registered_at item) (db_items d)))"

record ProjectionView =
  pv_status :: projection_status
  pv_version :: int
  pv_last_rebuild :: "time option"
  pv_last_error :: "string option"

record NcrView =
  nv_id :: uuid
  nv_defect_type :: string
  nv_verdict :: verdict
  nv_cause_status :: string
  nv_disposition :: disposition
  nv_containment :: containment
  nv_analysis_version :: int

record ItemView =
  iw_summary :: ItemSummary
  iw_route_revision_id :: "uuid option"
  iw_projection :: "ProjectionView option"
  iw_nonconformances :: "NcrView list"

definition projection_view :: "ProjectionState \<Rightarrow> ProjectionView" where
  "projection_view ps = \<lparr>pv_status = ps_status ps, pv_version = ps_projection_version ps,
     pv_last_rebuild = ps_last_successful_rebuild_at ps, pv_last_error = ps_last_error ps\<rparr>"

definition ncr_view :: "Nonconformance \<Rightarrow> NcrView" where
  "ncr_view n = \<lparr>nv_id = nc_id n, nv_defect_type = nc_defect_type n, nv_verdict = nc_verdict n,
     nv_cause_status = nc_cause_status n, nv_disposition = nc_disposition n, nv_containment = nc_containment n,
     nv_analysis_version = nc_current_analysis_version n\<rparr>"

definition item_or_404 :: "string \<Rightarrow> db \<Rightarrow> Item result" where
  "item_or_404 i d = (case find_by it_item_id i (db_items d) of
     None \<Rightarrow> Inl (NotFoundError ''Item'') | Some item \<Rightarrow> Inr item)"

definition get_item :: "string \<Rightarrow> db \<Rightarrow> ItemView result" where
  "get_item i d = rbind (item_or_404 i d) (\<lambda>item. Inr
     \<lparr>iw_summary = item_summary item, iw_route_revision_id = it_route_revision_id item,
      iw_projection = map_option projection_view (find_by ps_item_id i (db_projections d)),
      iw_nonconformances = map ncr_view (sort_key nc_opened_at (filter (\<lambda>n. nc_item_id n = i) (db_ncrs d)))\<rparr>)"

text \<open>The timeline: the events of the item in the order a rebuild replays them, each with what the
  observation made from it says about trust.\<close>

record TimelineEvent =
  te_event_id :: string
  te_event_type :: string
  te_occurred_at :: time
  te_received_at :: time
  te_source_id :: string
  te_source_sequence :: "int option"
  te_trust :: "(trust_status \<times> string list) option"

definition trust_of :: "Observation list \<Rightarrow> string \<Rightarrow> (trust_status \<times> string list) option" where
  "trust_of rows = map_of (rev (map (\<lambda>ob. (ob_event_id ob, (ob_trust_status ob, ob_trust_reasons ob))) rows))"

definition timeline_event :: "Observation list \<Rightarrow> RawEvent \<Rightarrow> TimelineEvent" where
  "timeline_event rows raw = \<lparr>te_event_id = re_event_id raw, te_event_type = re_event_type raw,
     te_occurred_at = re_occurred_at raw, te_received_at = re_received_at raw, te_source_id = re_source_id raw,
     te_source_sequence = re_source_sequence raw, te_trust = trust_of rows (re_event_id raw)\<rparr>"

definition timeline :: "string \<Rightarrow> db \<Rightarrow> (string \<times> TimelineEvent list) result" where
  "timeline i d = rbind (item_or_404 i d) (\<lambda>_. Inr (i,
     map (timeline_event (filter (\<lambda>ob. ob_item_id ob = i) (db_observations d)))
       (sort_key (\<lambda>raw. (re_occurred_at raw, re_source_id raw, seq_key (re_source_sequence raw),
          re_received_at raw, re_event_id raw)) (filter (\<lambda>raw. re_item_id raw = Some i) (db_raw_events d)))))"

record EvidenceView =
  ew_type :: evidence_type
  ew_role :: evidence_role
  ew_source_event_id :: "string option"
  ew_occurred_at :: "time option"
  ew_details :: json

definition evidence_view :: "AnalysisEvidence \<Rightarrow> EvidenceView" where
  "evidence_view e = \<lparr>ew_type = ae_evidence_type e, ew_role = ae_evidence_role e,
     ew_source_event_id = ae_source_event_id e, ew_occurred_at = ae_occurred_at e, ew_details = ae_details e\<rparr>"

record VersionView =
  vv_version :: int
  vv_status :: analysis_status
  vv_left_boundary_at :: "time option"
  vv_right_boundary_at :: "time option"
  vv_reason :: string
  vv_evidence :: "EvidenceView list"

definition versions_of :: "db \<Rightarrow> uuid \<Rightarrow> AnalysisVersion list" where
  "versions_of d n = sort_key av_version (filter (\<lambda>a. av_nonconformance_id a = n) (db_analyses d))"

definition version_view :: "db \<Rightarrow> AnalysisVersion \<Rightarrow> VersionView" where
  "version_view d a = \<lparr>vv_version = av_version a, vv_status = av_status a,
     vv_left_boundary_at = av_left_boundary_at a, vv_right_boundary_at = av_right_boundary_at a, vv_reason = av_reason a,
     vv_evidence = map evidence_view (sort_key (\<lambda>e. (ae_occurred_at e, ae_id e))
       (filter (\<lambda>e. ae_analysis_version_id e = av_id a) (db_evidence d)))\<rparr>"

record NcrAnalyses =
  na_nonconformance_id :: uuid
  na_defect_type :: string
  na_component_instance_id :: "string option"
  na_cause_status :: string
  na_versions :: "VersionView list"

definition analyses :: "string \<Rightarrow> db \<Rightarrow> NcrAnalyses list" where
  "analyses i d = map (\<lambda>n. \<lparr>na_nonconformance_id = nc_id n, na_defect_type = nc_defect_type n,
     na_component_instance_id = nc_component_instance_id n, na_cause_status = nc_cause_status n,
     na_versions = map (version_view d) (versions_of d (nc_id n))\<rparr>) (filter (\<lambda>n. nc_item_id n = i) (db_ncrs d))"

section \<open>Nonconformances\<close>

definition list_nonconformances :: "string option \<Rightarrow> db \<Rightarrow> Nonconformance list" where
  "list_nonconformances wanted d =
     filter (\<lambda>n. has_id wanted \<longrightarrow> verdict_str (nc_verdict n) = the wanted) (sort_key (\<lambda>n. - nc_opened_at n) (db_ncrs d))"

record AnalysisRef =
  ar_id :: uuid
  ar_version :: int
  ar_status :: analysis_status
  ar_left_boundary_at :: "time option"
  ar_right_boundary_at :: "time option"
  ar_reason :: string

definition analysis_ref :: "AnalysisVersion \<Rightarrow> AnalysisRef" where
  "analysis_ref a = \<lparr>ar_id = av_id a, ar_version = av_version a, ar_status = av_status a,
     ar_left_boundary_at = av_left_boundary_at a, ar_right_boundary_at = av_right_boundary_at a, ar_reason = av_reason a\<rparr>"

record NcrDetail =
  nd_ncr :: Nonconformance
  nd_analysis_versions :: "AnalysisRef list"
  nd_decisions :: "ControllerDecision list"
  nd_notes :: "InvestigationNote list"
  nd_proposals :: "ContainmentProposal list"

definition get_nonconformance :: "uuid \<Rightarrow> db \<Rightarrow> NcrDetail result" where
  "get_nonconformance i d = rbind (ncr_or_404 i d) (\<lambda>n. Inr
     \<lparr>nd_ncr = n, nd_analysis_versions = map analysis_ref (versions_of d (nc_id n)),
      nd_decisions = sort_key cd_created_at (filter (\<lambda>c. cd_nonconformance_id c = nc_id n) (db_decisions d)),
      nd_notes = sort_key no_created_at (filter (\<lambda>m. no_nonconformance_id m = nc_id n) (db_notes d)),
      nd_proposals = sort_key cp_created_at (filter (\<lambda>q. cp_nonconformance_id q = Some (nc_id n)) (db_proposals d))\<rparr>)"

section \<open>Integrations\<close>

record OutboxView =
  xv_message_id :: string
  xv_destination :: string
  xv_state :: outbox_state
  xv_attempts :: int
  xv_next_attempt_at :: time
  xv_last_error :: "string option"
  xv_created_at :: time
  xv_delivered_at :: "time option"

definition outbox_view :: "OutboxMessage \<Rightarrow> OutboxView" where
  "outbox_view m = \<lparr>xv_message_id = ox_message_id m, xv_destination = ox_destination m, xv_state = ox_state m,
     xv_attempts = ox_attempts m, xv_next_attempt_at = ox_next_attempt_at m, xv_last_error = ox_last_error m,
     xv_created_at = ox_created_at m, xv_delivered_at = ox_delivered_at m\<rparr>"

record Integrations =
  ig_adapters :: "(string \<times> string) list"
  ig_health :: "IntegrationHealth list"
  ig_outbox :: "OutboxView list"

definition list_integrations :: "db \<Rightarrow> Integrations" where
  "list_integrations d =
     \<lparr>ig_adapters = [(''erp-emulator'', ''implemented''), (''1c'', ''fixture_transport''),
        (''galaktika'', ''fixture_transport''), (''mes'', ''fixture_transport''), (''kompas'', ''json_structure_provider'')],
      ig_health = sort_key ih_integration_id (db_health d),
      ig_outbox = map outbox_view (take 100 (sort_key (\<lambda>m. - ox_created_at m) (db_outbox d)))\<rparr>"

section \<open>The endpoints\<close>

text \<open>A reader behind its gate: what it answers, and the database it leaves.\<close>

definition reader ::
  "env \<Rightarrow> time \<Rightarrow> (string \<times> string) option \<Rightarrow> string \<Rightarrow> (db \<Rightarrow> 'r result) \<Rightarrow> db \<Rightarrow> 'r result \<times> db" where
  "reader E now credentials permission f = gated (permission_gate E now credentials permission) (\<lambda>p d. (f d, d))"

definition items_endpoint ::
  "env \<Rightarrow> time \<Rightarrow> (string \<times> string) option \<Rightarrow> int \<Rightarrow> int \<Rightarrow> db \<Rightarrow> ItemSummary list result \<times> db" where
  "items_endpoint E now credentials limit off =
     reader E now credentials ''VIEW_PRODUCT'' (\<lambda>d. if valid_page limit off then Inr (list_items limit off d)
       else Inl (TraceQError ''REQUEST_VALIDATION_ERROR'' ''Request validation failed'' 422))"

definition item_endpoint ::
  "env \<Rightarrow> time \<Rightarrow> (string \<times> string) option \<Rightarrow> string \<Rightarrow> db \<Rightarrow> ItemView result \<times> db" where
  "item_endpoint E now credentials i = reader E now credentials ''VIEW_PRODUCT'' (get_item i)"

definition timeline_endpoint ::
  "env \<Rightarrow> time \<Rightarrow> (string \<times> string) option \<Rightarrow> string \<Rightarrow> db \<Rightarrow> (string \<times> TimelineEvent list) result \<times> db" where
  "timeline_endpoint E now credentials i = reader E now credentials ''VIEW_TIMELINE'' (timeline i)"

definition analyses_endpoint ::
  "env \<Rightarrow> time \<Rightarrow> (string \<times> string) option \<Rightarrow> string \<Rightarrow> db \<Rightarrow> NcrAnalyses list result \<times> db" where
  "analyses_endpoint E now credentials i =
     reader E now credentials ''VIEW_NONCONFORMANCE'' (\<lambda>d. Inr (analyses i d))"

definition nonconformances_endpoint ::
  "env \<Rightarrow> time \<Rightarrow> (string \<times> string) option \<Rightarrow> string option \<Rightarrow> db \<Rightarrow> Nonconformance list result \<times> db" where
  "nonconformances_endpoint E now credentials wanted =
     reader E now credentials ''VIEW_NONCONFORMANCE'' (\<lambda>d. Inr (list_nonconformances wanted d))"

definition nonconformance_endpoint ::
  "env \<Rightarrow> time \<Rightarrow> (string \<times> string) option \<Rightarrow> uuid \<Rightarrow> db \<Rightarrow> NcrDetail result \<times> db" where
  "nonconformance_endpoint E now credentials i =
     reader E now credentials ''VIEW_NONCONFORMANCE'' (get_nonconformance i)"

definition integrations_endpoint ::
  "env \<Rightarrow> time \<Rightarrow> (string \<times> string) option \<Rightarrow> db \<Rightarrow> Integrations result \<times> db" where
  "integrations_endpoint E now credentials =
     reader E now credentials ''MANAGE_INTEGRATIONS'' (\<lambda>d. Inr (list_integrations d))"

section \<open>What the readers show\<close>

lemma reader_keeps: "snd (reader E now credentials permission f d) = d"
  by (auto simp: reader_def gated_def split: sum.splits)

lemma pages_cover: "concat (map (\<lambda>k. page (int n) (int (k * n)) xs) [0..<m]) = take (m * n) xs"
proof (induction m)
  case (Suc m)
  have "nat (int (m * n)) = m * n"
    by (rule nat_int)
  then show ?case
    using Suc by (simp add: page_def take_add [of "m * n" n] add.commute [of n] del: of_nat_mult)
qed simp

lemma page_any_order:
  assumes "mset rows = mset (db_items d)" and "distinct (map it_registered_at (db_items d))"
  shows "sort_key (\<lambda>item. - it_registered_at item) rows = sort_key (\<lambda>item. - it_registered_at item) (db_items d)"
proof (rule sort_key_perm [OF assms(1)])
  have "mset (map it_registered_at rows) = mset (map it_registered_at (db_items d))"
    using assms(1) by simp
  then have "distinct (map it_registered_at rows)"
    using assms(2) mset_eq_imp_distinct_iff by blast
  then show "distinct (map (\<lambda>item. - it_registered_at item) rows)"
    by (simp add: distinct_map inj_on_def)
qed

lemma timeline_replays:
  assumes "timeline i d = Inr (j, es)"
  shows "map te_event_id es = map re_event_id (item_raws i (db_raw_events d))"
    and "\<And>e. e \<in> set es \<Longrightarrow> te_trust e = trust_of (filter (\<lambda>ob. ob_item_id ob = i) (db_observations d)) (te_event_id e)"
  using assms by (auto simp: timeline_def rbind_Inr_iff timeline_event_def item_raws_def business_key_def [abs_def] comp_def)

lemma sort_key_keys: "map f (sort_key f xs) = sort (map f xs)"
  by (rule properties_for_sort [symmetric]) simp_all

lemma versions_shown:
  assumes "versions_ok d" and "ncr_or_404 n d = Inr row" and "versions d n \<noteq> []"
  shows "map av_version (versions_of d n) = [1..nc_current_analysis_version row]"
proof -
  have v: "versions d n = [1..int (length (versions d n))]"
    using assms(1) by (simp add: versions_ok_def)
  have "find_by nc_id n (db_ncrs d) = Some row"
    using assms(2) by (simp add: ncr_or_404_def split: option.splits)
  then have "row \<in> set (db_ncrs d)" "nc_id row = n"
    by (auto dest: find_by_SomeD)
  then have "nc_current_analysis_version row = max 1 (int (length (versions d n)))"
    using assms(1) by (auto simp: versions_ok_def)
  moreover have "1 \<le> int (length (versions d n))"
    using assms(3) by (cases "versions d n") auto
  ultimately have c: "nc_current_analysis_version row = int (length (versions d n))"
    by simp
  have "map av_version (versions_of d n) = sort (versions d n)"
    by (simp add: versions_of_def versions_def sort_key_keys)
  also have "\<dots> = versions d n"
    by (rule sorted_sort_id) (subst v, rule sorted_upto)
  finally show ?thesis
    unfolding c by (rule trans [OF _ v])
qed

text \<open>After a rebuild the timeline shows the log of the item with the trust its replay established.\<close>

lemma timeline_after_rebuild:
  assumes "rebuild_item E S now i d = (Inr (), d')" and "item_raws i (db_raw_events d) \<noteq> []"
    and "timeline i d' = Inr (j, es)"
  obtains v where "replay E S d (item_raws i (db_raw_events d)) = Inr v"
    "map te_event_id es = map re_event_id (item_raws i (db_raw_events d))"
    "\<And>e. e \<in> set es \<Longrightarrow> te_trust e = trust_of (map (observation_row E i) (iv_observations v)) (te_event_id e)"
proof -
  have raws: "db_raw_events d' = db_raw_events d"
  proof -
    have "rebuild_frame d' = rebuild_frame d"
      using rebuild_item_rel [of i d E S now] assms(1) by (simp add: rebuild_rel_def)
    then have "db_raw_events (rebuild_frame d') = db_raw_events (rebuild_frame d)"
      by (rule arg_cong)
    then show ?thesis
      by (simp add: rebuild_frame_def)
  qed
  obtain v where v: "replay E S d (item_raws i (db_raw_events d)) = Inr v"
    and ob: "filter (\<lambda>r. ob_item_id r = i) (db_observations d') = map (observation_row E i) (iv_observations v)"
    by (rule rebuild_from_read_model [OF rebuild_item_done [OF assms(1,2)]])
  show thesis
    by (rule that [OF v]) (use timeline_replays [OF assms(3)] in \<open>simp_all add: raws ob\<close>)
qed

text \<open>An observation of an event shows up with its own status when no other observation is of that event.\<close>

lemma trust_of_row:
  assumes "ob \<in> set rows" and "distinct (map ob_event_id rows)"
  shows "trust_of rows (ob_event_id ob) = Some (ob_trust_status ob, ob_trust_reasons ob)"
  using assms by (auto simp: trust_of_def rev_map [symmetric] comp_def intro!: map_of_is_SomeI)

end
