(* ===== verification/TQ_Analytics.thy ===== *)
theory TQ_Analytics
  imports TQ_Auth
begin

text \<open>
  The key figures and the data health report (\<^verbatim>\<open>backend/app/api/analytics.py\<close>). The queries count
  and group rows; the durations of the runs, the widths of the birth windows and the delays of the
  detections are summarised by an average and by interpolated percentiles, kept as exact rational
  numbers where the code has floats. A group of a query is a pair of its key and its count; groups
  come in the order in which their keys are met, as SQL leaves the order open.
\<close>

section \<open>Counting and grouping\<close>

definition tally :: "'k list \<Rightarrow> ('k \<times> nat) list" where
  "tally ks = map (\<lambda>k. (k, count_list ks k)) (rev (remdups (rev ks)))"

definition count_distinct :: "'k list \<Rightarrow> nat" where
  "count_distinct ks = length (remdups ks)"

lemma count_list_sum: "set ks \<subseteq> A \<Longrightarrow> finite A \<Longrightarrow> (\<Sum>k \<in> A. count_list ks k) = length ks"
  by (simp add: sum_count_set)

lemma set_tally: "set (map fst (tally ks)) = set ks"
  by (auto simp: tally_def image_image)

lemma distinct_tally: "distinct (map fst (tally ks))"
  by (simp add: tally_def comp_def)

lemma tally_total: "sum_list (map snd (tally ks)) = length ks"
proof -
  have "sum_list (map snd (tally ks)) = sum_list (map (count_list ks) (rev (remdups (rev ks))))"
    by (simp add: tally_def comp_def)
  also have "\<dots> = (\<Sum>k \<in> set ks. count_list ks k)"
    using sum_list_distinct_conv_sum_set [of "rev (remdups (rev ks))" "count_list ks"] by simp
  finally show ?thesis
    by (simp add: count_list_sum)
qed

lemma count_distinct_card: "count_distinct ks = card (set ks)"
  by (simp add: count_distinct_def length_remdups_card_conv)

section \<open>Averages and percentiles\<close>

definition average :: "rat list \<Rightarrow> rat option" where
  "average vs = (if vs = [] then None else Some (sum_list vs / of_nat (length vs)))"

definition percentile :: "rat list \<Rightarrow> rat \<Rightarrow> rat option" where
  "percentile vs ratio =
     (if vs = [] then None
      else let position = of_nat (length vs - 1) * ratio; lower = nat \<lfloor>position\<rfloor>;
          upper = min (lower + 1) (length vs - 1); fraction = position - of_nat lower in
        Some (vs ! lower * (1 - fraction) + vs ! upper * fraction))"

definition total_seconds :: "time \<Rightarrow> rat" where
  "total_seconds t = of_int t / 1000000"

text \<open>The value between two positions lies between the values at them.\<close>

definition interpolate :: "rat list \<Rightarrow> rat \<Rightarrow> rat" where
  "interpolate vs x = (let l = nat \<lfloor>x\<rfloor>; u = min (l + 1) (length vs - 1) in
     vs ! l * (1 - (x - of_nat l)) + vs ! u * (x - of_nat l))"

lemma percentile_interpolates:
  "vs \<noteq> [] \<Longrightarrow> percentile vs q = Some (interpolate vs (of_nat (length vs - 1) * q))"
  by (simp add: percentile_def interpolate_def Let_def)

lemma convex_between:
  fixes a b f :: rat
  assumes "a \<le> b" "0 \<le> f" "f \<le> 1"
  shows "a \<le> a * (1 - f) + b * f" and "a * (1 - f) + b * f \<le> b"
proof -
  have "0 \<le> (b - a) * f" "0 \<le> (b - a) * (1 - f)"
    using assms by simp_all
  then show "a \<le> a * (1 - f) + b * f" "a * (1 - f) + b * f \<le> b"
    by (simp_all add: algebra_simps)
qed

lemma floor_nat:
  fixes x :: rat
  assumes "0 \<le> x"
  shows "of_nat (nat \<lfloor>x\<rfloor>) \<le> x" and "x < of_nat (nat \<lfloor>x\<rfloor>) + 1"
  using assms floor_correct [of x] by (simp_all add: of_nat_nat)

lemma interpolate_between:
  assumes "sorted vs" and "0 \<le> x" and "x \<le> of_nat (length vs - 1)" and "vs \<noteq> []"
  defines "l \<equiv> nat \<lfloor>x\<rfloor>"
  shows "vs ! l \<le> interpolate vs x" and "interpolate vs x \<le> vs ! min (l + 1) (length vs - 1)"
proof -
  have x: "of_nat l \<le> x" "x < of_nat l + 1"
    using floor_nat [OF assms(2)] by (simp_all add: l_def)
  then have "of_nat l \<le> (of_nat (length vs - 1) :: rat)"
    using assms(3) by linarith
  then have "l \<le> length vs - 1"
    by (simp only: of_nat_le_iff)
  moreover have n: "0 < length vs"
    using assms(4) by simp
  ultimately have "vs ! l \<le> vs ! min (l + 1) (length vs - 1)"
    by (intro sorted_nth_mono [OF assms(1)]) linarith+
  then show "vs ! l \<le> interpolate vs x" "interpolate vs x \<le> vs ! min (l + 1) (length vs - 1)"
    using convex_between [of "vs ! l" "vs ! min (l + 1) (length vs - 1)" "x - of_nat l"] x
    by (simp_all add: interpolate_def Let_def l_def)
qed

lemma interpolate_mono:
  assumes "sorted vs" and "vs \<noteq> []" and "0 \<le> x" and "x \<le> y" and "y \<le> of_nat (length vs - 1)"
  shows "interpolate vs x \<le> interpolate vs y"
proof (cases "nat \<lfloor>x\<rfloor> = nat \<lfloor>y\<rfloor>")
  case True
  let ?l = "nat \<lfloor>x\<rfloor>"
  have "vs ! ?l \<le> vs ! min (?l + 1) (length vs - 1)"
    using interpolate_between [of vs x] assms by force
  then have "0 \<le> (vs ! min (?l + 1) (length vs - 1) - vs ! ?l) * (y - x)"
    using assms(4) by simp
  then show ?thesis
    by (simp add: interpolate_def Let_def True [symmetric] algebra_simps)
next
  case False
  have "nat \<lfloor>x\<rfloor> \<le> nat \<lfloor>y\<rfloor>"
    using assms(4) by (intro nat_mono floor_mono)
  with False have less: "nat \<lfloor>x\<rfloor> + 1 \<le> nat \<lfloor>y\<rfloor>"
    by simp
  have "of_nat (nat \<lfloor>y\<rfloor>) \<le> (of_nat (length vs - 1) :: rat)"
    using floor_nat(1) [of y] assms(3-5) by linarith
  then have y: "nat \<lfloor>y\<rfloor> \<le> length vs - 1"
    by (simp only: of_nat_le_iff)
  have "0 < length vs"
    using assms(2) by simp
  have "interpolate vs x \<le> vs ! min (nat \<lfloor>x\<rfloor> + 1) (length vs - 1)"
    using interpolate_between(2) [of vs x] assms by force
  also have "vs ! min (nat \<lfloor>x\<rfloor> + 1) (length vs - 1) \<le> vs ! nat \<lfloor>y\<rfloor>"
    using less y \<open>0 < length vs\<close> by (intro sorted_nth_mono [OF assms(1)]) linarith+
  also have "\<dots> \<le> interpolate vs y"
    using interpolate_between(1) [of vs y] assms by force
  finally show ?thesis .
qed

lemma percentile_bounds:
  assumes "sorted vs" and "percentile vs q = Some p" and "0 \<le> q" and "q \<le> 1"
  shows "p \<in> {hd vs .. last vs}"
proof -
  have vs: "vs \<noteq> []"
    using assms(2) by (auto simp: percentile_def)
  let ?n = "of_nat (length vs - 1) :: rat"
  have p: "p = interpolate vs (?n * q)"
    using assms(2) by (simp add: percentile_interpolates vs)
  have x: "0 \<le> ?n * q" "?n * q \<le> ?n"
    using assms(3,4) by (simp_all add: mult_left_le)
  have "interpolate vs 0 = hd vs"
    using vs by (simp add: interpolate_def hd_conv_nth)
  moreover have "interpolate vs ?n = last vs"
    using vs by (simp add: interpolate_def last_conv_nth Let_def)
  ultimately show ?thesis
    using interpolate_mono [OF assms(1) vs order_refl x] interpolate_mono [OF assms(1) vs x order_refl] p by simp
qed

lemma percentile_mono:
  assumes "sorted vs" and "percentile vs q = Some p" and "percentile vs q' = Some p'"
    and "0 \<le> q" and "q \<le> q'" and "q' \<le> 1"
  shows "p \<le> p'"
proof -
  have vs: "vs \<noteq> []"
    using assms(2) by (auto simp: percentile_def)
  let ?n = "of_nat (length vs - 1) :: rat"
  have "0 \<le> ?n * q" "?n * q \<le> ?n * q'" "?n * q' \<le> ?n"
    using assms(4-6) by (simp_all add: mult_left_le mult_left_mono)
  from interpolate_mono [OF assms(1) vs this] show ?thesis
    using assms(2,3) by (simp add: percentile_interpolates vs)
qed

lemma sum_list_bounds:
  fixes vs :: "rat list"
  assumes "\<And>v. v \<in> set vs \<Longrightarrow> a \<le> v \<and> v \<le> b"
  shows "of_nat (length vs) * a \<le> sum_list vs" and "sum_list vs \<le> of_nat (length vs) * b"
  using assms by (induction vs) (auto simp: distrib_right add_mono)

lemma average_bounds:
  assumes "average vs = Some m" and "\<And>v. v \<in> set vs \<Longrightarrow> a \<le> v \<and> v \<le> b"
  shows "m \<in> {a .. b}"
proof -
  have vs: "0 < length vs" and m: "m = sum_list vs / of_nat (length vs)"
    using assms(1) by (auto simp: average_def split: if_splits)
  have "of_nat (length vs) * a \<le> sum_list vs" "sum_list vs \<le> of_nat (length vs) * b"
    using sum_list_bounds [of vs a b] assms(2) by simp_all
  then show ?thesis
    using vs by (simp add: m field_simps)
qed

lemma sorted_ends: "sorted vs \<Longrightarrow> v \<in> set vs \<Longrightarrow> hd vs \<le> v \<and> v \<le> last vs"
  by (induction vs) (auto dest: last_in_set)

lemma average_sorted: "sorted vs \<Longrightarrow> average vs = Some m \<Longrightarrow> m \<in> {hd vs .. last vs}"
  by (erule average_bounds) (rule sorted_ends)

section \<open>The key figures\<close>

fun run_factor :: "duration_unit option \<Rightarrow> rat" where
  "run_factor (Some Unit_ms) = 1 / 1000"
| "run_factor (Some Unit_s) = 1"
| "run_factor (Some Unit_min) = 60"
| "run_factor (Some Unit_h) = 3600"
| "run_factor None = 1"

definition run_durations :: "db \<Rightarrow> rat list" where
  "run_durations d = sort (concat (map (\<lambda>run. case or_duration_value run of
     None \<Rightarrow> [] | Some v \<Rightarrow> [v * run_factor (or_duration_unit run)]) (db_runs d)))"

definition window_widths :: "db \<Rightarrow> rat list" where
  "window_widths d = concat (map (\<lambda>row. case (av_left_boundary_at row, av_right_boundary_at row) of
     (Some l, Some r) \<Rightarrow> [total_seconds (r - l)] | _ \<Rightarrow> []) (db_analyses d))"

definition detection_delays :: "db \<Rightarrow> rat list" where
  "detection_delays d = concat (map (\<lambda>ob. concat (map (\<lambda>run.
     case or_finished_at run of
       None \<Rightarrow> []
     | Some finished \<Rightarrow>
         if ob_operation_run_id ob = Some (or_operation_run_id run) \<and>
            ob_inspection_result ob = Defect_detected \<and> ob_trust_status ob = TRUSTED \<and> finished \<le> ob_occurred_at ob
         then [total_seconds (ob_occurred_at ob - finished)] else []) (db_runs d))) (db_observations d))"

text \<open>The line and the station of every reported defect, the station through an outer join.\<close>

definition detection_keys :: "db \<Rightarrow> (string option \<times> string option) list" where
  "detection_keys d = concat (map (\<lambda>dob. concat (map (\<lambda>ob. concat (map (\<lambda>item.
     if ob_id ob = dobs_observation_id dob \<and> it_item_id item = ob_item_id ob
     then (let runs = filter (\<lambda>run. ob_operation_run_id ob = Some (or_operation_run_id run)) (db_runs d) in
           if runs = [] then [(it_line_id item, None)] else map (\<lambda>run. (it_line_id item, or_station_id run)) runs)
     else []) (db_items d))) (db_observations d))) (db_defect_observations d))"

record Kpi =
  kpi_calculated_at :: time
  kpi_inspected_items :: nat
  kpi_assessable_items :: nat
  kpi_confirmed_items :: nat
  kpi_unique_defects :: nat
  kpi_defects_by_type :: "(string \<times> nat) list"
  kpi_defects_by_line_station :: "((string option \<times> string option) \<times> nat) list"
  kpi_established_causes :: nat
  kpi_unknown_causes :: nat
  kpi_duration_avg :: "rat option"
  kpi_duration_median :: "rat option"
  kpi_duration_p95 :: "rat option"
  kpi_rework_count :: nat
  kpi_rework_item_rate :: "rat option"
  kpi_first_pass_yield :: "rat option"
  kpi_width_avg :: "rat option"
  kpi_width_p95 :: "rat option"
  kpi_detection_delay_avg :: "rat option"

definition rate :: "int \<Rightarrow> nat \<Rightarrow> rat option" where
  "rate part whole = (if whole = 0 then None else Some (of_int part / of_nat whole))"

definition quality_kpi :: "time \<Rightarrow> db \<Rightarrow> Kpi" where
  "quality_kpi now d =
     (let observed = db_observations d;
          assessable = count_distinct (map ob_item_id (filter (\<lambda>ob. ob_trust_status ob = TRUSTED) observed));
          confirmed_items = count_distinct (map nc_item_id (filter (\<lambda>n. nc_verdict n = Confirmed) (db_ncrs d)));
          reworks = filter (\<lambda>run. or_run_reason run = Rework) (db_runs d);
          durations = run_durations d; widths = window_widths d in
      \<lparr>kpi_calculated_at = now,
       kpi_inspected_items = count_distinct (map ob_item_id observed),
       kpi_assessable_items = assessable,
       kpi_confirmed_items = confirmed_items,
       kpi_unique_defects = length (db_occurrences d),
       kpi_defects_by_type = sort_key (\<lambda>(name, n). - int n) (tally (map oc_defect_type (db_occurrences d))),
       kpi_defects_by_line_station = tally (detection_keys d),
       kpi_established_causes = length (filter (\<lambda>n. nc_cause_status n = ''confirmed_by_human'') (db_ncrs d)),
       kpi_unknown_causes = length (filter (\<lambda>n. nc_cause_status n = ''not_established'') (db_ncrs d)),
       kpi_duration_avg = average durations,
       kpi_duration_median = percentile durations (1 / 2),
       kpi_duration_p95 = percentile durations (95 / 100),
       kpi_rework_count = length reworks,
       kpi_rework_item_rate = rate (int (count_distinct (map or_item_id reworks))) (length (db_items d)),
       kpi_first_pass_yield = rate (int assessable - int confirmed_items) assessable,
       kpi_width_avg = average widths,
       kpi_width_p95 = percentile (sort widths) (95 / 100),
       kpi_detection_delay_avg = average (detection_delays d)\<rparr>)"

definition kpi_endpoint :: "env \<Rightarrow> time \<Rightarrow> (string \<times> string) option \<Rightarrow> db \<Rightarrow> Kpi result \<times> db" where
  "kpi_endpoint E now credentials =
     gated (permission_gate E now credentials ''VIEW_ANALYTICS'') (\<lambda>p d. (Inr (quality_kpi now d), d))"

section \<open>Data health\<close>

record Health =
  hl_calculated_at :: time
  hl_ingestion :: "(attempt_status \<times> nat) list"
  hl_errors :: "(string \<times> nat) list"
  hl_projections :: "(projection_status \<times> nat) list"
  hl_outbox :: "(outbox_state \<times> nat) list"
  hl_integrations :: "IntegrationHealth list"
  hl_heartbeats :: "WorkerHeartbeat list"

definition data_health :: "time \<Rightarrow> db \<Rightarrow> Health" where
  "data_health now d =
     \<lparr>hl_calculated_at = now,
      hl_ingestion = tally (map ia_status (db_attempts d)),
      hl_errors = tally (List.map_filter ia_error_code (db_attempts d)),
      hl_projections = tally (map ps_status (db_projections d)),
      hl_outbox = tally (map ox_state (db_outbox d)),
      hl_integrations = db_health d, hl_heartbeats = db_heartbeats d\<rparr>"

definition any_gate ::
  "env \<Rightarrow> time \<Rightarrow> (string \<times> string) option \<Rightarrow> string list \<Rightarrow> db \<Rightarrow> Principal result" where
  "any_gate E now credentials allowed d =
     rbind (current_principal E now credentials d) (require_any_permission allowed)"

definition health_endpoint :: "env \<Rightarrow> time \<Rightarrow> (string \<times> string) option \<Rightarrow> db \<Rightarrow> Health result \<times> db" where
  "health_endpoint E now credentials =
     gated (any_gate E now credentials [''VIEW_ANALYTICS'', ''MANAGE_INTEGRATIONS'']) (\<lambda>p d. (Inr (data_health now d), d))"

section \<open>What the figures satisfy\<close>

lemma durations_sorted [simp]: "sorted (run_durations d)"
  by (simp add: run_durations_def)

lemma kpi_durations:
  assumes "kpi_duration_avg (quality_kpi now d) = Some avg"
    and "kpi_duration_median (quality_kpi now d) = Some med"
    and "kpi_duration_p95 (quality_kpi now d) = Some p95"
  shows "{avg, med, p95} \<subseteq> {hd (run_durations d) .. last (run_durations d)}" and "med \<le> p95"
proof -
  have s: "average (run_durations d) = Some avg" "percentile (run_durations d) (1 / 2) = Some med"
    "percentile (run_durations d) (95 / 100) = Some p95"
    using assms by (simp_all add: quality_kpi_def Let_def)
  show "med \<le> p95"
    by (rule percentile_mono [OF durations_sorted s(2,3)]) simp_all
  show "{avg, med, p95} \<subseteq> {hd (run_durations d) .. last (run_durations d)}"
    using average_sorted [OF durations_sorted s(1)] percentile_bounds [OF durations_sorted s(2)]
      percentile_bounds [OF durations_sorted s(3)] by simp
qed

lemma rate_at_most_one: "rate part whole = Some r \<Longrightarrow> part \<le> int whole \<Longrightarrow> r \<le> 1"
  using of_int_le_iff [of part "int whole", where ?'a = rat] by (auto simp: rate_def divide_le_eq split: if_splits)

lemma yield_at_most_one:
  assumes "kpi_first_pass_yield (quality_kpi now d) = Some y"
  shows "y \<le> 1"
proof (rule rate_at_most_one)
  show "rate (int (kpi_assessable_items (quality_kpi now d)) - int (kpi_confirmed_items (quality_kpi now d)))
      (kpi_assessable_items (quality_kpi now d)) = Some y"
    using assms by (simp add: quality_kpi_def Let_def)
qed simp

lemma rework_rate_bounds:
  assumes "kpi_rework_item_rate (quality_kpi now d) = Some r"
    and "or_item_id ` set (db_runs d) \<subseteq> it_item_id ` set (db_items d)"
  shows "r \<in> {0 .. 1}"
proof -
  let ?ids = "map or_item_id (filter (\<lambda>run. or_run_reason run = Rework) (db_runs d))"
  have n: "0 < length (db_items d)" and r: "r = of_nat (count_distinct ?ids) / of_nat (length (db_items d))"
    using assms(1) by (auto simp: quality_kpi_def Let_def rate_def split: if_splits)
  have "card (set ?ids) \<le> card (it_item_id ` set (db_items d))"
    using assms(2) by (intro card_mono) auto
  also have "\<dots> \<le> length (db_items d)"
    using card_image_le [of "set (db_items d)" it_item_id] card_length [of "db_items d"] by simp
  finally have "of_nat (count_distinct ?ids) \<le> (of_nat (length (db_items d)) :: rat)"
    unfolding count_distinct_card by (simp only: of_nat_le_iff)
  then show ?thesis
    using n by (simp add: r field_simps)
qed

lemma groups_complete:
  "sum_list (map snd (kpi_defects_by_type (quality_kpi now d))) = kpi_unique_defects (quality_kpi now d)"
proof -
  let ?g = "tally (map oc_defect_type (db_occurrences d))"
  have "sum_list (map snd (sort_key (\<lambda>(name, n). - int n) ?g)) = sum_list (map snd ?g)"
    unfolding sum_mset_sum_list [symmetric] mset_map mset_sort ..
  then show ?thesis
    by (simp add: quality_kpi_def Let_def tally_total)
qed

lemma health_complete:
  "sum_list (map snd (hl_ingestion (data_health now d))) = length (db_attempts d)"
  "sum_list (map snd (hl_projections (data_health now d))) = length (db_projections d)"
  "sum_list (map snd (hl_outbox (data_health now d))) = length (db_outbox d)"
  by (simp_all add: data_health_def tally_total)

lemma assessable_are_inspected:
  "kpi_assessable_items (quality_kpi now d) \<le> kpi_inspected_items (quality_kpi now d)"
  unfolding quality_kpi_def Let_def Kpi.simps count_distinct_card by (intro card_mono) auto

end
