(* ===== verification/TQ_Integrations.thy ===== *)
theory TQ_Integrations
  imports TQ_Outbox TQ_Ingestion
begin

text \<open>
  What comes in from other systems: the import of a product structure
  (\<^verbatim>\<open>backend/app/integrations/product_structure.py\<close>), the adapters of the production systems
  (\<^verbatim>\<open>backend/app/integrations/adapters.py\<close>) and the synchronisation with the ERP
  (\<^verbatim>\<open>sync_erp\<close> of \<^verbatim>\<open>backend/app/api/integrations.py\<close>). What a system answers to a request, or the
  exception the request ends in, is an argument.
\<close>

section \<open>Product structures\<close>

text \<open>
  A provider: a file, given by its parsed contents (None when it is not JSON), or the bridge to the
  design system, given by what it exports (None when there is no bridge).
\<close>

datatype provider =
    Json_provider "json option"
  | Kompas_provider "json result option"

definition structure_fields :: "string list" where
  "structure_fields = [''assembly_id'', ''components'', ''relations'', ''revision'']"

fun load_structure :: "provider \<Rightarrow> json result" where
  "load_structure (Json_provider None) = Inl (PyError ''JSONDecodeError'')"
| "load_structure (Json_provider (Some v)) =
     (case v of
        JObj d \<Rightarrow>
          if \<not> list_all (\<lambda>k. map_of d k \<noteq> None) structure_fields then Inl (PyError ''ValueError'')
          else (case (dict_get ''components'' d, dict_get ''relations'' d) of
                  (JArr _, JArr _) \<Rightarrow> Inr v
                | _ \<Rightarrow> Inl (PyError ''ValueError''))
      | _ \<Rightarrow> Inl (PyError ''AttributeError''))"
| "load_structure (Kompas_provider None) = Inl (PyError ''RuntimeError'')"
| "load_structure (Kompas_provider (Some r)) = r"

text \<open>\<open>value[key]\<close>, and a value as the text of a column of the given width that must not be null.\<close>

definition item_of :: "json \<Rightarrow> string \<Rightarrow> json result" where
  "item_of v key = (case v of
     JObj d \<Rightarrow> (case map_of d key of None \<Rightarrow> Inl (PyError ''KeyError'') | Some x \<Rightarrow> Inr x)
   | _ \<Rightarrow> Inl (PyError ''TypeError''))"

definition text_column :: "nat \<Rightarrow> json \<Rightarrow> string result" where
  "text_column width v = (case v of
     JStr s \<Rightarrow> if py_len s \<le> width then Inr s else Inl (PyError ''DataError'')
   | JNull \<Rightarrow> Inl (PyError ''IntegrityError'')
   | _ \<Rightarrow> Inl (PyError ''ProgrammingError''))"

record StructureImportResult =
  sm_snapshot :: ProductStructureSnapshot
  sm_status :: string
  sm_warning :: "string option"

definition same_revision :: "string \<Rightarrow> string \<Rightarrow> ProductStructureSnapshot \<Rightarrow> bool" where
  "same_revision a rv s \<longleftrightarrow> sn_assembly_id s = a \<and> sn_revision s = rv"

definition exact_snapshot :: "string \<Rightarrow> string \<Rightarrow> string \<Rightarrow> db \<Rightarrow> ProductStructureSnapshot option" where
  "exact_snapshot a rv hash d =
     List.find (\<lambda>s. same_revision a rv s \<and> sn_content_hash s = hash) (db_snapshots d)"

definition import_value :: "env \<Rightarrow> time \<Rightarrow> json \<Rightarrow> db \<Rightarrow> (StructureImportResult \<times> db) result" where
  "import_value E now v d =
     (let hash = sha256_hex E (canonical_json_bytes (float_repr E) v) in
      rbind (rbind (item_of v ''assembly_id'') (text_column 128)) (\<lambda>a.
      rbind (rbind (item_of v ''revision'') (text_column 64)) (\<lambda>rv.
      case exact_snapshot a rv hash d of
        Some s \<Rightarrow> Inr (\<lparr>sm_snapshot = s, sm_status = ''unchanged'', sm_warning = None\<rparr>, d)
      | None \<Rightarrow>
          rbind (item_of v ''components'') (\<lambda>components.
          rbind (item_of v ''relations'') (\<lambda>relations.
          let snapshot = \<lparr>sn_id = new_uuid E d, sn_assembly_id = a, sn_revision = rv,
                sn_content_hash = hash, sn_components = components, sn_relations = relations, sn_created_at = now\<rparr> in
          Inr (\<lparr>sm_snapshot = snapshot, sm_status = ''created'',
                sm_warning = (if list_ex (same_revision a rv) (db_snapshots d)
                              then Some ''REVISION_CONTENT_CHANGED'' else None)\<rparr>,
               drew_uuid (d\<lparr>db_snapshots := db_snapshots d @ [snapshot]\<rparr>)))))))"

definition import_structure :: "env \<Rightarrow> time \<Rightarrow> provider \<Rightarrow> db \<Rightarrow> (StructureImportResult \<times> db) result" where
  "import_structure E now provider d = rbind (load_structure provider) (\<lambda>v. import_value E now v d)"

section \<open>Adapters\<close>

text \<open>An adapter over fixtures answers from its dictionary.\<close>

definition fixture_jobs :: "(string \<times> json) list \<Rightarrow> json result" where
  "fixture_jobs fixture = (case map_of fixture ''jobs'' of
     None \<Rightarrow> Inr (JArr [])
   | Some (JArr xs) \<Rightarrow> Inr (JArr xs)
   | Some (JObj kvs) \<Rightarrow> Inr (JArr (map (JStr \<circ> fst) kvs))
   | Some _ \<Rightarrow> Inl (PyError ''TypeError''))"

section \<open>Synchronisation with the ERP\<close>

definition erp_health :: "db \<Rightarrow> IntegrationHealth" where
  "erp_health d = (case find_by ih_integration_id ''erp-emulator'' (db_health d) of
     Some h \<Rightarrow> h
   | None \<Rightarrow> \<lparr>ih_integration_id = ''erp-emulator'', ih_status = ''UNKNOWN'', ih_last_success_at = None,
       ih_last_error_at = None, ih_safe_error = None\<rparr>)"

definition put_health :: "IntegrationHealth \<Rightarrow> db \<Rightarrow> db" where
  "put_health h d = d\<lparr>db_health :=
     (if find_by ih_integration_id (ih_integration_id h) (db_health d) = None then db_health d @ [h]
      else update_by ih_integration_id (ih_integration_id h) (\<lambda>_. h) (db_health d))\<rparr>"

text \<open>The identifier of a job and its revision: \<open>str(job["job_id"])\<close> and \<open>job.get("revision")\<close>.\<close>

definition job_key :: "env \<Rightarrow> json \<Rightarrow> (string \<times> string option) result" where
  "job_key E job = rbind (item_of job ''job_id'') (\<lambda>i. Inr (py_str E i,
     (case job of JObj d \<Rightarrow> (let rv = dict_get ''revision'' d in if truthy rv then Some (py_str E rv) else None)
      | _ \<Rightarrow> None)))"

definition erp_job :: "string \<Rightarrow> ExternalIdentity \<Rightarrow> bool" where
  "erp_job i x \<longleftrightarrow> ei_external_system x = ''erp-emulator'' \<and> ei_external_entity_type x = ''job'' \<and> ei_external_id x = i"

text \<open>
  The rows the loop adds to the session, and the exception it ends in. With \<open>autoflush\<close> off the query
  does not see them, so a job that comes twice in one answer is added twice.
\<close>

fun map_jobs :: "env \<Rightarrow> db \<Rightarrow> json list \<Rightarrow> ExternalIdentity list \<Rightarrow> ExternalIdentity list \<times> exn option" where
  "map_jobs E d [] added = (added, None)"
| "map_jobs E d (job # jobs) added =
     (case job_key E job of
        Inl e \<Rightarrow> (added, Some e)
      | Inr (i, rv) \<Rightarrow>
          if list_ex (erp_job i) (db_external_ids d) then map_jobs E d jobs added
          else map_jobs E d jobs (added @ [\<lparr>ei_id = uuid4 E (db_uuid_draws d + length added),
            ei_internal_entity_type = ''production_job'', ei_internal_id = ''JOB-'' @ i,
            ei_external_system = ''erp-emulator'', ei_external_entity_type = ''job'', ei_external_id = i,
            ei_external_revision = rv\<rparr>]))"

definition external_key :: "ExternalIdentity \<Rightarrow> string \<times> string \<times> string" where
  "external_key x = (ei_external_system x, ei_external_entity_type x, ei_external_id x)"

text \<open>Flushing them: the unique constraint and the widths of the columns.\<close>

definition flush_identities :: "ExternalIdentity list \<Rightarrow> db \<Rightarrow> db result" where
  "flush_identities added d =
     (if \<not> list_all (\<lambda>x. py_len (ei_internal_id x) \<le> 128 \<and> fits (Some 64) (ei_external_revision x)) added
        then Inl (PyError ''DataError'')
      else if \<not> distinct (map external_key added) then Inl (PyError ''IntegrityError'')
      else Inr (d\<lparr>db_external_ids := db_external_ids d @ added, db_uuid_draws := db_uuid_draws d + length added\<rparr>))"

record SyncResult =
  sy_jobs :: json
  sy_references :: json
  sy_new_mappings :: nat

text \<open>The \<open>except\<close> branch commits the rows added so far together with the state of the integration.\<close>

definition sync_failed :: "time \<Rightarrow> exn \<Rightarrow> ExternalIdentity list \<Rightarrow> db \<Rightarrow> SyncResult result \<times> db" where
  "sync_failed now e added d =
     (case flush_identities added d of
        Inl x \<Rightarrow> (Inl x, d)
      | Inr d' \<Rightarrow> (Inl (TraceQError ''ERP_SYNC_FAILED'' ''ERP emulator is unavailable'' 502),
          put_health ((erp_health d)\<lparr>ih_status := ''UNHEALTHY'', ih_last_error_at := Some now,
            ih_safe_error := Some (py_take 1000 (exn_name e @ '': integration unavailable''))\<rparr>) d'))"

definition iterate_jobs :: "json \<Rightarrow> json list result" where
  "iterate_jobs v = (case v of
     JArr xs \<Rightarrow> Inr xs
   | JObj kvs \<Rightarrow> Inr (map (JStr \<circ> fst) kvs)
   | JStr [] \<Rightarrow> Inr []
   | JStr s \<Rightarrow> Inr [JStr (py_take 1 s)]
   | _ \<Rightarrow> Inl (PyError ''TypeError''))"

definition sync_erp ::
  "env \<Rightarrow> time \<Rightarrow> json result \<Rightarrow> json result \<Rightarrow> string option \<Rightarrow> Principal \<Rightarrow> db \<Rightarrow> SyncResult result \<times> db" where
  "sync_erp E now fetched_jobs fetched_references request_id p d =
     (case rbind fetched_jobs (\<lambda>jobs. rbind fetched_references (\<lambda>references.
        rbind (iterate_jobs jobs) (\<lambda>rows. Inr (jobs, references, rows)))) of
        Inl e \<Rightarrow> sync_failed now e [] d
      | Inr (jobs, references, rows) \<Rightarrow>
          (case map_jobs E d rows [] of
             (added, Some e) \<Rightarrow> sync_failed now e added d
           | (added, None) \<Rightarrow>
               (case flush_identities added d of
                  Inl x \<Rightarrow> (Inl (PyError ''PendingRollbackError''), d)
                | Inr d' \<Rightarrow>
                    (Inr \<lparr>sy_jobs = jobs, sy_references = references, sy_new_mappings = length added\<rparr>,
                     write_audit ''integration_sync'' ''success'' (acting p ''integration'' ''erp-emulator'' request_id)
                       (JObj [(''jobs'', JInt (int (length rows))), (''new_mappings'', JInt (int (length added)))])
                       (put_health ((erp_health d)\<lparr>ih_status := ''HEALTHY'', ih_last_success_at := Some now,
                          ih_safe_error := None\<rparr>) d')))))"

definition sync_endpoint where
  "sync_endpoint E now credentials jobs references request_id =
     gated (permission_gate E now credentials ''MANAGE_INTEGRATIONS'') (sync_erp E now jobs references request_id)"

section \<open>Importing again\<close>

lemma import_value_cases:
  assumes "import_value E now v d = Inr (r, d')"
  obtains (known) a rv where "text_column 128 (JStr a) = Inr a" "item_of v ''assembly_id'' = Inr (JStr a)"
      "item_of v ''revision'' = Inr (JStr rv)" "text_column 64 (JStr rv) = Inr rv"
      "exact_snapshot a rv (sha256_hex E (canonical_json_bytes (float_repr E) v)) d = Some (sm_snapshot r)" "d' = d"
      "sm_status r = ''unchanged''"
  | (created) a rv where "text_column 128 (JStr a) = Inr a" "item_of v ''assembly_id'' = Inr (JStr a)"
      "item_of v ''revision'' = Inr (JStr rv)" "text_column 64 (JStr rv) = Inr rv"
      "exact_snapshot a rv (sha256_hex E (canonical_json_bytes (float_repr E) v)) d = None"
      "sn_assembly_id (sm_snapshot r) = a" "sn_revision (sm_snapshot r) = rv"
      "sn_content_hash (sm_snapshot r) = sha256_hex E (canonical_json_bytes (float_repr E) v)"
      "db_snapshots d' = db_snapshots d @ [sm_snapshot r]"
      "sm_warning r = (if list_ex (same_revision a rv) (db_snapshots d) then Some ''REVISION_CONTENT_CHANGED'' else None)"
proof -
  let ?h = "sha256_hex E (canonical_json_bytes (float_repr E) v)"
  obtain ja a jr rv where f: "item_of v ''assembly_id'' = Inr ja" "text_column 128 ja = Inr a"
    "item_of v ''revision'' = Inr jr" "text_column 64 jr = Inr rv"
    using assms by (auto simp: import_value_def Let_def rbind_Inr_iff)
  have j: "ja = JStr a" "jr = JStr rv"
    using f(2,4) by (auto simp: text_column_def split: json.splits if_splits)
  show thesis
  proof (cases "exact_snapshot a rv ?h d")
    case (Some s)
    then show thesis
      using known [of a rv] assms f j by (auto simp: import_value_def Let_def)
  next
    case None
    then show thesis
      using created [of a rv] assms f j by (auto simp: import_value_def Let_def rbind_Inr_iff drew_uuid_def)
  qed
qed

lemma find_append: "List.find P (xs @ ys) = (case List.find P xs of None \<Rightarrow> List.find P ys | Some x \<Rightarrow> Some x)"
  by (induction xs) auto

lemma import_again:
  assumes "import_structure E now provider d = Inr (r, d')"
  shows "import_structure E now' provider d' =
    Inr (\<lparr>sm_snapshot = sm_snapshot r, sm_status = ''unchanged'', sm_warning = None\<rparr>, d')"
proof -
  obtain v where v: "load_structure provider = Inr v" "import_value E now v d = Inr (r, d')"
    using assms by (auto simp: import_structure_def rbind_Inr_iff)
  let ?h = "sha256_hex E (canonical_json_bytes (float_repr E) v)"
  from v(2) obtain a rv where f: "text_column 128 (JStr a) = Inr a" "item_of v ''assembly_id'' = Inr (JStr a)"
    "item_of v ''revision'' = Inr (JStr rv)" "text_column 64 (JStr rv) = Inr rv"
    and s: "exact_snapshot a rv ?h d' = Some (sm_snapshot r)"
  proof (cases rule: import_value_cases)
    case (known a rv)
    then show thesis using that by blast
  next
    case (created a rv)
    then have "exact_snapshot a rv ?h d' = Some (sm_snapshot r)"
      by (simp add: exact_snapshot_def same_revision_def find_append)
    with created(1-4) show thesis
      by (rule that)
  qed
  show ?thesis
    unfolding import_structure_def v(1) by (simp add: import_value_def f s)
qed

section \<open>Synchronising again\<close>

lemma map_jobs_known:
  assumes "\<forall>job \<in> set jobs. \<exists>i rv. job_key E job = Inr (i, rv) \<and> list_ex (erp_job i) (db_external_ids d)"
  shows "map_jobs E d jobs added = (added, None)"
  using assms by (induction jobs arbitrary: added) auto

text \<open>What the loop adds is new, and with no exception every job is known or added.\<close>

lemma map_jobs_adds:
  assumes "map_jobs E d jobs added = (added', x)"
  shows "prefix added added'"
    and "(\<forall>y \<in> set added. external_key y \<notin> external_key ` set (db_external_ids d)) \<Longrightarrow>
      (\<forall>y \<in> set added'. external_key y \<notin> external_key ` set (db_external_ids d))"
    and "x = None \<Longrightarrow> \<forall>job \<in> set jobs. \<exists>i rv. job_key E job = Inr (i, rv) \<and> list_ex (erp_job i) (db_external_ids d @ added')"
proof -
  have "prefix added added' \<and>
    ((\<forall>y \<in> set added. external_key y \<notin> external_key ` set (db_external_ids d)) \<longrightarrow>
      (\<forall>y \<in> set added'. external_key y \<notin> external_key ` set (db_external_ids d))) \<and>
    (x = None \<longrightarrow> (\<forall>job \<in> set jobs. \<exists>i rv. job_key E job = Inr (i, rv) \<and>
      list_ex (erp_job i) (db_external_ids d @ added')))"
    using assms
  proof (induction jobs arbitrary: added)
    case (Cons job jobs)
    show ?case
    proof (cases "job_key E job")
      case (Inl e)
      then show ?thesis using Cons.prems by auto
    next
      case (Inr k)
      obtain i rv where k: "k = (i, rv)" by fastforce
      show ?thesis
      proof (cases "list_ex (erp_job i) (db_external_ids d)")
        case True
        then show ?thesis
          using Cons.prems Cons.IH [of added] Inr k by auto
      next
        case False
        let ?new = "\<lparr>ei_id = uuid4 E (db_uuid_draws d + length added),
            ei_internal_entity_type = ''production_job'', ei_internal_id = ''JOB-'' @ i,
            ei_external_system = ''erp-emulator'', ei_external_entity_type = ''job'', ei_external_id = i,
            ei_external_revision = rv\<rparr>"
        have m: "map_jobs E d jobs (added @ [?new]) = (added', x)"
          using Cons.prems False Inr k by simp
        have new: "external_key ?new \<notin> external_key ` set (db_external_ids d)"
          using False by (auto simp: list_ex_iff erp_job_def external_key_def)
        note IH = Cons.IH [OF m]
        then obtain rest where rest: "added' = added @ ?new # rest"
          by (auto simp: prefix_def)
        have "(\<forall>y \<in> set added'. external_key y \<notin> external_key ` set (db_external_ids d))"
          if "\<forall>y \<in> set added. external_key y \<notin> external_key ` set (db_external_ids d)"
        proof -
          have "\<forall>y \<in> set (added @ [?new]). external_key y \<notin> external_key ` set (db_external_ids d)"
            using that new by simp
          then show ?thesis
            using IH by blast
        qed
        moreover have "\<exists>j r. job_key E job = Inr (j, r) \<and> list_ex (erp_job j) (db_external_ids d @ added')"
          by (intro exI [of _ i] exI [of _ rv]) (simp add: Inr k rest erp_job_def)
        moreover have "\<forall>job \<in> set jobs. \<exists>j r. job_key E job = Inr (j, r) \<and> list_ex (erp_job j) (db_external_ids d @ added')"
          if "x = None"
          using IH that by blast
        moreover have "prefix added added'"
          by (simp add: rest)
        ultimately show ?thesis
          by (intro conjI impI ballI) (simp_all only: set_simps insert_iff, blast+)
      qed
    qed
  qed simp
  then show "prefix added added'"
    "(\<forall>y \<in> set added. external_key y \<notin> external_key ` set (db_external_ids d)) \<Longrightarrow>
      (\<forall>y \<in> set added'. external_key y \<notin> external_key ` set (db_external_ids d))"
    "x = None \<Longrightarrow> \<forall>job \<in> set jobs. \<exists>i rv. job_key E job = Inr (i, rv) \<and> list_ex (erp_job i) (db_external_ids d @ added')"
    by blast+
qed

definition identities_ok :: "db \<Rightarrow> bool" where
  "identities_ok d \<longleftrightarrow> distinct (map external_key (db_external_ids d))"

lemma put_health_ids [simp]: "db_external_ids (put_health h d) = db_external_ids d"
  by (simp add: put_health_def)

lemma write_audit_ids [simp]: "db_external_ids (write_audit a out c x d) = db_external_ids d"
  by (simp add: write_audit_def)

lemma flush_ids:
  "flush_identities added d = Inr d' \<Longrightarrow>
     db_external_ids d' = db_external_ids d @ added \<and> distinct (map external_key added)"
  by (auto simp: flush_identities_def split: if_splits)

lemma sync_erp_ids:
  assumes "sync_erp E now jobs references r p d = (res, d')"
  obtains (same) "db_external_ids d' = db_external_ids d" "\<forall>x. res \<noteq> Inr x"
  | (added) rows added x where "map_jobs E d rows [] = (added, x)" "distinct (map external_key added)"
      "db_external_ids d' = db_external_ids d @ added" "\<forall>y. res = Inr y \<longrightarrow> x = None"
      "\<forall>y. res = Inr y \<longrightarrow> (\<exists>js rf. jobs = Inr js \<and> references = Inr rf \<and> iterate_jobs js = Inr rows)"
proof -
  have failed: "db_external_ids (snd (sync_failed now e added d)) = db_external_ids d \<or>
      db_external_ids (snd (sync_failed now e added d)) = db_external_ids d @ added \<and> distinct (map external_key added)"
    for e added
    using flush_ids [of added d] by (auto simp: sync_failed_def split: sum.split)
  have never: "fst (sync_failed now e added d) \<noteq> Inr y" for e added y
    by (auto simp: sync_failed_def split: sum.split)
  show thesis
  proof (cases "rbind jobs (\<lambda>js. rbind references (\<lambda>rf. rbind (iterate_jobs js) (\<lambda>rows. Inr (js, rf, rows))))")
    case (Inl e)
    then have "(res, d') = sync_failed now e [] d"
      using assms by (simp add: sync_erp_def)
    then show thesis
      using same never [of e "[]"] failed [of e "[]"] by (cases "sync_failed now e [] d") auto
  next
    case (Inr b)
    obtain js rf rows where b: "b = (js, rf, rows)" by (cases b) auto
    have io: "jobs = Inr js" "references = Inr rf" "iterate_jobs js = Inr rows"
      using Inr b by (auto simp: rbind_Inr_iff)
    obtain added x where m: "map_jobs E d rows [] = (added, x)" by fastforce
    show thesis
    proof (cases x)
      case (Some e)
      then have "(res, d') = sync_failed now e added d"
        using assms Inr b m by (simp add: sync_erp_def)
      then show thesis
        using same added [OF m] never [of e added] failed [of e added] by (cases "sync_failed now e added d") auto
    next
      case None
      show thesis
      proof (cases "flush_identities added d")
        case (Inl y)
        then show thesis
          using same assms Inr b m None by (auto simp: sync_erp_def)
      next
        case f: (Inr d1)
        have "db_external_ids d' = db_external_ids d1"
          using assms Inr b m None f by (auto simp: sync_erp_def)
        then show thesis
          using added [OF m] flush_ids [OF f] None io by auto
      qed
    qed
  qed
qed

lemma sync_keeps_identities:
  assumes "identities_ok d" and "sync_erp E now jobs references r p d = (res, d')"
  shows "identities_ok d'"
  using assms(2)
proof (cases rule: sync_erp_ids)
  case same
  then show ?thesis using assms(1) by (simp add: identities_ok_def)
next
  case (added rows new x)
  have "\<forall>y \<in> set new. external_key y \<notin> external_key ` set (db_external_ids d)"
    using map_jobs_adds(2) [OF added(1)] by simp
  then show ?thesis
    using assms(1) added(2,3) by (auto simp: identities_ok_def)
qed

lemma sync_again:
  assumes "sync_erp E now jobs references r p d = (Inr y, d')"
  shows "\<exists>y' d''. sync_erp E now' jobs references r' p' d' = (Inr y', d'') \<and> sy_new_mappings y' = 0 \<and>
    db_external_ids d'' = db_external_ids d'"
  using assms
proof (cases rule: sync_erp_ids)
  case (added rows new x)
  then obtain js rf where io: "jobs = Inr js" "references = Inr rf" "iterate_jobs js = Inr rows"
    by auto
  have "x = None"
    using added(4) by simp
  then have "map_jobs E d' rows [] = ([], None)"
    using map_jobs_adds(3) [OF added(1)] added(3) by (intro map_jobs_known) simp
  then show ?thesis
    by (simp add: sync_erp_def io flush_identities_def)
qed simp

end
