(* ===== verification/TQ_App.thy ===== *)
theory TQ_App
  imports TQ_Release TQ_Rebuild_Effects
begin

text \<open>
  The application around the endpoints (\<^verbatim>\<open>backend/app/main.py\<close>): the identifier of a request, the
  exception handlers that turn what an endpoint raises into a response, the recovery at start-up and
  the readiness probe. A \<open>TraceQError\<close> that denies an action is recorded in the audit trail and as an
  alert, in a session of its own, so nothing of what the endpoint did is kept or lost by that.
\<close>

section \<open>Responses\<close>

record error_response =
  er_status :: nat
  er_code :: string
  er_message :: string
  er_request_id :: "string option"

text \<open>What the handlers read from the request: its path, and what \<open>request.state\<close> holds.\<close>

record request =
  rq_path :: string
  rq_request_id :: "string option"
  rq_principal :: "Principal option"

definition request_id :: "env \<Rightarrow> db \<Rightarrow> string option \<Rightarrow> string" where
  "request_id E d header = py_take 64 (case header of None \<Rightarrow> new_uuid E d | Some h \<Rightarrow> h)"

definition denials :: "string list" where
  "denials = [''FORBIDDEN'', ''FRESH_AUTH_REQUIRED'', ''SESSION_REVOKED'']"

definition record_denial :: "request \<Rightarrow> string \<Rightarrow> db \<Rightarrow> db" where
  "record_denial rq code d =
     (let d1 = write_audit ''forbidden_action_attempt'' ''denied''
            \<lparr>ac_actor = map_option pr_user_id (rq_principal rq), ac_session = map_option pr_session_id (rq_principal rq),
             ac_target_type = Some ''endpoint'', ac_target_id = Some (rq_path rq), ac_request_id = rq_request_id rq\<rparr>
            JNull d in
      d1\<lparr>db_alerts := db_alerts d1 @
        [\<lparr>sa_alert_type = (if code = ''FORBIDDEN'' then ''RBAC_DENIED'' else ''CRITICAL_ACTION_DENIED''),
          sa_severity = ''MEDIUM'', sa_source_id = None, sa_target_type = Some ''endpoint'',
          sa_target_id = Some (rq_path rq), sa_details = JObj [(''error_code'', JStr code)]\<rparr>]\<rparr>)"

definition error_handler :: "request \<Rightarrow> exn \<Rightarrow> db \<Rightarrow> error_response \<times> db" where
  "error_handler rq e d =
     (case e of
        TraceQError c m s \<Rightarrow>
          (\<lparr>er_status = s, er_code = c, er_message = m, er_request_id = rq_request_id rq\<rparr>,
           if c \<in> set denials then record_denial rq c d else d)
      | PyError _ \<Rightarrow>
          (\<lparr>er_status = 500, er_code = ''INTERNAL_ERROR'', er_message = ''An internal error occurred'',
            er_request_id = rq_request_id rq\<rparr>, d))"

definition respond :: "request \<Rightarrow> 'r result \<times> db \<Rightarrow> (error_response + 'r) \<times> db" where
  "respond rq out = (case out of
     (Inr r, d) \<Rightarrow> (Inr r, d)
   | (Inl e, d) \<Rightarrow> (let (er, d') = error_handler rq e d in (Inl er, d')))"

text \<open>
  A request to an endpoint behind a gate. The principal is on \<open>request.state\<close> once the token was
  accepted, whether or not the gate then lets it pass.
\<close>

definition serve ::
  "env \<Rightarrow> time \<Rightarrow> (string \<times> string) option \<Rightarrow> string \<Rightarrow> string option \<Rightarrow>
    (db \<Rightarrow> Principal result) \<Rightarrow> (string \<Rightarrow> Principal \<Rightarrow> db \<Rightarrow> 'r result \<times> db) \<Rightarrow> db \<Rightarrow> (error_response + 'r) \<times> db" where
  "serve E now credentials path header check handler d =
     (let rid = request_id E d header in
      respond \<lparr>rq_path = path, rq_request_id = Some rid,
        rq_principal = (case current_principal E now credentials d of Inl _ \<Rightarrow> None | Inr p \<Rightarrow> Some p)\<rparr>
        (gated check (handler rid) d))"

section \<open>Start-up and health\<close>

text \<open>An exception of the recovery is logged; what was committed before it stays.\<close>

definition start_up :: "env \<Rightarrow> Settings \<Rightarrow> time \<Rightarrow> db \<Rightarrow> db" where
  "start_up E S now d = snd (recover_stale_projections E S now d)"

text \<open>The answer of the probe for the revision the database reports (an exception: no answer).\<close>

definition ready :: "string option result \<Rightarrow> nat \<times> string" where
  "ready revision = (case revision of
     Inl _ \<Rightarrow> (503, ''database'')
   | Inr r \<Rightarrow> if r \<noteq> Some ''20260925_0002'' then (503, ''migration'') else (200, ''ready''))"

section \<open>Denied actions are on record\<close>

lemma respond_keeps_success: "fst (respond rq out) = Inr r \<Longrightarrow> out = (Inr r, snd (respond rq out))"
  by (auto simp: respond_def split: sum.splits prod.splits)

lemma record_denial_only:
  "\<exists>a al. record_denial rq c d = d\<lparr>db_audit := db_audit d @ [a], db_alerts := db_alerts d @ [al]\<rparr> \<and>
     au_action a = ''forbidden_action_attempt'' \<and> au_actor_user_id a = map_option pr_user_id (rq_principal rq) \<and>
     au_target_id a = Some (rq_path rq) \<and> au_request_id a = rq_request_id rq \<and>
     sa_target_id al = Some (rq_path rq) \<and> sa_details al = JObj [(''error_code'', JStr c)]"
  by (intro exI conjI) (simp add: record_denial_def write_audit_def Let_def, simp_all)

lemma permission_denied:
  assumes "current_principal E now credentials d = Inr p" and "perm \<notin> set (pr_permissions p)"
  shows "permission_gate E now credentials perm d = Inl (permission_required perm)"
    and "critical_gate E now credentials perm d = Inl (permission_required perm)"
  using assms by (simp_all add: permission_gate_def critical_gate_def require_permission_def require_critical_permission_def)

lemma serve_denied:
  assumes "check d = Inl e" and "err_code e \<in> set denials" and "\<exists>c m s. e = TraceQError c m s"
  shows "\<exists>er a al. serve E now credentials path header check handler d =
      (Inl er, d\<lparr>db_audit := db_audit d @ [a], db_alerts := db_alerts d @ [al]\<rparr>) \<and>
    er_code er = err_code e \<and> er_status er = err_status e \<and>
    au_action a = ''forbidden_action_attempt'' \<and> au_target_id a = Some path \<and>
    au_request_id a = Some (request_id E d header) \<and>
    (\<forall>p. current_principal E now credentials d = Inr p \<longrightarrow> au_actor_user_id a = Some (pr_user_id p)) \<and>
    sa_target_id al = Some path \<and> sa_details al = JObj [(''error_code'', JStr (err_code e))]"
proof -
  obtain c m s where e: "e = TraceQError c m s"
    using assms(3) by blast
  let ?rq = "\<lparr>rq_path = path, rq_request_id = Some (request_id E d header),
    rq_principal = (case current_principal E now credentials d of Inl _ \<Rightarrow> None | Inr p \<Rightarrow> Some p)\<rparr>"
  obtain a al where r: "record_denial ?rq c d = d\<lparr>db_audit := db_audit d @ [a], db_alerts := db_alerts d @ [al]\<rparr>"
    and a: "au_action a = ''forbidden_action_attempt''" "au_actor_user_id a = map_option pr_user_id (rq_principal ?rq)"
      "au_target_id a = Some (rq_path ?rq)" "au_request_id a = rq_request_id ?rq"
      "sa_target_id al = Some (rq_path ?rq)" "sa_details al = JObj [(''error_code'', JStr c)]"
    using record_denial_only [of ?rq c d] by blast
  have "serve E now credentials path header check handler d =
      (Inl \<lparr>er_status = s, er_code = c, er_message = m, er_request_id = rq_request_id ?rq\<rparr>, record_denial ?rq c d)"
    using assms(1,2) e by (simp add: serve_def gated_def respond_def error_handler_def Let_def)
  then show ?thesis
    using a e unfolding r by (intro exI conjI) (assumption, simp_all)
qed

end
