(* ===== verification/TQ_Seed.thy ===== *)
theory TQ_Seed
  imports TQ_Admin
begin

text \<open>
  The seeding of an installation (\<^verbatim>\<open>backend/app/seed.py\<close>): the rights and roles, the demonstration
  users, the master data, the default route with its trust policies, the product structure, the
  event sources, the health row of the ERP and the crypto profile. The rows \<open>seed\<close> creates are listed
  by \<open>seed_rows\<close>, in the order of the code, and \<open>put\<close> is what \<open>_get_or_create\<close> or the corresponding
  lines do for one of them. It runs at every start of the container, so it has to be repeatable:
  the locale \<open>seeding\<close> is the contract that makes it so.
\<close>

section \<open>What is seeded\<close>

text \<open>The UTF-8 encoding of a text given by its code points (below 2048).\<close>

definition utf8 :: "nat list \<Rightarrow> string" where
  "utf8 ns = concat (map (\<lambda>n. if n < 128 then [char_of n]
     else [char_of (192 + n div 64), char_of (128 + n mod 64)]) ns)"

definition display_names :: "(string \<times> string) list" where
  "display_names = [
     (''controller'', utf8 [1050, 1086, 1085, 1090, 1088, 1086, 1083, 1105, 1088, 32, 1082,
       1072, 1095, 1077, 1089, 1090, 1074, 1072]),
     (''master'', utf8 [1052, 1072, 1089, 1090, 1077, 1088, 32, 1091, 1095, 1072, 1089, 1090,
       1082, 1072]),
     (''technologist'', utf8 [1058, 1077, 1093, 1085, 1086, 1083, 1086, 1075]),
     (''manager'', utf8 [1056, 1091, 1082, 1086, 1074, 1086, 1076, 1080, 1090, 1077, 1083, 1100,
       32, 1087, 1088, 1086, 1080, 1079, 1074, 1086, 1076, 1089, 1090, 1074, 1072]),
     (''admin'', utf8 [1040, 1076, 1084, 1080, 1085, 1080, 1089, 1090, 1088, 1072, 1090, 1086,
       1088])]"

definition seed_lines :: "Line list" where
  "seed_lines = [
     \<lparr>ln_id = ''LINE-A'', ln_name = utf8 [1059, 1095, 1072, 1089, 1090, 1086, 1082, 32,
       1084, 1077, 1093, 1072, 1085, 1080, 1095, 1077, 1089, 1082, 1086, 1081, 32, 1086, 1073,
       1088, 1072, 1073, 1086, 1090, 1082, 1080]\<rparr>,
     \<lparr>ln_id = ''LINE-B'', ln_name = utf8 [1059, 1095, 1072, 1089, 1090, 1086, 1082, 32,
       1089, 1073, 1086, 1088, 1082, 1080]\<rparr>]"

definition seed_stations :: "Station list" where
  "seed_stations = [
     \<lparr>sta_id = ''ST-10'', sta_line_id = ''LINE-A'', sta_name = utf8 [1042, 1093, 1086,
       1076, 1085, 1086, 1081, 32, 1082, 1086, 1085, 1090, 1088, 1086, 1083, 1100]\<rparr>,
     \<lparr>sta_id = ''ST-20'', sta_line_id = ''LINE-A'', sta_name = utf8 [1052, 1077, 1093,
       1072, 1085, 1080, 1095, 1077, 1089, 1082, 1072, 1103, 32, 1086, 1073, 1088, 1072, 1073,
       1086, 1090, 1082, 1072]\<rparr>,
     \<lparr>sta_id = ''ST-30'', sta_line_id = ''LINE-B'', sta_name = utf8 [1057, 1073, 1086,
       1088, 1082, 1072, 32, 1080, 32, 1074, 1099, 1093, 1086, 1076, 1085, 1086, 1081, 32, 1082,
       1086, 1085, 1090, 1088, 1086, 1083, 1100]\<rparr>]"

definition seed_operators :: "Operator list" where
  "seed_operators = map (\<lambda>i. \<lparr>op_id = i, op_display_code = i, op_active = True\<rparr>) [''OPER-01'', ''OPER-02'']"

definition seed_equipment :: "Equipment list" where
  "seed_equipment = [
     \<lparr>eq_id = ''EQ-LATHE-01'', eq_station_id = ''ST-20'', eq_name = utf8 [1058, 1086,
       1082, 1072, 1088, 1085, 1099, 1081, 32, 1094, 1077, 1085, 1090, 1088]\<rparr>,
     \<lparr>eq_id = ''EQ-ASSEMBLY-01'', eq_station_id = ''ST-30'', eq_name = utf8 [1057, 1073,
       1086, 1088, 1086, 1095, 1085, 1099, 1081, 32, 1089, 1090, 1077, 1085, 1076]\<rparr>]"

definition seed_operations :: "OperationDefinition list" where
  "seed_operations = [
     \<lparr>od_id = ''OP-INCOMING'', od_name = utf8 [1042, 1093, 1086, 1076, 1085, 1086, 1081,
       32, 1082, 1086, 1085, 1090, 1088, 1086, 1083, 1100], od_expected_duration_seconds = Some
       120\<rparr>,
     \<lparr>od_id = ''OP-TURN'', od_name = utf8 [1052, 1077, 1093, 1072, 1085, 1080, 1095,
       1077, 1089, 1082, 1072, 1103, 32, 1086, 1073, 1088, 1072, 1073, 1086, 1090, 1082, 1072],
       od_expected_duration_seconds = Some 1200\<rparr>,
     \<lparr>od_id = ''OP-ASSEMBLY'', od_name = utf8 [1057, 1073, 1086, 1088, 1082, 1072],
       od_expected_duration_seconds = Some 900\<rparr>]"

definition seed_product :: ProductDefinition where
  "seed_product = \<lparr>pd_id = ''PD-TRACE-01'', pd_name =
     utf8 [1059, 1089, 1083, 1086, 1074, 1085, 1099, 1081, 32, 1082, 1086, 1088, 1087, 1091,
       1089] @ '' TRACE-Q'',
     pd_revision = ''A''\<rparr>"

definition seed_component :: ComponentDefinition where
  "seed_component = \<lparr>cdef_id = ''COMP-BODY'', cdef_name = utf8 [1050, 1086, 1088, 1087, 1091, 1089], cdef_revision = ''A''\<rparr>"

definition seed_steps :: "StepInput list" where
  "seed_steps = map (\<lambda>(operation, name, control_point).
     \<lparr>si_operation_id = operation, si_operation_name = name, si_control_point_id = Some control_point,
      si_required = True, si_inspection_scope = Some (Scope_dict [(''defect_types'', JArr [JStr ''*'']),
        (''component_instance_ids'', JArr [JStr ''*''])]), si_trust_policy_id = None\<rparr>) [
     (''OP-INCOMING'', utf8 [1042, 1093, 1086, 1076, 1085, 1086, 1081, 32, 1082, 1086, 1085,
       1090, 1088, 1086, 1083, 1100], ''CP-IN''),
     (''OP-TURN'', utf8 [1052, 1077, 1093, 1072, 1085, 1080, 1095, 1077, 1089, 1082, 1072, 1103,
       32, 1086, 1073, 1088, 1072, 1073, 1086, 1090, 1082, 1072], ''CP-AFTER-TURN''),
     (''OP-ASSEMBLY'', utf8 [1057, 1073, 1086, 1088, 1082, 1072], ''CP-FINAL'')]"

definition seed_route_name :: string where
  "seed_route_name =
     utf8 [1054, 1089, 1085, 1086, 1074, 1085, 1086, 1081, 32, 1084, 1072, 1088, 1096, 1088,
       1091, 1090, 32, 1082, 1086, 1088, 1087, 1091, 1089, 1072]"

definition seed_structure :: json where
  "seed_structure = JObj [(''assembly_id'', JStr ''PD-TRACE-01''), (''revision'', JStr ''A''),
     (''components'', JArr [JObj [(''component_definition_id'', JStr ''COMP-BODY''), (''quantity'', JInt 1)]]),
     (''relations'', JArr [])]"

definition pad2 :: "nat \<Rightarrow> string" where
  "pad2 n = (let s = nat_str n in replicate (2 - length s) CHR ''0'' @ s)"

definition seed_sources :: "(string \<times> string \<times> string list) list" where
  "seed_sources =
     [(''MES-01'', ''mes'', [''item.registered'', ''operation.started'', ''operation.finished'']),
      (''VISION-02'', ''vision_qc'', [''inspection.result'']),
      (''MACHINE-01'', ''machine_logs'', [''machine.state'']),
      (''OPERATOR-01'', ''operator_vision'', [''operator.action'']),
      (''CALIBRATION-01'', ''calibration_system'', [''control_device.invalidated''])] @
     map (\<lambda>n. (''LOAD-MES-'' @ pad2 n, ''mes'', [''item.registered''])) [1..<11]"

datatype seed_row =
    Seed_permission string
  | Seed_role string
  | Seed_right string string
  | Seed_user string string
  | Seed_line Line
  | Seed_station Station
  | Seed_operator Operator
  | Seed_equipment Equipment
  | Seed_operation OperationDefinition
  | Seed_product ProductDefinition
  | Seed_component ComponentDefinition
  | Seed_route
  | Seed_policy string
  | Seed_structure
  | Seed_source string string "string list" string
  | Seed_health string
  | Seed_profile string

definition demo_passwords :: "Settings \<Rightarrow> (string \<times> string option) list" where
  "demo_passwords S = [(''controller'', demo_controller_password S), (''master'', demo_master_password S),
     (''technologist'', demo_technologist_password S), (''manager'', demo_manager_password S),
     (''admin'', demo_admin_password S)]"

definition seed_access :: "seed_row list" where
  "seed_access = map Seed_permission PERMISSIONS @
     concat (map (\<lambda>(role, rights). Seed_role role # map (Seed_right role) rights) ROLE_PERMISSIONS)"

definition seed_accounts :: "Settings \<Rightarrow> seed_row list" where
  "seed_accounts S = (if demo_mode S then map (\<lambda>(u, p). Seed_user u (the p)) (demo_passwords S) else [])"

definition seed_plant :: "Settings \<Rightarrow> seed_row list" where
  "seed_plant S =
     map Seed_line seed_lines @ map Seed_station seed_stations @ map Seed_operator seed_operators @
     map Seed_equipment seed_equipment @ map Seed_operation seed_operations @
     [Seed_product seed_product, Seed_component seed_component, Seed_route] @
     map Seed_policy [''CP-IN'', ''CP-AFTER-TURN'', ''CP-FINAL''] @ [Seed_structure] @
     (if has_id (source_demo_token S)
      then map (\<lambda>(i, ty, types). Seed_source i ty types (the (source_demo_token S))) seed_sources else []) @
     [Seed_health ''erp-emulator'', Seed_profile ''CLASSIC_V1'']"

definition seed_rows :: "Settings \<Rightarrow> seed_row list" where
  "seed_rows S = seed_access @ seed_accounts S @ seed_plant S"

section \<open>One row\<close>

definition unless :: "bool \<Rightarrow> db \<Rightarrow> db \<Rightarrow> db result" where
  "unless there d d' = Inr (if there then d else d')"

definition add_user :: "env \<Rightarrow> string \<Rightarrow> string \<Rightarrow> Role \<Rightarrow> db \<Rightarrow> db" where
  "add_user E username password role d =
     (let user = \<lparr>us_id = new_uuid E d, us_username = username,
            us_display_name = the (map_of display_names username),
            us_password_hash = hash_password E (db_uuid_draws d) password, us_enabled = True,
            us_failed_login_attempts = 0, us_locked_until = None\<rparr> in
      drew_uuid (d\<lparr>db_users := db_users d @ [user],
        db_user_roles := db_user_roles d @ [(us_id user, ro_id role)]\<rparr>))"

definition put_user :: "env \<Rightarrow> string \<Rightarrow> string \<Rightarrow> db \<Rightarrow> db result" where
  "put_user E username password d =
     (case find_by ro_name username (db_roles d) of
        None \<Rightarrow> Inl (PyError ''KeyError'')
      | Some role \<Rightarrow>
          (case find_by us_username username (db_users d) of
             None \<Rightarrow> Inr (add_user E username password role d)
           | Some user \<Rightarrow> unless (ro_id role \<in> set (roles_of d (us_id user))) d (set_roles (us_id user) [role] d)))"

definition add_default_route :: "env \<Rightarrow> time \<Rightarrow> db \<Rightarrow> db" where
  "add_default_route E now d =
     (let d1 = add_route E ''ROUTE-DEFAULT'' seed_route_name d;
          revision = \<lparr>rr_id = new_uuid E d1, rr_route_id = new_uuid E d, rr_revision = 1, rr_status = ''active'',
            rr_immutable_after = Some now, rr_created_by = None\<rparr> in
      set_active (new_uuid E d) (rr_id revision) (add_steps E (rr_id revision) 1 seed_steps
        (drew_uuid (d1\<lparr>db_revisions := db_revisions d1 @ [revision]\<rparr>))))"

definition seed_policy :: "env \<Rightarrow> string \<Rightarrow> db \<Rightarrow> TrustPolicy" where
  "seed_policy E control_point d = \<lparr>tp_id = new_uuid E d, tp_policy_version = 1,
     tp_control_point_id = control_point, tp_allowed_observation_quality = [''good''],
     tp_confidence_required = False, tp_min_confidence = None, tp_requires_valid_device = False,
     tp_media_required = False, tp_active = True\<rparr>"

definition structure_hash :: "env \<Rightarrow> string" where
  "structure_hash E = sha256_hex E (canonical_json_bytes (float_repr E) seed_structure)"

definition seed_snapshot :: "env \<Rightarrow> time \<Rightarrow> db \<Rightarrow> ProductStructureSnapshot" where
  "seed_snapshot E now d = \<lparr>sn_id = new_uuid E d, sn_assembly_id = ''PD-TRACE-01'', sn_revision = ''A'',
     sn_content_hash = structure_hash E,
     sn_components = JArr [JObj [(''component_definition_id'', JStr ''COMP-BODY''), (''quantity'', JInt 1)]],
     sn_relations = JArr [], sn_created_at = now\<rparr>"

definition seed_source :: "env \<Rightarrow> time \<Rightarrow> string \<Rightarrow> string \<Rightarrow> string list \<Rightarrow> string \<Rightarrow> EventSource" where
  "seed_source E now i ty types token = \<lparr>es_source_id = i, es_source_type = ty, es_enabled = True,
     es_status = Source_active,
     es_auth_method = (if i = ''CALIBRATION-01'' then HMAC_V1 else Shared_secret_legacy),
     es_token_hash = Some (token_hash E token), es_allowed_event_types = types, es_allowed_line_ids = [],
     es_allowed_station_ids = [], es_valid_from = None, es_valid_to = None, es_revoked_at = None,
     es_last_source_sequence = None, es_created_at = now\<rparr>"

definition reset_source :: "env \<Rightarrow> string list \<Rightarrow> string \<Rightarrow> EventSource \<Rightarrow> EventSource" where
  "reset_source E types token src = src\<lparr>es_enabled := True, es_status := Source_active,
     es_allowed_event_types := types, es_token_hash := Some (token_hash E token)\<rparr>"

fun put :: "env \<Rightarrow> time \<Rightarrow> seed_row \<Rightarrow> db \<Rightarrow> db result" where
  "put E now (Seed_permission n) d = unless (find_by pe_name n (db_permissions d) \<noteq> None) d
     (drew_uuid (d\<lparr>db_permissions := db_permissions d @ [\<lparr>pe_id = new_uuid E d, pe_name = n\<rparr>]\<rparr>))"
| "put E now (Seed_role n) d = unless (find_by ro_name n (db_roles d) \<noteq> None) d
     (drew_uuid (d\<lparr>db_roles := db_roles d @ [\<lparr>ro_id = new_uuid E d, ro_name = n\<rparr>]\<rparr>))"
| "put E now (Seed_right role right) d =
     (case (find_by ro_name role (db_roles d), find_by pe_name right (db_permissions d)) of
        (Some r, Some p) \<Rightarrow> unless ((ro_id r, pe_id p) \<in> set (db_role_permissions d)) d
          (d\<lparr>db_role_permissions := db_role_permissions d @ [(ro_id r, pe_id p)]\<rparr>)
      | _ \<Rightarrow> Inl (PyError ''KeyError''))"
| "put E now (Seed_user u pw) d = put_user E u pw d"
| "put E now (Seed_line x) d = (let m = db_master d in
     unless (find_by ln_id (ln_id x) (ma_lines m) \<noteq> None) d (d\<lparr>db_master := m\<lparr>ma_lines := ma_lines m @ [x]\<rparr>\<rparr>))"
| "put E now (Seed_station x) d = (let m = db_master d in
     unless (find_by sta_id (sta_id x) (ma_stations m) \<noteq> None) d (d\<lparr>db_master := m\<lparr>ma_stations := ma_stations m @ [x]\<rparr>\<rparr>))"
| "put E now (Seed_operator x) d = (let m = db_master d in
     unless (find_by op_id (op_id x) (ma_operators m) \<noteq> None) d (d\<lparr>db_master := m\<lparr>ma_operators := ma_operators m @ [x]\<rparr>\<rparr>))"
| "put E now (Seed_equipment x) d = (let m = db_master d in
     unless (find_by eq_id (eq_id x) (ma_equipment m) \<noteq> None) d (d\<lparr>db_master := m\<lparr>ma_equipment := ma_equipment m @ [x]\<rparr>\<rparr>))"
| "put E now (Seed_operation x) d = (let m = db_master d in
     unless (find_by od_id (od_id x) (ma_operations m) \<noteq> None) d (d\<lparr>db_master := m\<lparr>ma_operations := ma_operations m @ [x]\<rparr>\<rparr>))"
| "put E now (Seed_product x) d = (let m = db_master d in
     unless (find_by pd_id (pd_id x) (ma_products m) \<noteq> None) d (d\<lparr>db_master := m\<lparr>ma_products := ma_products m @ [x]\<rparr>\<rparr>))"
| "put E now (Seed_component x) d = (let m = db_master d in
     unless (find_by cdef_id (cdef_id x) (ma_components m) \<noteq> None) d (d\<lparr>db_master := m\<lparr>ma_components := ma_components m @ [x]\<rparr>\<rparr>))"
| "put E now Seed_route d =
     unless (find_by rd_code ''ROUTE-DEFAULT'' (db_routes d) \<noteq> None) d (add_default_route E now d)"
| "put E now (Seed_policy cp) d =
     unless (list_ex (\<lambda>t. tp_control_point_id t = cp \<and> tp_policy_version t = 1) (db_policies d)) d
     (drew_uuid (d\<lparr>db_policies := db_policies d @ [seed_policy E cp d]\<rparr>))"
| "put E now Seed_structure d =
     unless (list_ex (\<lambda>s. sn_assembly_id s = ''PD-TRACE-01'' \<and> sn_revision s = ''A'' \<and> sn_content_hash s = structure_hash E)
       (db_snapshots d)) d
     (drew_uuid (d\<lparr>db_snapshots := db_snapshots d @ [seed_snapshot E now d]\<rparr>))"
| "put E now (Seed_source i ty types token) d =
     Inr (case find_by es_source_id i (db_sources d) of
        None \<Rightarrow> d\<lparr>db_sources := db_sources d @ [seed_source E now i ty types token]\<rparr>
      | Some _ \<Rightarrow> d\<lparr>db_sources := update_by es_source_id i (reset_source E types token) (db_sources d)\<rparr>)"
| "put E now (Seed_health i) d = unless (find_by ih_integration_id i (db_health d) \<noteq> None) d
     (d\<lparr>db_health := db_health d @ [\<lparr>ih_integration_id = i, ih_status = ''UNKNOWN'', ih_last_success_at = None,
        ih_last_error_at = None, ih_safe_error = None\<rparr>]\<rparr>)"
| "put E now (Seed_profile i) d = unless (find_by cy_profile_id i (db_crypto_profiles d) \<noteq> None) d
     (d\<lparr>db_crypto_profiles := db_crypto_profiles d @ [\<lparr>cy_profile_id = i, cy_status = ''ACTIVE''\<rparr>]\<rparr>)"

text \<open>The whole run is one transaction; a missing password ends it before a user is looked at.\<close>

definition seed :: "env \<Rightarrow> Settings \<Rightarrow> time \<Rightarrow> db \<Rightarrow> unit result \<times> db" where
  "seed E S now = atomically (\<lambda>d.
     if demo_mode S \<and> \<not> list_all (\<lambda>(u, p). has_id p) (demo_passwords S) then Inl (PyError ''RuntimeError'')
     else rbind (fold_r (put E now) (seed_rows S) d) (\<lambda>d'. Inr ((), d')))"

section \<open>Repeating it\<close>

text \<open>
  The contract of a repeatable seeding: putting a row makes it present, a row that is in place is
  not put again, and rows that are present stay so while others are put.
\<close>

locale seeding =
  fixes put :: "'i \<Rightarrow> 's \<Rightarrow> 's result" and in_place :: "'i \<Rightarrow> 's \<Rightarrow> bool" and ok :: "'s \<Rightarrow> bool" and catalogue :: "'i set"
  assumes put_present: "i \<in> catalogue \<Longrightarrow> ok s \<Longrightarrow> put i s = Inr t \<Longrightarrow> in_place i t"
    and present_put: "in_place i s \<Longrightarrow> put i s = Inr s"
    and put_keeps: "i \<in> catalogue \<Longrightarrow> j \<in> catalogue \<Longrightarrow> ok s \<Longrightarrow> in_place i s \<Longrightarrow> put j s = Inr t \<Longrightarrow> in_place i t"
    and put_ok: "j \<in> catalogue \<Longrightarrow> ok s \<Longrightarrow> put j s = Inr t \<Longrightarrow> ok t"
begin

lemma seeded_stays:
  "fold_r put js s = Inr t \<Longrightarrow> set js \<subseteq> catalogue \<Longrightarrow> ok s \<Longrightarrow> i \<in> catalogue \<Longrightarrow> in_place i s \<Longrightarrow> in_place i t"
proof (induction js arbitrary: s)
  case (Cons j js)
  then obtain u where u: "put j s = Inr u" "fold_r put js u = Inr t"
    by (auto simp: rbind_Inr_iff)
  then show ?case
    using Cons.IH [OF u(2)] Cons.prems put_keeps [of i j s u] put_ok [of j s u] by simp
qed simp

lemma seeded_present:
  "fold_r put js s = Inr t \<Longrightarrow> set js \<subseteq> catalogue \<Longrightarrow> ok s \<Longrightarrow> i \<in> set js \<Longrightarrow> in_place i t"
proof (induction js arbitrary: s)
  case (Cons j js)
  then obtain u where u: "put j s = Inr u" "fold_r put js u = Inr t"
    by (auto simp: rbind_Inr_iff)
  have ok: "ok u" and j: "in_place j u"
    using Cons.prems u put_ok [of j s u] put_present [of j s u] by simp_all
  show ?case
  proof (cases "i = j")
    case True
    then show ?thesis
      using seeded_stays [OF u(2)] ok j Cons.prems(2) by simp
  next
    case False
    then show ?thesis
      using Cons.IH [OF u(2)] ok Cons.prems by simp
  qed
qed simp

lemma present_again: "\<forall>i \<in> set js. in_place i t \<Longrightarrow> fold_r put js t = Inr t"
  using present_put by (induction js) auto

end

fun in_place :: "env \<Rightarrow> seed_row \<Rightarrow> db \<Rightarrow> bool" where
  "in_place E (Seed_permission n) d \<longleftrightarrow> find_by pe_name n (db_permissions d) \<noteq> None"
| "in_place E (Seed_role n) d \<longleftrightarrow> find_by ro_name n (db_roles d) \<noteq> None"
| "in_place E (Seed_right role right) d \<longleftrightarrow> (\<exists>r p. find_by ro_name role (db_roles d) = Some r \<and>
     find_by pe_name right (db_permissions d) = Some p \<and> (ro_id r, pe_id p) \<in> set (db_role_permissions d))"
| "in_place E (Seed_user u pw) d \<longleftrightarrow> (\<exists>r a. find_by ro_name u (db_roles d) = Some r \<and>
     find_by us_username u (db_users d) = Some a \<and> ro_id r \<in> set (roles_of d (us_id a)))"
| "in_place E (Seed_line x) d \<longleftrightarrow> find_by ln_id (ln_id x) (ma_lines (db_master d)) \<noteq> None"
| "in_place E (Seed_station x) d \<longleftrightarrow> find_by sta_id (sta_id x) (ma_stations (db_master d)) \<noteq> None"
| "in_place E (Seed_operator x) d \<longleftrightarrow> find_by op_id (op_id x) (ma_operators (db_master d)) \<noteq> None"
| "in_place E (Seed_equipment x) d \<longleftrightarrow> find_by eq_id (eq_id x) (ma_equipment (db_master d)) \<noteq> None"
| "in_place E (Seed_operation x) d \<longleftrightarrow> find_by od_id (od_id x) (ma_operations (db_master d)) \<noteq> None"
| "in_place E (Seed_product x) d \<longleftrightarrow> find_by pd_id (pd_id x) (ma_products (db_master d)) \<noteq> None"
| "in_place E (Seed_component x) d \<longleftrightarrow> find_by cdef_id (cdef_id x) (ma_components (db_master d)) \<noteq> None"
| "in_place E Seed_route d \<longleftrightarrow> find_by rd_code ''ROUTE-DEFAULT'' (db_routes d) \<noteq> None"
| "in_place E (Seed_policy cp) d \<longleftrightarrow>
     list_ex (\<lambda>t. tp_control_point_id t = cp \<and> tp_policy_version t = 1) (db_policies d)"
| "in_place E Seed_structure d \<longleftrightarrow> list_ex (\<lambda>s. sn_assembly_id s = ''PD-TRACE-01'' \<and> sn_revision s = ''A'' \<and>
     sn_content_hash s = structure_hash E) (db_snapshots d)"
| "in_place E (Seed_source i ty types token) d \<longleftrightarrow> find_by es_source_id i (db_sources d) \<noteq> None \<and>
     (\<forall>src \<in> set (db_sources d). es_source_id src = i \<longrightarrow> reset_source E types token src = src)"
| "in_place E (Seed_health i) d \<longleftrightarrow> find_by ih_integration_id i (db_health d) \<noteq> None"
| "in_place E (Seed_profile i) d \<longleftrightarrow> find_by cy_profile_id i (db_crypto_profiles d) \<noteq> None"

definition accounts_ok :: "env \<Rightarrow> db \<Rightarrow> bool" where
  "accounts_ok E d \<longleftrightarrow> inj (uuid4 E) \<and> distinct (map us_id (db_users d)) \<and> us_id ` set (db_users d) \<subseteq> drawn E d"

text \<open>The tables that are only added to; of the routes the codes are what counts.\<close>

definition extends :: "db \<Rightarrow> db \<Rightarrow> bool" where
  "extends d d' \<longleftrightarrow> prefix (db_permissions d) (db_permissions d') \<and> prefix (db_roles d) (db_roles d') \<and>
     prefix (db_role_permissions d) (db_role_permissions d') \<and>
     (let m = db_master d; m' = db_master d' in
       prefix (ma_lines m) (ma_lines m') \<and> prefix (ma_stations m) (ma_stations m') \<and>
       prefix (ma_operators m) (ma_operators m') \<and> prefix (ma_equipment m) (ma_equipment m') \<and>
       prefix (ma_operations m) (ma_operations m') \<and> prefix (ma_products m) (ma_products m') \<and>
       prefix (ma_components m) (ma_components m')) \<and>
     prefix (map rd_code (db_routes d)) (map rd_code (db_routes d')) \<and> prefix (db_policies d) (db_policies d') \<and>
     prefix (db_snapshots d) (db_snapshots d') \<and> prefix (db_health d) (db_health d') \<and>
     prefix (db_crypto_profiles d) (db_crypto_profiles d')"

lemma find_prefix: "prefix xs ys \<Longrightarrow> find_by key k xs = Some r \<Longrightarrow> find_by key k ys = Some r"
  by (auto simp: prefix_def find_by_append)

lemma find_prefix': "prefix xs ys \<Longrightarrow> find_by key k xs \<noteq> None \<Longrightarrow> find_by key k ys \<noteq> None"
  using find_prefix by fastforce

lemma extends_refl [simp]: "extends d d"
  by (simp add: extends_def Let_def)

lemma add_steps_only:
  "\<exists>rows. add_steps E rv k ss d = d\<lparr>db_steps := db_steps d @ rows, db_uuid_draws := db_uuid_draws d + length ss\<rparr>"
proof (induction E rv k ss d rule: add_steps.induct)
  case (2 E rv k s ss d)
  then obtain rows where "add_steps E rv (k + 1) ss (drew_uuid (d\<lparr>db_steps := db_steps d @ [step_row (new_uuid E d) rv k s]\<rparr>)) =
      (drew_uuid (d\<lparr>db_steps := db_steps d @ [step_row (new_uuid E d) rv k s]\<rparr>))
        \<lparr>db_steps := db_steps d @ [step_row (new_uuid E d) rv k s] @ rows, db_uuid_draws := Suc (db_uuid_draws d) + length ss\<rparr>"
    by (auto simp: drew_uuid_def)
  then show ?case
    by (intro exI [of _ "step_row (new_uuid E d) rv k s # rows"]) (simp add: drew_uuid_def)
next
  case (1 E rv k d)
  show ?case
    by (intro exI [of _ "[]"]) simp
qed

lemma add_default_route_only:
  "\<exists>routes revisions steps. add_default_route E now d = d\<lparr>db_routes := routes, db_revisions := revisions,
     db_steps := steps, db_uuid_draws := db_uuid_draws d + 2 + length seed_steps\<rparr> \<and>
     map rd_code routes = map rd_code (db_routes d) @ [''ROUTE-DEFAULT'']"
proof -
  let ?d1 = "add_route E ''ROUTE-DEFAULT'' seed_route_name d"
  let ?r = "\<lparr>rr_id = new_uuid E ?d1, rr_route_id = new_uuid E d, rr_revision = 1, rr_status = ''active'',
     rr_immutable_after = Some now, rr_created_by = None\<rparr>"
  obtain rows where "add_steps E (rr_id ?r) 1 seed_steps (drew_uuid (?d1\<lparr>db_revisions := db_revisions ?d1 @ [?r]\<rparr>)) =
      (drew_uuid (?d1\<lparr>db_revisions := db_revisions ?d1 @ [?r]\<rparr>))\<lparr>db_steps := rows,
        db_uuid_draws := db_uuid_draws d + 2 + length seed_steps\<rparr>"
    using add_steps_only [of E "rr_id ?r" 1 seed_steps "drew_uuid (?d1\<lparr>db_revisions := db_revisions ?d1 @ [?r]\<rparr>)"]
    by (auto simp: drew_uuid_def add_route_def)
  then have "add_default_route E now d = set_active (new_uuid E d) (rr_id ?r)
      ((drew_uuid (?d1\<lparr>db_revisions := db_revisions ?d1 @ [?r]\<rparr>))\<lparr>db_steps := rows,
        db_uuid_draws := db_uuid_draws d + 2 + length seed_steps\<rparr>)"
    unfolding add_default_route_def Let_def by (simp only:)
  also have "\<dots> = d\<lparr>db_routes := update_by rd_id (new_uuid E d) (\<lambda>r. r\<lparr>rd_active_revision_id := Some (rr_id ?r)\<rparr>) (db_routes ?d1),
      db_revisions := db_revisions d @ [?r], db_steps := rows, db_uuid_draws := db_uuid_draws d + 2 + length seed_steps\<rparr>"
    by (simp add: set_active_def add_route_def drew_uuid_def)
  finally show ?thesis
    by (intro exI conjI) (assumption, simp add: map_update_by add_route_def drew_uuid_def)
qed

lemma add_default_route_tables:
  "map rd_code (db_routes (add_default_route E now d)) = map rd_code (db_routes d) @ [''ROUTE-DEFAULT'']"
  "extends d (add_default_route E now d)" "db_users (add_default_route E now d) = db_users d"
  "db_user_roles (add_default_route E now d) = db_user_roles d" "db_sources (add_default_route E now d) = db_sources d"
  "db_uuid_draws d \<le> db_uuid_draws (add_default_route E now d)"
  using add_default_route_only [of E now d] by (auto simp: extends_def Let_def)

lemma add_user_tables:
  "extends d (add_user E u pw r d)" "db_sources (add_user E u pw r d) = db_sources d"
  by (simp_all add: add_user_def extends_def Let_def drew_uuid_def)

lemma set_roles_tables:
  "extends d (set_roles i rs d)" "db_sources (set_roles i rs d) = db_sources d" "db_users (set_roles i rs d) = db_users d"
  "db_uuid_draws (set_roles i rs d) = db_uuid_draws d"
  by (simp_all add: set_roles_def extends_def Let_def)

lemma put_extends: "put E now j d = Inr d' \<Longrightarrow> extends d d'"
proof (cases j)
  case (Seed_user u pw)
  then show "put E now j d = Inr d' \<Longrightarrow> extends d d'"
    by (auto simp: put_user_def unless_def add_user_tables set_roles_tables split: option.splits if_splits)
next
  case Seed_route
  then show "put E now j d = Inr d' \<Longrightarrow> extends d d'"
    by (auto simp: unless_def add_default_route_tables split: if_splits)
qed (auto simp: unless_def extends_def Let_def drew_uuid_def split: option.splits if_splits)

lemma seed_sources_functional:
  "Seed_source i ty types tk \<in> set (seed_rows S) \<Longrightarrow> Seed_source i ty' types' tk' \<in> set (seed_rows S) \<Longrightarrow>
     types' = types \<and> tk' = tk"
proof -
  have "distinct (map fst seed_sources)"
    by (simp add: seed_sources_def pad2_def upt_rec nat_str.simps digit_char_def)
  moreover assume "Seed_source i ty types tk \<in> set (seed_rows S)" "Seed_source i ty' types' tk' \<in> set (seed_rows S)"
  then have "(i, ty, types) \<in> set seed_sources" "(i, ty', types') \<in> set seed_sources" "tk' = tk"
    by (auto simp: seed_rows_def seed_access_def seed_accounts_def seed_plant_def split: if_splits)
  ultimately show ?thesis
    by (auto dest: eq_key_imp_eq_value)
qed

text \<open>What a run does for one user.\<close>

lemma put_user_cases:
  assumes "put_user E u pw d = Inr d'"
  obtains (there) r a where "find_by ro_name u (db_roles d) = Some r" "find_by us_username u (db_users d) = Some a"
      "ro_id r \<in> set (roles_of d (us_id a))" "d' = d"
  | (added) r where "find_by ro_name u (db_roles d) = Some r" "find_by us_username u (db_users d) = None"
      "d' = add_user E u pw r d"
  | (moved) r a where "find_by ro_name u (db_roles d) = Some r" "find_by us_username u (db_users d) = Some a"
      "d' = set_roles (us_id a) [r] d"
proof (cases "find_by ro_name u (db_roles d)")
  case None
  then show ?thesis using assms by (simp add: put_user_def)
next
  case (Some r)
  show ?thesis
  proof (cases "find_by us_username u (db_users d)")
    case None
    then show ?thesis
      using added [OF Some None] assms by (simp add: put_user_def Some)
  next
    case user: (Some a)
    show ?thesis
      using there [OF Some user] moved [OF Some user] assms
      by (cases "ro_id r \<in> set (roles_of d (us_id a))") (simp_all add: put_user_def Some user unless_def)
  qed
qed

lemma add_user_row:
  obtains a where "db_users (add_user E u pw r d) = db_users d @ [a]" "us_id a = new_uuid E d" "us_username a = u"
    "db_user_roles (add_user E u pw r d) = db_user_roles d @ [(us_id a, ro_id r)]"
    "db_uuid_draws (add_user E u pw r d) = Suc (db_uuid_draws d)" "db_roles (add_user E u pw r d) = db_roles d"
  by (rule that [of "last (db_users (add_user E u pw r d))"]) (simp_all add: add_user_def Let_def drew_uuid_def)

lemma set_roles_row:
  "roles_of (set_roles i [r] d) j = (if j = i then [ro_id r] else roles_of d j)" "db_roles (set_roles i rs d) = db_roles d"
  by (auto simp: roles_of_def set_roles_def intro!: arg_cong [where f = "map snd"] filter_cong)

lemma put_accounts:
  assumes "put E now j d = Inr d'" and "accounts_ok E d"
  shows "accounts_ok E d'"
proof (cases "\<exists>u pw. j = Seed_user u pw")
  case True
  then obtain u pw where j: "j = Seed_user u pw" by blast
  have "put_user E u pw d = Inr d'"
    using assms(1) j by simp
  then show ?thesis
  proof (cases rule: put_user_cases)
    case (added r)
    obtain a where a: "db_users d' = db_users d @ [a]" "us_id a = new_uuid E d" "db_uuid_draws d' = Suc (db_uuid_draws d)"
      using added(3) by (metis add_user_row)
    have "us_id a \<notin> us_id ` set (db_users d)"
      using assms(2) new_uuid_fresh [of E d] a(2) by (auto simp: accounts_ok_def)
    moreover have "insert (us_id a) (us_id ` set (db_users d)) \<subseteq> drawn E d'"
      using assms(2) a(2,3) drawn_grows [of d d' E] drawn_new [of d d' E] by (auto simp: accounts_ok_def)
    ultimately show ?thesis
      using assms(2) by (simp add: accounts_ok_def a(1))
  next
    case (moved r a)
    then show ?thesis
      using assms(2) by (simp add: accounts_ok_def set_roles_tables drawn_def)
  qed (use assms(2) in simp)
next
  case False
  have "db_users d' = db_users d \<and> db_uuid_draws d \<le> db_uuid_draws d'"
  proof (cases "j = Seed_route")
    case True
    then show ?thesis
      using assms(1) by (auto simp: unless_def add_default_route_tables split: if_splits)
  next
    case route: False
    show ?thesis
      using assms(1) False route
      by (cases j) (auto simp: unless_def Let_def drew_uuid_def split: option.splits if_splits)
  qed
  then show ?thesis
    using assms(2) drawn_grows [of d d' E] by (auto simp: accounts_ok_def)
qed

lemma seed_source_simps [simp]:
  "es_source_id (seed_source E now x ty types tk) = x"
  "reset_source E types tk (seed_source E now x ty types tk) = seed_source E now x ty types tk"
  "es_source_id (reset_source E types tk src) = es_source_id src"
  "reset_source E types tk (reset_source E types' tk' src) = reset_source E types tk src"
  by (simp_all add: seed_source_def reset_source_def)

lemma unless_cases:
  "unless there d d' = Inr e \<Longrightarrow> (there \<Longrightarrow> P d) \<Longrightarrow> (\<not> there \<Longrightarrow> P d') \<Longrightarrow> P e"
  by (auto simp: unless_def split: if_splits)

lemma update_by_settled:
  assumes "\<And>r. f (f r) = f r"
  shows "\<forall>r \<in> set (update_by key k f rows). key r = k \<longrightarrow> f r = r"
  by (auto simp: update_by_def assms)

lemma put_is_present:
  assumes "put E now i d = Inr d'"
  shows "in_place E i d'"
proof (cases i)
  case (Seed_user u pw)
  then have "put_user E u pw d = Inr d'"
    using assms by simp
  then show ?thesis
  proof (cases rule: put_user_cases)
    case (added r)
    obtain a where "db_users d' = db_users d @ [a]" "us_username a = u" "db_user_roles d' = db_user_roles d @ [(us_id a, ro_id r)]"
      "db_roles d' = db_roles d"
      using added(3) by (metis add_user_row)
    then show ?thesis
      using added(1,2) Seed_user by (auto simp: find_by_append roles_of_def)
  next
    case (moved r a)
    then show ?thesis
      using Seed_user by (auto simp: set_roles_row set_roles_tables)
  qed (use Seed_user in auto)
next
  case Seed_route
  have "find_by rd_code ''ROUTE-DEFAULT'' (db_routes (add_default_route E now d)) \<noteq> None"
    using arg_cong [OF add_default_route_tables(1) [of E now d], of set] by (auto simp: find_by_None_iff image_iff)
  then show ?thesis
    using assms Seed_route by (auto simp: unless_def split: if_splits)
next
  case (Seed_source x ty types tk)
  show ?thesis
  proof (cases "find_by es_source_id x (db_sources d)")
    case None
    then have "x \<notin> es_source_id ` set (db_sources d)"
      by (simp add: find_by_None_iff)
    moreover have "db_sources d' = db_sources d @ [seed_source E now x ty types tk]"
      using assms Seed_source None by auto
    ultimately show ?thesis
      unfolding Seed_source in_place.simps by (auto simp: find_by_append None)
  next
    case (Some src)
    have "db_sources d' = update_by es_source_id x (reset_source E types tk) (db_sources d)"
      using assms Seed_source Some by auto
    then show ?thesis
      unfolding Seed_source in_place.simps using update_by_settled [of "reset_source E types tk" es_source_id x "db_sources d", OF seed_source_simps(4)]
      by (simp add: find_by_update_by Some)
  qed
next
  case (Seed_permission n)
  show ?thesis
    using assms unfolding Seed_permission put.simps Let_def
    by (rule unless_cases) (simp_all add: drew_uuid_def find_by_append seed_policy_def seed_snapshot_def)
next
  case (Seed_role n)
  show ?thesis
    using assms unfolding Seed_role put.simps Let_def
    by (rule unless_cases) (simp_all add: drew_uuid_def find_by_append seed_policy_def seed_snapshot_def)
next
  case (Seed_line x)
  show ?thesis
    using assms unfolding Seed_line put.simps Let_def
    by (rule unless_cases) (simp_all add: drew_uuid_def find_by_append seed_policy_def seed_snapshot_def)
next
  case (Seed_station x)
  show ?thesis
    using assms unfolding Seed_station put.simps Let_def
    by (rule unless_cases) (simp_all add: drew_uuid_def find_by_append seed_policy_def seed_snapshot_def)
next
  case (Seed_operator x)
  show ?thesis
    using assms unfolding Seed_operator put.simps Let_def
    by (rule unless_cases) (simp_all add: drew_uuid_def find_by_append seed_policy_def seed_snapshot_def)
next
  case (Seed_equipment x)
  show ?thesis
    using assms unfolding Seed_equipment put.simps Let_def
    by (rule unless_cases) (simp_all add: drew_uuid_def find_by_append seed_policy_def seed_snapshot_def)
next
  case (Seed_operation x)
  show ?thesis
    using assms unfolding Seed_operation put.simps Let_def
    by (rule unless_cases) (simp_all add: drew_uuid_def find_by_append seed_policy_def seed_snapshot_def)
next
  case (Seed_product x)
  show ?thesis
    using assms unfolding Seed_product put.simps Let_def
    by (rule unless_cases) (simp_all add: drew_uuid_def find_by_append seed_policy_def seed_snapshot_def)
next
  case (Seed_component x)
  show ?thesis
    using assms unfolding Seed_component put.simps Let_def
    by (rule unless_cases) (simp_all add: drew_uuid_def find_by_append seed_policy_def seed_snapshot_def)
next
  case (Seed_policy x)
  show ?thesis
    using assms unfolding Seed_policy put.simps Let_def
    by (rule unless_cases) (simp_all add: drew_uuid_def find_by_append seed_policy_def seed_snapshot_def)
next
  case Seed_structure
  show ?thesis
    using assms unfolding Seed_structure put.simps Let_def
    by (rule unless_cases) (simp_all add: drew_uuid_def find_by_append seed_policy_def seed_snapshot_def)
next
  case (Seed_health x)
  show ?thesis
    using assms unfolding Seed_health put.simps Let_def
    by (rule unless_cases) (simp_all add: drew_uuid_def find_by_append seed_policy_def seed_snapshot_def)
next
  case (Seed_profile x)
  show ?thesis
    using assms unfolding Seed_profile put.simps Let_def
    by (rule unless_cases) (simp_all add: drew_uuid_def find_by_append seed_policy_def seed_snapshot_def)
next
  case (Seed_right role right)
  obtain r p where rp: "find_by ro_name role (db_roles d) = Some r" "find_by pe_name right (db_permissions d) = Some p"
    using assms Seed_right by (auto split: option.splits)
  show ?thesis
    using assms unfolding Seed_right put.simps rp prod.case option.case
    by (rule unless_cases) (simp_all add: rp)
qed

lemma present_not_put:
  assumes "in_place E i d"
  shows "put E now i d = Inr d"
proof (cases i)
  case (Seed_source x ty types tk)
  obtain src where src: "find_by es_source_id x (db_sources d) = Some src"
    using assms Seed_source by auto
  have "update_by es_source_id x (reset_source E types tk) (db_sources d) = db_sources d"
    unfolding update_by_def by (rule map_idI) (use assms Seed_source in simp)
  then show ?thesis
    by (simp add: Seed_source src)
next
  case (Seed_user u pw)
  then obtain r a where "find_by ro_name u (db_roles d) = Some r" "find_by us_username u (db_users d) = Some a"
    "ro_id r \<in> set (roles_of d (us_id a))"
    using assms by auto
  then show ?thesis
    by (simp add: Seed_user put_user_def unless_def)
next
  case (Seed_right role right)
  then obtain r p where "find_by ro_name role (db_roles d) = Some r" "find_by pe_name right (db_permissions d) = Some p"
    "(ro_id r, pe_id p) \<in> set (db_role_permissions d)"
    using assms by auto
  then show ?thesis
    by (simp add: Seed_right unless_def)
qed (use assms in \<open>simp_all add: unless_def Let_def\<close>)

lemma present_extends:
  assumes "in_place E i d" and e: "extends d d'" and "\<And>u pw. i \<noteq> Seed_user u pw" and "\<And>x ty types tk. i \<noteq> Seed_source x ty types tk"
  shows "in_place E i d'"
proof -
  have e': "prefix (db_permissions d) (db_permissions d')" "prefix (db_roles d) (db_roles d')"
    "prefix (db_role_permissions d) (db_role_permissions d')" "prefix (ma_lines (db_master d)) (ma_lines (db_master d'))"
    "prefix (ma_stations (db_master d)) (ma_stations (db_master d'))"
    "prefix (ma_operators (db_master d)) (ma_operators (db_master d'))"
    "prefix (ma_equipment (db_master d)) (ma_equipment (db_master d'))"
    "prefix (ma_operations (db_master d)) (ma_operations (db_master d'))"
    "prefix (ma_products (db_master d)) (ma_products (db_master d'))"
    "prefix (ma_components (db_master d)) (ma_components (db_master d'))"
    "prefix (map rd_code (db_routes d)) (map rd_code (db_routes d'))" "prefix (db_policies d) (db_policies d')"
    "prefix (db_snapshots d) (db_snapshots d')" "prefix (db_health d) (db_health d')"
    "prefix (db_crypto_profiles d) (db_crypto_profiles d')"
    using e by (simp_all add: extends_def Let_def)
  show ?thesis
  proof (cases i)
    case Seed_route
    then show ?thesis
      using assms(1) set_mono_prefix [OF e'(11)] by (auto simp: find_by_None_iff image_iff)
  next
    case (Seed_right role right)
    then obtain r p where r: "find_by ro_name role (db_roles d) = Some r"
      and p: "find_by pe_name right (db_permissions d) = Some p"
      and rp: "(ro_id r, pe_id p) \<in> set (db_role_permissions d)"
      using assms(1) by auto
    show ?thesis
      using find_prefix [OF e'(2) r] find_prefix [OF e'(1) p] subsetD [OF set_mono_prefix [OF e'(3)] rp] Seed_right by simp
  next
    case (Seed_policy cp)
    then show ?thesis
      using assms(1) e'(12) by (auto simp: prefix_def)
  next
    case Seed_structure
    then show ?thesis
      using assms(1) e'(13) by (auto simp: prefix_def)
  next
    case (Seed_permission n)
    then show ?thesis using assms(1) find_prefix' [OF e'(1), of pe_name "n"] by simp
  next
    case (Seed_role n)
    then show ?thesis using assms(1) find_prefix' [OF e'(2), of ro_name "n"] by simp
  next
    case (Seed_line x)
    then show ?thesis using assms(1) find_prefix' [OF e'(4), of ln_id "ln_id x"] by simp
  next
    case (Seed_station x)
    then show ?thesis using assms(1) find_prefix' [OF e'(5), of sta_id "sta_id x"] by simp
  next
    case (Seed_operator x)
    then show ?thesis using assms(1) find_prefix' [OF e'(6), of op_id "op_id x"] by simp
  next
    case (Seed_equipment x)
    then show ?thesis using assms(1) find_prefix' [OF e'(7), of eq_id "eq_id x"] by simp
  next
    case (Seed_operation x)
    then show ?thesis using assms(1) find_prefix' [OF e'(8), of od_id "od_id x"] by simp
  next
    case (Seed_product x)
    then show ?thesis using assms(1) find_prefix' [OF e'(9), of pd_id "pd_id x"] by simp
  next
    case (Seed_component x)
    then show ?thesis using assms(1) find_prefix' [OF e'(10), of cdef_id "cdef_id x"] by simp
  next
    case (Seed_health x)
    then show ?thesis using assms(1) find_prefix' [OF e'(14), of ih_integration_id "x"] by simp
  next
    case (Seed_profile x)
    then show ?thesis using assms(1) find_prefix' [OF e'(15), of cy_profile_id "x"] by simp
  qed (use assms(3,4) in simp_all)
qed

lemma put_keeps_present:
  assumes "i \<in> set (seed_rows S)" and "j \<in> set (seed_rows S)" and ok: "accounts_ok E d"
    and p: "in_place E i d" and put: "put E now j d = Inr d'"
  shows "in_place E i d'"
proof (cases i)
  case (Seed_user u pw)
  then obtain r a where a: "find_by ro_name u (db_roles d) = Some r" "find_by us_username u (db_users d) = Some a"
    "ro_id r \<in> set (roles_of d (us_id a))"
    using p by auto
  have r: "find_by ro_name u (db_roles d') = Some r"
    using put_extends [OF put] a(1) by (auto simp: extends_def intro: find_prefix)
  have "find_by us_username u (db_users d') = Some a \<and> ro_id r \<in> set (roles_of d' (us_id a))"
  proof (cases "\<exists>v pv. j = Seed_user v pv")
    case True
    then obtain v pv where v: "put_user E v pv d = Inr d'"
      using put by auto
    then show ?thesis
    proof (cases rule: put_user_cases)
      case (added s)
      obtain b where b: "db_users d' = db_users d @ [b]" "db_user_roles d' = db_user_roles d @ [(us_id b, ro_id s)]"
        using added(3) by (metis add_user_row)
      then show ?thesis
        using a by (auto simp: find_by_append roles_of_def)
    next
      case (moved s b)
      show ?thesis
      proof (cases "v = u")
        case True
        then show ?thesis
          using moved a by (simp add: set_roles_row set_roles_tables)
      next
        case False
        then have "us_id b \<noteq> us_id a"
          using moved(2) a(2) ok find_by_SomeD [OF moved(2)] find_by_SomeD [OF a(2)]
          by (auto simp: accounts_ok_def distinct_map inj_on_def)
        then show ?thesis
          using moved(3) a by (simp add: set_roles_row set_roles_tables)
      qed
    qed (use a in simp)
  next
    case False
    have "db_users d' = db_users d \<and> db_user_roles d' = db_user_roles d"
    proof (cases "j = Seed_route")
      case True
      then show ?thesis
        using put by (auto simp: unless_def add_default_route_tables split: if_splits)
    next
      case route: False
      show ?thesis
        using put False route
        by (cases j) (auto simp: unless_def Let_def drew_uuid_def split: option.splits if_splits)
    qed
    then show ?thesis
      using a by (simp add: roles_of_def)
  qed
  then show ?thesis
    using r Seed_user by auto
next
  case (Seed_source x ty types tk)
  show ?thesis
  proof (cases "\<exists>y ty' types' tk'. j = Seed_source y ty' types' tk'")
    case True
    then obtain y ty' types' tk' where j: "j = Seed_source y ty' types' tk'" by blast
    have "y = x \<Longrightarrow> types' = types \<and> tk' = tk"
      using seed_sources_functional [of x ty types tk S] assms(1,2) Seed_source j by blast
    then show ?thesis
      using p put Seed_source j
      by (auto simp: find_by_append find_by_update_by set_update_by
          split: option.splits if_splits)
  next
    case False
    have "db_sources d' = db_sources d"
    proof (cases j)
      case (Seed_user u pw)
      then show ?thesis
        using put by (auto simp: put_user_def unless_def add_user_tables set_roles_tables split: option.splits if_splits)
    next
      case Seed_route
      then show ?thesis
        using put by (auto simp: unless_def add_default_route_tables split: if_splits)
    qed (use put False in \<open>auto simp: unless_def Let_def drew_uuid_def split: option.splits if_splits\<close>)
    then show ?thesis
      using p Seed_source by simp
  qed
qed (use present_extends [OF p put_extends [OF put]] in auto)

interpretation seeds: seeding "put E now" "in_place E" "accounts_ok E" "set (seed_rows S)" for E now S
  by unfold_locales (blast intro: put_is_present, blast intro: present_not_put, blast intro: put_keeps_present,
    blast intro: put_accounts)

lemma seeded_again:
  assumes "seed E S now d = (Inr (), d')" and "accounts_ok E d"
  shows "seed E S now' d' = (Inr (), d')"
proof -
  have f: "fold_r (put E now) (seed_rows S) d = Inr d'"
    and pw: "\<not> (demo_mode S \<and> \<not> list_all (\<lambda>(u, p). has_id p) (demo_passwords S))"
    using assms(1) by (auto simp: seed_def rbind_Inr_iff dest!: atomically_Inr split: if_splits)
  have "\<forall>i \<in> set (seed_rows S). in_place E i d'"
    using seeds.seeded_present [OF f _ assms(2)] by blast
  then have "fold_r (put E now') (seed_rows S) d' = Inr d'"
    by (rule seeds.present_again)
  then show ?thesis
    using pw by (auto simp: seed_def atomically_def)
qed

section \<open>Succeeding\<close>

text \<open>The rows a row refers to. They come before it, so that no reference of a run is missing.\<close>

fun needed :: "seed_row \<Rightarrow> seed_row list" where
  "needed (Seed_right role right) = [Seed_role role, Seed_permission right]"
| "needed (Seed_user u pw) = [Seed_role u]"
| "needed _ = []"

fun in_order :: "seed_row list \<Rightarrow> seed_row list \<Rightarrow> bool" where
  "in_order seen [] \<longleftrightarrow> True"
| "in_order seen (j # js) \<longleftrightarrow> list_all (\<lambda>n. n \<in> set seen) (needed j) \<and> in_order (j # seen) js"

lemma in_order_append: "in_order seen (js @ ks) \<longleftrightarrow> in_order seen js \<and> in_order (rev js @ seen) ks"
  by (induction seen js rule: in_order.induct) auto

lemma in_order_free: "\<forall>j \<in> set js. set (needed j) \<subseteq> set seen \<Longrightarrow> in_order seen js"
  by (induction seen js rule: in_order.induct) (auto simp: list_all_iff)

lemma access_in_order: "in_order [] seed_access"
  by code_simp

lemma access_roles: "u \<in> fst ` set (demo_passwords S) \<Longrightarrow> Seed_role u \<in> set seed_access"
  by (auto simp: demo_passwords_def seed_access_def ROLE_PERMISSIONS_def)

lemma rows_in_order: "in_order [] (seed_rows S)"
proof -
  have "set (needed j) \<subseteq> set seed_access" if "j \<in> set (seed_accounts S)" for j
    using that access_roles by (fastforce simp: seed_accounts_def split: if_splits)
  then have "in_order (rev seed_access @ []) (seed_accounts S)"
    by (intro in_order_free) simp
  moreover have "needed j = []" if "j \<in> set (seed_plant S)" for j
    using that by (auto simp: seed_plant_def split: if_splits)
  then have "in_order seen (seed_plant S)" for seen
    by (intro in_order_free) simp
  ultimately show ?thesis
    unfolding seed_rows_def in_order_append using access_in_order by blast
qed

text \<open>What a role, a user or a right needs stays in place, so every row finds it.\<close>

lemma put_done: "set (needed j) \<subseteq> {n. in_place E n d} \<Longrightarrow> \<exists>d'. put E now j d = Inr d'"
  by (cases j) (auto simp: put_user_def unless_def Let_def split: option.split)

lemma needed_kept:
  assumes "put E now j d = Inr d'" and "n \<in> set (needed k)" and "in_place E n d"
  shows "in_place E n d'"
  by (rule present_extends [OF assms(3) put_extends [OF assms(1)]]) (use assms(2) in \<open>cases k; auto\<close>)+

lemma fold_in_order:
  assumes "in_order seen js" and "\<forall>n \<in> set seen. \<forall>k. n \<in> set (needed k) \<longrightarrow> in_place E n d"
  shows "\<exists>d'. fold_r (put E now) js d = Inr d'"
  using assms
proof (induction seen js arbitrary: d rule: in_order.induct)
  case (2 seen j js)
  then have "set (needed j) \<subseteq> {n. in_place E n d}"
    by (auto simp: list_all_iff)
  then obtain d1 where d1: "put E now j d = Inr d1"
    using put_done by blast
  have "\<forall>n \<in> set (j # seen). \<forall>k. n \<in> set (needed k) \<longrightarrow> in_place E n d1"
    using 2(3) needed_kept [OF d1] put_is_present [OF d1] by auto
  then show ?case
    using 2(1) 2(2) d1 by simp
qed simp

lemma seed_succeeds:
  assumes "demo_mode S \<longrightarrow> (\<forall>(u, pw) \<in> set (demo_passwords S). has_id pw)"
  shows "\<exists>d'. seed E S now d = (Inr (), d')"
proof -
  obtain d' where "fold_r (put E now) (seed_rows S) d = Inr d'"
    using fold_in_order [OF rows_in_order, of E d now S] by auto
  then show ?thesis
    using assms by (auto simp: seed_def atomically_def list_all_iff)
qed

end
