(* ===== verification/TQ_Trust_Facts.thy ===== *)
theory TQ_Trust_Facts
  imports TQ_Rebuild_Effects
begin

text \<open>
  What the stored observations say about trust after a rebuild, stated on the rows: an observation is
  trusted exactly when it satisfies its policy, its device was not invalidated for its time, and no
  observation of its group says something else.
\<close>

definition satisfies_policy :: "TrustPolicyValue \<Rightarrow> Observation \<Rightarrow> bool" where
  "satisfies_policy policy ob \<longleftrightarrow> ob_inspection_result ob \<noteq> Impossible_to_assess \<and>
     quality_str (ob_observation_quality ob) \<in> set (allowed_observation_quality policy) \<and>
     (confidence_required policy \<longrightarrow> ob_confidence ob \<noteq> None) \<and>
     (\<forall>m. min_confidence policy = Some m \<longrightarrow> (\<exists>c. ob_confidence ob = Some c \<and> m \<le> c)) \<and>
     (media_required policy \<longrightarrow> ob_evidence_refs ob \<noteq> [])"

definition row_moment :: "Observation \<Rightarrow> moment" where
  "row_moment ob = (if has_id (ob_capture_session_id ob) then Capture_session (the (ob_capture_session_id ob))
     else Bucket (ob_occurred_at ob div 300000000))"

definition row_group :: "Observation \<Rightarrow> moment \<times> string \<times> string option" where
  "row_group ob = (row_moment ob, ob_control_point_id ob, ob_component_instance_id ob)"

lemma row_group_observation [simp]: "row_group (observation_row E i v) = group_key v"
  by (simp add: row_group_def group_key_def row_moment_def moment_of_def observation_row_def Let_def has_id_def
      split: option.split)

lemma satisfies_policy_observation:
  "satisfies_policy policy (observation_row E i v) \<longleftrightarrow>
     in_inspection_result (ov_payload v) \<noteq> Impossible_to_assess \<and> trust_failures (ov_payload v) policy True = []"
  by (auto simp: satisfies_policy_def observation_row_def Let_def trust_failures_Nil)

text \<open>The status the loop over the events gives an observation.\<close>

definition first_status :: "db \<Rightarrow> obs_value \<Rightarrow> trust_status" where
  "first_status d v = fst (evaluate_trust (ov_payload v) (trust_policy d (in_control_point_id (ov_payload v))) True
     (device_invalidated d (in_control_device_id (ov_payload v)) (ov_occurred_at v)) False)"

lemma project_event_status:
  assumes "\<forall>v \<in> set (iv_observations w). ov_trust_status v = first_status d v"
  shows "\<forall>v \<in> set (iv_observations (project_event d e w)). ov_trust_status v = first_status d v"
proof -
  have "ov_trust_status (observe d r p) = first_status d (observe d r p)" for r p
    by (simp add: first_status_def observe_def Let_def)
  with assms show ?thesis
    by (cases "(d, e, w)" rule: project_event.cases) auto
qed

lemma fold_status:
  assumes "\<forall>v \<in> set (iv_observations w). ov_trust_status v = first_status d v"
  shows "\<forall>v \<in> set (iv_observations (fold (project_event d) es w)). ov_trust_status v = first_status d v"
  using assms
proof (induction es arbitrary: w)
  case (Cons e es)
  show ?case
    using Cons.IH [OF project_event_status [OF Cons.prems]] by simp
qed simp

lemma group_key_status [simp]: "group_key (v\<lparr>ov_trust_status := s, ov_trust_reasons := rs\<rparr>) = group_key v"
  by (simp add: group_key_def moment_of_def split: option.split)

lemma mark_conflicts_conflicting: "conflicting (mark_conflicts os) v \<longleftrightarrow> conflicting os v"
proof -
  have keys: "map (\<lambda>g. (group_key g, in_inspection_result (ov_payload g))) (mark_conflicts os) =
      map (\<lambda>g. (group_key g, in_inspection_result (ov_payload g))) os"
    by (auto simp: mark_conflicts_def)
  have "map (\<lambda>g. in_inspection_result (ov_payload g)) (filter (\<lambda>g. group_key g = group_key v) gs) =
      map snd (filter (\<lambda>x. fst x = group_key v) (map (\<lambda>g. (group_key g, in_inspection_result (ov_payload g))) gs))" for gs
    by (induction gs) auto
  then show ?thesis
    by (simp add: conflicting_def keys)
qed

lemma replay_status:
  assumes "replay E S d raws = Inr w" and "v \<in> set (iv_observations w)"
  shows "ov_trust_status v = (if conflicting (iv_observations w) v then CONFLICTED else first_status d v)"
proof -
  obtain es where w: "iv_observations w = mark_conflicts (iv_observations (fold (project_event d) es no_values))"
    using assms(1) by (auto simp: replay_def rbind_Inr_iff Let_def)
  let ?os = "iv_observations (fold (project_event d) es no_values)"
  obtain u where u: "u \<in> set ?os" "v = (if conflicting ?os u
      then u\<lparr>ov_trust_status := CONFLICTED, ov_trust_reasons := [''EQUIVALENT_OBSERVATIONS_CONFLICT'']\<rparr> else u)"
    using assms(2) unfolding w mark_conflicts_def by auto
  have "ov_trust_status u = first_status d u"
    using u(1) fold_status [of no_values d es] by (simp add: no_values_def)
  moreover have "conflicting ?os v = conflicting ?os u"
    by (simp add: u(2) conflicting_def)
  ultimately show ?thesis
    unfolding w mark_conflicts_conflicting using u(2) by (auto simp: first_status_def)
qed

lemma trusted_rows:
  assumes "rebuild_item E S now i d = (Inr (), d')" and "item_raws i (db_raw_events d) \<noteq> []"
    and "a \<in> set (db_observations d')" and "ob_item_id a = i"
  shows "ob_trust_status a = TRUSTED \<longleftrightarrow>
    satisfies_policy (trust_policy d (ob_control_point_id a)) a \<and>
    \<not> device_invalidated d (ob_control_device_id a) (ob_occurred_at a) \<and>
    (\<forall>b \<in> set (db_observations d'). ob_item_id b = i \<and> row_group b = row_group a \<longrightarrow>
       ob_inspection_result b = ob_inspection_result a)"
proof -
  obtain w where w: "replay E S d (item_raws i (db_raw_events d)) = Inr w"
    and f: "filter (\<lambda>r. ob_item_id r = i) (db_observations d') = map (observation_row E i) (iv_observations w)"
    by (rule rebuild_from_read_model [OF rebuild_item_done [OF assms(1,2)]])
  have rows: "{b \<in> set (db_observations d'). ob_item_id b = i} = observation_row E i ` set (iv_observations w)"
    using arg_cong [OF f, of set] by (auto simp: set_filter)
  then obtain v where v: "v \<in> set (iv_observations w)" "a = observation_row E i v"
    using assms(3,4) by blast
  have same: "(\<forall>b \<in> set (db_observations d'). ob_item_id b = i \<and> row_group b = row_group a \<longrightarrow>
       ob_inspection_result b = ob_inspection_result a) \<longleftrightarrow> \<not> conflicting (iv_observations w) v"
  proof -
    have "(\<forall>b \<in> set (db_observations d'). ob_item_id b = i \<and> row_group b = row_group a \<longrightarrow>
        ob_inspection_result b = ob_inspection_result a) \<longleftrightarrow>
      (\<forall>b \<in> observation_row E i ` set (iv_observations w). row_group b = row_group a \<longrightarrow>
        ob_inspection_result b = ob_inspection_result a)"
      unfolding rows [symmetric] by blast
    also have "\<dots> \<longleftrightarrow> \<not> conflicting (iv_observations w) v"
      unfolding conflicting_iff [OF v(1)] by (auto simp: v(2)) (simp_all add: observation_row_def Let_def)
    finally show ?thesis .
  qed
  have "ob_trust_status a = (if conflicting (iv_observations w) v then CONFLICTED else first_status d v)"
    using replay_status [OF w v(1)] by (simp add: v(2) observation_row_def Let_def)
  moreover have "first_status d v = TRUSTED \<longleftrightarrow> satisfies_policy (trust_policy d (ob_control_point_id a)) a \<and>
      \<not> device_invalidated d (ob_control_device_id a) (ob_occurred_at a)"
    unfolding v(2) satisfies_policy_observation first_status_def trust_status_cases
    by (auto simp: observation_row_def Let_def)
  ultimately show ?thesis
    unfolding same by auto
qed

end
