(* ===== verification/TQ_Harness.thy ===== *)
theory TQ_Harness
  imports TQ_Json "HOL-Library.Multiset"
begin

text \<open>
  The scenario harness (\<^verbatim>\<open>backend/app/scenarios/harness.py\<close>): the comparison of what a scenario
  produced with the invariants it expects, and the orchestration of a bundle over the callbacks of
  a test. The files of a bundle are read elsewhere; here a bundle is their contents. A callback is a
  function on the state of the system under test that may raise; the text of a value (\<open>repr\<close>) and the
  number a text stands for (\<open>int\<close>) are arguments.
\<close>

section \<open>Equality of JSON values\<close>

text \<open>Python's \<open>==\<close>: numbers of all types are compared by value, dictionaries without regard to order.\<close>

fun number_of :: "json \<Rightarrow> rat option" where
  "number_of (JBool b) = Some (if b then 1 else 0)"
| "number_of (JInt i) = Some (of_int i)"
| "number_of (JFloat r) = Some r"
| "number_of _ = None"

function py_eq :: "json \<Rightarrow> json \<Rightarrow> bool" where
  "py_eq (JStr s) y = (y = JStr s)"
| "py_eq (JArr xs) y = (case y of
     JArr ys \<Rightarrow> length xs = length ys \<and> list_all (\<lambda>(x, z). py_eq x z) (zip xs ys) | _ \<Rightarrow> False)"
| "py_eq (JObj xs) y = (case y of
     JObj ys \<Rightarrow> length xs = length ys \<and>
       list_all (\<lambda>(k, x). case map_of ys k of None \<Rightarrow> False | Some z \<Rightarrow> py_eq x z) xs
   | _ \<Rightarrow> False)"
| "py_eq JNull y = (y = JNull)"
| "py_eq (JBool b) y = (number_of (JBool b) = number_of y)"
| "py_eq (JInt i) y = (number_of (JInt i) = number_of y)"
| "py_eq (JFloat r) y = (number_of (JFloat r) = number_of y)"
  by pat_completeness auto

lemma size_member: "x \<in> set xs \<Longrightarrow> size x < Suc (size_list size xs)"
  by (induction xs) auto

lemma size_entry: "(k, x) \<in> set kvs \<Longrightarrow> size x < Suc (size_list (size_prod (\<lambda>k. 0) size) kvs)"
  by (induction kvs) auto

termination py_eq
  by (relation "measure (\<lambda>p. size (fst p))") (auto dest!: set_zip_leftD intro: size_member size_entry)

text \<open>The dictionaries in a value have each key once, as those \<open>json.loads\<close> returns.\<close>

fun is_value :: "json \<Rightarrow> bool" where
  "is_value (JArr xs) \<longleftrightarrow> list_all is_value xs"
| "is_value (JObj kvs) \<longleftrightarrow> distinct (map fst kvs) \<and> list_all (\<lambda>(k, v). is_value v) kvs"
| "is_value _ \<longleftrightarrow> True"

lemma py_eq_refl: "is_value x \<Longrightarrow> py_eq x x"
proof (induction x rule: is_value.induct)
  case (1 xs)
  then show ?case
    by (auto simp: list_all_iff zip_same)
next
  case (2 kvs)
  then show ?case
    by (auto simp: list_all_iff)
qed simp_all

section \<open>Comparison with the expected invariants\<close>

fun type_name :: "json \<Rightarrow> string" where
  "type_name JNull = ''NoneType''"
| "type_name (JBool b) = ''bool''"
| "type_name (JInt i) = ''int''"
| "type_name (JFloat r) = ''float''"
| "type_name (JStr s) = ''str''"
| "type_name (JArr xs) = ''list''"
| "type_name (JObj kvs) = ''dict''"

fun compare_invariants :: "(json \<Rightarrow> string) \<Rightarrow> json \<Rightarrow> json \<Rightarrow> string \<Rightarrow> string list" where
  "compare_invariants repr actual (JObj kvs) path =
     (case actual of
        JObj a \<Rightarrow> concat (map (\<lambda>(key, v). case map_of a key of
            None \<Rightarrow> [path @ ''.'' @ key @ '': missing'']
          | Some x \<Rightarrow> compare_invariants repr x v (path @ ''.'' @ key)) kvs)
      | _ \<Rightarrow> [path @ '': expected object, got '' @ type_name actual])"
| "compare_invariants repr actual (JArr vs) path =
     (case actual of
        JArr xs \<Rightarrow> concat (map (\<lambda>v. if list_ex (\<lambda>x. py_eq x v) xs then []
          else [path @ '': missing member '' @ repr v]) vs)
      | _ \<Rightarrow> [path @ '': expected list''])"
| "compare_invariants repr actual expected path =
     (if py_eq actual expected then [] else [path @ '': expected '' @ repr expected @ '', got '' @ repr actual])"

text \<open>What the comparison decides: the value meets the expectation.\<close>

inductive meets :: "json \<Rightarrow> json \<Rightarrow> bool" where
  obj: "(\<And>key v. (key, v) \<in> set kvs \<Longrightarrow> \<exists>x. map_of a key = Some x \<and> meets x v) \<Longrightarrow> meets (JObj a) (JObj kvs)"
| arr: "(\<And>v. v \<in> set vs \<Longrightarrow> \<exists>x \<in> set xs. py_eq x v) \<Longrightarrow> meets (JArr xs) (JArr vs)"
| leaf: "py_eq actual expected \<Longrightarrow> \<forall>vs. expected \<noteq> JArr vs \<Longrightarrow> \<forall>kvs. expected \<noteq> JObj kvs \<Longrightarrow> meets actual expected"

inductive_simps meets_obj: "meets y (JObj kvs)"
inductive_simps meets_arr: "meets y (JArr vs)"
inductive_simps meets_leaf: "meets y JNull" "meets y (JBool b)" "meets y (JInt i)" "meets y (JFloat r)" "meets y (JStr s)"

lemma misses_Nil: "concat (map (\<lambda>v. if P v then [] else [f v]) vs) = [] \<longleftrightarrow> (\<forall>v \<in> set vs. P v)"
  by (induction vs) auto

lemma compare_meets: "compare_invariants repr actual expected path = [] \<longleftrightarrow> meets actual expected"
proof (induction repr actual expected path rule: compare_invariants.induct)
  case (1 repr actual kvs path)
  show ?case
  proof (cases "\<exists>a. actual = JObj a")
    case True
    then obtain a where a: "actual = JObj a" by blast
    have "(case map_of a key of None \<Rightarrow> [path @ ''.'' @ key @ '': missing'']
        | Some x \<Rightarrow> compare_invariants repr x v (path @ ''.'' @ key)) = [] \<longleftrightarrow> (\<exists>x. map_of a key = Some x \<and> meets x v)"
      if "(key, v) \<in> set kvs" for key v
      using 1 [OF a that refl] by (auto split: option.split)
    then show ?thesis
      by (auto simp: a meets_obj)
  next
    case False
    then show ?thesis
      by (cases actual) (auto simp: meets_obj)
  qed
next
  case (2 repr actual vs path)
  show ?case
    by (cases actual) (simp_all add: meets_arr misses_Nil list_ex_iff Ball_def del: concat_eq_Nil_conv)
qed (simp_all add: meets_leaf)

lemma meets_refl: "is_value x \<Longrightarrow> meets x x"
proof (induction x rule: is_value.induct)
  case (1 xs)
  then show ?case
    by (auto simp: meets_arr list_all_iff intro: py_eq_refl)
next
  case (2 kvs)
  then show ?case
    by (fastforce simp: meets_obj list_all_iff)
qed (simp_all add: meets_leaf)

text \<open>A weaker expectation is met too: fewer keys of an object, fewer members of a list.\<close>

lemma meets_fewer:
  "meets (JObj a) (JObj kvs) \<Longrightarrow> set kvs' \<subseteq> set kvs \<Longrightarrow> meets (JObj a) (JObj kvs')"
  "meets (JArr xs) (JArr vs) \<Longrightarrow> set vs' \<subseteq> set vs \<Longrightarrow> meets (JArr xs) (JArr vs')"
  by (auto simp: meets_obj meets_arr)

section \<open>Orchestration\<close>

record ScenarioBundle =
  sb_name :: string
  sb_scenario :: "(string \<times> json) list"
  sb_events :: "json list"
  sb_expected :: json
  sb_extras :: "(string \<times> json) list"

datatype step =
    Reset
  | Setup json
  | Deliver json
  | Action json
  | Request json
  | Erp_behavior json
  | Route_change json
  | Analysis_request json
  | Tamper json

record 's harness =
  ha_do :: "step \<Rightarrow> 's \<Rightarrow> 's result"
  ha_normalize :: "'s \<Rightarrow> (json \<times> 's) result"
  ha_repr :: "json \<Rightarrow> string"
  ha_int :: "string \<Rightarrow> int option"

definition action_rows :: "json \<Rightarrow> json list" where
  "action_rows v = (case v of
     JNull \<Rightarrow> []
   | JArr xs \<Rightarrow> xs
   | JObj kvs \<Rightarrow> (case map_of kvs ''actions'' of Some (JArr xs) \<Rightarrow> xs | _ \<Rightarrow> [v])
   | _ \<Rightarrow> [v])"

text \<open>\<open>int(value)\<close>: truncation of a number, the number a text stands for.\<close>

fun py_int :: "(string \<Rightarrow> int option) \<Rightarrow> json \<Rightarrow> int result" where
  "py_int int_of (JInt i) = Inr i"
| "py_int int_of (JBool b) = Inr (if b then 1 else 0)"
| "py_int int_of (JFloat r) = Inr (if 0 \<le> r then \<lfloor>r\<rfloor> else \<lceil>r\<rceil>)"
| "py_int int_of (JStr s) = (case int_of s of None \<Rightarrow> Inl (PyError ''ValueError'') | Some i \<Rightarrow> Inr i)"
| "py_int int_of _ = Inl (PyError ''TypeError'')"

text \<open>\<open>int(action.get("after_event", 0))\<close>.\<close>

fun after_event :: "(string \<Rightarrow> int option) \<Rightarrow> json \<Rightarrow> int result" where
  "after_event int_of (JObj kvs) = (case map_of kvs ''after_event'' of None \<Rightarrow> Inr 0 | Some v \<Rightarrow> py_int int_of v)"
| "after_event int_of _ = Inl (PyError ''AttributeError'')"

definition extra :: "ScenarioBundle \<Rightarrow> string \<Rightarrow> json list" where
  "extra b name = action_rows (dict_get name (sb_extras b))"

definition points_of :: "(string \<Rightarrow> int option) \<Rightarrow> ScenarioBundle \<Rightarrow> (int \<times> json) list result" where
  "points_of int_of b = map_r (\<lambda>a. rbind (after_event int_of a) (\<lambda>p. Inr (p, a))) (extra b ''actions.json'')"

definition at_point :: "int \<Rightarrow> (int \<times> json) list \<Rightarrow> json list" where
  "at_point k points = map snd (filter (\<lambda>(p, a). p = k) points)"

fun deliver_events :: "'s harness \<Rightarrow> (int \<times> json) list \<Rightarrow> int \<Rightarrow> json list \<Rightarrow> 's \<Rightarrow> 's result" where
  "deliver_events h points k [] s = Inr s"
| "deliver_events h points k (e # es) s =
     rbind (ha_do h (Deliver e) s) (\<lambda>s.
     rbind (fold_r (\<lambda>a. ha_do h (Action a)) (at_point k points) s)
       (deliver_events h points (k + 1) es))"

record outcome =
  hr_scenario :: json
  hr_passed :: bool
  hr_failures :: "string list"
  hr_actual :: json
  hr_expected :: json

definition conclude :: "'s harness \<Rightarrow> ScenarioBundle \<Rightarrow> json \<Rightarrow> outcome" where
  "conclude h b actual =
     (let failures = compare_invariants (ha_repr h) actual (sb_expected b) ''$'' in
      \<lparr>hr_scenario = (case map_of (sb_scenario b) ''id'' of None \<Rightarrow> JStr (sb_name b) | Some v \<Rightarrow> v),
       hr_passed = (failures = []), hr_failures = failures, hr_actual = actual, hr_expected = sb_expected b\<rparr>)"

definition run_bundle :: "'s harness \<Rightarrow> ScenarioBundle \<Rightarrow> 's \<Rightarrow> (outcome \<times> 's) result" where
  "run_bundle h b s =
     rbind (ha_do h Reset s) (\<lambda>s.
     rbind (ha_do h (Setup (case map_of (sb_scenario b) ''setup'' of None \<Rightarrow> JObj [] | Some v \<Rightarrow> v)) s) (\<lambda>s.
     rbind (points_of (ha_int h) b) (\<lambda>points.
     rbind (deliver_events h points 1 (sb_events b) s) (\<lambda>s.
     rbind (fold_r (\<lambda>a. ha_do h (Action a)) (at_point 0 points) s) (\<lambda>s.
     rbind (fold_r (\<lambda>r. ha_do h (Request r)) (extra b ''requests.json'') s) (\<lambda>s.
     rbind (fold_r (\<lambda>r. ha_do h (Erp_behavior r)) (extra b ''erp_behavior.json'') s) (\<lambda>s.
     rbind (fold_r (\<lambda>r. ha_do h (Route_change r)) (extra b ''route_change.json'') s) (\<lambda>s.
     rbind (fold_r (\<lambda>r. ha_do h (Analysis_request r)) (extra b ''analysis_request.json'') s) (\<lambda>s.
     rbind (fold_r (\<lambda>r. ha_do h (Tamper r)) (extra b ''tamper_actions.json'') s) (\<lambda>s.
     rbind (ha_normalize h s) (\<lambda>(actual, s). Inr (conclude h b actual, s))))))))))))"

text \<open>The steps of a run, as a list: the events in the order of the file, and every action at its point.\<close>

fun delivery_steps :: "(int \<times> json) list \<Rightarrow> int \<Rightarrow> json list \<Rightarrow> step list" where
  "delivery_steps points k [] = []"
| "delivery_steps points k (e # es) = Deliver e # map Action (at_point k points) @ delivery_steps points (k + 1) es"

definition schedule :: "ScenarioBundle \<Rightarrow> (int \<times> json) list \<Rightarrow> step list" where
  "schedule b points =
     [Reset, Setup (case map_of (sb_scenario b) ''setup'' of None \<Rightarrow> JObj [] | Some v \<Rightarrow> v)] @
     delivery_steps points 1 (sb_events b) @ map Action (at_point 0 points) @
     map Request (extra b ''requests.json'') @ map Erp_behavior (extra b ''erp_behavior.json'') @
     map Route_change (extra b ''route_change.json'') @ map Analysis_request (extra b ''analysis_request.json'') @
     map Tamper (extra b ''tamper_actions.json'')"

section \<open>What a run performs\<close>

lemma fold_r_map: "fold_r f (map g xs) s = fold_r (\<lambda>x. f (g x)) xs s"
  by (induction xs arbitrary: s) (auto split: rbind_split)

lemma rbind_assoc: "rbind (rbind m f) g = rbind m (\<lambda>x. rbind (f x) g)"
  by (cases m) simp_all

lemma deliver_events_steps: "deliver_events h points k es s = fold_r (ha_do h) (delivery_steps points k es) s"
proof (induction es arbitrary: k s)
  case (Cons e es)
  have "deliver_events h points (k + 1) es = fold_r (ha_do h) (delivery_steps points (k + 1) es)"
    using Cons by blast
  moreover have "fold_r (ha_do h) (map Action (at_point k points) @ delivery_steps points (k + 1) es) =
      (\<lambda>s. rbind (fold_r (\<lambda>a. ha_do h (Action a)) (at_point k points) s) (fold_r (ha_do h) (delivery_steps points (k + 1) es)))"
    by (rule ext) (simp add: fold_r_append fold_r_map)
  ultimately show ?case
    by simp
qed simp

lemma run_bundle_steps:
  assumes "points_of (ha_int h) b = Inr points"
  shows "run_bundle h b s = rbind (fold_r (ha_do h) (schedule b points) s) (\<lambda>s.
    rbind (ha_normalize h s) (\<lambda>(actual, s). Inr (conclude h b actual, s)))"
  using assms unfolding run_bundle_def schedule_def
  by (simp add: fold_r_append fold_r_map rbind_assoc deliver_events_steps)

fun delivered :: "step list \<Rightarrow> json list" where
  "delivered [] = []"
| "delivered (Deliver e # js) = e # delivered js"
| "delivered (_ # js) = delivered js"

fun acted :: "step list \<Rightarrow> json list" where
  "acted [] = []"
| "acted (Action a # js) = a # acted js"
| "acted (_ # js) = acted js"

lemma step_lists_append [simp]:
  "delivered (js @ ks) = delivered js @ delivered ks" "acted (js @ ks) = acted js @ acted ks"
  by (induction js rule: delivered.induct) simp_all

lemma steps_map [simp]:
  "delivered (map Action as) = []" "acted (map Action as) = as"
  "delivered (map Request as) = []" "acted (map Request as) = []"
  "delivered (map Erp_behavior as) = []" "acted (map Erp_behavior as) = []"
  "delivered (map Route_change as) = []" "acted (map Route_change as) = []"
  "delivered (map Analysis_request as) = []" "acted (map Analysis_request as) = []"
  "delivered (map Tamper as) = []" "acted (map Tamper as) = []"
  by (induction as) simp_all

lemma delivered_delivery [simp]: "delivered (delivery_steps points k es) = es"
  by (induction es arbitrary: k) simp_all

lemma mset_at_point: "mset (at_point k points) = image_mset snd (filter_mset (\<lambda>(p, a). p = k) (mset points))"
  by (simp add: at_point_def mset_filter)

lemma acted_delivery:
  "mset (acted (delivery_steps points k es)) = mset (map snd (filter (\<lambda>(p, a). k \<le> p \<and> p < k + int (length es)) points))"
proof (induction es arbitrary: k)
  case (Cons e es)
  have split: "filter_mset (\<lambda>(p, a). k \<le> p \<and> p < k + (1 + int (length es))) (mset points) =
      filter_mset (\<lambda>(p, a). p = k) (mset points) +
      filter_mset (\<lambda>(p, a). k + 1 \<le> p \<and> p < k + 1 + int (length es)) (mset points)"
    by (induction points) auto
  show ?case
    using Cons [of "k + 1"] by (simp add: mset_at_point mset_filter split)
qed simp

lemma schedule_events: "delivered (schedule b points) = sb_events b"
  by (simp add: schedule_def)

lemma schedule_actions:
  "mset (acted (schedule b points)) =
     mset (map snd (filter (\<lambda>(p, a). 0 \<le> p \<and> p \<le> int (length (sb_events b))) points))"
proof -
  have split: "filter_mset (\<lambda>(p, a). 0 \<le> p \<and> p \<le> int (length (sb_events b))) (mset points) =
      filter_mset (\<lambda>(p, a). 1 \<le> p \<and> p < 1 + int (length (sb_events b))) (mset points) +
      filter_mset (\<lambda>(p, a). p = 0) (mset points)"
    by (induction points) auto
  show ?thesis
    by (simp add: schedule_def acted_delivery mset_at_point mset_filter split)
qed

end
