(* ===== verification/TQ_Demo.thy ===== *)
theory TQ_Demo
  imports TQ_Admin_Facts TQ_Rebuild_Effects TQ_Harness
begin

text \<open>
  The demonstration endpoints (\<^verbatim>\<open>backend/app/api/demo.py\<close>): a scenario is played by ingesting and
  rebuilding its events as its sources would send them, tampering with its first event if asked to, and
  comparing what the tables then show with what the scenario expects; a reset empties the tables of
  production data. The directory of scenarios is an argument: for the name of each directory that has one, its
  parsed \<^verbatim>\<open>expected.json\<close>, and the parsed lines of its \<^verbatim>\<open>events.jsonl\<close>, None when that file is missing. A
  scenario is played on its own, with no other request writing in between.
\<close>

section \<open>The scenarios\<close>

type_synonym scenario_dir = "(string \<times> ((string \<times> json) list \<times> json list option)) list"

definition safe_char :: "char \<Rightarrow> bool" where
  "safe_char c \<longleftrightarrow> (CHR ''A'' \<le> c \<and> c \<le> CHR ''Z'') \<or> (CHR ''a'' \<le> c \<and> c \<le> CHR ''z'') \<or>
     (CHR ''0'' \<le> c \<and> c \<le> CHR ''9'') \<or> c = CHR ''_'' \<or> c = CHR ''-''"

definition scenario_path :: "scenario_dir \<Rightarrow> string \<Rightarrow> ((string \<times> json) list \<times> json list) result" where
  "scenario_path dir name =
     (if name = [] \<or> \<not> list_all safe_char name then Inl (NotFoundError ''Scenario'')
      else case map_of dir name of
          Some (expected, Some events) \<Rightarrow> Inr (expected, events)
        | _ \<Rightarrow> Inl (NotFoundError ''Scenario''))"

definition scenarios :: "scenario_dir \<Rightarrow> json list" where
  "scenarios dir = map (\<lambda>(name, expected, events). JObj [(''name'', JStr name),
       (''description'', case map_of expected ''description'' of None \<Rightarrow> JStr name | Some v \<Rightarrow> v),
       (''expected'', JObj (dict_pop ''description'' expected))]) (sort_key fst dir)"

section \<open>Playing the events\<close>

record tally_sheet =
  ts_accepted :: nat
  ts_duplicates :: nat
  ts_items :: "string list"

text \<open>\<open>event["source"]["source_id"]\<close>, as the header the event is sent with.\<close>

definition header_source :: "json \<Rightarrow> string option result" where
  "header_source event = (case event of
     JObj d \<Rightarrow> (case map_of d ''source'' of
         None \<Rightarrow> Inl (PyError ''KeyError'')
       | Some (JObj s) \<Rightarrow> (case map_of s ''source_id'' of
             None \<Rightarrow> Inl (PyError ''KeyError'')
           | Some (JStr i) \<Rightarrow> Inr (Some i)
           | Some v \<Rightarrow> if truthy v then Inl (PyError ''ProgrammingError'') else Inr None)
       | Some _ \<Rightarrow> Inl (PyError ''TypeError''))
   | _ \<Rightarrow> Inl (PyError ''TypeError''))"

text \<open>\<open>event.get("item_id") or event.get("payload", {}).get("item_id")\<close>.\<close>

definition scenario_item :: "json \<Rightarrow> string option result" where
  "scenario_item event = (case event of
     JObj d \<Rightarrow> (case dict_get ''item_id'' d of
         JStr (c # cs) \<Rightarrow> Inr (Some (c # cs))
       | _ \<Rightarrow> (case map_of d ''payload'' of
             None \<Rightarrow> Inr None
           | Some (JObj pl) \<Rightarrow> (case dict_get ''item_id'' pl of JStr (c # cs) \<Rightarrow> Inr (Some (c # cs)) | _ \<Rightarrow> Inr None)
           | Some _ \<Rightarrow> Inl (PyError ''AttributeError'')))
   | _ \<Rightarrow> Inl (PyError ''AttributeError''))"

definition note_result :: "string \<Rightarrow> tally_sheet \<Rightarrow> tally_sheet" where
  "note_result status t = t\<lparr>ts_accepted := ts_accepted t + (if status = ''accepted'' then 1 else 0),
     ts_duplicates := ts_duplicates t + (if status = ''duplicate'' then 1 else 0)\<rparr>"

definition play_event ::
  "env \<Rightarrow> Settings \<Rightarrow> time \<Rightarrow> string \<Rightarrow> json \<Rightarrow> tally_sheet \<Rightarrow> db \<Rightarrow> tally_sheet result \<times> db" where
  "play_event E S now token event t d =
     (case header_source event of
        Inl e \<Rightarrow> (Inl e, d)
      | Inr src \<Rightarrow>
          (case ingest_event E S now No_race \<lparr>h_source_id = src, h_source_token = Some token,
                h_timestamp = None, h_nonce = None, h_signature = None\<rparr> event d of
             (Inl e, d1) \<Rightarrow> (Inl e, d1)
           | (Inr res, d1) \<Rightarrow>
               (case scenario_item event of
                  Inl e \<Rightarrow> (Inl e, d1)
                | Inr None \<Rightarrow> (Inr (note_result (res_ingestion_status res) t), d1)
                | Inr (Some i) \<Rightarrow>
                    (let t1 = (note_result (res_ingestion_status res) t)\<lparr>ts_items := List.insert i (ts_items t)\<rparr> in
                     if res_ingestion_status res = ''accepted''
                     then (case rebuild_item E S now i d1 of (Inl e, d2) \<Rightarrow> (Inl e, d2) | (Inr _, d2) \<Rightarrow> (Inr t1, d2))
                     else (Inr t1, d1)))))"

fun play_events ::
  "env \<Rightarrow> Settings \<Rightarrow> time \<Rightarrow> string \<Rightarrow> json list \<Rightarrow> tally_sheet \<Rightarrow> db \<Rightarrow> tally_sheet result \<times> db" where
  "play_events E S now token [] t d = (Inr t, d)"
| "play_events E S now token (e # es) t d =
     (case play_event E S now token e t d of
        (Inl x, d1) \<Rightarrow> (Inl x, d1)
      | (Inr t1, d1) \<Rightarrow> play_events E S now token es t1 d1)"

fun rebuild_items :: "env \<Rightarrow> Settings \<Rightarrow> time \<Rightarrow> string list \<Rightarrow> db \<Rightarrow> unit result \<times> db" where
  "rebuild_items E S now [] d = (Inr (), d)"
| "rebuild_items E S now (i # is) d =
     (case rebuild_item E S now i d of (Inl e, d1) \<Rightarrow> (Inl e, d1) | (Inr _, d1) \<Rightarrow> rebuild_items E S now is d1)"

text \<open>\<open>_tamper\<close>: the first bit of the ciphertext is flipped past the trigger; no row, no change.\<close>

definition tamper :: "Settings \<Rightarrow> string \<Rightarrow> db \<Rightarrow> unit result \<times> db" where
  "tamper S i d =
     (if \<not> has_id (demo_privileged_database_url S)
        then (Inl (TraceQError ''DEMO_TAMPER_UNAVAILABLE'' ''Demo tamper connection is not configured'' 503), d)
      else case find_by re_event_id i (db_raw_events d) of
          None \<Rightarrow> (Inr (), d)
        | Some row \<Rightarrow> (case flip_first_bit (re_payload_ciphertext row) of
              None \<Rightarrow> (Inl (PyError ''DataError''), d)
            | Some ct \<Rightarrow> (Inr (), d\<lparr>db_raw_events := update_by re_event_id i (tampered ct) (db_raw_events d)\<rparr>)))"

section \<open>What the scenario shows\<close>

fun analysis_status_str :: "analysis_status \<Rightarrow> string" where
  "analysis_status_str BOUNDED = ''BOUNDED''"
| "analysis_status_str LEFT_OPEN = ''LEFT_OPEN''"
| "analysis_status_str EVIDENCE_INVALIDATED = ''EVIDENCE_INVALIDATED''"

fun evidence_type_str :: "evidence_type \<Rightarrow> string" where
  "evidence_type_str LAST_TRUSTED_GOOD = ''LAST_TRUSTED_GOOD''"
| "evidence_type_str FIRST_TRUSTED_DEFECT = ''FIRST_TRUSTED_DEFECT''"
| "evidence_type_str OPERATION_IN_WINDOW = ''OPERATION_IN_WINDOW''"
| "evidence_type_str MACHINE_WARNING = ''MACHINE_WARNING''"
| "evidence_type_str OPERATOR_ACTION = ''OPERATOR_ACTION''"
| "evidence_type_str CONFLICTING_OBSERVATION = ''CONFLICTING_OBSERVATION''"
| "evidence_type_str DEVICE_VALIDITY = ''DEVICE_VALIDITY''"
| "evidence_type_str POOR_OBSERVATION = ''POOR_OBSERVATION''"
| "evidence_type_str MISSING_CHECK = ''MISSING_CHECK''"

record Actual =
  at_accepted_count :: nat
  at_duplicate_count :: nat
  at_ncr_count :: nat
  at_latest_analysis_status :: "string option"
  at_analysis_version_count :: nat
  at_verdict :: "string option"
  at_evidence_types :: "string list"
  at_integrity_status :: string

definition shown_ncrs :: "json \<Rightarrow> string list \<Rightarrow> db \<Rightarrow> Nonconformance list" where
  "shown_ncrs expected_item items d =
     (if truthy expected_item then filter (\<lambda>n. expected_item = JStr (nc_item_id n)) (db_ncrs d)
      else filter (\<lambda>n. nc_item_id n \<in> set items) (db_ncrs d))"

definition shown_versions :: "Nonconformance list \<Rightarrow> db \<Rightarrow> AnalysisVersion list" where
  "shown_versions ncrs d = concat (map (\<lambda>n. sort_key av_version
     (filter (\<lambda>a. av_nonconformance_id a = nc_id n) (db_analyses d))) ncrs)"

definition last_of :: "'a list \<Rightarrow> 'a option" where
  "last_of xs = (if xs = [] then None else Some (List.last xs))"

definition actual :: "json \<Rightarrow> tally_sheet \<Rightarrow> bool \<Rightarrow> db \<Rightarrow> Actual" where
  "actual expected_item t failed d =
     (let ncrs = shown_ncrs expected_item (ts_items t) d; versions = shown_versions ncrs d in
      \<lparr>at_accepted_count = ts_accepted t, at_duplicate_count = ts_duplicates t, at_ncr_count = length ncrs,
       at_latest_analysis_status = map_option (\<lambda>a. analysis_status_str (av_status a)) (last_of versions),
       at_analysis_version_count = length versions,
       at_verdict = map_option (\<lambda>n. verdict_str (nc_verdict n)) (last_of ncrs),
       at_evidence_types = sort (remdups (map (\<lambda>e. evidence_type_str (ae_evidence_type e))
         (filter (\<lambda>e. ae_analysis_version_id e \<in> av_id ` set versions) (db_evidence d)))),
       at_integrity_status = (if failed then ''FAILED'' else ''OK'')\<rparr>)"

section \<open>The checks\<close>

definition js_text :: "string option \<Rightarrow> json" where
  "js_text x = (case x of None \<Rightarrow> JNull | Some s \<Rightarrow> JStr s)"

definition actual_values :: "Actual \<Rightarrow> (string \<times> json) list" where
  "actual_values a = [(''duplicate_count'', JInt (int (at_duplicate_count a))),
     (''ncr_count'', JInt (int (at_ncr_count a))),
     (''latest_analysis_status'', js_text (at_latest_analysis_status a)),
     (''verdict'', js_text (at_verdict a)), (''integrity_status'', JStr (at_integrity_status a))]"

text \<open>\<open>count >= value\<close> and \<open>set(value).issubset(types)\<close>, which raise for values of other types.\<close>

definition at_least :: "nat \<Rightarrow> json \<Rightarrow> bool result" where
  "at_least n v = (case number_of v of None \<Rightarrow> Inl (PyError ''TypeError'') | Some r \<Rightarrow> Inr (r \<le> of_nat n))"

definition subset_of :: "string list \<Rightarrow> json \<Rightarrow> bool result" where
  "subset_of types v = (case v of
     JArr xs \<Rightarrow> if list_all hashable xs then Inr (set xs \<subseteq> JStr ` set types) else Inl (PyError ''TypeError'')
   | JStr s \<Rightarrow> Inr (s = [])
   | JObj d \<Rightarrow> Inr (fst ` set d \<subseteq> set types)
   | _ \<Rightarrow> Inl (PyError ''TypeError''))"

definition checks :: "(string \<times> json) list \<Rightarrow> Actual \<Rightarrow> (string \<times> bool) list result" where
  "checks expected a =
     (let plain = concat (map (\<lambda>(key, v). case map_of expected key of
            None \<Rightarrow> [] | Some w \<Rightarrow> [(key, py_eq v w)]) (actual_values a)) in
      rbind (case map_of expected ''min_analysis_versions'' of None \<Rightarrow> Inr []
          | Some w \<Rightarrow> rbind (at_least (at_analysis_version_count a) w) (\<lambda>b. Inr [(''min_analysis_versions'', b)])) (\<lambda>c1.
      rbind (case map_of expected ''evidence_types'' of None \<Rightarrow> Inr []
          | Some w \<Rightarrow> rbind (subset_of (at_evidence_types a) w) (\<lambda>b. Inr [(''evidence_types'', b)])) (\<lambda>c2.
      Inr (plain @ c1 @ c2))))"

section \<open>Running a scenario\<close>

record ScenarioResult =
  sr_scenario :: string
  sr_passed :: bool
  sr_checks :: "(string \<times> bool) list"
  sr_actual :: Actual

text \<open>\<open>events[0]["event_id"]\<close>, as the statement is given it.\<close>

definition first_id :: "json list \<Rightarrow> string result" where
  "first_id events = (case hd events of
     JObj d \<Rightarrow> (case map_of d ''event_id'' of
         None \<Rightarrow> Inl (PyError ''KeyError'')
       | Some (JStr i) \<Rightarrow> Inr i
       | Some v \<Rightarrow> Inl (PyError ''ProgrammingError''))
   | _ \<Rightarrow> Inl (PyError ''TypeError''))"

definition tampers :: "(string \<times> json) list \<Rightarrow> json list \<Rightarrow> bool" where
  "tampers expected events \<longleftrightarrow> truthy (dict_get ''tamper'' expected) \<and> events \<noteq> []"

definition tamper_first :: "Settings \<Rightarrow> json list \<Rightarrow> db \<Rightarrow> unit result \<times> db" where
  "tamper_first S events d = (case first_id events of Inl e \<Rightarrow> (Inl e, d) | Inr i \<Rightarrow> tamper S i d)"

definition compared ::
  "string \<Rightarrow> (string \<times> json) list \<Rightarrow> tally_sheet \<Rightarrow> bool \<Rightarrow> db \<Rightarrow> ScenarioResult result" where
  "compared name expected t failed d =
     (let wanted = dict_get ''item_id'' expected; a = actual wanted t failed d in
      if truthy wanted \<and> \<not> (\<exists>s. wanted = JStr s) then Inl (PyError ''ProgrammingError'')
      else rbind (checks expected a) (\<lambda>cs.
        Inr \<lparr>sr_scenario = name, sr_passed = list_all snd cs, sr_checks = cs, sr_actual = a\<rparr>))"

definition run_scenario ::
  "env \<Rightarrow> Settings \<Rightarrow> time \<Rightarrow> scenario_dir \<Rightarrow> string \<Rightarrow> string option \<Rightarrow> Principal \<Rightarrow> db \<Rightarrow>
    ScenarioResult result \<times> db" where
  "run_scenario E S now dir name request_id p d =
     (case scenario_path dir name of
        Inl e \<Rightarrow> (Inl e, d)
      | Inr (expected, events) \<Rightarrow>
          if \<not> has_id (source_demo_token S)
          then (Inl (TraceQError ''DEMO_SOURCE_NOT_CONFIGURED'' ''Demo source token is not configured'' 503), d)
          else
            (case play_events E S now (the (source_demo_token S)) events
                \<lparr>ts_accepted = 0, ts_duplicates = 0, ts_items = []\<rparr> d of
               (Inl e, d1) \<Rightarrow> (Inl e, d1)
             | (Inr t, d1) \<Rightarrow>
                 (case rebuild_items E S now (sort (ts_items t)) d1 of
                    (Inl e, d2) \<Rightarrow> (Inl e, d2)
                  | (Inr _, d2) \<Rightarrow>
                      (case (if tampers expected events then tamper_first S events d2 else (Inr (), d2)) of
                         (Inl e, d3) \<Rightarrow> (Inl e, d3)
                       | (Inr _, d3) \<Rightarrow>
                           (case (if tampers expected events then verify_integrity E S d3 else (Inr [], d3)) of
                              (Inl e, d4) \<Rightarrow> (Inl e, d3)
                            | (Inr failures, d4) \<Rightarrow>
                                (case compared name expected t (failures \<noteq> []) d4 of
                                   Inl e \<Rightarrow> (Inl e, d3)
                                 | Inr r \<Rightarrow> (Inr r,
                                     write_audit ''demo_scenario_run'' (if sr_passed r then ''success'' else ''failure'')
                                       (acting p ''scenario'' name request_id)
                                       (JObj [(''checks'', JObj (map (\<lambda>(k, b). (k, JBool b)) (sr_checks r)))]) d4)))))))"

section \<open>Emptying the tables\<close>

text \<open>What \<open>TRUNCATE \<dots> RESTART IDENTITY CASCADE\<close> leaves of the tables the code lists; no other table
  refers to one of them.\<close>

definition truncate_tables :: "db \<Rightarrow> db" where
  "truncate_tables d = d\<lparr>db_exposures := [], db_approvals := [], db_proposals := [], db_queries := [],
     db_invalidations := [], db_nonces := [], db_alerts := [], db_evidence := [], db_analyses := [],
     db_decisions := [], db_quality_results := [], db_outbox := [], db_integration_messages := [],
     db_ncrs := [], db_occurrences := [], db_defect_observations := [], db_observations := [],
     db_machine_events := [], db_operator_actions := [], db_runs := [], db_items := [],
     db_projections := [], db_raw_events := [], db_attempts := [], db_streams := [], db_ingest_seq := 0\<rparr>"

definition reset_demo :: "Settings \<Rightarrow> string option \<Rightarrow> Principal \<Rightarrow> db \<Rightarrow> unit result \<times> db" where
  "reset_demo S request_id p d =
     (if \<not> has_id (demo_privileged_database_url S)
        then (Inl (TraceQError ''DEMO_RESET_UNAVAILABLE'' ''Demo reset connection is not configured'' 503), d)
      else (Inr (), write_audit ''demo_reset'' ''success'' (acting p ''demo_data'' ''all_scenarios'' request_id) JNull
        (truncate_tables d)))"

definition run_endpoint where
  "run_endpoint E S now c dir name r =
     gated (permission_gate E now c ''RUN_DEMO_SCENARIOS'') (run_scenario E S now dir name r)"

definition scenarios_endpoint where
  "scenarios_endpoint E now c dir =
     gated (permission_gate E now c ''RUN_DEMO_SCENARIOS'') (\<lambda>p d. (Inr (scenarios dir), d))"

definition reset_endpoint where
  "reset_endpoint E S now c r = gated (permission_gate E now c ''RUN_DEMO_SCENARIOS'') (reset_demo S r)"

end
