(* ===== verification/TQ_Demo_Facts.thy ===== *)
theory TQ_Demo_Facts
  imports TQ_Demo
begin

text \<open>
  What playing a scenario does to the raw log: the log stays in order and only grows, and a scenario
  that tampers with its first event finds the tampering. A reset leaves an empty log.
\<close>

section \<open>Playing keeps the log in order\<close>

definition log_kept :: "env \<Rightarrow> Settings \<Rightarrow> db \<Rightarrow> db \<Rightarrow> bool" where
  "log_kept E S d d' \<longleftrightarrow> (log_ok E S d \<longrightarrow> log_ok E S d') \<and> prefix (db_raw_events d) (db_raw_events d')"

lemma log_kept_refl [simp]: "log_kept E S d d"
  by (simp add: log_kept_def)

lemma log_kept_trans: "log_kept E S d d' \<Longrightarrow> log_kept E S d' d'' \<Longrightarrow> log_kept E S d d''"
  by (auto simp: log_kept_def intro: prefix_order.trans)

lemma log_kept_part: "log_part d' = log_part d \<Longrightarrow> log_kept E S d d'"
  using log_ok_part [of d' d E S] by (auto simp: log_kept_def log_part_def)

lemma rebuild_kept: "rebuild_item E S now i d = (r, d') \<Longrightarrow> log_kept E S d d'"
proof (rule log_kept_part)
  assume r: "rebuild_item E S now i d = (r, d')"
  have "rebuild_frame d' = rebuild_frame d"
    using rebuild_item_rel [of i d E S now] r by (simp add: rebuild_rel_def)
  then have "log_part (rebuild_frame d') = log_part (rebuild_frame d)"
    by (rule arg_cong)
  then show "log_part d' = log_part d"
    by (simp add: rebuild_frame_def log_part_def)
qed

lemma ingest_kept: "ingest_event E S now No_race h v d = (r, d') \<Longrightarrow> log_kept E S d d'"
  using ingest_keeps_log_ok [of E S now No_race h v d r d'] ingest_appends [of E S now No_race h v d r d']
  by (auto simp: log_kept_def)

text \<open>What happens to one event.\<close>

lemma play_event_cases:
  assumes "play_event E S now token event t d = (res, d')"
  obtains (unsent) x where "res = Inl x" "d' = d"
  | (refused) h x where "ingest_event E S now No_race h event d = (Inl x, d')" "res = Inl x"
  | (sent) h y where "ingest_event E S now No_race h event d = (Inr y, d')"
  | (shown) h y d1 i u where "ingest_event E S now No_race h event d = (Inr y, d1)"
      "rebuild_item E S now i d1 = (u, d')"
proof -
  let ?h = "\<lambda>src. \<lparr>h_source_id = src, h_source_token = Some token, h_timestamp = None, h_nonce = None,
    h_signature = None\<rparr>"
  show thesis
  proof (cases "header_source event")
    case (Inl x)
    then show thesis
      using unsent [of x] assms by (simp add: play_event_def)
  next
    case (Inr src)
    obtain o' d1 where i: "ingest_event E S now No_race (?h src) event d = (o', d1)"
      by fastforce
    show thesis
    proof (cases o')
      case (Inl x)
      then show thesis
        using refused [of "?h src" x] i assms Inr by (simp add: play_event_def)
    next
      case y: (Inr y)
      show thesis
      proof (cases "d' = d1")
        case True
        then show thesis
          using sent [of "?h src" y] i y by simp
      next
        case False
        then obtain k where "scenario_item event = Inr (Some k)" "res_ingestion_status y = ''accepted''"
          using assms Inr i y by (auto simp: play_event_def Let_def split: sum.splits option.splits if_splits)
        then obtain u where "rebuild_item E S now k d1 = (u, d')"
          using assms Inr i y by (auto simp: play_event_def Let_def split: sum.splits prod.splits)
        then show thesis
          using shown i y by blast
      qed
    qed
  qed
qed

lemma play_event_kept:
  assumes "play_event E S now token event t d = (res, d')"
  shows "log_kept E S d d'"
  using assms
proof (cases rule: play_event_cases)
  case (shown h y d1 i u)
  then show ?thesis
    using log_kept_trans ingest_kept rebuild_kept by blast
qed (auto dest: ingest_kept)

lemma play_events_kept: "play_events E S now token es t d = (res, d') \<Longrightarrow> log_kept E S d d'"
proof (induction es arbitrary: t d)
  case (Cons e es)
  obtain r d1 where p: "play_event E S now token e t d = (r, d1)"
    by fastforce
  then have "log_kept E S d d1"
    by (rule play_event_kept)
  then show ?case
    using Cons.prems p Cons.IH log_kept_trans by (cases r) auto
qed simp

lemma rebuild_items_kept: "rebuild_items E S now is d = (res, d') \<Longrightarrow> log_kept E S d d'"
proof (induction "is" arbitrary: d)
  case (Cons i "is")
  obtain r d1 where p: "rebuild_item E S now i d = (r, d1)"
    by fastforce
  then have "log_kept E S d d1"
    by (rule rebuild_kept)
  then show ?case
    using Cons.prems p Cons.IH log_kept_trans by (cases r) auto
qed simp

section \<open>The first event is stored\<close>

lemma validated_id:
  assumes "validate_event V v = Inr e"
  obtains d where "v = JObj d" "map_of d ''event_id'' = Some (JStr (event_id e))"
  using assms
proof (rule validate_event_Inr)
  fix d c pl
  assume v: "v = JObj d" and n: "normalize_legacy d = Inr (c, pl)"
    and e: "read_envelope V (dict_set ''payload'' (JObj pl) c) (payload e) = Some e"
  have "map_of (dict_set ''payload'' (JObj pl) c) ''event_id'' = Some (JStr (event_id e))"
    using e unfolding read_envelope_def
    by (auto simp: bind_eq_Some_conv Let_def req_str_def dest!: arg_cong [where f = event_id and y = e]
        split: if_splits option.splits json.splits)
  then have "map_of d ''event_id'' = Some (JStr (event_id e))"
    using normalize_legacy_other [OF n, of "''event_id''"] by simp
  with v show thesis
    by (rule that)
qed

lemma ingested_is_stored:
  assumes "ingest_event E S now No_race h v d = (Inr y, d')" and ok: "log_ok E S d"
  obtains e where "validate_event (validator E) v = Inr e" "event_id e \<in> re_event_id ` set (db_raw_events d')"
  using assms(1)
proof (cases rule: ingest_event_cases)
  case (admitted src e d1)
  have v: "validate_event (validator E) v = Inr e"
    using admit_Inr [OF admitted(1)] by simp
  have lp: "log_part (track_sequence src e d1) = log_part d"
    using admit_log [of E S now h v d] admitted(1) by simp
  then have raws: "db_raw_events (track_sequence src e d1) = db_raw_events d"
    by (simp add: log_part_def)
  let ?p = "canonical_json_bytes (float_repr E) (canonical_event_dict (validator E) e)"
  let ?h = "sha256_hex E ?p"
  have "event_id e \<in> re_event_id ` set (db_raw_events d')"
  proof (cases "find_by re_event_id (event_id e) (db_raw_events d)")
    case (Some row)
    then have "d' = snd (settle_existing now src e ?h row (track_sequence src e d1))"
      using admitted(2) raws by (simp add: commit_event_def Let_def)
    then have "log_part d' = log_part (track_sequence src e d1)"
      by (simp add: settle_existing_log)
    then have "db_raw_events d' = db_raw_events d"
      using raws by (simp add: log_part_def)
    then show ?thesis
      using find_by_SomeD [OF Some] by (intro image_eqI [of _ _ row]) simp_all
  next
    case None
    obtain affected d2 where "store_event E S now src e ?p ?h (track_sequence src e d1) = Inr (affected, d2)" "d' = d2"
      using admitted(2) None raws by (auto simp: commit_event_def Let_def split: sum.splits)
    then obtain d3 where a: "append_sealed E S now src e ?p ?h (track_sequence src e d1) = Inr d3" "log_part d' = log_part d3"
      using store_event_steps by metis
    have "log_ok E S (track_sequence src e d1)"
      using lp by (rule log_ok_part [OF _ ok])
    moreover have "event_id e \<notin> re_event_id ` set (db_raw_events (track_sequence src e d1))"
      using None by (simp add: raws find_by_None_iff)
    ultimately obtain r where "db_raw_events d3 = db_raw_events (track_sequence src e d1) @ [r]" "re_event_id r = event_id e"
      using append_sealed_ok [OF _ a(1)] by blast
    then show ?thesis
      using a(2) by (auto simp: log_part_def)
  qed
  with v show thesis
    by (rule that)
qed simp_all

text \<open>The first event of a scenario that was played is stored under the identifier the file gives it.\<close>

lemma play_event_stores:
  assumes "play_event E S now token event t d = (Inr t', d')" and "log_ok E S d"
  obtains x i where "event = JObj x" "map_of x ''event_id'' = Some (JStr i)" "i \<in> re_event_id ` set (db_raw_events d')"
proof -
  obtain h y d1 where i: "ingest_event E S now No_race h event d = (Inr y, d1)" and k: "log_kept E S d1 d'"
    using assms(1) by (cases rule: play_event_cases) (auto intro: rebuild_kept)
  obtain e where e: "validate_event (validator E) event = Inr e" "event_id e \<in> re_event_id ` set (db_raw_events d1)"
    by (rule ingested_is_stored [OF i assms(2)])
  then have "event_id e \<in> re_event_id ` set (db_raw_events d')"
    using k by (auto simp: log_kept_def prefix_def)
  moreover obtain x where "event = JObj x" "map_of x ''event_id'' = Some (JStr (event_id e))"
    by (rule validated_id [OF e(1)])
  ultimately show thesis
    by (intro that [of x "event_id e"]) simp_all
qed

lemma first_event_stored:
  assumes "play_events E S now token events t d = (Inr t', d')" and "log_ok E S d" and "events \<noteq> []"
  obtains i where "first_id events = Inr i" "i \<in> re_event_id ` set (db_raw_events d')"
proof -
  obtain e es where events: "events = e # es"
    using assms(3) by (cases events) auto
  obtain t1 d1 where p: "play_event E S now token e t d = (Inr t1, d1)" "play_events E S now token es t1 d1 = (Inr t', d')"
    using assms(1) events by (auto split: prod.splits sum.splits)
  obtain x i where i: "e = JObj x" "map_of x ''event_id'' = Some (JStr i)" "i \<in> re_event_id ` set (db_raw_events d1)"
    by (rule play_event_stores [OF p(1) assms(2)])
  have "prefix (db_raw_events d1) (db_raw_events d')"
    using play_events_kept [OF p(2)] by (simp add: log_kept_def)
  then have "i \<in> re_event_id ` set (db_raw_events d')"
    using i(3) by (auto simp: prefix_def)
  then show thesis
    by (rule that [rotated]) (simp add: first_id_def events i)
qed

section \<open>A run finds the tampering it does\<close>

lemma verify_log: "log_part (snd (verify_integrity E S d)) = log_part d"
  by (auto simp: verify_integrity_def log_part_def Let_def stream_part_def split: sum.split)

lemma run_scenario_steps:
  assumes "run_scenario E S now dir name r p d = (Inr res, d')"
    and "scenario_path dir name = Inr (expected, events)"
  obtains t d1 d2 d3 failures d4 where
    "play_events E S now (the (source_demo_token S)) events \<lparr>ts_accepted = 0, ts_duplicates = 0, ts_items = []\<rparr> d = (Inr t, d1)"
    "rebuild_items E S now (sort (ts_items t)) d1 = (Inr (), d2)"
    "(if tampers expected events then tamper_first S events d2 else (Inr (), d2)) = (Inr (), d3)"
    "(if tampers expected events then verify_integrity E S d3 else (Inr [], d3)) = (Inr failures, d4)"
    "compared name expected t (failures \<noteq> []) d4 = Inr res" "log_part d' = log_part d4"
proof -
  have tok: "has_id (source_demo_token S)"
    using assms by (auto simp: run_scenario_def split: if_splits)
  let ?play = "play_events E S now (the (source_demo_token S)) events \<lparr>ts_accepted = 0, ts_duplicates = 0, ts_items = []\<rparr> d"
  obtain r1 d1 where p: "?play = (r1, d1)" by fastforce
  obtain t where t: "r1 = Inr t"
    using assms p tok by (cases r1) (auto simp: run_scenario_def)
  obtain r2 d2 where b: "rebuild_items E S now (sort (ts_items t)) d1 = (r2, d2)" by fastforce
  have r2: "r2 = Inr ()"
    using assms p t tok b by (cases r2) (auto simp: run_scenario_def)
  obtain r3 d3 where x: "(if tampers expected events then tamper_first S events d2 else (Inr (), d2)) = (r3, d3)"
    by fastforce
  have r3: "r3 = Inr ()"
    using assms p t tok b r2 x by (cases r3) (auto simp: run_scenario_def)
  obtain r4 d4 where v: "(if tampers expected events then verify_integrity E S d3 else (Inr [], d3)) = (r4, d4)"
    by fastforce
  obtain failures where f: "r4 = Inr failures"
    using assms p t tok b r2 x r3 v by (cases r4) (simp_all add: run_scenario_def)
  have run: "run_scenario E S now dir name r p d = (case compared name expected t (failures \<noteq> []) d4 of
      Inl e \<Rightarrow> (Inl e, d3)
    | Inr r' \<Rightarrow> (Inr r', write_audit ''demo_scenario_run'' (if sr_passed r' then ''success'' else ''failure'')
        (acting p ''scenario'' name r) (JObj [(''checks'', JObj (map (\<lambda>(k, b). (k, JBool b)) (sr_checks r')))]) d4))"
    using assms(2) p t tok b r2 x r3 v f by (simp add: run_scenario_def)
  obtain res' where c: "compared name expected t (failures \<noteq> []) d4 = Inr res'"
    using run assms(1) by (cases "compared name expected t (failures \<noteq> []) d4") simp_all
  have "res' = res"
    using run assms(1) unfolding c by simp
  moreover have "log_part (snd (run_scenario E S now dir name r p d)) = log_part d4"
    unfolding run c by (simp add: write_audit_def log_part_def)
  ultimately show thesis
    using assms(1) c by (intro that [OF p [unfolded t] b [unfolded r2] x [unfolded r3] v [unfolded f]]) simp_all
qed

lemma scenario_log:
  assumes "run_scenario E S now dir name r p d = (Inr res, d')" and "log_ok E S d"
    and "scenario_path dir name = Inr (expected, events)" and "\<not> tampers expected events"
  shows "log_ok E S d' \<and> at_integrity_status (sr_actual res) = ''OK''"
  using assms(1,3)
proof (rule run_scenario_steps)
  fix t d1 d2 d3 failures d4
  assume s: "play_events E S now (the (source_demo_token S)) events \<lparr>ts_accepted = 0, ts_duplicates = 0, ts_items = []\<rparr> d = (Inr t, d1)"
    "rebuild_items E S now (sort (ts_items t)) d1 = (Inr (), d2)"
    "(if tampers expected events then tamper_first S events d2 else (Inr (), d2)) = (Inr (), d3)"
    "(if tampers expected events then verify_integrity E S d3 else (Inr [], d3)) = (Inr failures, d4)"
    "compared name expected t (failures \<noteq> []) d4 = Inr res" "log_part d' = log_part d4"
  have "log_kept E S d d2"
    using log_kept_trans [OF play_events_kept [OF s(1)] rebuild_items_kept [OF s(2)]] .
  then have "log_ok E S d2"
    using assms(2) by (simp add: log_kept_def)
  moreover have d4: "d4 = d2" "failures = []"
    using s(3,4) assms(4) by simp_all
  ultimately have "log_ok E S d'"
    using log_ok_part [OF s(6)] by simp
  moreover have "at_integrity_status (sr_actual res) = ''OK''"
    using s(5) unfolding d4 by (auto simp: compared_def Let_def actual_def rbind_Inr_iff split: if_splits)
  ultimately show ?thesis ..
qed

lemma scenario_tampering:
  assumes "run_scenario E S now dir name r p d = (Inr res, d')" and "log_ok E S d"
    and "scenario_path dir name = Inr (expected, events)" and "tampers expected events"
  obtains "at_integrity_status (sr_actual res) = ''FAILED''"
  | row ct where "first_id events = Inr (re_event_id row)" "tampered ct row \<in> set (db_raw_events d')"
      "mac_collision E (integrity_key S) row (tampered ct row)"
  using assms(1,3)
proof (rule run_scenario_steps)
  fix t d1 d2 d3 failures d4
  assume s: "play_events E S now (the (source_demo_token S)) events \<lparr>ts_accepted = 0, ts_duplicates = 0, ts_items = []\<rparr> d = (Inr t, d1)"
    "rebuild_items E S now (sort (ts_items t)) d1 = (Inr (), d2)"
    "(if tampers expected events then tamper_first S events d2 else (Inr (), d2)) = (Inr (), d3)"
    "(if tampers expected events then verify_integrity E S d3 else (Inr [], d3)) = (Inr failures, d4)"
    "compared name expected t (failures \<noteq> []) d4 = Inr res" "log_part d' = log_part d4"
  have ev: "events \<noteq> []"
    using assms(4) by (simp add: tampers_def)
  have k: "log_kept E S d d1" "log_kept E S d1 d2"
    using play_events_kept [OF s(1)] rebuild_items_kept [OF s(2)] by auto
  then have ok: "log_ok E S d2"
    using assms(2) by (simp add: log_kept_def)
  obtain i where i: "first_id events = Inr i" "i \<in> re_event_id ` set (db_raw_events d1)"
    by (rule first_event_stored [OF s(1) assms(2) ev])
  then have "i \<in> re_event_id ` set (db_raw_events d2)"
    using k(2) by (auto simp: log_kept_def prefix_def)
  then obtain row where row: "find_by re_event_id i (db_raw_events d2) = Some row"
    using find_by_None_iff [of re_event_id i "db_raw_events d2"] by auto
  have t: "tamper S i d2 = (Inr (), d3)"
    using s(3) assms(4) i(1) by (simp add: tamper_first_def)
  then obtain ct where ct: "flip_first_bit (re_payload_ciphertext row) = Some ct"
    using row by (auto simp: tamper_def split: if_splits option.splits)
  have raws: "db_raw_events d3 = update_by re_event_id i (tampered ct) (db_raw_events d2)"
    "db_streams d3 = db_streams d2" "db_ncrs d3 = db_ncrs d2"
    using t row ct by (auto simp: tamper_def split: if_splits)
  have v: "verify_integrity E S d3 = (Inr failures, d4)"
    using s(4) assms(4) by simp
  show thesis
  proof (cases "mac_collision E (integrity_key S) row (tampered ct row)")
    case True
    have "db_raw_events d' = db_raw_events d3"
      using s(6) verify_log [of E S d3] v by (simp add: log_part_def)
    moreover have "tampered ct row \<in> set (db_raw_events d3)"
      using find_by_SomeD [OF row] by (auto simp: raws set_update_by)
    ultimately show thesis
      using that(2) [of row ct] True i(1) find_by_SomeD [OF row] by simp
  next
    case False
    obtain fs d5 where "verify_integrity E S d3 = (Inr fs, d5)" "\<exists>f \<in> set fs. if_stream_id f = re_integrity_stream_id row"
      by (rule alteration_reported [OF ok row ct False raws])
    then have "failures \<noteq> []"
      using v by auto
    then have "at_integrity_status (sr_actual res) = ''FAILED''"
      using s(5) by (auto simp: compared_def Let_def actual_def rbind_Inr_iff split: if_splits)
    then show thesis
      by (rule that(1))
  qed
qed

section \<open>A reset\<close>

lemma reset_log:
  assumes "reset_demo S r p d = (Inr (), d')"
  shows "log_ok E S d'" and "db_raw_events d' = []" and "db_users d' = db_users d" and "db_sources d' = db_sources d"
proof -
  have "log_part d' = log_part empty_db"
    using assms by (auto simp: reset_demo_def truncate_tables_def write_audit_def log_part_def empty_db_def split: if_splits)
  then show "log_ok E S d'"
    by (rule log_ok_empty)
qed (use assms in \<open>auto simp: reset_demo_def truncate_tables_def write_audit_def split: if_splits\<close>)

text \<open>An expectation without one of the keys the run knows about is met by whatever was played.\<close>

lemma unchecked_scenario_passes:
  assumes "\<forall>k \<in> {''duplicate_count'', ''ncr_count'', ''latest_analysis_status'', ''verdict'', ''integrity_status'',
      ''min_analysis_versions'', ''evidence_types''}. map_of expected k = None"
  shows "checks expected a = Inr []"
  using assms by (simp add: checks_def actual_values_def)

end
