(* ===== verification/TQ_Sample_Views.thy ===== *)
theory TQ_Sample_Views
  imports TQ_Sample_Admin TQ_Readers TQ_Analytics TQ_Integrations TQ_App TQ_Seed TQ_Trust_Facts TQ_Demo_Facts
begin

text \<open>
  Concrete inputs for the readers, the key figures, the synchronisation and the application: an item
  with one inspection, two finished runs, a job of the ERP, and an inspector without the right to
  manage users.
\<close>

section \<open>An item with one inspection\<close>

definition sample_item_row :: Item where
  "sample_item_row = \<lparr>it_item_id = ''it'', it_product_definition_id = ''PD'', it_revision = ''A'', it_line_id = None,
     it_route_revision_id = None, it_status = IN_PROCESS, it_structure_status = ''degraded'',
     it_registered_at = 1, it_updated_at = 1\<rparr>"

definition sample_view_db :: db where
  "sample_view_db = sample_db\<lparr>db_raw_events := [sample_raw ''e1'' 10 2 1], db_items := [sample_item_row]\<rparr>"

lemma sample_view_simps [simp]:
  "it_item_id sample_item_row = ''it''" "it_route_revision_id sample_item_row = None"
  "db_raw_events sample_view_db = [sample_raw ''e1'' 10 2 1]" "db_items sample_view_db = [sample_item_row]"
  "db_policies sample_view_db = []" "db_runs sample_view_db = []" "db_invalidations sample_view_db = []"
  by (simp_all add: sample_view_db_def sample_item_row_def sample_db_def empty_db_def)

lemma sample_view_raws: "item_raws ''it'' (db_raw_events sample_view_db) = [sample_raw ''e1'' 10 2 1]"
  by (simp add: item_raws_def)

lemma sample_viewed:
  obtains d' where "rebuild_item (sample_env sample_docs) sample_settings 99 ''it'' sample_view_db = (Inr (), d')"
    "find_by it_item_id ''it'' (db_items d') \<noteq> None"
proof -
  let ?E = "sample_env sample_docs" and ?raw = "sample_raw ''e1'' 10 2 1"
  have "observe sample_view_db ?raw good_payload = good_obs"
    by (simp add: observe_def trust_policy_def default_policy_def Let_def evaluate_trust_def trust_failures_def
        good_payload_def device_invalidated_def has_id_def good_obs_def)
  moreover have "mark_conflicts [good_obs] = [good_obs]"
    by (simp add: mark_conflicts_def conflicting_def)
  ultimately have rep: "replay ?E sample_settings sample_view_db [?raw] = Inr (no_values\<lparr>iv_observations := [good_obs]\<rparr>)"
    by (simp add: replay_def sample_open Let_def no_values_def)
  have raws: "item_raws ''it'' [?raw] = [?raw]"
    by (simp add: item_raws_def)
  have good: "in_defects (ov_payload good_obs) = []" "in_inspection_result (ov_payload good_obs) = No_defect"
    by (simp_all add: good_obs_def good_payload_def)
  have "\<exists>d'. rebuild_item ?E sample_settings 99 ''it'' sample_view_db = (Inr (), d') \<and>
      find_by it_item_id ''it'' (db_items d') \<noteq> None"
    by (simp add: rebuild_item_def raws rebuild_from_def rep store_rows_def no_values_def Let_def detected_def
        defects_of_def good missing_check_limitations_def project_item_def clear_item_def touch_projection_def
        split: prod.split)
  then show thesis
    using that by blast
qed

section \<open>Two runs\<close>

definition sample_kpi_db :: db where
  "sample_kpi_db = empty_db\<lparr>db_runs :=
     [sample_run\<lparr>or_duration_value := Some 2, or_duration_unit := Some Unit_min\<rparr>,
      sample_run\<lparr>or_duration_value := Some 60, or_duration_unit := Some Unit_s\<rparr>]\<rparr>"

lemma sample_durations: "run_durations sample_kpi_db = [60, 120]"
  by (simp add: run_durations_def sample_kpi_db_def)

end
