(* ===== verification/TQ_Api.thy ===== *)
theory TQ_Api
  imports TQ_App
begin

text \<open>
  The backend as a client sees it: the session endpoints of \<^verbatim>\<open>backend/app/api/auth.py\<close> with the bodies
  they read, the JSON they answer with, and the JSON the exception handlers of \<^verbatim>\<open>backend/app/main.py\<close>
  answer with. The endpoints behind a permission are an argument: for a call, the permission it asks
  for and its handler.
\<close>

section \<open>Calls and replies\<close>

record http_call =
  hc_method :: string
  hc_path :: string
  hc_params :: "json option"
  hc_json :: "json option"
  hc_token :: "string option"

text \<open>The body of a reply is None when it is not JSON.\<close>

record http_reply =
  hr_status :: nat
  hr_body :: "json option"

definition error_json :: "error_response \<Rightarrow> json" where
  "error_json er = JObj [(''error'', JObj [(''code'', JStr (er_code er)), (''message'', JStr (er_message er)),
     (''request_id'', js_opt JStr (er_request_id er))])]"

definition reply_of :: "error_response + json \<Rightarrow> http_reply" where
  "reply_of out = (case out of
     Inl er \<Rightarrow> \<lparr>hr_status = er_status er, hr_body = Some (error_json er)\<rparr>
   | Inr v \<Rightarrow> \<lparr>hr_status = 200, hr_body = Some v\<rparr>)"

section \<open>Bodies\<close>

text \<open>A text field of a request model with its bounds on the length; other fields are ignored.\<close>

definition text_field :: "string \<Rightarrow> nat \<Rightarrow> nat \<Rightarrow> json option \<Rightarrow> string option" where
  "text_field key shortest longest body = (case body of
     Some (JObj kvs) \<Rightarrow>
       (case map_of kvs key of
          Some (JStr s) \<Rightarrow> if shortest \<le> py_len s \<and> py_len s \<le> longest then Some s else None
        | _ \<Rightarrow> None)
   | _ \<Rightarrow> None)"

definition LoginRequest :: "json option \<Rightarrow> (string \<times> string) option" where
  "LoginRequest body = (case (text_field ''username'' 1 96 body, text_field ''password'' 1 512 body) of
     (Some u, Some p) \<Rightarrow> Some (u, p) | _ \<Rightarrow> None)"

definition TokenRequest :: "json option \<Rightarrow> string option" where
  "TokenRequest body = text_field ''refresh_token'' 32 512 body"

definition token_json :: "TokenResponse \<Rightarrow> json" where
  "token_json tr = JObj [(''access_token'', JStr (tr_access_token tr)), (''refresh_token'', JStr (tr_refresh_token tr)),
     (''token_type'', JStr ''bearer''), (''expires_in'', JInt (tr_expires_in tr))]"

definition me :: "Principal \<Rightarrow> json" where
  "me p = JObj [(''user_id'', JStr (pr_user_id p)), (''username'', JStr (pr_username p)),
     (''roles'', JArr (map JStr (pr_roles p))), (''permissions'', JArr (map JStr (sort (pr_permissions p)))),
     (''session_id'', JStr (pr_session_id p))]"

section \<open>The endpoints\<close>

definition credentials_of :: "http_call \<Rightarrow> (string \<times> string) option" where
  "credentials_of c = (case hc_token c of
     None \<Rightarrow> None | Some t \<Rightarrow> if t = [] then None else Some (''Bearer'', t))"

definition invalid_body :: "string \<Rightarrow> error_response" where
  "invalid_body rid = \<lparr>er_status = 422, er_code = ''REQUEST_VALIDATION_ERROR'',
     er_message = ''Request validation failed'', er_request_id = Some rid\<rparr>"

text \<open>An endpoint without a gate: its body is read, and what it raises becomes the reply.\<close>

definition open_endpoint ::
  "env \<Rightarrow> http_call \<Rightarrow> 'b option \<Rightarrow> ('b \<Rightarrow> string \<Rightarrow> db \<Rightarrow> json result \<times> db) \<Rightarrow> db \<Rightarrow> http_reply \<times> db" where
  "open_endpoint E c body handler d =
     (let rid = request_id E d None in
      case body of
        None \<Rightarrow> (reply_of (Inl (invalid_body rid)), d)
      | Some b \<Rightarrow>
          (case respond \<lparr>rq_path = hc_path c, rq_request_id = Some rid, rq_principal = None\<rparr> (handler b rid d) of
             (out, d') \<Rightarrow> (reply_of out, d')))"

definition json_result :: "('a \<Rightarrow> json) \<Rightarrow> 'a result \<times> db \<Rightarrow> json result \<times> db" where
  "json_result f out = (map_sum id f (fst out), snd out)"

definition gated_endpoint ::
  "env \<Rightarrow> time \<Rightarrow> http_call \<Rightarrow> ((string \<times> string) option \<Rightarrow> db \<Rightarrow> Principal result) \<Rightarrow>
    (string \<Rightarrow> Principal \<Rightarrow> db \<Rightarrow> json result \<times> db) \<Rightarrow> db \<Rightarrow> http_reply \<times> db" where
  "gated_endpoint E now c check handler d =
     (case serve E now (credentials_of c) (hc_path c) None (check (credentials_of c)) handler d of
        (out, d') \<Rightarrow> (reply_of out, d'))"

type_synonym endpoints = "http_call \<Rightarrow> (((string \<times> string) option \<Rightarrow> db \<Rightarrow> Principal result) \<times>
  (string \<Rightarrow> Principal \<Rightarrow> db \<Rightarrow> json result \<times> db)) option"

definition auth_paths :: "string list" where
  "auth_paths = [''/api/v1/auth/login'', ''/api/v1/auth/refresh'', ''/api/v1/auth/logout'', ''/api/v1/auth/me'']"

definition api :: "env \<Rightarrow> Settings \<Rightarrow> time \<Rightarrow> endpoints \<Rightarrow> http_call \<Rightarrow> db \<Rightarrow> http_reply \<times> db" where
  "api E S now other c d =
     (if hc_method c = ''POST'' \<and> hc_path c = ''/api/v1/auth/login'' then
        open_endpoint E c (LoginRequest (hc_json c))
          (\<lambda>(u, p) rid d. json_result token_json (login E S now u p (Some rid) d)) d
      else if hc_method c = ''POST'' \<and> hc_path c = ''/api/v1/auth/refresh'' then
        open_endpoint E c (TokenRequest (hc_json c))
          (\<lambda>t rid d. json_result token_json (refresh E S now t (Some rid) d)) d
      else if hc_method c = ''POST'' \<and> hc_path c = ''/api/v1/auth/logout'' then
        open_endpoint E c (TokenRequest (hc_json c))
          (\<lambda>t rid d. json_result (\<lambda>_. JObj [(''status'', JStr ''logged_out'')]) (logout E now t (Some rid) d)) d
      else if hc_method c = ''GET'' \<and> hc_path c = ''/api/v1/auth/me'' then
        gated_endpoint E now c (current_principal E now) (\<lambda>rid p d. (Inr (me p), d)) d
      else if hc_path c \<in> set auth_paths then
        (\<lparr>hr_status = 405, hr_body = Some (JObj [(''detail'', JStr ''Method Not Allowed'')])\<rparr>, d)
      else
        (case other (c\<lparr>hc_token := None\<rparr>) of
           Some (check, handler) \<Rightarrow> gated_endpoint E now c check handler d
         | None \<Rightarrow> (\<lparr>hr_status = 404, hr_body = Some (JObj [(''detail'', JStr ''Not Found'')])\<rparr>, d)))"

section \<open>When a reply is 401\<close>

text \<open>A gate that lets nobody in without a principal, and turns a principal away with another status.\<close>

definition asks_principal :: "env \<Rightarrow> time \<Rightarrow> ((string \<times> string) option \<Rightarrow> db \<Rightarrow> Principal result) \<Rightarrow> bool" where
  "asks_principal E now check \<longleftrightarrow> (\<forall>cr d.
     (case current_principal E now cr d of
        Inl e \<Rightarrow> check cr d = Inl e
      | Inr p \<Rightarrow> check cr d = Inr p \<or> (\<exists>c m s. check cr d = Inl (TraceQError c m s) \<and> s \<noteq> 401)))"

lemma principal_asked: "asks_principal E now (current_principal E now)"
  by (auto simp: asks_principal_def split: sum.splits)

lemma permission_asked: "asks_principal E now (\<lambda>cr. permission_gate E now cr perm)"
  by (auto simp: asks_principal_def permission_gate_def require_permission_def permission_required_def
      ForbiddenError_def split: sum.splits)

lemma critical_asked: "asks_principal E now (\<lambda>cr. critical_gate E now cr perm)"
proof -
  have "\<exists>s. find_by se_id (pr_session_id p) (db_sessions d) = Some s \<and> live_session now s"
    if "current_principal E now cr d = Inr p" for cr d p
    using current_principal_authentic [OF that] by (auto simp: authentic_def)
  then show ?thesis
    by (fastforce simp: asks_principal_def critical_gate_def require_critical_permission_def permission_required_def
        ForbiddenError_def split: sum.splits)
qed

lemma refused_principal: "current_principal E now cr d = Inl e \<Longrightarrow> \<exists>c m. e = TraceQError c m 401 \<and> c \<notin> set denials"
  by (auto simp: current_principal_def invalid_token_def denials_def split: option.splits if_splits)

lemma gated_reply_401:
  assumes "asks_principal E now check"
  shows "current_principal E now (credentials_of c) d = Inl e \<Longrightarrow>
      \<exists>r. gated_endpoint E now c check handler d = (r, d) \<and> hr_status r = 401"
    and "current_principal E now (credentials_of c) d = Inr p \<Longrightarrow>
      (\<And>m n. fst (handler (request_id E d None) p d) \<noteq> Inl (TraceQError m n 401)) \<Longrightarrow>
      hr_status (fst (gated_endpoint E now c check handler d)) \<noteq> 401"
proof -
  assume e: "current_principal E now (credentials_of c) d = Inl e"
  then obtain k m where k: "e = TraceQError k m 401" "k \<notin> set denials"
    using refused_principal by blast
  have "check (credentials_of c) d = Inl e"
    using assms e by (auto simp: asks_principal_def dest: spec split: sum.splits)
  then show "\<exists>r. gated_endpoint E now c check handler d = (r, d) \<and> hr_status r = 401"
    using k by (auto simp: gated_endpoint_def serve_def gated_def respond_def error_handler_def reply_of_def Let_def)
next
  assume p: "current_principal E now (credentials_of c) d = Inr p"
    and h: "\<And>m n. fst (handler (request_id E d None) p d) \<noteq> Inl (TraceQError m n 401)"
  have "check (credentials_of c) d = Inr p \<or>
      (\<exists>k m s. check (credentials_of c) d = Inl (TraceQError k m s) \<and> s \<noteq> 401)"
    using assms p by (auto simp: asks_principal_def dest: spec [where x = "credentials_of c"] split: sum.splits)
  then show "hr_status (fst (gated_endpoint E now c check handler d)) \<noteq> 401"
  proof (elim disjE exE conjE)
    assume c: "check (credentials_of c) d = Inr p"
    obtain res d' where "handler (request_id E d None) p d = (res, d')"
      by (metis surj_pair)
    with c p h show ?thesis
      by (cases res) (auto simp: gated_endpoint_def serve_def gated_def respond_def error_handler_def reply_of_def
          Let_def split: exn.splits)
  next
    fix k m s
    assume "check (credentials_of c) d = Inl (TraceQError k m s)" "s \<noteq> 401"
    then show ?thesis
      by (simp add: gated_endpoint_def serve_def gated_def respond_def error_handler_def reply_of_def Let_def)
  qed
qed

end
