(* ===== verification/TQ_Client.thy ===== *)
theory TQ_Client
  imports TQ_Api TQ_Ingestion
begin

text \<open>
  The client of the operators' pages (\<^verbatim>\<open>streamlit_app/api_client/client.py\<close>): the session it keeps
  in \<open>st.session_state\<close>, the requests it sends with the access token, and the renewal of that token
  when the backend answers 401. The other side of the network is an argument: a function from a call and
  its own state to the reply it gives, None when the request does not get through. The locale
  \<open>renewing\<close> is what the client asks of the backend; the backend of TQ_Api provides it.
\<close>

section \<open>Replies and errors\<close>

type_synonym 's backend = "http_call \<Rightarrow> 's \<Rightarrow> http_reply option \<times> 's"

text \<open>What a request of the client may raise: \<open>APIError\<close>, or an exception nothing turns into one.\<close>

datatype client_error =
    APIError nat json json
  | Client_exception string

record browser =
  ss_auth :: "json option"
  ss_profile :: "json option"

type_synonym ('s, 'r) attempt = "browser \<times> 's \<Rightarrow> (client_error + 'r) \<times> (browser \<times> 's)"

definition is_success :: "http_reply \<Rightarrow> bool" where
  "is_success r \<longleftrightarrow> 200 \<le> hr_status r \<and> hr_status r < 300"

text \<open>\<open>value[key]\<close> for a text key.\<close>

definition subscript :: "json \<Rightarrow> string \<Rightarrow> client_error + json" where
  "subscript v key = (case v of
     JObj kvs \<Rightarrow> (case map_of kvs key of None \<Rightarrow> Inl (Client_exception ''KeyError'') | Some x \<Rightarrow> Inr x)
   | _ \<Rightarrow> Inl (Client_exception ''TypeError''))"

definition unreadable :: "nat \<Rightarrow> client_error" where
  "unreadable status = APIError status (JStr ''API_ERROR'') (JStr ''Backend request failed'')"

text \<open>\<open>error.get(key, default)\<close>; a key that is present counts, whatever it holds.\<close>

definition get_or :: "string \<Rightarrow> string \<Rightarrow> (string \<times> json) list \<Rightarrow> json" where
  "get_or key otherwise kvs = (case map_of kvs key of None \<Rightarrow> JStr otherwise | Some x \<Rightarrow> x)"

definition parse :: "http_reply \<Rightarrow> client_error + json" where
  "parse r =
     (if is_success r then
        if hr_status r = 204 then Inr JNull
        else (case hr_body r of None \<Rightarrow> Inl (Client_exception ''JSONDecodeError'') | Some v \<Rightarrow> Inr v)
      else
        (case hr_body r of
           None \<Rightarrow> Inl (unreadable (hr_status r))
         | Some v \<Rightarrow>
             (case subscript v ''error'' of
                Inl e \<Rightarrow> Inl (unreadable (hr_status r))
              | Inr (JObj e) \<Rightarrow> Inl (APIError (hr_status r) (get_or ''code'' ''API_ERROR'' e) (get_or ''message'' ''API error'' e))
              | Inr _ \<Rightarrow> Inl (Client_exception ''AttributeError''))))"

section \<open>The session\<close>

definition clear_session :: "browser \<Rightarrow> browser" where
  "clear_session b = b\<lparr>ss_auth := None, ss_profile := None\<rparr>"

definition signed_in :: "browser \<Rightarrow> json option" where
  "signed_in b = (case ss_auth b of Some a \<Rightarrow> if truthy a then Some a else None | None \<Rightarrow> None)"

definition bearer :: "env \<Rightarrow> browser \<Rightarrow> client_error + string option" where
  "bearer E b = (case signed_in b of
     None \<Rightarrow> Inr None
   | Some a \<Rightarrow> (case subscript a ''access_token'' of Inl e \<Rightarrow> Inl e | Inr v \<Rightarrow> Inr (Some (py_str E v))))"

text \<open>\<open>auth.get("refresh_token")\<close> when it is true.\<close>

definition refresh_token :: "browser \<Rightarrow> client_error + json option" where
  "refresh_token b = (case signed_in b of
     None \<Rightarrow> Inr None
   | Some (JObj kvs) \<Rightarrow> Inr (if truthy (dict_get ''refresh_token'' kvs) then Some (dict_get ''refresh_token'' kvs) else None)
   | Some _ \<Rightarrow> Inl (Client_exception ''AttributeError''))"

definition token_call :: "string \<Rightarrow> json \<Rightarrow> http_call" where
  "token_call path token = \<lparr>hc_method = ''POST'', hc_path = path, hc_params = None,
     hc_json = Some (JObj [(''refresh_token'', token)]), hc_token = None\<rparr>"

definition renew :: "'s backend \<Rightarrow> ('s, bool) attempt" where
  "renew B st = (case st of (b, s) \<Rightarrow>
     (case refresh_token b of
        Inl e \<Rightarrow> (Inl e, (b, s))
      | Inr None \<Rightarrow> (Inr False, (b, s))
      | Inr (Some token) \<Rightarrow>
          (case B (token_call ''/api/v1/auth/refresh'' token) s of
             (None, s') \<Rightarrow> (Inl (Client_exception ''RequestError''), (b, s'))
           | (Some r, s') \<Rightarrow>
               if \<not> is_success r then (Inr False, (clear_session b, s'))
               else (case hr_body r of
                  None \<Rightarrow> (Inl (Client_exception ''JSONDecodeError''), (b, s'))
                | Some v \<Rightarrow> (Inr True, (b\<lparr>ss_auth := Some v\<rparr>, s'))))))"

definition send :: "env \<Rightarrow> 's backend \<Rightarrow> http_call \<Rightarrow> ('s, http_reply) attempt" where
  "send E B c st = (case st of (b, s) \<Rightarrow>
     (case bearer E b of
        Inl e \<Rightarrow> (Inl e, (b, s))
      | Inr token \<Rightarrow>
          (case B (c\<lparr>hc_token := token\<rparr>) s of
             (None, s') \<Rightarrow> (Inl (APIError 503 (JStr ''BACKEND_UNAVAILABLE'') (JStr ''TRACE-Q backend is unavailable'')), (b, s'))
           | (Some r, s') \<Rightarrow> (Inr r, (b, s')))))"

text \<open>What remains when the reply is not retried.\<close>

definition take_reply :: "http_reply \<Rightarrow> ('s, json) attempt" where
  "take_reply r st = (case st of (b, s) \<Rightarrow>
     (parse r, (if hr_status r = 401 then clear_session b else b, s)))"

function (sequential) request :: "env \<Rightarrow> 's backend \<Rightarrow> bool \<Rightarrow> http_call \<Rightarrow> ('s, json) attempt" where
  "request E B retry_refresh c st =
     (case send E B c st of
        (Inl e, st1) \<Rightarrow> (Inl e, st1)
      | (Inr r, st1) \<Rightarrow>
          if hr_status r = 401 \<and> retry_refresh then
            (case renew B st1 of
               (Inl e, st2) \<Rightarrow> (Inl e, st2)
             | (Inr True, st2) \<Rightarrow> request E B False c st2
             | (Inr False, st2) \<Rightarrow> take_reply r st2)
          else take_reply r st1)"
  by pat_completeness auto
termination
  by (relation "measure (\<lambda>(E, B, retry_refresh, c, st). if retry_refresh then 1 else 0)") auto

declare request.simps [simp del]

definition login_call :: "string \<Rightarrow> string \<Rightarrow> http_call" where
  "login_call username password = \<lparr>hc_method = ''POST'', hc_path = ''/api/v1/auth/login'', hc_params = None,
     hc_json = Some (JObj [(''username'', JStr username), (''password'', JStr password)]), hc_token = None\<rparr>"

definition me_call :: http_call where
  "me_call = \<lparr>hc_method = ''GET'', hc_path = ''/api/v1/auth/me'', hc_params = None, hc_json = None, hc_token = None\<rparr>"

definition sign_in :: "env \<Rightarrow> 's backend \<Rightarrow> string \<Rightarrow> string \<Rightarrow> ('s, json) attempt" where
  "sign_in E B username password st = (case st of (b, s) \<Rightarrow>
     (case B (login_call username password) s of
        (None, s') \<Rightarrow> (Inl (Client_exception ''RequestError''), (b, s'))
      | (Some r, s') \<Rightarrow>
          (case parse r of
             Inl e \<Rightarrow> (Inl e, (b, s'))
           | Inr tokens \<Rightarrow>
               (case request E B False me_call (b\<lparr>ss_auth := Some tokens\<rparr>, s') of
                  (Inl e, st2) \<Rightarrow> (Inl e, st2)
                | (Inr profile, (b2, s2)) \<Rightarrow> (Inr profile, (b2\<lparr>ss_profile := Some profile\<rparr>, s2))))))"

definition sign_out :: "env \<Rightarrow> 's backend \<Rightarrow> ('s, unit) attempt" where
  "sign_out E B st =
     (case refresh_token (fst st) of
        Inl e \<Rightarrow> (Inl e, st)
      | Inr None \<Rightarrow> (Inr (), (clear_session (fst st), snd st))
      | Inr (Some token) \<Rightarrow>
          (case request E B False (token_call ''/api/v1/auth/logout'' token) st of
             (Inl (Client_exception n), st') \<Rightarrow> (Inl (Client_exception n), st')
           | (_, (b, s)) \<Rightarrow> (Inr (), (clear_session b, s))))"

section \<open>How the client uses the backend\<close>

text \<open>The calls are counted beside the backend's own state.\<close>

definition counting :: "'s backend \<Rightarrow> (nat \<times> 's) backend" where
  "counting B c ns = (case B c (snd ns) of (r, s) \<Rightarrow> (r, (Suc (fst ns), s)))"

lemma send_count: "fst (snd (snd (send E (counting B) c (b, n, s)))) \<le> Suc n"
  by (auto simp: send_def counting_def split: sum.splits option.splits prod.splits)

lemma renew_count: "fst (snd (snd (renew (counting B) (b, n, s)))) \<le> Suc n"
  by (auto simp: renew_def counting_def split: sum.splits option.splits prod.splits)

lemma request_once: "request E B False c st =
    (case send E B c st of (Inl e, st1) \<Rightarrow> (Inl e, st1) | (Inr r, st1) \<Rightarrow> take_reply r st1)"
  by (simp add: request.simps split: sum.splits prod.splits)

lemma take_reply_state: "snd (snd (take_reply r st)) = snd st"
  by (simp add: take_reply_def split: prod.splits)

lemma count_once: "fst (snd (snd (request E (counting B) False c (b, n, s)))) \<le> Suc n"
  using send_count [of E B c b n s]
  by (auto simp: request_once take_reply_state split: sum.splits prod.splits)

lemma request_count: "fst (snd (snd (request E (counting B) retry c (b, n, s)))) \<le> n + 3"
proof -
  obtain r b1 n1 s1 where s1: "send E (counting B) c (b, n, s) = (r, b1, n1, s1)"
    by (metis prod_cases4)
  obtain r2 b2 n2 s2 where s2: "renew (counting B) (b1, n1, s1) = (r2, b2, n2, s2)"
    by (metis prod_cases4)
  have n: "n1 \<le> Suc n" "n2 \<le> Suc n1"
    using send_count [of E B c b n s] renew_count [of B b1 n1 s1] by (simp_all add: s1 s2)
  with count_once [of E B c b2 n2 s2] show ?thesis
    by (subst request.simps) (auto simp: s1 s2 take_reply_state split: sum.splits bool.splits)
qed

text \<open>Whoever is told 401 is signed out.\<close>

lemma parse_status: "parse r = Inl (APIError n c m) \<Longrightarrow> n = hr_status r"
  by (auto simp: parse_def unreadable_def split: if_splits option.splits sum.splits json.splits)

lemma take_reply_401:
  "take_reply r st = (Inl (APIError 401 c m), st') \<Longrightarrow> ss_auth (fst st') = None \<and> ss_profile (fst st') = None"
  by (auto simp: take_reply_def clear_session_def split: prod.splits if_splits dest: parse_status)

lemma send_not_401: "send E B c st \<noteq> (Inl (APIError 401 code m), st')"
  by (auto simp: send_def bearer_def signed_in_def subscript_def
      split: prod.splits sum.splits option.splits json.splits if_splits)

lemma renew_not_401: "renew B st \<noteq> (Inl (APIError 401 code m), st')"
  by (auto simp: renew_def refresh_token_def signed_in_def
      split: prod.splits sum.splits option.splits json.splits if_splits)

lemma request_401:
  "request E B retry c st = (Inl (APIError 401 code m), st') \<Longrightarrow>
     ss_auth (fst st') = None \<and> ss_profile (fst st') = None"
proof (induction E B retry c st rule: request.induct)
  case (1 E B retry c st)
  then show ?case
    by (subst (asm) (2) request.simps)
      (auto simp: send_not_401 renew_not_401 split: prod.splits sum.splits if_splits bool.splits dest: take_reply_401)
qed

section \<open>A session that goes on\<close>

text \<open>The pair of tokens the browser holds.\<close>

definition holds :: "browser \<Rightarrow> string \<Rightarrow> string \<Rightarrow> bool" where
  "holds b a t \<longleftrightarrow> t \<noteq> [] \<and> (\<exists>kvs. ss_auth b = Some (JObj kvs) \<and>
     map_of kvs ''access_token'' = Some (JStr a) \<and> map_of kvs ''refresh_token'' = Some (JStr t))"

lemma holds_tokens:
  assumes "holds b a t"
  shows "bearer E b = Inr (Some a)" and "refresh_token b = Inr (Some (JStr t))"
  using assms by (auto simp: holds_def bearer_def refresh_token_def signed_in_def subscript_def dict_get_def py_str.simps)

text \<open>
  What the client asks of the backend: a refresh token in force is answered with a new pair, whose
  access token it then accepts and whose refresh token is in force; a call is answered 401 exactly when
  it does not accept the token, and then nothing happens.
\<close>

locale renewing =
  fixes B :: "'s backend" and in_force :: "'s \<Rightarrow> string \<Rightarrow> bool" and ready_to_renew :: "'s \<Rightarrow> bool"
    and accepts :: "'s \<Rightarrow> string \<Rightarrow> bool" and calls :: "http_call set"
  assumes renews: "in_force s t \<Longrightarrow> ready_to_renew s \<Longrightarrow>
      \<exists>a t' kvs s'. B (token_call ''/api/v1/auth/refresh'' (JStr t)) s =
          (Some \<lparr>hr_status = 200, hr_body = Some (JObj kvs)\<rparr>, s') \<and>
        map_of kvs ''access_token'' = Some (JStr a) \<and> map_of kvs ''refresh_token'' = Some (JStr t') \<and>
        t' \<noteq> [] \<and> accepts s' a \<and> in_force s' t'"
    and accepted: "accepts s a \<Longrightarrow> c \<in> calls \<Longrightarrow>
      \<exists>r s'. B (c\<lparr>hc_token := Some a\<rparr>) s = (Some r, s') \<and> hr_status r \<noteq> 401"
    and refused: "\<not> accepts s a \<Longrightarrow> c \<in> calls \<Longrightarrow>
      \<exists>r. B (c\<lparr>hc_token := Some a\<rparr>) s = (Some r, s) \<and> hr_status r = 401"
begin

lemma send_held: "holds b a t \<Longrightarrow> B (c\<lparr>hc_token := Some a\<rparr>) s = (Some r, s') \<Longrightarrow> send E B c (b, s) = (Inr r, (b, s'))"
  by (simp add: send_def holds_tokens)

lemma renew_held:
  assumes "holds b a t" "in_force s t" "ready_to_renew s"
  shows "\<exists>b' a' t' s'. renew B (b, s) = (Inr True, (b', s')) \<and> holds b' a' t' \<and> accepts s' a' \<and> in_force s' t' \<and>
    ss_profile b' = ss_profile b"
proof -
  from renews [OF assms(2,3)] obtain a' t' kvs s' where r: "B (token_call ''/api/v1/auth/refresh'' (JStr t)) s =
      (Some \<lparr>hr_status = 200, hr_body = Some (JObj kvs)\<rparr>, s')"
    "map_of kvs ''access_token'' = Some (JStr a')" "map_of kvs ''refresh_token'' = Some (JStr t')" "t' \<noteq> []"
    "accepts s' a'" "in_force s' t'"
    by blast
  then have "renew B (b, s) = (Inr True, (b\<lparr>ss_auth := Some (JObj kvs)\<rparr>, s'))"
    by (simp add: renew_def holds_tokens [OF assms(1)] is_success_def)
  with r show ?thesis
    by (auto simp: holds_def)
qed

lemma request_goes_through:
  assumes "holds b a t" and "c \<in> calls" and "accepts s a \<or> in_force s t \<and> ready_to_renew s"
  shows "\<exists>a' t' s0 r s' b'. holds b' a' t' \<and> accepts s0 a' \<and> (\<not> accepts s a \<longrightarrow> in_force s0 t') \<and>
    B (c\<lparr>hc_token := Some a'\<rparr>) s0 = (Some r, s') \<and> hr_status r \<noteq> 401 \<and>
    request E B True c (b, s) = (parse r, (b', s')) \<and> ss_profile b' = ss_profile b"
proof (cases "accepts s a")
  case True
  from accepted [OF True assms(2)] obtain r s' where "B (c\<lparr>hc_token := Some a\<rparr>) s = (Some r, s')" "hr_status r \<noteq> 401"
    by blast
  with assms(1) True show ?thesis
    by (intro exI [of _ a] exI [of _ t] exI [of _ s] exI [of _ r] exI [of _ s'] exI [of _ b])
      (simp add: request.simps send_held take_reply_def)
next
  case False
  from refused [OF False assms(2)] obtain r0 where r0: "B (c\<lparr>hc_token := Some a\<rparr>) s = (Some r0, s)" "hr_status r0 = 401"
    by blast
  from renew_held [OF assms(1)] False assms(3) obtain b' a' t' s0
    where n: "renew B (b, s) = (Inr True, (b', s0))" "holds b' a' t'" "accepts s0 a'" "in_force s0 t'"
      "ss_profile b' = ss_profile b"
    by blast
  from accepted [OF n(3) assms(2)] obtain r s' where r: "B (c\<lparr>hc_token := Some a'\<rparr>) s0 = (Some r, s')" "hr_status r \<noteq> 401"
    by blast
  have "request E B True c (b, s) = request E B False c (b', s0)"
    by (subst request.simps) (simp add: send_held [OF assms(1) r0(1)] r0(2) n(1))
  also have "\<dots> = (parse r, (b', s'))"
    by (simp add: request_once send_held [OF n(2) r(1)] take_reply_def r(2))
  finally show ?thesis
    using n r by (intro exI [of _ a'] exI [of _ t'] exI [of _ s0] exI [of _ r] exI [of _ s'] exI [of _ b']) simp
qed

end

section \<open>The backend renews sessions\<close>

definition backend_of :: "env \<Rightarrow> Settings \<Rightarrow> time \<Rightarrow> endpoints \<Rightarrow> db backend" where
  "backend_of E S now other c d = (case api E S now other c d of (r, d') \<Rightarrow> (Some r, d'))"

definition lets_in :: "env \<Rightarrow> time \<Rightarrow> db \<Rightarrow> string \<Rightarrow> bool" where
  "lets_in E now d a \<longleftrightarrow> a \<noteq> [] \<and> (\<exists>p. current_principal E now (Some (''Bearer'', a)) d = Inr p)"

text \<open>A refresh token in force: its row is not revoked or expired, its user is enabled, and its session
  is the user's and not revoked.\<close>

definition token_in_force :: "env \<Rightarrow> time \<Rightarrow> db \<Rightarrow> string \<Rightarrow> bool" where
  "token_in_force E now d t \<longleftrightarrow> 32 \<le> py_len t \<and> py_len t \<le> 512 \<and>
     (\<exists>row user session. find_by rt_token_hash (token_hash E t) (db_refresh_tokens d) = Some row \<and>
        rt_revoked_at row = None \<and> now < rt_expires_at row \<and>
        find_by us_id (rt_user_id row) (db_users d) = Some user \<and> us_enabled user \<and>
        find_by se_id (rt_session_id row) (db_sessions d) = Some session \<and>
        se_user_id session = us_id user \<and> se_revoked_at session = None)"

text \<open>
  The tokens are made to last, the next random token and identifier are new, the token is 32 to 512
  characters long, and the tokens of the library are read back for the users and sessions of the tables.
\<close>

definition can_renew :: "env \<Rightarrow> Settings \<Rightarrow> time \<Rightarrow> db \<Rightarrow> bool" where
  "can_renew E S now d \<longleftrightarrow>
     0 < access_token_ttl_minutes S \<and> 0 < refresh_token_ttl_hours S \<and>
     (let raw = token_urlsafe E (db_uuid_draws d) in
        32 \<le> py_len raw \<and> py_len raw \<le> 512 \<and> token_hash E raw \<notin> rt_token_hash ` set (db_refresh_tokens d)) \<and>
     uuid4 E (Suc (db_uuid_draws d)) \<notin> rt_id ` set (db_refresh_tokens d) \<and>
     (\<forall>u \<in> set (db_users d). \<forall>s \<in> set (db_sessions d).
        (let token = jwt_encode E (us_username u) (us_id u) (se_id s) now (now + minutes (access_token_ttl_minutes S)) in
           token \<noteq> [] \<and> token_claims E now token = Some (us_id u, se_id s)))"

lemma refresh_of_force:
  assumes f: "token_in_force E now d t" and c: "can_renew E S now d"
  shows "\<exists>resp d'. refresh E S now t rid d = (Inr resp, d') \<and> tr_refresh_token resp \<noteq> [] \<and>
    lets_in E now d' (tr_access_token resp) \<and> token_in_force E now d' (tr_refresh_token resp)"
proof -
  from f obtain row user session where r: "find_by rt_token_hash (token_hash E t) (db_refresh_tokens d) = Some row"
    "rt_revoked_at row = None" "now < rt_expires_at row"
    and u: "find_by us_id (rt_user_id row) (db_users d) = Some user" "us_enabled user"
    and s: "find_by se_id (rt_session_id row) (db_sessions d) = Some session" "se_user_id session = us_id user"
      "se_revoked_at session = None"
    by (auto simp: token_in_force_def)
  define raw where "raw = token_urlsafe E (db_uuid_draws d)"
  define access where "access = jwt_encode E (us_username user) (us_id user) (rt_session_id row) now
    (now + minutes (access_token_ttl_minutes S))"
  define expiry where "expiry = now + hours (refresh_token_ttl_hours S)"
  define new where "new = \<lparr>rt_id = uuid4 E (Suc (db_uuid_draws d)), rt_user_id = us_id user,
    rt_session_id = rt_session_id row, rt_token_hash = token_hash E raw, rt_expires_at = expiry,
    rt_revoked_at = None, rt_replaced_by_hash = None\<rparr>"
  obtain resp d' where res: "refresh E S now t rid d = (Inr resp, d')"
    and resp: "tr_access_token resp = access" "tr_refresh_token resp = raw"
    and d': "db_users d' = db_users d" "db_refresh_tokens d' = update_by rt_id (rt_id row)
        (\<lambda>r. r\<lparr>rt_revoked_at := Some now, rt_replaced_by_hash := Some (rt_token_hash new)\<rparr>) (db_refresh_tokens d @ [new])"
      "db_sessions d' = update_by se_id (rt_session_id row) (\<lambda>s. s\<lparr>se_last_authenticated_at := now, se_expires_at := expiry\<rparr>)
        (db_sessions d)"
    using r u s
    by (auto simp: refresh_def token_response_def create_access_token_def Let_def raw_def access_def new_def expiry_def
        new_uuid_def not_le [symmetric])
  have fresh: "token_hash E raw \<notin> rt_token_hash ` set (db_refresh_tokens d)" "rt_id new \<noteq> rt_id row"
    and long: "32 \<le> py_len raw" "py_len raw \<le> 512" and last: "now < expiry"
    using c find_by_SomeD [OF r(1)] by (auto simp: can_renew_def Let_def raw_def new_def expiry_def hours_def)
  have ids: "us_id user = rt_user_id row" "se_id session = rt_session_id row"
    "user \<in> set (db_users d)" "session \<in> set (db_sessions d)"
    using find_by_SomeD [OF u(1)] find_by_SomeD [OF s(1)] by auto
  then have claims: "token_claims E now access = Some (us_id user, rt_session_id row)" "access \<noteq> []"
    using c unfolding can_renew_def Let_def access_def by metis+
  have session: "find_by se_id (rt_session_id row) (db_sessions d') =
      Some (session\<lparr>se_last_authenticated_at := now, se_expires_at := expiry\<rparr>)"
    by (simp add: d' s find_by_update_by)
  have "to_lower ''Bearer'' = ''bearer''"
    by code_simp
  then have "lets_in E now d' access"
    using claims u s last by (simp add: lets_in_def current_principal_def d'(1) session ids(1) live_session_def)
  moreover have "find_by rt_token_hash (token_hash E raw) (db_refresh_tokens d) = None"
    using fresh(1) by (simp add: find_by_None_iff)
  then have "find_by rt_token_hash (token_hash E raw) (db_refresh_tokens d') = Some new"
    using fresh(2) unfolding d'(2) by (subst find_by_update_other) (simp_all add: find_by_append new_def)
  then have "token_in_force E now d' raw"
    using long last u s by (simp add: token_in_force_def d'(1) session ids(1) new_def)
  ultimately show ?thesis
    using res resp long by (auto simp: py_len_def)
qed

text \<open>The calls the session is kept for: \<open>/auth/me\<close>, and every endpoint that asks for a principal and
  does not answer 401 itself.\<close>

definition session_calls :: "env \<Rightarrow> time \<Rightarrow> endpoints \<Rightarrow> http_call set" where
  "session_calls E now other = {c. hc_method c = ''GET'' \<and> hc_path c = ''/api/v1/auth/me''} \<union>
     {c. hc_path c \<notin> set auth_paths \<and> (\<exists>check handler. other (c\<lparr>hc_token := None\<rparr>) = Some (check, handler) \<and>
        asks_principal E now check \<and> (\<forall>rid p d m n. fst (handler rid p d) \<noteq> Inl (TraceQError m n 401)))}"

lemma session_call_gate:
  assumes "c \<in> session_calls E now other"
  obtains check handler where "asks_principal E now check"
    and "\<And>rid p d m n. fst (handler rid p d) \<noteq> Inl (TraceQError m n 401)"
    and "\<And>a d. api E S now other (c\<lparr>hc_token := Some a\<rparr>) d = gated_endpoint E now (c\<lparr>hc_token := Some a\<rparr>) check handler d"
proof (cases "hc_path c = ''/api/v1/auth/me''")
  case True
  then have "hc_method c = ''GET''"
    using assms by (auto simp: session_calls_def auth_paths_def)
  with True show thesis
    by (intro that [OF principal_asked, of "\<lambda>rid p d. (Inr (me p), d)"]) (simp_all add: api_def)
next
  case False
  then obtain check handler where "other (c\<lparr>hc_token := None\<rparr>) = Some (check, handler)" "asks_principal E now check"
    "\<And>rid p d m n. fst (handler rid p d) \<noteq> Inl (TraceQError m n 401)" "hc_path c \<notin> set auth_paths"
    using assms by (auto simp: session_calls_def)
  then show thesis
    by (intro that [of check handler]) (simp_all add: api_def auth_paths_def)
qed

interpretation session: renewing "backend_of E S now other" "token_in_force E now" "can_renew E S now" "lets_in E now"
    "session_calls E now other"
  for E S now other
proof unfold_locales
  fix d t
  assume f: "token_in_force E now d t" and c: "can_renew E S now d"
  obtain resp d' where r: "refresh E S now t (Some (request_id E d None)) d = (Inr resp, d')"
    "tr_refresh_token resp \<noteq> []" "lets_in E now d' (tr_access_token resp)" "token_in_force E now d' (tr_refresh_token resp)"
    using refresh_of_force [OF f c] by blast
  have "TokenRequest (Some (JObj [(''refresh_token'', JStr t)])) = Some t"
    using f by (simp add: TokenRequest_def text_field_def token_in_force_def)
  then have "backend_of E S now other (token_call ''/api/v1/auth/refresh'' (JStr t)) d =
      (Some \<lparr>hr_status = 200, hr_body = Some (token_json resp)\<rparr>, d')"
    by (simp add: backend_of_def api_def token_call_def open_endpoint_def Let_def json_result_def r(1) respond_def reply_of_def)
  with r show "\<exists>a t' kvs s'. backend_of E S now other (token_call ''/api/v1/auth/refresh'' (JStr t)) d =
      (Some \<lparr>hr_status = 200, hr_body = Some (JObj kvs)\<rparr>, s') \<and>
    map_of kvs ''access_token'' = Some (JStr a) \<and> map_of kvs ''refresh_token'' = Some (JStr t') \<and>
    t' \<noteq> [] \<and> lets_in E now s' a \<and> token_in_force E now s' t'"
    by (auto simp: token_json_def)
next
  fix d a c
  assume a: "lets_in E now d a" and c: "c \<in> session_calls E now other"
  obtain check handler where g: "asks_principal E now check" "\<And>rid p d m n. fst (handler rid p d) \<noteq> Inl (TraceQError m n 401)"
    "\<And>a d. api E S now other (c\<lparr>hc_token := Some a\<rparr>) d = gated_endpoint E now (c\<lparr>hc_token := Some a\<rparr>) check handler d"
    by (rule session_call_gate [OF c]) blast
  obtain p where p: "current_principal E now (credentials_of (c\<lparr>hc_token := Some a\<rparr>)) d = Inr p"
    using a by (auto simp: lets_in_def credentials_of_def)
  have "hr_status (fst (gated_endpoint E now (c\<lparr>hc_token := Some a\<rparr>) check handler d)) \<noteq> 401"
    by (rule gated_reply_401(2) [OF g(1) p]) (rule g(2))
  then show "\<exists>r s'. backend_of E S now other (c\<lparr>hc_token := Some a\<rparr>) d = (Some r, s') \<and> hr_status r \<noteq> 401"
    by (auto simp: backend_of_def g(3) split: prod.splits)
next
  fix d a c
  assume a: "\<not> lets_in E now d a" and c: "c \<in> session_calls E now other"
  obtain check handler where g: "asks_principal E now check" "\<And>rid p d m n. fst (handler rid p d) \<noteq> Inl (TraceQError m n 401)"
    "\<And>a d. api E S now other (c\<lparr>hc_token := Some a\<rparr>) d = gated_endpoint E now (c\<lparr>hc_token := Some a\<rparr>) check handler d"
    by (rule session_call_gate [OF c]) blast
  obtain e where "current_principal E now (credentials_of (c\<lparr>hc_token := Some a\<rparr>)) d = Inl e"
    using a by (cases "a = []"; cases "current_principal E now (Some (''Bearer'', a)) d")
      (auto simp: lets_in_def credentials_of_def, simp_all add: current_principal_def)
  from gated_reply_401(1) [OF g(1) this, of handler]
  show "\<exists>r. backend_of E S now other (c\<lparr>hc_token := Some a\<rparr>) d = (Some r, d) \<and> hr_status r = 401"
    by (auto simp: backend_of_def g(3))
qed

section \<open>Signing in\<close>

text \<open>The session that a login opens can be opened: its tokens are made to last, the next random token is
  new and fits a request, and so are the next identifiers.\<close>

definition can_open :: "env \<Rightarrow> Settings \<Rightarrow> time \<Rightarrow> User \<Rightarrow> db \<Rightarrow> bool" where
  "can_open E S now u d \<longleftrightarrow>
     0 < access_token_ttl_minutes S \<and> 0 < refresh_token_ttl_hours S \<and>
     (let raw = token_urlsafe E (Suc (db_uuid_draws d)); session_id = new_uuid E d;
          token = jwt_encode E (us_username u) (us_id u) session_id now (now + minutes (access_token_ttl_minutes S)) in
        32 \<le> py_len raw \<and> py_len raw \<le> 512 \<and> token_hash E raw \<notin> rt_token_hash ` set (db_refresh_tokens d) \<and>
        session_id \<notin> se_id ` set (db_sessions d) \<and> token \<noteq> [] \<and> token_claims E now token = Some (us_id u, session_id))"

text \<open>The tables a login leaves.\<close>

definition login_token :: "env \<Rightarrow> Settings \<Rightarrow> time \<Rightarrow> User \<Rightarrow> db \<Rightarrow> RefreshToken" where
  "login_token E S now u d = \<lparr>rt_id = uuid4 E (Suc (Suc (db_uuid_draws d))), rt_user_id = us_id u,
     rt_session_id = new_uuid E d, rt_token_hash = token_hash E (token_urlsafe E (Suc (db_uuid_draws d))),
     rt_expires_at = now + hours (refresh_token_ttl_hours S), rt_revoked_at = None, rt_replaced_by_hash = None\<rparr>"

definition login_session :: "env \<Rightarrow> Settings \<Rightarrow> time \<Rightarrow> User \<Rightarrow> db \<Rightarrow> AuthSession" where
  "login_session E S now u d = \<lparr>se_id = new_uuid E d, se_user_id = us_id u, se_last_authenticated_at = now,
     se_expires_at = now + hours (refresh_token_ttl_hours S), se_revoked_at = None\<rparr>"

lemma login_tables:
  assumes "find_by us_username name (db_users d) = Some u" "\<not> is_locked now u" "us_enabled u"
      "verify_password E (us_password_hash u) password" and "find_by se_id (new_uuid E d) (db_sessions d) = None"
  obtains resp d' where "login E S now name password rid d = (Inr resp, d')"
    and "tr_access_token resp = jwt_encode E (us_username u) (us_id u) (new_uuid E d) now
      (now + minutes (access_token_ttl_minutes S))"
    and "tr_refresh_token resp = token_urlsafe E (Suc (db_uuid_draws d))"
    and "db_users d' = update_by us_id (us_id u) reset_failures (db_users d)"
    and "db_refresh_tokens d' = db_refresh_tokens d @ [login_token E S now u d]"
    and "db_sessions d' = db_sessions d @ [login_session E S now u d]"
    and "db_uuid_draws d' = Suc (Suc (Suc (db_uuid_draws d)))"
    and "db_user_roles d' = db_user_roles d" and "db_role_permissions d' = db_role_permissions d"
    and "db_permissions d' = db_permissions d"
  using assms
  by (auto simp: login_def token_response_def create_access_token_def Let_def login_token_def login_session_def
      new_uuid_def reset_failures_def [abs_def] set_user_def drew_uuid_def auth_audit_def write_audit_def)

lemma login_opens:
  assumes u: "find_by us_username name (db_users d) = Some u" "\<not> is_locked now u" "us_enabled u"
      "verify_password E (us_password_hash u) password"
    and id: "find_by us_id (us_id u) (db_users d) = Some u" and c: "can_open E S now u d"
  shows "\<exists>resp d' p. login E S now name password rid d = (Inr resp, d') \<and> tr_refresh_token resp \<noteq> [] \<and>
    tr_access_token resp \<noteq> [] \<and> current_principal E now (Some (''Bearer'', tr_access_token resp)) d' = Inr p \<and>
    pr_user_id p = us_id u \<and> pr_permissions p = permissions_for_user d (us_id u) \<and>
    (\<forall>later. later < now + hours (refresh_token_ttl_hours S) \<longrightarrow> token_in_force E later d' (tr_refresh_token resp))"
proof -
  define raw where "raw = token_urlsafe E (Suc (db_uuid_draws d))"
  define session_id where "session_id = new_uuid E d"
  define access where "access = jwt_encode E (us_username u) (us_id u) session_id now
    (now + minutes (access_token_ttl_minutes S))"
  define expiry where "expiry = now + hours (refresh_token_ttl_hours S)"
  have fresh: "token_hash E raw \<notin> rt_token_hash ` set (db_refresh_tokens d)" "find_by se_id session_id (db_sessions d) = None"
    and long: "32 \<le> py_len raw" "py_len raw \<le> 512" and life: "now < expiry"
    and claims: "access \<noteq> []" "token_claims E now access = Some (us_id u, session_id)"
    using c by (auto simp: can_open_def Let_def raw_def session_id_def access_def expiry_def hours_def find_by_None_iff)
  obtain resp d' where res: "login E S now name password rid d = (Inr resp, d')"
    and resp: "tr_access_token resp = access" "tr_refresh_token resp = raw"
    and d': "db_users d' = update_by us_id (us_id u) reset_failures (db_users d)"
      "db_refresh_tokens d' = db_refresh_tokens d @ [login_token E S now u d]"
      "db_sessions d' = db_sessions d @ [login_session E S now u d]"
      "db_user_roles d' = db_user_roles d" "db_role_permissions d' = db_role_permissions d" "db_permissions d' = db_permissions d"
    by (rule login_tables [OF u fresh(2) [unfolded session_id_def], where S = S and rid = rid])
      (simp add: access_def raw_def session_id_def)
  have rights: "permissions_for_user d' i = permissions_for_user d i" for i
    by (simp add: permissions_for_user_def roles_of_def d' cong: if_cong)
  have user: "find_by us_id (us_id u) (db_users d') = Some (reset_failures u)"
    using id by (simp add: d'(1) find_by_update_by reset_failures_def)
  have session: "find_by se_id session_id (db_sessions d') = Some \<lparr>se_id = session_id, se_user_id = us_id u,
      se_last_authenticated_at = now, se_expires_at = expiry, se_revoked_at = None\<rparr>"
    using fresh(2) by (simp add: d'(3) find_by_append login_session_def session_id_def expiry_def)
  have "find_by rt_token_hash (token_hash E raw) (db_refresh_tokens d') = Some (login_token E S now u d)"
    using fresh(1) by (simp add: d'(2) find_by_append find_by_None_iff [THEN iffD2] login_token_def raw_def)
  then have "\<forall>later. later < expiry \<longrightarrow> token_in_force E later d' raw"
    using long user session u
    by (simp add: token_in_force_def login_token_def session_id_def expiry_def reset_failures_def)
  moreover have "to_lower ''Bearer'' = ''bearer''"
    by code_simp
  then have "current_principal E now (Some (''Bearer'', access)) d' = Inr \<lparr>pr_user_id = us_id u,
      pr_username = us_username u, pr_session_id = session_id, pr_permissions = permissions_for_user d (us_id u),
      pr_roles = role_names d' (us_id u)\<rparr>"
    using claims user session u life by (simp add: current_principal_def live_session_def rights reset_failures_def)
  ultimately show ?thesis
    using res resp claims long by (intro exI [of _ resp] exI [of _ d'] exI) (auto simp: py_len_def expiry_def)
qed

lemma me_reply:
  assumes "current_principal E now (Some (''Bearer'', a)) d = Inr p" and "a \<noteq> []"
  shows "backend_of E S now other (me_call\<lparr>hc_token := Some a\<rparr>) d = (Some \<lparr>hr_status = 200, hr_body = Some (me p)\<rparr>, d)"
  using assms by (simp add: backend_of_def api_def me_call_def gated_endpoint_def serve_def gated_def credentials_of_def
      respond_def reply_of_def Let_def)

lemma sign_in_admits:
  assumes u: "find_by us_username name (db_users d) = Some u" "\<not> is_locked now u" "us_enabled u"
      "verify_password E (us_password_hash u) password"
    and id: "find_by us_id (us_id u) (db_users d) = Some u" and c: "can_open E S now u d"
    and long: "1 \<le> py_len name" "py_len name \<le> 96" "1 \<le> py_len password" "py_len password \<le> 512"
  shows "\<exists>p b' d' a t. sign_in E (backend_of E S now other) name password (b, d) = (Inr (me p), (b', d')) \<and>
    d' = snd (login E S now name password (Some (request_id E d None)) d) \<and>
    pr_user_id p = us_id u \<and> pr_permissions p = permissions_for_user d (us_id u) \<and>
    ss_profile b' = Some (me p) \<and> holds b' a t \<and> lets_in E now d' a \<and>
    (\<forall>later. later < now + hours (refresh_token_ttl_hours S) \<longrightarrow> token_in_force E later d' t)"
proof -
  obtain resp d' p where l: "login E S now name password (Some (request_id E d None)) d = (Inr resp, d')"
    "tr_refresh_token resp \<noteq> []" "tr_access_token resp \<noteq> []"
    "current_principal E now (Some (''Bearer'', tr_access_token resp)) d' = Inr p"
    "pr_user_id p = us_id u" "pr_permissions p = permissions_for_user d (us_id u)"
    "\<forall>later. later < now + hours (refresh_token_ttl_hours S) \<longrightarrow> token_in_force E later d' (tr_refresh_token resp)"
    using login_opens [OF u id c] by metis
  have "LoginRequest (Some (JObj [(''username'', JStr name), (''password'', JStr password)])) = Some (name, password)"
    using long by (simp add: LoginRequest_def text_field_def)
  then have r: "backend_of E S now other (login_call name password) d =
      (Some \<lparr>hr_status = 200, hr_body = Some (token_json resp)\<rparr>, d')"
    by (simp add: backend_of_def api_def login_call_def open_endpoint_def Let_def json_result_def l(1) respond_def reply_of_def)
  define b' where "b' = b\<lparr>ss_auth := Some (token_json resp)\<rparr>"
  have h: "holds b' (tr_access_token resp) (tr_refresh_token resp)"
    using l(2) by (simp add: holds_def b'_def token_json_def)
  have "send E (backend_of E S now other) me_call (b', d') =
      (Inr \<lparr>hr_status = 200, hr_body = Some (me p)\<rparr>, (b', d'))"
    by (rule session.send_held [OF h me_reply [OF l(4,3)]])
  then have "request E (backend_of E S now other) False me_call (b', d') = (Inr (me p), (b', d'))"
    by (simp add: request_once take_reply_def parse_def is_success_def)
  then have "sign_in E (backend_of E S now other) name password (b, d) =
      (Inr (me p), (b'\<lparr>ss_profile := Some (me p)\<rparr>, d'))"
    by (simp add: sign_in_def r parse_def is_success_def b'_def)
  moreover have "holds (b'\<lparr>ss_profile := Some (me p)\<rparr>) (tr_access_token resp) (tr_refresh_token resp)"
    using h by (simp add: holds_def)
  moreover have "lets_in E now d' (tr_access_token resp)"
    using l(3,4) by (simp add: lets_in_def)
  ultimately show ?thesis
    using l(1,5-7) by (intro exI conjI) (assumption, simp_all)
qed

end
