(* ===== verification/TQ_Pages.thy ===== *)
theory TQ_Pages
  imports TQ_Client TQ_Routes
begin

text \<open>
  The operators' pages (\<^verbatim>\<open>streamlit_app/Home.py\<close> and \<^verbatim>\<open>streamlit_app/ui/views.py\<close>): which page is
  shown to whom, what happens to an error of a request, the requests of the overview, the cards that wait
  for a decision, and the steps the route editor saves. What the widgets look like is not modelled; a page
  shows the tables it was given.
\<close>

section \<open>Which page\<close>

datatype page_name = Overview | Decisions | History | Analytics_page | Data_health_page | Route_editor |
  Blast_radius_page | Administration | Scenario_runner

definition pages :: "string list \<Rightarrow> page_name list" where
  "pages perms = [Overview] @
     (if ''REVIEW_NONCONFORMANCE'' \<in> set perms then [Decisions] else []) @
     (if ''VIEW_TIMELINE'' \<in> set perms then [History] else []) @
     (if ''VIEW_ANALYTICS'' \<in> set perms then [Analytics_page] else []) @
     (if ''VIEW_ANALYTICS'' \<in> set perms \<or> ''MANAGE_INTEGRATIONS'' \<in> set perms then [Data_health_page] else []) @
     (if ''MANAGE_ROUTES'' \<in> set perms then [Route_editor] else []) @
     (if ''RUN_BLAST_RADIUS'' \<in> set perms then [Blast_radius_page] else []) @
     (if ''MANAGE_USERS'' \<in> set perms then [Administration] else []) @
     (if ''RUN_DEMO_SCENARIOS'' \<in> set perms then [Scenario_runner] else [])"

text \<open>\<open>set(profile["permissions"])\<close>, as far as texts are concerned.\<close>

definition profile_permissions :: "json \<Rightarrow> client_error + string list" where
  "profile_permissions profile = (case subscript profile ''permissions'' of
     Inl e \<Rightarrow> Inl e
   | Inr (JArr xs) \<Rightarrow> Inr (concat (map (\<lambda>x. case x of JStr s \<Rightarrow> [s] | _ \<Rightarrow> []) xs))
   | Inr _ \<Rightarrow> Inl (Client_exception ''TypeError''))"

datatype screen = Login_page | Pages "page_name list" | Broken string

definition home :: "browser \<Rightarrow> screen" where
  "home b = (case (ss_auth b, ss_profile b) of
     (Some _, Some profile) \<Rightarrow>
       (case profile_permissions profile of
          Inr perms \<Rightarrow> Pages (pages perms)
        | Inl (Client_exception n) \<Rightarrow> Broken n
        | Inl (APIError _ _ _) \<Rightarrow> Broken ''APIError'')
   | _ \<Rightarrow> Login_page)"

text \<open>What a page that is run leads to: what it shows, the error it shows instead, followed by a new run
  of the application or not, or an exception that nothing catches.\<close>

datatype 'r page_outcome = Rendered 'r | Shown_error json json | Rerun screen | Uncaught string

definition guarded :: "('s, 'r) attempt \<Rightarrow> browser \<times> 's \<Rightarrow> 'r page_outcome \<times> (browser \<times> 's)" where
  "guarded render st = (case render st of
     (Inr r, st') \<Rightarrow> (Rendered r, st')
   | (Inl (Client_exception n), st') \<Rightarrow> (Uncaught n, st')
   | (Inl (APIError status code message), st') \<Rightarrow>
       (if status = 401 then Rerun (home (fst st')) else Shown_error code message, st'))"

section \<open>The overview\<close>

definition get_call :: "string \<Rightarrow> http_call" where
  "get_call path = \<lparr>hc_method = ''GET'', hc_path = path, hc_params = None, hc_json = None, hc_token = None\<rparr>"

text \<open>The tables of the overview: the permission each is shown for, its title and its request.\<close>

definition overview_tables :: "(string \<times> string) list" where
  "overview_tables = [(''VIEW_PRODUCT'', ''/api/v1/items''), (''VIEW_NONCONFORMANCE'', ''/api/v1/nonconformances''),
     (''MANAGE_USERS'', ''/api/v1/admin/users'')]"

fun show_tables :: "env \<Rightarrow> 's backend \<Rightarrow> string list \<Rightarrow> ('s, json list) attempt" where
  "show_tables E B [] st = (Inr [], st)"
| "show_tables E B (path # paths) st =
     (case request E B True (get_call path) st of
        (Inl e, st1) \<Rightarrow> (Inl e, st1)
      | (Inr table, st1) \<Rightarrow>
          (case show_tables E B paths st1 of
             (Inl e, st2) \<Rightarrow> (Inl e, st2)
           | (Inr tables, st2) \<Rightarrow> (Inr (table # tables), st2)))"

definition overview :: "env \<Rightarrow> 's backend \<Rightarrow> ('s, json list) attempt" where
  "overview E B st = (case ss_profile (fst st) of
     None \<Rightarrow> (Inl (Client_exception ''AttributeError''), st)
   | Some profile \<Rightarrow>
       (case profile_permissions profile of
          Inl e \<Rightarrow> (Inl e, st)
        | Inr perms \<Rightarrow>
            show_tables E B (map snd (filter (\<lambda>t. fst t \<in> set perms) overview_tables)) st))"

section \<open>Cards that wait for a decision\<close>

definition waits :: "json \<Rightarrow> client_error + bool" where
  "waits row = (case subscript row ''verdict'' of
     Inl e \<Rightarrow> Inl e
   | Inr (JArr _) \<Rightarrow> Inl (Client_exception ''TypeError'')
   | Inr (JObj _) \<Rightarrow> Inl (Client_exception ''TypeError'')
   | Inr v \<Rightarrow> Inr (v \<in> {JStr ''pending_review'', JStr ''needs_extra_check''} \<or>
       (case row of JObj kvs \<Rightarrow> dict_get ''verification_status'' kvs = JStr ''PENDING'' | _ \<Rightarrow> False)))"

fun pending_rows :: "json list \<Rightarrow> client_error + json list" where
  "pending_rows [] = Inr []"
| "pending_rows (row # rows) = (case waits row of
     Inl e \<Rightarrow> Inl e
   | Inr w \<Rightarrow> (case pending_rows rows of
        Inl e \<Rightarrow> Inl e
      | Inr ps \<Rightarrow> Inr (if w then row # ps else ps)))"

section \<open>The route editor\<close>

record edit_row =
  ed_position :: int
  ed_operation_id :: string
  ed_operation_name :: string
  ed_control_point_id :: "string option"
  ed_required :: bool

definition editable :: "RouteStep list \<Rightarrow> edit_row list" where
  "editable base = map (\<lambda>(i, s). \<lparr>ed_position = int i + 1, ed_operation_id = rs_operation_id s,
     ed_operation_name = rs_operation_name s, ed_control_point_id = rs_control_point_id s,
     ed_required = rs_required_inspection s\<rparr>) (enumerate 0 base)"

text \<open>What is saved: the rows by their position, read as steps by the endpoint that creates the revision;
  a row has neither a scope nor a trust policy.\<close>

definition saved_steps :: "edit_row list \<Rightarrow> StepInput list" where
  "saved_steps edited = map (\<lambda>r. \<lparr>si_operation_id = ed_operation_id r, si_operation_name = ed_operation_name r,
     si_control_point_id = ed_control_point_id r, si_required = ed_required r, si_inspection_scope = None,
     si_trust_policy_id = None\<rparr>) (sort_key ed_position edited)"

section \<open>What the pages guarantee\<close>

lemma signed_out_home: "ss_auth b = None \<Longrightarrow> home b = Login_page"
  by (simp add: home_def)

lemma denied_page_signs_out:
  assumes "request E B retry c st = (Inl (APIError 401 code m), st')"
  shows "guarded (request E B retry c) st = (Rerun Login_page, st')"
  using request_401 [OF assms] by (simp add: guarded_def assms signed_out_home)

lemma pages_need_rights:
  "Decisions \<in> set (pages ps) \<longleftrightarrow> ''REVIEW_NONCONFORMANCE'' \<in> set ps"
  "Administration \<in> set (pages ps) \<longleftrightarrow> ''MANAGE_USERS'' \<in> set ps"
  "Route_editor \<in> set (pages ps) \<longleftrightarrow> ''MANAGE_ROUTES'' \<in> set ps"
  by (auto simp: pages_def)

text \<open>The pages a signed-in user is shown are those of the rights of the user's roles.\<close>

lemma home_after_sign_in:
  assumes "ss_profile b = Some (me p)" and "holds b a t"
  shows "home b = Pages (pages (sort (pr_permissions p)))"
  using assms by (auto simp: home_def holds_def me_def profile_permissions_def subscript_def comp_def)

lemma positions_sorted: "sorted (map ed_position (editable base))"
  by (auto simp: editable_def sorted_iff_nth_mono nth_enumerate_eq)

text \<open>Cloning a revision without editing it keeps operations and control points, and drops every
  inspection scope and trust policy.\<close>

lemma cloned_steps:
  "saved_steps (editable base) = map (\<lambda>s. \<lparr>si_operation_id = rs_operation_id s, si_operation_name = rs_operation_name s,
     si_control_point_id = rs_control_point_id s, si_required = rs_required_inspection s, si_inspection_scope = None,
     si_trust_policy_id = None\<rparr>) base"
proof -
  have "sort_key ed_position (editable base) = editable base"
    by (rule sort_key_id_if_sorted) (rule positions_sorted)
  then show ?thesis
    unfolding saved_steps_def by (intro nth_equalityI) (simp_all add: editable_def nth_enumerate_eq)
qed

lemma cloned_scope_covers: "s \<in> set (saved_steps (editable base)) \<Longrightarrow> scope_covers (si_inspection_scope s) defect component = Inr True"
  by (auto simp: cloned_steps)

text \<open>As long as the refresh token is in force, no request ends a session, and the pages stay.\<close>

lemma session_lasts:
  assumes "holds b a t" and "ss_profile b = Some profile" and "token_in_force E later d t"
    and "can_renew E S later d" and "c \<in> session_calls E later other"
  shows "\<exists>r b' d'. request E (backend_of E S later other) True c (b, d) = (parse r, (b', d')) \<and>
    hr_status r \<noteq> 401 \<and> home b' = home b"
proof -
  have live: "lets_in E later d a \<or> token_in_force E later d t \<and> can_renew E S later d"
    using assms(3,4) by simp
  from session.request_goes_through [OF assms(1,5) live]
  obtain a' t' r b' d' where r: "holds b' a' t'" "hr_status r \<noteq> 401"
    "request E (backend_of E S later other) True c (b, d) = (parse r, (b', d'))" "ss_profile b' = ss_profile b"
    by blast
  have "home b' = home b"
    using r(1,4) assms(1) by (auto simp: holds_def home_def)
  with r show ?thesis
    by blast
qed

lemma stays_signed_in:
  assumes u: "find_by us_username name (db_users d) = Some u" "\<not> is_locked now u" "us_enabled u"
      "verify_password E (us_password_hash u) password"
    and id: "find_by us_id (us_id u) (db_users d) = Some u" and c: "can_open E S now u d"
    and long: "1 \<le> py_len name" "py_len name \<le> 96" "1 \<le> py_len password" "py_len password \<le> 512"
  shows "\<exists>p b' d'. sign_in E (backend_of E S now other) name password (b, d) = (Inr (me p), (b', d')) \<and>
    d' = snd (login E S now name password (Some (request_id E d None)) d) \<and>
    pr_user_id p = us_id u \<and> home b' = Pages (pages (sort (permissions_for_user d (us_id u)))) \<and>
    (\<forall>later c. later < now + hours (refresh_token_ttl_hours S) \<and> can_renew E S later d' \<and>
        c \<in> session_calls E later other \<longrightarrow>
      (\<exists>r b'' d''. request E (backend_of E S later other) True c (b', d') = (parse r, (b'', d'')) \<and>
         hr_status r \<noteq> 401 \<and> home b'' = home b'))"
proof -
  obtain p b' d' a t where s: "sign_in E (backend_of E S now other) name password (b, d) = (Inr (me p), (b', d'))"
    "d' = snd (login E S now name password (Some (request_id E d None)) d)"
    "pr_user_id p = us_id u" "pr_permissions p = permissions_for_user d (us_id u)"
    "ss_profile b' = Some (me p)" "holds b' a t"
    "\<forall>later. later < now + hours (refresh_token_ttl_hours S) \<longrightarrow> token_in_force E later d' t"
    using sign_in_admits [OF u id c long] by blast
  show ?thesis
    using s(1-4) home_after_sign_in [OF s(5,6)] session_lasts [OF s(6,5)] s(7)
    by (intro exI [of _ p] exI [of _ b'] exI [of _ d']) simp
qed

end
