(* ===== verification/TQ_Settings.thy ===== *)
theory TQ_Settings
  imports TQ_Admin
begin

text \<open>
  How the settings come to be (\<^verbatim>\<open>backend/app/settings.py\<close>): the validators of the fields, the
  rejection of known secrets outside the demonstration mode, and the two keys, which are read from
  base64. The reading of numbers and truth values from the environment is pydantic's and not modelled: the
  fields without a validator are given as they are read.
\<close>

section \<open>Base64\<close>

definition b64_value :: "char \<Rightarrow> nat option" where
  "b64_value c = (let n = (of_char c :: nat) in
     if 65 \<le> n \<and> n \<le> 90 then Some (n - 65)
     else if 97 \<le> n \<and> n \<le> 122 then Some (n - 71)
     else if 48 \<le> n \<and> n \<le> 57 then Some (n + 4)
     else if c = CHR ''+'' then Some 62
     else if c = CHR ''/'' then Some 63
     else None)"

text \<open>\<open>base64.b64decode(text, validate=True)\<close>; None for the exception.\<close>

fun b64decode :: "string \<Rightarrow> bytes option" where
  "b64decode [] = Some []"
| "b64decode (a # b # c # d # rest) =
     (case (b64_value a, b64_value b) of
        (Some x, Some y) \<Rightarrow>
          if c = CHR ''='' then
            (if d = CHR ''='' \<and> rest = [] then Some [of_nat (x * 4 + y div 16)] else None)
          else
            (case b64_value c of
               None \<Rightarrow> None
             | Some z \<Rightarrow>
                 if d = CHR ''='' then
                   (if rest = [] then Some [of_nat (x * 4 + y div 16), of_nat (y mod 16 * 16 + z div 4)] else None)
                 else
                   (case (b64_value d, b64decode rest) of
                      (Some w, Some bs) \<Rightarrow> Some (of_nat (x * 4 + y div 16) # of_nat (y mod 16 * 16 + z div 4) #
                        of_nat (z mod 4 * 64 + w) # bs)
                    | _ \<Rightarrow> None))
      | _ \<Rightarrow> None)"
| "b64decode _ = None"

section \<open>Loading\<close>

definition DEMO_DEFAULTS :: "string list" where
  "DEMO_DEFAULTS = [''demo-jwt-secret-change-me-at-least-32-bytes'', ''demo-owner-change-me'',
     ''demo-app-change-me'', ''demo-source-token-change-me'']"

text \<open>The texts of the fields with a validator, and the other fields as they were read.\<close>

record environment =
  env_jwt_signing_secret :: string
  env_aes_data_key_b64 :: string
  env_integrity_hmac_key_b64 :: string
  env_source_demo_token :: "string option"
  env_source_hmac_secrets_json :: "string option"
  env_others :: Settings

definition empty_is_none :: "string option \<Rightarrow> string option" where
  "empty_is_none v = (if v = None \<or> v = Some [] then None else v)"

definition validate_aes_key :: "string \<Rightarrow> string list" where
  "validate_aes_key text = (case b64decode text of
     None \<Rightarrow> [''AES_DATA_KEY_B64 must be valid base64'']
   | Some key \<Rightarrow> if length key \<noteq> 32 then [''AES_DATA_KEY_B64 must decode to exactly 32 bytes''] else [])"

definition validate_hmac_key :: "string \<Rightarrow> string list" where
  "validate_hmac_key text = (case b64decode text of
     None \<Rightarrow> [''INTEGRITY_HMAC_KEY_B64 must be valid base64'']
   | Some key \<Rightarrow> if length key < 32 then [''INTEGRITY_HMAC_KEY_B64 must decode to at least 32 bytes''] else [])"

definition known_secret :: "string \<Rightarrow> bool" where
  "known_secret s \<longleftrightarrow> s \<in> set DEMO_DEFAULTS \<or> prefix ''demo-'' s"

definition reject_demo_secrets :: "environment \<Rightarrow> string option \<Rightarrow> string list" where
  "reject_demo_secrets v token =
     (if demo_mode (env_others v) then []
      else if known_secret (env_jwt_signing_secret v) \<or> (\<exists>t. token = Some t \<and> t \<noteq> [] \<and> known_secret t)
        then [''Known demo secrets are forbidden when DEMO_MODE=false'']
      else if py_len (env_jwt_signing_secret v) < 32
        then [''JWT_SIGNING_SECRET must contain at least 32 characters'']
      else [])"

text \<open>The errors, or the settings with the bytes \<open>aes_key()\<close> and \<open>integrity_key()\<close> return.\<close>

definition load_settings :: "environment \<Rightarrow> string list + Settings" where
  "load_settings v =
     (let token = empty_is_none (env_source_demo_token v);
          errors = validate_aes_key (env_aes_data_key_b64 v) @ validate_hmac_key (env_integrity_hmac_key_b64 v) in
      if errors \<noteq> [] then Inl errors
      else if reject_demo_secrets v token \<noteq> [] then Inl (reject_demo_secrets v token)
      else Inr ((env_others v)\<lparr>source_demo_token := token,
        source_hmac_secrets_json := empty_is_none (env_source_hmac_secrets_json v),
        aes_key := the (b64decode (env_aes_data_key_b64 v)),
        integrity_key := the (b64decode (env_integrity_hmac_key_b64 v))\<rparr>))"

section \<open>Base64 round trip\<close>

lemma b64_value_char: "n < 64 \<Longrightarrow> b64_value (b64_char n) = Some n"
  by (auto simp: b64_value_def b64_char_def Let_def)

lemma b64_char_not_pad: "n < 64 \<Longrightarrow> b64_char n \<noteq> CHR ''=''"
proof
  assume "n < 64" "b64_char n = CHR ''=''"
  moreover have "b64_value (CHR ''='') = None"
    by code_simp
  ultimately show False
    using b64_value_char [of n] by simp
qed

lemma byte_bound: "unat (a :: 8 word) < 256"
  using unsigned_less [of a] by simp

lemma mod_div: "x mod (b * c) div b = (x div b :: nat) mod c" if "0 < b"
  using that by (simp add: mod_mult2_eq)

lemma join_digits: "x div b mod c * b + x mod b = (x :: nat) mod (b * c)"
  by (simp add: mod_mult2_eq)

lemma last_byte: "c < 256 \<Longrightarrow> (m * 256 + c) div 256 = (m :: nat)" "c < 256 \<Longrightarrow> (m * 256 + c) mod 256 = (c :: nat)"
  by simp_all

lemma b64_digits:
  fixes a b c :: nat
  assumes "a < 256" "b < 256" "c < 256"
  defines "x \<equiv> a * 65536 + b * 256 + c"
  shows "x div 262144 < 64" "x div 262144 * 4 + x div 4096 mod 64 div 16 = a"
    "x div 4096 mod 64 mod 16 * 16 + x div 64 mod 64 div 4 = b" "x div 64 mod 64 mod 4 * 64 + x mod 64 = c"
proof -
  have e: "x = (a * 256 + b) * 256 + c"
    by (simp add: x_def)
  have q: "x div 256 = a * 256 + b" "x mod 256 = c"
    unfolding e by (rule last_byte [OF assms(3)])+
  then have x: "x div 256 mod 256 = b" "x mod 256 = c" "x < 16777216"
    using assms(1-3) by (simp_all add: e)
  have "x div 65536 = x div 256 div 256"
    by (simp add: div_mult2_eq [symmetric])
  then have a: "x div 65536 = a"
    using assms(2) by (simp add: q)
  show "x div 262144 < 64"
    using x(3) by (simp add: less_mult_imp_div_less)
  have "x div 4096 mod 64 div 16 = a mod 4" "x div 262144 = a div 4"
    using mod_div [of 16 "x div 4096" 4] a div_mult2_eq [of x 4096 16] div_mult2_eq [of x 65536 4] by simp_all
  then show "x div 262144 * 4 + x div 4096 mod 64 div 16 = a"
    by simp
  have "x div 64 mod 64 div 4 = x div 256 mod 16" "x div 4096 mod 64 mod 16 = x div 256 div 16 mod 16"
    using mod_div [of 4 "x div 64" 16] div_mult2_eq [of x 64 4] div_mult2_eq [of x 256 16]
    by (simp_all add: mod_mod_cancel)
  then show "x div 4096 mod 64 mod 16 * 16 + x div 64 mod 64 div 4 = b"
    using join_digits [of "x div 256" 16 16] x(1) by simp
  have "x div 64 mod 64 mod 4 = x div 64 mod 4"
    by (simp add: mod_mod_cancel)
  then show "x div 64 mod 64 mod 4 * 64 + x mod 64 = c"
    using join_digits [of x 64 4] x(2) by simp
qed

lemma b64_two_digits:
  fixes a b :: nat
  assumes "a < 256" "b < 256"
  defines "x \<equiv> a * 256 + b"
  shows "x div 1024 < 64" "x div 1024 * 4 + x div 16 mod 64 div 16 = a"
    "x div 16 mod 64 mod 16 * 16 + x mod 16 * 4 div 4 = b" "x mod 16 * 4 < 64"
proof -
  have x: "x div 256 = a" "x mod 256 = b" "x < 65536"
    using assms by (simp_all add: x_def)
  show "x div 1024 < 64"
    using x(3) by (simp add: less_mult_imp_div_less)
  have "x div 16 mod 64 div 16 = a mod 4" "x div 1024 = a div 4"
    using mod_div [of 16 "x div 16" 4] x(1) div_mult2_eq [of x 16 16] div_mult2_eq [of x 256 4] by simp_all
  then show "x div 1024 * 4 + x div 16 mod 64 div 16 = a"
    by simp
  have "x div 16 mod 64 mod 16 = x div 16 mod 16" "x mod 16 * 4 div 4 = x mod 16"
    by (simp_all add: mod_mod_cancel)
  then show "x div 16 mod 64 mod 16 * 16 + x mod 16 * 4 div 4 = b"
    using join_digits [of x 16 16] x(2) by simp
  show "x mod 16 * 4 < 64"
    using mod_less_divisor [of 16 x] by linarith
qed

lemma b64_roundtrip: "b64decode (b64encode bs) = Some bs"
proof (induction bs rule: b64encode.induct)
  case (2 a)
  have "unat a div 4 < 64" "unat a mod 4 * 16 < 64" "unat a div 4 * 4 + unat a mod 4 * 16 div 16 = unat a"
    using byte_bound [of a] by (auto simp: less_mult_imp_div_less)
  then show ?case
    by (simp add: Let_def b64_value_char)
next
  case (3 a b)
  then show ?case
    using b64_two_digits [OF byte_bound [of a] byte_bound [of b]]
    by (simp add: Let_def b64_value_char b64_char_not_pad)
next
  case (4 a b c rest)
  then show ?case
    using b64_digits [OF byte_bound [of a] byte_bound [of b] byte_bound [of c]]
    by (simp add: Let_def b64_value_char b64_char_not_pad)
qed simp

section \<open>What loaded settings guarantee\<close>

lemma loaded_keys:
  assumes "load_settings v = Inr S"
  shows "length (aes_key S) = 32" and "32 \<le> length (integrity_key S)"
    and "b64decode (env_aes_data_key_b64 v) = Some (aes_key S)"
    and "b64decode (env_integrity_hmac_key_b64 v) = Some (integrity_key S)"
  using assms by (auto simp: load_settings_def validate_aes_key_def validate_hmac_key_def Let_def
      split: if_splits option.splits)

lemma loaded_secrets:
  assumes "load_settings v = Inr S" and "\<not> demo_mode S"
  shows "\<not> known_secret (env_jwt_signing_secret v)" and "32 \<le> py_len (env_jwt_signing_secret v)"
    and "source_demo_token S = Some t \<Longrightarrow> t \<noteq> [] \<and> \<not> known_secret t"
  using assms by (auto simp: load_settings_def reject_demo_secrets_def empty_is_none_def Let_def split: if_splits)

lemma encoded_keys_load:
  assumes "length key = 32" and "32 \<le> length secret" and "env_aes_data_key_b64 v = b64encode key"
    and "env_integrity_hmac_key_b64 v = b64encode secret"
    and "demo_mode (env_others v) \<or> \<not> known_secret (env_jwt_signing_secret v) \<and> 32 \<le> py_len (env_jwt_signing_secret v) \<and>
      (\<forall>t. env_source_demo_token v = Some t \<longrightarrow> \<not> known_secret t)"
  shows "\<exists>S. load_settings v = Inr S \<and> aes_key S = key \<and> integrity_key S = secret \<and>
    demo_mode S = demo_mode (env_others v)"
  using assms by (auto simp: load_settings_def validate_aes_key_def validate_hmac_key_def reject_demo_secrets_def
      empty_is_none_def b64_roundtrip Let_def)

end
