(* ===== verification/TQ_Sample_Client.thy ===== *)
theory TQ_Sample_Client
  imports TQ_Sample_Quality TQ_Pages TQ_Settings
begin

text \<open>
  Concrete inputs for the client and the settings: libraries whose access tokens carry their user, their
  session and their expiry in minutes, an inspector who signs in, and an environment with two keys.
\<close>

section \<open>An inspector signs in\<close>

definition client_env :: env where
  "client_env = (sample_env [])\<lparr>
     token_urlsafe := (\<lambda>n. replicate (32 + n) CHR ''t''),
     jwt_encode := (\<lambda>n u s i e. u @ ''/'' @ s @ ''/'' @ replicate (nat (e div 60000000)) CHR ''m''),
     jwt_decode := (\<lambda>now t.
       (let u = takeWhile (\<lambda>c. c \<noteq> CHR ''/'') t; rest = drop (length u + 1) t;
            s = takeWhile (\<lambda>c. c \<noteq> CHR ''/'') rest; m = drop (length s + 1) rest in
        if int (length m) * 60000000 \<le> now then None else Some (Some u, Some s)))\<rparr>"

lemma client_env_simps [simp]:
  "uuid4 client_env = (\<lambda>n. replicate n CHR ''u'')" "parse_uuid client_env = Some"
  "token_urlsafe client_env = (\<lambda>n. replicate (32 + n) CHR ''t'')"
  "verify_password client_env = (\<lambda>p h. h = p)"
  "sha256 client_env = (\<lambda>b. b)"
  by (simp_all add: client_env_def sample_env_def)

lemma client_claims:
  assumes "CHR ''/'' \<notin> set u" and "CHR ''/'' \<notin> set s" and "now < e div 60000000 * 60000000" and "0 \<le> e"
  shows "token_claims client_env now (jwt_encode client_env n u s i e) = Some (u, s)"
proof -
  have t: "takeWhile (\<lambda>c. c \<noteq> CHR ''/'') (u @ CHR ''/'' # r) = u" "takeWhile (\<lambda>c. c \<noteq> CHR ''/'') (s @ CHR ''/'' # r) = s" for r
    using assms(1,2) by (auto simp: takeWhile_append2 takeWhile_tail)
  show ?thesis
    using assms(3,4) by (simp add: token_claims_def client_env_def sample_env_def t Let_def)
qed

lemma client_hash_length: "length (token_hash client_env t) = 2 * length t"
proof -
  have "length (hexdigest bs) = 2 * length bs" for bs
    by (induction bs) (simp_all add: hexdigest_def)
  then show ?thesis
    by (simp add: token_hash_def sha256_hex_def encode_def)
qed

lemma sample_hash_length: "length (rt_token_hash sample_refresh) = 4"
  by (simp add: sample_refresh_def token_hash_def sha256_hex_def hexdigest_def encode_def sample_env_def)

lemma sample_may_open:
  "find_by us_username ''inspector'' (db_users sample_quality) = Some sample_user"
  "\<not> is_locked 9 sample_user" "us_enabled sample_user" "verify_password client_env (us_password_hash sample_user) ''pw''"
  "find_by us_id (us_id sample_user) (db_users sample_quality) = Some sample_user"
  "can_open client_env sample_settings 9 sample_user sample_quality"
proof -
  have h: "token_hash client_env (replicate 36 CHR ''t'') \<noteq> rt_token_hash sample_refresh"
    using client_hash_length [of "replicate 36 CHR ''t''"] sample_hash_length by auto
  have "token_claims client_env 9 (jwt_encode client_env ''inspector'' ''u'' ''uuu'' 9 900000009) = Some (''u'', ''uuu'')"
    by (rule client_claims) simp_all
  then have c: "token_claims client_env 9 (jwt_encode client_env (us_username sample_user) (us_id sample_user) ''uuu'' 9
      (9 + minutes (access_token_ttl_minutes sample_settings))) = Some (us_id sample_user, ''uuu'')"
    by (simp add: sample_user_def sample_settings_def minutes_def)
  have n: "jwt_encode client_env v w x i e \<noteq> []" for v w x i e
    by (simp add: client_env_def)
  have u: "new_uuid client_env sample_quality = ''uuu''"
    by (simp add: new_uuid_def numeral_nat)
  have t: "token_urlsafe client_env (Suc (db_uuid_draws sample_quality)) = replicate 36 CHR ''t''"
    by simp
  have l: "py_len (replicate 36 CHR ''t'') = 36"
    by (simp add: py_len_def is_cont_def)
  have "0 < access_token_ttl_minutes sample_settings" "0 < refresh_token_ttl_hours sample_settings"
    "''uuu'' \<notin> se_id ` set (db_sessions sample_quality)"
    by (simp_all add: sample_settings_def sample_session_def)
  then show "can_open client_env sample_settings 9 sample_user sample_quality"
    unfolding can_open_def Let_def t u using c n h l by simp
qed (simp_all add: sample_user_def is_locked_def)

text \<open>An hour later the access token has expired, and the session can be renewed.\<close>

lemma sample_may_renew:
  "can_renew client_env sample_settings (hours 1)
     (snd (login client_env sample_settings 9 ''inspector'' ''pw'' r sample_quality))" (is "can_renew _ _ _ ?d")
proof -
  let ?row = "login_token client_env sample_settings 9 sample_user sample_quality"
  have "find_by se_id (new_uuid client_env sample_quality) (db_sessions sample_quality) = None"
    by (simp add: new_uuid_def numeral_nat sample_session_def)
  then obtain resp d' where l: "login client_env sample_settings 9 ''inspector'' ''pw'' r sample_quality = (Inr resp, d')"
    and t: "db_users d' = update_by us_id (us_id sample_user) reset_failures (db_users sample_quality)"
      "db_refresh_tokens d' = db_refresh_tokens sample_quality @ [?row]"
      "db_sessions d' = db_sessions sample_quality @ [login_session client_env sample_settings 9 sample_user sample_quality]"
      "db_uuid_draws d' = Suc (Suc (Suc (db_uuid_draws sample_quality)))"
    by (rule login_tables [OF sample_may_open(1-4), where S = sample_settings and rid = r])
  have ttl: "access_token_ttl_minutes sample_settings = 15" "refresh_token_ttl_hours sample_settings = 8"
    by (simp_all add: sample_settings_def)
  have d: "db_users ?d = [reset_failures sample_user]" "db_uuid_draws ?d = 6"
    "db_refresh_tokens ?d = [sample_refresh, ?row]"
    "db_sessions ?d = [sample_session, login_session client_env sample_settings 9 sample_user sample_quality]"
    by (simp_all add: l t)
  have h: "length (token_hash client_env (replicate 38 CHR ''t'')) = 76" "length (rt_token_hash ?row) = 72"
    by (simp_all add: client_hash_length login_token_def)
  have "token_hash client_env (replicate 38 CHR ''t'') \<notin> rt_token_hash ` set (db_refresh_tokens ?d)"
    using h sample_hash_length by (auto simp: d(3))
  moreover have "token_urlsafe client_env (db_uuid_draws ?d) = replicate 38 CHR ''t''"
    by (simp add: d(2))
  moreover have "py_len (replicate 38 CHR ''t'') = 38"
    by (simp add: py_len_def is_cont_def)
  moreover have "uuid4 client_env (Suc (db_uuid_draws ?d)) \<notin> rt_id ` set (db_refresh_tokens ?d)"
    by (simp add: d sample_refresh_def login_token_def numeral_nat)
  moreover have "token_claims client_env (hours 1) (jwt_encode client_env n ''u'' i (hours 1) (hours 1 + minutes 15)) = Some (''u'', i)"
    if "CHR ''/'' \<notin> set i" for n i
    using that by (intro client_claims) (simp_all add: hours_def minutes_def)
  then have "\<forall>u \<in> set (db_users ?d). \<forall>s \<in> set (db_sessions ?d).
      token_claims client_env (hours 1) (jwt_encode client_env (us_username u) (us_id u) (se_id s) (hours 1)
        (hours 1 + minutes (access_token_ttl_minutes sample_settings))) = Some (us_id u, se_id s)"
    by (simp add: d sample_user_def reset_failures_def sample_session_def login_session_def new_uuid_def ttl)
  moreover have "jwt_encode client_env v w x i e \<noteq> []" for v w x i e
    by (simp add: client_env_def)
  ultimately show ?thesis
    by (simp add: can_renew_def Let_def ttl)
qed

end
