(* ===== verification/TQ_Records.thy ===== *)
theory TQ_Records
  imports TQ_Readers TQ_Ingestion_Facts
begin

text \<open>
  The readers of the records: a raw event with its document (\<open>get_event\<close> of
  \<^verbatim>\<open>backend/app/api/events.py\<close>), and the audit log and the alerts (\<^verbatim>\<open>backend/app/api/admin.py\<close>).
  The timestamps of an audit entry and an alert are set by the database and not kept; as rows are only
  appended, the newest first is the reversed order of the table. Their identifiers are not kept either.
\<close>

section \<open>Raw events\<close>

record EventView =
  gv_event :: json
  gv_received_at :: time
  gv_ingest_seq :: int
  gv_content_hash :: string
  gv_integrity_stream_id :: string
  gv_integrity_seq :: int

definition get_event :: "env \<Rightarrow> Settings \<Rightarrow> string \<Rightarrow> db \<Rightarrow> EventView result" where
  "get_event E S i d =
     (case find_by re_event_id i (db_raw_events d) of
        None \<Rightarrow> Inl (NotFoundError ''Event'')
      | Some raw \<Rightarrow> rbind (decrypt_raw E S raw) (\<lambda>event. Inr
          \<lparr>gv_event = event, gv_received_at = re_received_at raw, gv_ingest_seq = re_ingest_seq raw,
           gv_content_hash = re_content_hash raw, gv_integrity_stream_id = re_integrity_stream_id raw,
           gv_integrity_seq = re_integrity_seq raw\<rparr>))"

definition event_endpoint ::
  "env \<Rightarrow> Settings \<Rightarrow> time \<Rightarrow> (string \<times> string) option \<Rightarrow> string \<Rightarrow> db \<Rightarrow> EventView result \<times> db" where
  "event_endpoint E S now credentials i = reader E now credentials ''VIEW_RAW_EVENT'' (get_event E S i)"

section \<open>The audit log and the alerts\<close>

text \<open>\<open>limit(min(limit, 1000))\<close>; the database refuses a negative limit.\<close>

definition newest :: "int \<Rightarrow> 'a list \<Rightarrow> 'a list result" where
  "newest limit rows = (if limit < 0 then Inl (PyError ''DataError'') else Inr (take (nat (min limit 1000)) (rev rows)))"

definition audit_log :: "int \<Rightarrow> db \<Rightarrow> AuditEntry list result" where
  "audit_log limit d = newest limit (db_audit d)"

definition security_alerts :: "int \<Rightarrow> db \<Rightarrow> SecurityAlert list result" where
  "security_alerts limit d = newest limit (db_alerts d)"

definition audit_endpoint ::
  "env \<Rightarrow> time \<Rightarrow> (string \<times> string) option \<Rightarrow> int \<Rightarrow> db \<Rightarrow> AuditEntry list result \<times> db" where
  "audit_endpoint E now credentials limit = reader E now credentials ''VIEW_AUDIT'' (audit_log limit)"

definition alerts_endpoint ::
  "env \<Rightarrow> time \<Rightarrow> (string \<times> string) option \<Rightarrow> int \<Rightarrow> db \<Rightarrow> SecurityAlert list result \<times> db" where
  "alerts_endpoint E now credentials limit = reader E now credentials ''VERIFY_INTEGRITY'' (security_alerts limit)"

section \<open>What was accepted can be read back\<close>

lemma event_in_grown_log:
  assumes "get_event E S i d = Inr v" and "db_raw_events d' = db_raw_events d @ later"
  shows "get_event E S i d' = Inr v"
  using assms by (auto simp: get_event_def find_by_append split: option.splits)

lemma accepted_event_readable:
  assumes "ingest_event E S now No_race h v d = (Inr res, d')" and "res_ingestion_status res = ''accepted''"
    and "\<And>k n pt a. aesgcm_decrypt E k n (aesgcm_encrypt E k n pt a) a = Some pt"
    and "\<And>e. validate_event (validator E) v = Inr e \<Longrightarrow>
      \<exists>doc. json_loads E (canonical_json_bytes (float_repr E) (canonical_event_dict (validator E) e)) = Some doc \<and>
        canonical_json_bytes (float_repr E) doc = canonical_json_bytes (float_repr E) (canonical_event_dict (validator E) e)"
  shows "\<exists>e view. validate_event (validator E) v = Inr e \<and> res_event_id res = event_id e \<and>
    get_event E S (event_id e) d' = Inr view \<and> canonical_json_bytes (float_repr E) (gv_event view) =
      canonical_json_bytes (float_repr E) (canonical_event_dict (validator E) e) \<and>
    gv_content_hash view = res_content_hash res"
  using assms(1,2)
proof (rule accepted_event)
  fix src e d1 d2
  assume a: "admit E S now h v d = (Inr (src, e), d1)"
    and ap: "append_sealed E S now src e (canonical_json_bytes (float_repr E) (canonical_event_dict (validator E) e))
       (res_content_hash res) (track_sequence src e d1) = Inr d2" "log_part d' = log_part d2"
      "log_part (track_sequence src e d1) = log_part d"
    and n: "res_event_id res = event_id e" "event_id e \<notin> re_event_id ` set (db_raw_events d)"
  obtain r where r: "db_raw_events d2 = db_raw_events (track_sequence src e d1) @ [r]" "re_event_id r = event_id e"
    "re_content_hash r = res_content_hash res"
    "decrypt_event E (re_payload_ciphertext r) (re_nonce r) (aes_key S) (build_aad E (raw_aad r)) =
       Inr (canonical_json_bytes (float_repr E) (canonical_event_dict (validator E) e))"
    using accepted_row [OF ap(1) assms(3)] by blast
  have "db_raw_events d' = db_raw_events d @ [r]"
    using r(1) ap(2,3) by (simp add: log_part_def)
  moreover have "find_by re_event_id (event_id e) (db_raw_events d) = None"
    using n(2) by (simp add: find_by_None_iff)
  ultimately have "find_by re_event_id (event_id e) (db_raw_events d') = Some r"
    using r(2) by (simp add: find_by_append)
  then show ?thesis
    using admit_Inr [OF a] n(1) r(3,4) assms(4) [of e] by (auto simp: get_event_def decrypt_raw_def)
qed

lemma newest_entries:
  assumes "newest limit rows = Inr shown"
  shows "length shown \<le> 1000" and "suffix (rev shown) rows"
  using assms by (auto simp: newest_def suffix_def take_rev split: if_splits intro!: exI [of _ "take (length rows - nat (min limit 1000)) rows"])

end
