(* ===== verification/TQ_Erp_Sync.thy ===== *)
theory TQ_Erp_Sync
  imports TQ_Erp TQ_Integrations
begin

text \<open>
  The reading side of the ERP emulator (\<^verbatim>\<open>erp_emulator/app/main.py\<close>: health, jobs, references and
  deliveries), the adapter that fetches them (\<^verbatim>\<open>EmulatorAdapter\<close> of
  \<^verbatim>\<open>backend/app/integrations/adapters.py\<close>), and the synchronisation of TQ_Integrations with it.
\<close>

section \<open>What the emulator answers\<close>

fun mode_str :: "erp_mode \<Rightarrow> string" where
  "mode_str NORMAL = ''NORMAL''"
| "mode_str TIMEOUT_ONCE = ''TIMEOUT_ONCE''"
| "mode_str ERROR_503 = ''ERROR_503''"
| "mode_str REJECT_400 = ''REJECT_400''"
| "mode_str OFFLINE = ''OFFLINE''"

definition emulator_health :: "erp \<Rightarrow> json" where
  "emulator_health s = JObj [(''status'', JStr ''healthy''), (''mode'', JStr (mode_str (erp_mode s)))]"

definition unless_offline :: "json \<Rightarrow> erp \<Rightarrow> http_response" where
  "unless_offline v s = (if erp_mode s = OFFLINE then Http_response 503 (error_detail ''emulator offline'')
     else Http_response 200 (Inr v))"

definition job_list :: json where
  "job_list = JArr [JObj [(''job_id'', JStr ''ERP-JOB-001''), (''product_definition_id'', JStr ''ERP-PD-TRACE-01''),
     (''revision'', JStr ''A''), (''quantity'', JInt 4), (''route_code'', JStr ''ROUTE-DEFAULT''),
     (''status'', JStr ''released'')]]"

definition emulator_jobs :: "erp \<Rightarrow> http_response" where
  "emulator_jobs s = unless_offline job_list s"

definition reference_lists :: json where
  "reference_lists = JObj [
     (''products'', JArr [JObj [(''external_id'', JStr ''ERP-PD-TRACE-01''), (''code'', JStr ''PD-TRACE-01''),
        (''revision'', JStr ''A'')]]),
     (''operations'', JArr [JStr ''OP-INCOMING'', JStr ''OP-TURN'', JStr ''OP-ASSEMBLY''])]"

definition emulator_references :: "erp \<Rightarrow> http_response" where
  "emulator_references s = unless_offline reference_lists s"

definition emulator_deliveries :: "erp \<Rightarrow> (QualityPayload \<times> (string \<times> json) list) list" where
  "emulator_deliveries s = map snd (erp_deliveries s)"

section \<open>The adapter\<close>

text \<open>\<open>httpx.get\<close>, \<open>raise_for_status\<close> and \<open>json()\<close>.\<close>

fun fetch :: "http_response \<Rightarrow> json result" where
  "fetch (Http_response status body) =
     (if \<not> (200 \<le> status \<and> status < 300) then Inl (PyError ''HTTPStatusError'')
      else case body of Inl message \<Rightarrow> Inl (PyError ''JSONDecodeError'') | Inr v \<Rightarrow> Inr v)"
| "fetch (Transport_error name) = Inl (PyError name)"
| "fetch Other_error = Inl (PyError ''HTTPError'')"

definition fetch_jobs :: "erp \<Rightarrow> json result" where
  "fetch_jobs s = fetch (emulator_jobs s)"

definition fetch_references :: "erp \<Rightarrow> json result" where
  "fetch_references s = fetch (emulator_references s)"

section \<open>Synchronising with the emulator\<close>

definition sync_with :: "env \<Rightarrow> time \<Rightarrow> erp \<Rightarrow> string option \<Rightarrow> Principal \<Rightarrow> db \<Rightarrow> SyncResult result \<times> db" where
  "sync_with E now s request_id p d = sync_erp E now (fetch_jobs s) (fetch_references s) request_id p d"

lemma fetch_offline: "erp_mode s = OFFLINE \<Longrightarrow> fetch_jobs s = Inl (PyError ''HTTPStatusError'')"
  by (simp add: fetch_jobs_def emulator_jobs_def unless_offline_def)

lemma fetch_online:
  "erp_mode s \<noteq> OFFLINE \<Longrightarrow> fetch_jobs s = Inr job_list"
  "erp_mode s \<noteq> OFFLINE \<Longrightarrow> fetch_references s = Inr reference_lists"
  by (simp_all add: fetch_jobs_def fetch_references_def emulator_jobs_def emulator_references_def unless_offline_def)

lemma find_by_replaced: "find_by key k rows \<noteq> None \<Longrightarrow> key h = k \<Longrightarrow> find_by key k (update_by key k (\<lambda>_. h) rows) = Some h"
  by (induction rows) auto

lemma health_put: "ih_integration_id h = ''erp-emulator'' \<Longrightarrow> erp_health (put_health h d) = h"
  by (simp add: erp_health_def put_health_def find_by_append find_by_replaced)

lemma erp_health_ids [simp]: "erp_health (d\<lparr>db_external_ids := x, db_uuid_draws := n\<rparr>) = erp_health d"
  by (simp add: erp_health_def)

lemma erp_health_audit [simp]: "erp_health (write_audit a out c v d) = erp_health d"
  by (simp add: erp_health_def write_audit_def)

lemma erp_health_id [simp]: "ih_integration_id (erp_health d) = ''erp-emulator''"
  by (auto simp: erp_health_def dest: find_by_SomeD split: option.split)

lemma sync_offline:
  assumes "erp_mode s = OFFLINE"
  obtains d' where "sync_with E now s r p d = (Inl (TraceQError ''ERP_SYNC_FAILED'' ''ERP emulator is unavailable'' 502), d')"
    and "ih_status (erp_health d') = ''UNHEALTHY''" and "ih_last_error_at (erp_health d') = Some now"
    and "ih_last_success_at (erp_health d') = ih_last_success_at (erp_health d)"
    and "db_external_ids d' = db_external_ids d"
proof -
  define h where "h = (erp_health d)\<lparr>ih_status := ''UNHEALTHY'', ih_last_error_at := Some now,
    ih_safe_error := Some (py_take 1000 (exn_name (PyError ''HTTPStatusError'') @ '': integration unavailable''))\<rparr>"
  define d1 where "d1 = d\<lparr>db_external_ids := db_external_ids d @ [], db_uuid_draws := db_uuid_draws d + length ([] :: ExternalIdentity list)\<rparr>"
  have f: "flush_identities [] d = Inr d1"
    by (simp add: flush_identities_def d1_def)
  have "sync_with E now s r p d = sync_failed now (PyError ''HTTPStatusError'') [] d"
    by (simp add: sync_with_def sync_erp_def fetch_offline [OF assms])
  also have "\<dots> = (Inl (TraceQError ''ERP_SYNC_FAILED'' ''ERP emulator is unavailable'' 502), put_health h d1)"
    by (simp add: sync_failed_def f h_def)
  finally show thesis
    by (rule that) (simp_all add: health_put h_def d1_def)
qed

lemma sync_online:
  assumes "erp_mode s \<noteq> OFFLINE"
  obtains y d' where "sync_with E now s r p d = (Inr y, d')" and "sy_jobs y = job_list"
    and "ih_status (erp_health d') = ''HEALTHY''" and "ih_last_success_at (erp_health d') = Some now"
    and "list_ex (erp_job ''ERP-JOB-001'') (db_external_ids d')"
    and "prefix (db_external_ids d) (db_external_ids d')"
proof -
  define job where "job = JObj [(''job_id'', JStr ''ERP-JOB-001''), (''product_definition_id'', JStr ''ERP-PD-TRACE-01''),
     (''revision'', JStr ''A''), (''quantity'', JInt 4), (''route_code'', JStr ''ROUTE-DEFAULT''), (''status'', JStr ''released'')]"
  define row where "row = \<lparr>ei_id = uuid4 E (db_uuid_draws d), ei_internal_entity_type = ''production_job'',
    ei_internal_id = ''JOB-ERP-JOB-001'', ei_external_system = ''erp-emulator'', ei_external_entity_type = ''job'',
    ei_external_id = ''ERP-JOB-001'', ei_external_revision = Some ''A''\<rparr>"
  define added where "added = (if list_ex (erp_job ''ERP-JOB-001'') (db_external_ids d) then [] else [row])"
  define d1 where "d1 = d\<lparr>db_external_ids := db_external_ids d @ added, db_uuid_draws := db_uuid_draws d + length added\<rparr>"
  have "job_key E job = Inr (''ERP-JOB-001'', Some ''A'')"
    by (simp add: job_key_def item_of_def job_def dict_get_def)
  then have m: "map_jobs E d [job] [] = (added, None)"
    by (simp add: added_def row_def)
  have "py_len ''JOB-ERP-JOB-001'' \<le> 128" "py_len ''A'' \<le> 64"
    by (simp_all add: py_len_def is_cont_def)
  then have f: "flush_identities added d = Inr d1"
    by (simp add: flush_identities_def added_def row_def fits_def d1_def)
  have jobs: "job_list = JArr [job]"
    by (simp add: job_list_def job_def)
  have i: "iterate_jobs job_list = Inr [job]"
    by (simp add: jobs iterate_jobs_def)
  obtain y d' where "sync_with E now s r p d = (Inr y, d')" "sy_jobs y = job_list"
    "erp_health d' = (erp_health d)\<lparr>ih_status := ''HEALTHY'', ih_last_success_at := Some now, ih_safe_error := None\<rparr>"
    "db_external_ids d' = db_external_ids d @ added"
    by (simp add: sync_with_def sync_erp_def fetch_online [OF assms] i m f health_put del: map_jobs.simps) (simp add: d1_def)
  then show thesis
    by (intro that [of y d']) (auto simp: added_def row_def erp_job_def)
qed

end
