(* ===== verification/TQ_Views.thy ===== *)
theory TQ_Views
  imports TQ_Pages
begin

text \<open>
  The pages one by one (\<^verbatim>\<open>streamlit_app/ui/views.py\<close>): the requests each sends, in order, what it
  looks up in the answers, and what it shows. What the user chose, typed and pressed in this run of the page
  is an argument; a page shows a list of JSON values. A run ends early when the application is run again
  (\<open>st.rerun\<close>). The last section shows that whatever page is open, an answer 401 leads back to the login.
\<close>

section \<open>Programs of requests\<close>

definition chain :: "('s, 'a) attempt \<Rightarrow> ('a \<Rightarrow> ('s, 'b) attempt) \<Rightarrow> ('s, 'b) attempt" where
  "chain m f st = (case m st of (Inl e, st') \<Rightarrow> (Inl e, st') | (Inr x, st') \<Rightarrow> f x st')"

definition give :: "'a \<Rightarrow> ('s, 'a) attempt" where
  "give x st = (Inr x, st)"

definition crash :: "string \<Rightarrow> ('s, 'a) attempt" where
  "crash name st = (Inl (Client_exception name), st)"

text \<open>An outcome that asks nothing of the backend.\<close>

definition attempt_of :: "client_error + 'a \<Rightarrow> ('s, 'a) attempt" where
  "attempt_of r st = (r, st)"

definition look :: "json \<Rightarrow> string \<Rightarrow> ('s, json) attempt" where
  "look v key = attempt_of (subscript v key)"

text \<open>Iterating over an answer; the characters of a text fail at the first lookup.\<close>

definition elements :: "json \<Rightarrow> ('s, json list) attempt" where
  "elements v = (case v of
     JArr xs \<Rightarrow> give xs
   | JObj kvs \<Rightarrow> give (map (JStr \<circ> fst) kvs)
   | JStr s \<Rightarrow> give (if s = [] then [] else [JStr (py_take 1 s)])
   | _ \<Rightarrow> crash ''TypeError'')"

fun chain_map :: "('a \<Rightarrow> ('s, 'b) attempt) \<Rightarrow> 'a list \<Rightarrow> ('s, 'b list) attempt" where
  "chain_map f [] = give []"
| "chain_map f (x # xs) = chain (f x) (\<lambda>y. chain (chain_map f xs) (\<lambda>ys. give (y # ys)))"

text \<open>\<open>value.get(key)\<close>.\<close>

definition look_or_none :: "json \<Rightarrow> string \<Rightarrow> ('s, json) attempt" where
  "look_or_none v key = (case v of JObj kvs \<Rightarrow> give (dict_get key kvs) | _ \<Rightarrow> crash ''AttributeError'')"

definition get_json :: "env \<Rightarrow> 's backend \<Rightarrow> string \<Rightarrow> ('s, json) attempt" where
  "get_json E B path = request E B True (get_call path)"

definition post_json :: "env \<Rightarrow> 's backend \<Rightarrow> string \<Rightarrow> json option \<Rightarrow> json option \<Rightarrow> ('s, json) attempt" where
  "post_json E B path params body = request E B True
     \<lparr>hc_method = ''POST'', hc_path = path, hc_params = params, hc_json = body, hc_token = None\<rparr>"

datatype shown = Widgets "json list" | Run_again

text \<open>What follows unless the application is run again.\<close>

definition go_on :: "json list \<Rightarrow> ('s, shown) attempt \<Rightarrow> ('s, shown) attempt" where
  "go_on before m = chain m (\<lambda>w. give (case w of Widgets vs \<Rightarrow> Widgets (before @ vs) | Run_again \<Rightarrow> Run_again))"

text \<open>\<open>header\<close>: the name and the roles of the user, and the button that signs out.\<close>

definition page_header :: "env \<Rightarrow> 's backend \<Rightarrow> bool \<Rightarrow> ('s, shown) attempt \<Rightarrow> ('s, shown) attempt" where
  "page_header E B leave body st =
     (case ss_profile (fst st) of
        None \<Rightarrow> crash ''AttributeError'' st
      | Some profile \<Rightarrow>
          chain (look profile ''username'') (\<lambda>_. chain (look profile ''roles'') (\<lambda>roles.
            chain (elements roles) (\<lambda>rs.
              if \<not> list_all (\<lambda>r. case r of JStr _ \<Rightarrow> True | _ \<Rightarrow> False) rs then crash ''TypeError''
              else if leave then chain (sign_out E B) (\<lambda>_. give Run_again)
              else body))) st)"

text \<open>\<open> \<middot> \<close> between the parts of a label; the last of equal labels counts.\<close>

definition dotted :: "string list \<Rightarrow> string" where
  "dotted parts = join (map char_of [32, 194, 183, 32 :: nat]) parts"

definition labelled :: "(string \<times> 'a) list \<Rightarrow> string \<Rightarrow> ('s, 'a) attempt" where
  "labelled labels choice = (case map_of (rev labels) choice of Some x \<Rightarrow> give x | None \<Rightarrow> crash ''KeyError'')"

definition label_of :: "env \<Rightarrow> string list \<Rightarrow> json \<Rightarrow> ('s, string \<times> json) attempt" where
  "label_of E keys row = chain (chain_map (look row) keys) (\<lambda>vs. give (dotted (map (py_str E) vs), row))"

section \<open>Pages that only show\<close>

definition overview_page :: "env \<Rightarrow> 's backend \<Rightarrow> bool \<Rightarrow> ('s, shown) attempt" where
  "overview_page E B leave = page_header E B leave (chain (overview E B) (\<lambda>tables. give (Widgets tables)))"

definition show_version :: "json \<Rightarrow> ('s, json list) attempt" where
  "show_version version =
     chain (look version ''version'') (\<lambda>_. chain (look version ''status'') (\<lambda>_.
     chain (look version ''left_boundary_at'') (\<lambda>left. chain (look version ''right_boundary_at'') (\<lambda>right.
     chain (look version ''reason'') (\<lambda>reason. chain (look version ''evidence'') (\<lambda>evidence.
     give [JObj [(''left'', left), (''right'', right), (''why_changed'', reason)], evidence]))))))"

definition show_analysis :: "json \<Rightarrow> ('s, json list) attempt" where
  "show_analysis analysis =
     chain (look analysis ''defect_type'') (\<lambda>_. chain (look analysis ''cause_status'') (\<lambda>_.
     chain (look analysis ''versions'') (\<lambda>versions. chain (elements versions) (\<lambda>vs.
     chain (chain_map show_version vs) (\<lambda>shown. give (concat shown))))))"

definition timeline_page :: "env \<Rightarrow> 's backend \<Rightarrow> bool \<Rightarrow> (json list \<Rightarrow> json) \<Rightarrow> ('s, shown) attempt" where
  "timeline_page E B leave pick = page_header E B leave (
     chain (get_json E B ''/api/v1/items'') (\<lambda>items.
     if \<not> truthy items then give (Widgets []) else
     chain (elements items) (\<lambda>rows.
     chain (chain_map (\<lambda>row. look row ''item_id'') rows) (\<lambda>ids.
     (let path = ''/api/v1/items/'' @ py_str E (pick ids) in
     chain (get_json E B path) (\<lambda>item.
     chain (get_json E B (path @ ''/timeline'')) (\<lambda>timeline_value.
     chain (get_json E B (path @ ''/analysis'')) (\<lambda>analyses_value.
     chain (look timeline_value ''events'') (\<lambda>events.
     chain (elements analyses_value) (\<lambda>rows.
     chain (chain_map show_analysis rows) (\<lambda>shown.
     give (Widgets ([item, events] @ concat shown)))))))))))))"

text \<open>The percentage of the yield (\<open>:.1%\<close>) is left to the display.\<close>

definition analytics_page :: "env \<Rightarrow> 's backend \<Rightarrow> bool \<Rightarrow> ('s, shown) attempt" where
  "analytics_page E B leave = page_header E B leave (
     chain (get_json E B ''/api/v1/analytics/kpi'') (\<lambda>kpi.
     chain (chain_map (look kpi) [''inspected_items'', ''items_with_confirmed_nc'', ''number_of_unique_defects'']) (\<lambda>metrics.
     chain (look_or_none kpi ''first_pass_yield'') (\<lambda>fpy. give (Widgets (metrics @ [fpy, kpi]))))))"

definition data_health_page :: "env \<Rightarrow> 's backend \<Rightarrow> bool \<Rightarrow> ('s, shown) attempt" where
  "data_health_page E B leave = page_header E B leave (
     chain (get_json E B ''/api/v1/analytics/data-health'') (\<lambda>v. give (Widgets [v])))"

section \<open>Decisions\<close>

record review_inputs =
  ri_choice :: string
  ri_decision :: "(string \<times> string \<times> string \<times> string) option"
  ri_inspection :: "(string \<times> string) option"
  ri_verification :: "(bool \<times> string) option"

definition verify_form :: "env \<Rightarrow> 's backend \<Rightarrow> string \<Rightarrow> json \<Rightarrow> review_inputs \<Rightarrow> ('s, shown) attempt" where
  "verify_form E B path details inputs =
     chain (look_or_none details ''verification_status'') (\<lambda>status.
     (case ri_verification inputs of
       Some (passed, reason) \<Rightarrow>
         if status = JStr ''PENDING'' then
           chain (post_json E B (path @ ''/verify-rework'') None
             (Some (JObj [(''passed'', JBool passed), (''reason'', JStr reason)]))) (\<lambda>v. give (Widgets [v]))
         else give (Widgets [])
     | None \<Rightarrow> give (Widgets [])))"

definition inspection_form :: "env \<Rightarrow> 's backend \<Rightarrow> string \<Rightarrow> review_inputs \<Rightarrow> ('s, unit) attempt" where
  "inspection_form E B path inputs =
     (case ri_inspection inputs of
        None \<Rightarrow> give ()
      | Some (reason, control_point) \<Rightarrow>
          chain (post_json E B (path @ ''/request-inspection'') None (Some (JObj [(''reason'', JStr reason),
            (''control_point_id'', if control_point = [] then JNull else JStr control_point)]))) (\<lambda>_. give ()))"

definition review_card :: "env \<Rightarrow> 's backend \<Rightarrow> json list \<Rightarrow> review_inputs \<Rightarrow> ('s, shown) attempt" where
  "review_card E B pending inputs =
     chain (chain_map (label_of E [''item_id'', ''defect_type'', ''id'']) pending) (\<lambda>labels.
     chain (labelled labels (ri_choice inputs)) (\<lambda>row.
     chain (look row ''id'') (\<lambda>selected.
     (let path = ''/api/v1/nonconformances/'' @ py_str E selected in
     chain (get_json E B path) (\<lambda>details.
     (case ri_decision inputs of
       Some (verdict, disposition, containment, reason) \<Rightarrow>
         chain (post_json E B (path @ ''/decision'') None (Some (JObj [(''verdict'', JStr verdict),
           (''disposition'', JStr disposition), (''containment'', JStr containment), (''reason'', JStr reason)]))) (\<lambda>result.
         chain (look result ''message_id'') (\<lambda>_. give Run_again))
     | None \<Rightarrow>
         chain (inspection_form E B path inputs) (\<lambda>_. go_on [details] (verify_form E B path details inputs))))))))"

definition reviews_page :: "env \<Rightarrow> 's backend \<Rightarrow> bool \<Rightarrow> review_inputs \<Rightarrow> ('s, shown) attempt" where
  "reviews_page E B leave inputs = page_header E B leave (
     chain (get_json E B ''/api/v1/nonconformances'') (\<lambda>v.
     chain (elements v) (\<lambda>rows.
     chain (attempt_of (pending_rows rows)) (\<lambda>pending.
     if pending = [] then give (Widgets [JArr pending])
     else go_on [JArr pending] (review_card E B pending inputs)))))"

section \<open>Routes\<close>

record route_inputs =
  rti_choice :: string
  rti_edit :: "json list \<Rightarrow> json list"
  rti_save :: bool
  rti_activate :: "(json \<times> string) option"
  rti_import :: "string option"

definition is_object :: "json \<Rightarrow> bool" where
  "is_object v = (case v of JObj _ \<Rightarrow> True | _ \<Rightarrow> False)"

definition fields_of :: "json \<Rightarrow> (string \<times> json) list" where
  "fields_of v = (case v of JObj kvs \<Rightarrow> kvs | _ \<Rightarrow> [])"

definition edit_fields :: "string list" where
  "edit_fields = [''operation_id'', ''operation_name'', ''control_point_id'', ''required'']"

definition editor_row :: "nat \<times> json \<Rightarrow> ('s, json) attempt" where
  "editor_row p = chain (chain_map (look (snd p)) (edit_fields @ [''inspection_scope''])) (\<lambda>vs.
     give (JObj ((''position'', JInt (int (fst p) + 1)) # zip edit_fields vs)))"

text \<open>\<open>sorted\<close> by the position, 0 where a row has none, for positions that are whole numbers; other keys
  cannot be compared with them.\<close>

definition sorted_rows :: "json list \<Rightarrow> ('s, (string \<times> json) list list) attempt" where
  "sorted_rows rows =
     (if \<exists>row\<in>set rows. \<not> is_object row then crash ''AttributeError''
      else (let dicts = map fields_of rows;
                position = (\<lambda>kvs. case map_of kvs ''position'' of None \<Rightarrow> JInt 0 | Some v \<Rightarrow> v);
                number = (\<lambda>v. case v of JInt n \<Rightarrow> n | _ \<Rightarrow> 0)
            in if 1 < List.length rows \<and> (\<exists>kvs\<in>set dicts. position kvs \<noteq> JInt (number (position kvs)))
               then crash ''TypeError'' else give (sort_key (number \<circ> position) dicts)))"

definition without_position :: "(string \<times> json) list \<Rightarrow> json" where
  "without_position kvs = JObj (filter (\<lambda>kv. fst kv \<noteq> ''position'') kvs)"

definition base_steps :: "json \<Rightarrow> ('s, json list) attempt" where
  "base_steps revisions =
     (if \<not> truthy revisions then give []
      else (case revisions of
          JArr rs \<Rightarrow> chain (look (List.last rs) ''steps'') elements
        | JObj _ \<Rightarrow> crash ''KeyError''
        | _ \<Rightarrow> crash ''TypeError''))"

definition import_form :: "env \<Rightarrow> 's backend \<Rightarrow> route_inputs \<Rightarrow> ('s, shown) attempt" where
  "import_form E B inputs = (case rti_import inputs of
     None \<Rightarrow> give (Widgets [])
   | Some text \<Rightarrow>
       if text = [] then give (Widgets []) else
       (case json_loads E (encode text) of
          None \<Rightarrow> crash ''JSONDecodeError''
        | Some v \<Rightarrow> chain (post_json E B ''/api/v1/routes/import'' None (Some v)) (\<lambda>r. give (Widgets [r]))))"

definition draft_ids :: "json \<Rightarrow> ('s, json list) attempt" where
  "draft_ids revisions = chain (elements revisions) (\<lambda>rs.
     chain (chain_map (\<lambda>r. chain (look r ''status'') (\<lambda>status.
       if status = JStr ''draft'' then chain (look r ''id'') (\<lambda>i. give [i]) else give [])) rs) (\<lambda>ids. give (concat ids)))"

definition save_route :: "env \<Rightarrow> 's backend \<Rightarrow> string \<Rightarrow> (string \<times> json) list list \<Rightarrow> ('s, shown) attempt" where
  "save_route E B path edited =
     chain (post_json E B (path @ ''/revisions'') None
       (Some (JObj [(''steps'', JArr (map without_position edited))]))) (\<lambda>result.
     chain (look result ''revision'') (\<lambda>_. give Run_again))"

definition activate_form :: "env \<Rightarrow> 's backend \<Rightarrow> string \<Rightarrow> json list \<Rightarrow> route_inputs \<Rightarrow> ('s, shown) attempt" where
  "activate_form E B path drafts inputs = (case rti_activate inputs of
     Some (draft, reason) \<Rightarrow>
       if drafts = [] then give (Widgets [])
       else chain (post_json E B (path @ ''/activate'')
              (Some (JObj [(''revision_id'', draft), (''reason'', JStr reason)])) None) (\<lambda>_. give Run_again)
   | None \<Rightarrow> give (Widgets []))"

text \<open>Two programs one after the other, unless the first runs the application again.\<close>

definition and_then :: "('s, shown) attempt \<Rightarrow> ('s, shown) attempt \<Rightarrow> ('s, shown) attempt" where
  "and_then m n = chain m (\<lambda>w. case w of Run_again \<Rightarrow> give Run_again | Widgets vs \<Rightarrow> go_on vs n)"

definition edit_route :: "env \<Rightarrow> 's backend \<Rightarrow> json \<Rightarrow> route_inputs \<Rightarrow> ('s, shown) attempt" where
  "edit_route E B route inputs =
     chain (look route ''revisions'') (\<lambda>revisions.
     chain (base_steps revisions) (\<lambda>base.
     chain (chain_map editor_row (enumerate 0 base)) (\<lambda>rows.
     chain (sorted_rows (rti_edit inputs rows)) (\<lambda>edited.
     if rti_save inputs then
       chain (look route ''id'') (\<lambda>i. save_route E B (''/api/v1/routes/'' @ py_str E i) edited)
     else
       chain (draft_ids revisions) (\<lambda>drafts.
       chain (if drafts = [] then give JNull else look route ''id'') (\<lambda>i.
       go_on [route] (activate_form E B (''/api/v1/routes/'' @ py_str E i) drafts inputs)))))))"

definition routes_page :: "env \<Rightarrow> 's backend \<Rightarrow> bool \<Rightarrow> route_inputs \<Rightarrow> ('s, shown) attempt" where
  "routes_page E B leave inputs = page_header E B leave (
     chain (get_json E B ''/api/v1/routes'') (\<lambda>v.
     and_then
       (if \<not> truthy v then give (Widgets [])
        else chain (elements v) (\<lambda>routes.
          chain (chain_map (label_of E [''code'', ''name'']) routes) (\<lambda>labels.
          chain (labelled labels (rti_choice inputs)) (\<lambda>route. edit_route E B route inputs))))
       (import_form E B inputs)))"

section \<open>Administration, blast radius, scenarios\<close>

record admin_inputs =
  ai_sync :: bool
  ai_verify :: bool
  ai_rebuild :: "string option"

definition post_if :: "env \<Rightarrow> 's backend \<Rightarrow> bool \<Rightarrow> string \<Rightarrow> ('s, json list) attempt" where
  "post_if E B pressed path = (if pressed then chain (post_json E B path None None) (\<lambda>v. give [v]) else give [])"

definition admin_page :: "env \<Rightarrow> 's backend \<Rightarrow> bool \<Rightarrow> admin_inputs \<Rightarrow> ('s, shown) attempt" where
  "admin_page E B leave inputs = page_header E B leave (
     chain (get_json E B ''/api/v1/admin/users'') (\<lambda>users.
     chain (get_json E B ''/api/v1/admin/sources'') (\<lambda>sources.
     chain (get_json E B ''/api/v1/integrations'') (\<lambda>integrations.
     chain (post_if E B (ai_sync inputs) ''/api/v1/integrations/erp/sync'') (\<lambda>synced.
     chain (get_json E B ''/api/v1/admin/audit'') (\<lambda>audit.
     chain (get_json E B ''/api/v1/admin/crypto-profile'') (\<lambda>profile.
     chain (post_if E B (ai_verify inputs) ''/api/v1/admin/integrity/verify'') (\<lambda>verified.
     chain (chain_map (\<lambda>v. look v ''status'') verified) (\<lambda>_.
     chain (case ai_rebuild inputs of
              Some item \<Rightarrow> post_if E B (item \<noteq> []) (''/api/v1/admin/rebuild/'' @ item)
            | None \<Rightarrow> give []) (\<lambda>rebuilt_rows.
     chain (get_json E B ''/api/v1/admin/security-alerts'') (\<lambda>alerts.
     give (Widgets ([users, sources, integrations] @ synced @ [audit, profile] @ verified @ rebuilt_rows @ [alerts])))))))))))))"

record radius_inputs =
  rdi_factor_type :: string
  rdi_factor_value :: string
  rdi_affected_from :: string
  rdi_affected_to :: string
  rdi_action :: string
  rdi_rationale :: string

definition blast_radius_page :: "env \<Rightarrow> 's backend \<Rightarrow> bool \<Rightarrow> radius_inputs option \<Rightarrow> ('s, shown) attempt" where
  "blast_radius_page E B leave inputs = page_header E B leave (case inputs of
     None \<Rightarrow> give (Widgets [])
   | Some i \<Rightarrow> chain (post_json E B ''/api/v1/risk/blast-radius'' None (Some (JObj [
       (''factor_type'', JStr (rdi_factor_type i)), (''factor_value'', JStr (rdi_factor_value i)),
       (''affected_from'', JStr (rdi_affected_from i)), (''affected_to'', JStr (rdi_affected_to i)),
       (''proposed_action'', JStr (rdi_action i)), (''rationale'', JStr (rdi_rationale i))])))
       (\<lambda>v. give (Widgets [v])))"

record scenario_inputs =
  sci_choice :: string
  sci_run :: bool
  sci_reset :: bool

definition run_selected :: "env \<Rightarrow> 's backend \<Rightarrow> json \<Rightarrow> ('s, json list) attempt" where
  "run_selected E B row = chain (look row ''name'') (\<lambda>name.
     chain (post_json E B (''/api/v1/demo/scenarios/'' @ py_str E name @ ''/run'') None None) (\<lambda>result.
     chain (look result ''passed'') (\<lambda>_. give [result])))"

definition scenario_page :: "env \<Rightarrow> 's backend \<Rightarrow> bool \<Rightarrow> scenario_inputs \<Rightarrow> ('s, shown) attempt" where
  "scenario_page E B leave inputs = page_header E B leave (
     chain (get_json E B ''/api/v1/demo/scenarios'') (\<lambda>v.
     if \<not> truthy v then give (Widgets []) else
     chain (elements v) (\<lambda>rows.
     chain (chain_map (label_of E [''name'', ''description'']) rows) (\<lambda>labels.
     chain (labelled labels (sci_choice inputs)) (\<lambda>row.
     chain (look_or_none row ''expected'') (\<lambda>expected.
     chain (if sci_run inputs then run_selected E B row else give []) (\<lambda>results.
     chain (if sci_reset inputs then post_if E B True ''/api/v1/demo/reset'' else give []) (\<lambda>_.
     give (Widgets (expected # results))))))))))"

section \<open>Whoever is told 401 is back at the login\<close>

text \<open>A program that, where it ends with an answer 401, has closed the session of the browser.\<close>

definition orderly :: "('s, 'a) attempt \<Rightarrow> bool" where
  "orderly m \<longleftrightarrow> (\<forall>st code msg st'. m st = (Inl (APIError 401 code msg), st') \<longrightarrow> ss_auth (fst st') = None)"

named_theorems orderly_intros

lemma orderly_plain [orderly_intros]: "orderly (give x)" "orderly (crash n)"
  by (simp_all add: orderly_def give_def crash_def)

lemma orderlyD: "orderly m \<Longrightarrow> m st = (Inl (APIError 401 code msg), st') \<Longrightarrow> ss_auth (fst st') = None"
  unfolding orderly_def by blast

lemma orderly_chain [orderly_intros]:
  assumes m: "orderly m" and f: "\<And>x. orderly (f x)"
  shows "orderly (chain m f)"
  unfolding orderly_def
proof (intro allI impI)
  fix st code msg st'
  assume r: "chain m f st = (Inl (APIError 401 code msg), st')"
  obtain o1 st1 where s: "m st = (o1, st1)"
    using surjective_pairing by blast
  show "ss_auth (fst st') = None"
  proof (cases o1)
    case (Inl e)
    with r s have "m st = (Inl (APIError 401 code msg), st')"
      by (simp add: chain_def)
    then show ?thesis by (rule orderlyD [OF m])
  next
    case (Inr x)
    with r s have "f x st1 = (Inl (APIError 401 code msg), st')"
      by (simp add: chain_def)
    then show ?thesis by (rule orderlyD [OF f])
  qed
qed

lemma orderly_request [orderly_intros]: "orderly (request E B retry c)"
  unfolding orderly_def using request_401 by metis

lemma orderly_attempt_of: "(\<And>n c m. r \<noteq> Inl (APIError n c m)) \<Longrightarrow> orderly (attempt_of r)"
  by (auto simp: orderly_def attempt_of_def)

lemma subscript_not_api: "subscript v key \<noteq> Inl (APIError n c m)"
  by (simp add: subscript_def split: json.split option.split)

lemma waits_not_api: "waits row \<noteq> Inl (APIError n c m)"
  using subscript_not_api [of row "''verdict''" n c m] by (auto simp: waits_def split: sum.split json.split)

lemma pending_not_api: "pending_rows rows \<noteq> Inl (APIError n c m)"
  using waits_not_api [of _ n c m] by (induction rows) (auto split: sum.split)

lemma orderly_look [orderly_intros]: "orderly (look v key)" "orderly (attempt_of (pending_rows rows))"
  by (simp_all add: look_def orderly_attempt_of subscript_not_api pending_not_api)

lemma orderly_sign_out [orderly_intros]: "orderly (sign_out E B)"
  by (auto simp: orderly_def sign_out_def refresh_token_def split: sum.splits option.splits prod.splits client_error.splits json.splits)

lemma orderly_if [orderly_intros]: "orderly m \<Longrightarrow> orderly n \<Longrightarrow> orderly (if b then m else n)"
  by simp

lemma orderly_let [orderly_intros]: "(\<And>x. orderly (f x)) \<Longrightarrow> orderly (Let v f)"
  by (simp add: Let_def)

lemma orderly_option [orderly_intros]: "orderly m \<Longrightarrow> (\<And>x. orderly (f x)) \<Longrightarrow> orderly (case v of None \<Rightarrow> m | Some x \<Rightarrow> f x)"
  by (simp split: option.split)

lemma orderly_pair [orderly_intros]: "(\<And>x y. orderly (f x y)) \<Longrightarrow> orderly (case v of (x, y) \<Rightarrow> f x y)"
  by (simp split: prod.split)

lemma orderly_shown [orderly_intros]:
  "(\<And>vs. orderly (f vs)) \<Longrightarrow> orderly m \<Longrightarrow> orderly (case w of Widgets vs \<Rightarrow> f vs | Run_again \<Rightarrow> m)"
  by (simp split: shown.split)

lemma orderly_chain_map [orderly_intros]: "(\<And>x. orderly (f x)) \<Longrightarrow> orderly (chain_map f xs)"
  by (induction xs) (auto intro!: orderly_intros)

lemma orderly_lookups [orderly_intros]:
  "orderly (elements v)" "orderly (look_or_none v key)" "orderly (labelled labels choice)"
  by (auto simp: elements_def look_or_none_def labelled_def intro!: orderly_intros split: json.split)

lemma orderly_calls [orderly_intros]: "orderly (get_json E B path)" "orderly (post_json E B path ps body)" "orderly (post_if E B pressed path)"
  by (auto simp: get_json_def post_json_def post_if_def intro!: orderly_intros)

lemma orderly_go_on [orderly_intros]: "orderly m \<Longrightarrow> orderly (go_on vs m)" "orderly m \<Longrightarrow> orderly n \<Longrightarrow> orderly (and_then m n)"
  by (auto simp: go_on_def and_then_def intro!: orderly_intros)

lemma orderly_header [orderly_intros]:
  assumes "orderly body"
  shows "orderly (page_header E B leave body)"
proof -
  define inner where "inner profile = chain (look profile ''username'') (\<lambda>_. chain (look profile ''roles'') (\<lambda>roles.
    chain (elements roles) (\<lambda>rs.
      if \<not> list_all (\<lambda>r. case r of JStr _ \<Rightarrow> True | _ \<Rightarrow> False) rs then crash ''TypeError''
      else if leave then chain (sign_out E B) (\<lambda>_. give Run_again) else body)))" for profile
  have "orderly (inner profile)" for profile
    unfolding inner_def using assms by (intro orderly_intros)
  then have inner: "inner profile st = (Inl (APIError 401 code msg), st') \<Longrightarrow> ss_auth (fst st') = None"
    for profile st code msg st' by (rule orderlyD)
  have cases: "page_header E B leave body st =
      (case ss_profile (fst st) of None \<Rightarrow> crash ''AttributeError'' st | Some profile \<Rightarrow> inner profile st)" for st
    by (cases leave; cases "ss_profile (fst st)") (simp_all add: page_header_def inner_def)
  show ?thesis
    unfolding orderly_def
  proof (intro allI impI)
    fix st code msg st'
    assume "page_header E B leave body st = (Inl (APIError 401 code msg), st')"
    then show "ss_auth (fst st') = None"
      using inner unfolding cases by (cases "ss_profile (fst st)") (simp_all add: crash_def)
  qed
qed

lemma orderly_overview [orderly_intros]: "orderly (overview E B)"
proof -
  have tables: "orderly (show_tables E B paths)" for paths
  proof (induction paths)
    case Nil
    then show ?case by (simp add: orderly_def)
  next
    case (Cons path paths)
    have "show_tables E B (path # paths) =
        chain (request E B True (get_call path)) (\<lambda>t. chain (show_tables E B paths) (\<lambda>ts. give (t # ts)))"
      by (auto simp: chain_def give_def fun_eq_iff split: sum.split prod.split)
    with Cons show ?case by (auto intro!: orderly_intros)
  qed
  have perms: "profile_permissions p \<noteq> Inl (APIError n c m)" for p n c m
    using subscript_not_api [of p "''permissions''" n c m]
    by (auto simp: profile_permissions_def split: sum.split json.split)
  show ?thesis
    unfolding orderly_def
  proof (intro allI impI)
    fix st code msg st'
    assume r: "overview E B st = (Inl (APIError 401 code msg), st')"
    then obtain perms where "show_tables E B perms st = (Inl (APIError 401 code msg), st')"
      using perms by (auto simp: overview_def split: option.splits sum.splits)
    with tables show "ss_auth (fst st') = None"
      unfolding orderly_def by blast
  qed
qed

lemma orderly_parts [orderly_intros]:
  "orderly (label_of E keys row)" "orderly (show_version v)" "orderly (editor_row p)" "orderly (sorted_rows rows)"
  "orderly (draft_ids v)" "orderly (run_selected E B row)" "orderly (import_form E B ri)"
  "orderly (inspection_form E B path vi)" "orderly (verify_form E B path v vi)"
  unfolding label_of_def show_version_def editor_row_def sorted_rows_def draft_ids_def run_selected_def import_form_def
    inspection_form_def verify_form_def
  by (intro orderly_intros)+

lemma orderly_base_steps [orderly_intros]: "orderly (base_steps v)"
  by (auto simp: base_steps_def intro!: orderly_intros split: json.split)

lemma orderly_forms [orderly_intros]:
  "orderly (show_analysis v)" "orderly (save_route E B path edited)" "orderly (activate_form E B path drafts ri)"
  "orderly (review_card E B pending vi)"
  unfolding show_analysis_def save_route_def activate_form_def review_card_def
  by (intro orderly_intros)+

lemma orderly_edit_route [orderly_intros]: "orderly (edit_route E B route ri)"
  unfolding edit_route_def by (intro orderly_intros)

lemma orderly_pages:
  "orderly (overview_page E B leave)" "orderly (timeline_page E B leave pick)" "orderly (analytics_page E B leave)"
  "orderly (data_health_page E B leave)" "orderly (reviews_page E B leave vi)" "orderly (routes_page E B leave ri)"
  "orderly (admin_page E B leave ai)" "orderly (blast_radius_page E B leave bi)" "orderly (scenario_page E B leave si)"
  unfolding overview_page_def timeline_page_def analytics_page_def data_health_page_def reviews_page_def routes_page_def
    admin_page_def blast_radius_page_def scenario_page_def
  by (intro orderly_intros)+

text \<open>A page of the application: what the user did in this run is part of it.\<close>

datatype page_run =
    Overview_view
  | Reviews_view review_inputs
  | Timeline_view "json list \<Rightarrow> json"
  | Analytics_view
  | Data_health_view
  | Routes_view route_inputs
  | Radius_view "radius_inputs option"
  | Admin_view admin_inputs
  | Scenario_view scenario_inputs

definition view_page :: "env \<Rightarrow> 's backend \<Rightarrow> bool \<Rightarrow> page_run \<Rightarrow> ('s, shown) attempt" where
  "view_page E B leave v = (case v of
     Overview_view \<Rightarrow> overview_page E B leave
   | Reviews_view i \<Rightarrow> reviews_page E B leave i
   | Timeline_view pick \<Rightarrow> timeline_page E B leave pick
   | Analytics_view \<Rightarrow> analytics_page E B leave
   | Data_health_view \<Rightarrow> data_health_page E B leave
   | Routes_view i \<Rightarrow> routes_page E B leave i
   | Radius_view i \<Rightarrow> blast_radius_page E B leave i
   | Admin_view i \<Rightarrow> admin_page E B leave i
   | Scenario_view i \<Rightarrow> scenario_page E B leave i)"

lemma orderly_view: "orderly (view_page E B leave v)"
  by (simp add: view_page_def orderly_pages split: page_run.split)

text \<open>A run of any page ends with what it shows, with the error of a request, with an exception
  of its own, or at the login: never with an answer 401 and a session that is still open.\<close>

lemma denied_view_signs_out:
  assumes "view_page E B leave v st = (Inl (APIError 401 code msg), st')"
  shows "guarded (view_page E B leave v) st = (Rerun Login_page, st')"
  using orderlyD [OF orderly_view assms] by (simp add: guarded_def assms signed_out_home)

lemma guarded_view_cases:
  "guarded (view_page E B leave v) st = (Rerun s, st') \<Longrightarrow> s = Login_page"
  by (auto simp: guarded_def intro!: signed_out_home dest: orderlyD [OF orderly_view]
      split: prod.splits sum.splits client_error.splits if_splits)

section \<open>One run of the application\<close>

text \<open>The login page: what the form was submitted with, if it was.\<close>

definition login_page :: "env \<Rightarrow> 's backend \<Rightarrow> (string \<times> string) option \<Rightarrow> browser \<times> 's \<Rightarrow> shown page_outcome \<times> (browser \<times> 's)" where
  "login_page E B form st = (case form of
     None \<Rightarrow> (Rendered (Widgets []), st)
   | Some (username, password) \<Rightarrow>
       (case sign_in E B username password st of
          (Inr _, st') \<Rightarrow> (Rerun (home (fst st')), st')
        | (Inl (APIError _ code message), st') \<Rightarrow> (Shown_error code message, st')
        | (Inl (Client_exception n), st') \<Rightarrow> (Uncaught n, st')))"

definition page_of :: "page_run \<Rightarrow> page_name" where
  "page_of v = (case v of Overview_view \<Rightarrow> Overview | Reviews_view _ \<Rightarrow> Decisions | Timeline_view _ \<Rightarrow> History
     | Analytics_view \<Rightarrow> Analytics_page | Data_health_view \<Rightarrow> Data_health_page | Routes_view _ \<Rightarrow> Route_editor
     | Radius_view _ \<Rightarrow> Blast_radius_page | Admin_view _ \<Rightarrow> Administration | Scenario_view _ \<Rightarrow> Scenario_runner)"

text \<open>\<open>v\<close> is the page that is asked for; the first page is shown where it is not among those of the user.\<close>

definition run_app ::
  "env \<Rightarrow> 's backend \<Rightarrow> bool \<Rightarrow> (string \<times> string) option \<Rightarrow> page_run \<Rightarrow> browser \<times> 's \<Rightarrow> shown page_outcome \<times> (browser \<times> 's)" where
  "run_app E B leave form v st = (case home (fst st) of
     Login_page \<Rightarrow> login_page E B form st
   | Broken n \<Rightarrow> (Uncaught n, st)
   | Pages ps \<Rightarrow> guarded (view_page E B leave (if page_of v \<in> set ps then v else Overview_view)) st)"

text \<open>Nothing is sent for somebody who is not signed in, and a page runs only for users with its right.\<close>

lemma signed_out_sends_nothing:
  "ss_auth (fst st) = None \<Longrightarrow> run_app E B leave None v st = (Rendered (Widgets []), st)"
  by (simp add: run_app_def signed_out_home login_page_def)

lemma page_needs_right:
  assumes "home (fst st) = Pages (pages perms)"
    and "page_of v = Administration \<and> ''MANAGE_USERS'' \<notin> set perms \<or>
      page_of v = Decisions \<and> ''REVIEW_NONCONFORMANCE'' \<notin> set perms \<or>
      page_of v = Route_editor \<and> ''MANAGE_ROUTES'' \<notin> set perms"
  shows "run_app E B leave form v st = run_app E B leave form Overview_view st"
  using assms pages_need_rights [of perms] by (auto simp: run_app_def)

text \<open>Signing in through the form leads to the pages of the user.\<close>

lemma login_form_opens:
  assumes "sign_in E B username password st = (Inr profile, st')"
  shows "run_app E B leave (Some (username, password)) v st =
    (if home (fst st) = Login_page then (Rerun (home (fst st')), st') else run_app E B leave None v st)"
  using assms by (auto simp: run_app_def login_page_def split: screen.split)

end
