(* ===== verification/TQ_Schema.thy ===== *)
theory TQ_Schema
  imports TQ_Outbox TQ_Risk TQ_Admin TQ_Integrations TQ_Ingestion_Facts TQ_App
begin

text \<open>
  The schema migrations (\<^verbatim>\<open>backend/alembic/versions\<close>): the tables whose rows the database protects
  from updates and deletions, by a trigger and by the privileges of the application's role, and the trigger on
  revisions of routes. A trigger is modelled as the condition under which a transaction from one state to
  the next does not raise. The services are shown never to run into the first trigger; the second is
  not met when a revision that was superseded is activated again.
\<close>

section \<open>Append-only tables\<close>

definition APPEND_ONLY_TABLES :: "string list" where
  "APPEND_ONLY_TABLES = [''ingest_attempts'', ''raw_events'', ''controller_decisions'', ''audit_entries'',
     ''integration_messages'', ''quality_results'', ''analysis_versions'', ''analysis_evidence'',
     ''cause_assessments'', ''investigation_notes'', ''product_structure_snapshots'']"

text \<open>The tables of the second revision.\<close>

definition SECURITY_TABLES :: "string list" where
  "SECURITY_TABLES = [''transport_nonces'', ''security_alerts'', ''control_device_invalidations'',
     ''blast_radius_queries'', ''blast_radius_exposures'', ''integrity_checkpoints'']"

text \<open>\<open>traceq_prevent_mutation\<close> before every update or deletion of a row: between two states a table may
  only have gained rows. No operation writes to \<open>cause_assessments\<close>.\<close>

definition prevent_mutation :: "string \<Rightarrow> db \<Rightarrow> db \<Rightarrow> bool" where
  "prevent_mutation t d d' \<longleftrightarrow>
     (if t = ''ingest_attempts'' then prefix (db_attempts d) (db_attempts d')
      else if t = ''raw_events'' then prefix (db_raw_events d) (db_raw_events d')
      else if t = ''controller_decisions'' then prefix (db_decisions d) (db_decisions d')
      else if t = ''audit_entries'' then prefix (db_audit d) (db_audit d')
      else if t = ''integration_messages'' then prefix (db_integration_messages d) (db_integration_messages d')
      else if t = ''quality_results'' then prefix (db_quality_results d) (db_quality_results d')
      else if t = ''analysis_versions'' then prefix (db_analyses d) (db_analyses d')
      else if t = ''analysis_evidence'' then prefix (db_evidence d) (db_evidence d')
      else if t = ''investigation_notes'' then prefix (db_notes d) (db_notes d')
      else if t = ''product_structure_snapshots'' then prefix (db_snapshots d) (db_snapshots d')
      else if t = ''transport_nonces'' then prefix (db_nonces d) (db_nonces d')
      else if t = ''security_alerts'' then prefix (db_alerts d) (db_alerts d')
      else if t = ''control_device_invalidations'' then prefix (db_invalidations d) (db_invalidations d')
      else if t = ''blast_radius_queries'' then prefix (db_queries d) (db_queries d')
      else if t = ''blast_radius_exposures'' then prefix (db_exposures d) (db_exposures d')
      else if t = ''integrity_checkpoints'' then prefix (db_checkpoints d) (db_checkpoints d')
      else True)"

definition triggers_pass :: "db \<Rightarrow> db \<Rightarrow> bool" where
  "triggers_pass d d' \<longleftrightarrow> (\<forall>t \<in> set (APPEND_ONLY_TABLES @ SECURITY_TABLES). prevent_mutation t d d')"

section \<open>The privileges of the application's role\<close>

datatype privilege = Select | Insert | Update | Delete

type_synonym grants = "(string \<times> privilege list) list"

definition grant_all :: "string list \<Rightarrow> grants \<Rightarrow> grants" where
  "grant_all tables G = map (\<lambda>t. (t, [Select, Insert, Update, Delete])) tables @ G"

text \<open>\<open>REVOKE UPDATE, DELETE ON ... FROM traceq_app\<close>.\<close>

definition revoke_changes :: "string \<Rightarrow> grants \<Rightarrow> grants" where
  "revoke_changes table = map (\<lambda>(t, ps). (t, if t = table then filter (\<lambda>p. p \<noteq> Update \<and> p \<noteq> Delete) ps else ps))"

definition upgrade_0001 :: "string list \<Rightarrow> grants" where
  "upgrade_0001 tables = fold revoke_changes APPEND_ONLY_TABLES (grant_all tables [])"

definition upgrade_0002 :: "grants \<Rightarrow> grants" where
  "upgrade_0002 G = fold revoke_changes SECURITY_TABLES G"

definition may :: "privilege \<Rightarrow> string \<Rightarrow> grants \<Rightarrow> bool" where
  "may p t G \<longleftrightarrow> list_ex (\<lambda>(t', ps). t' = t \<and> p \<in> set ps) G"

section \<open>Revisions of routes\<close>

text \<open>\<open>traceq_route_revision_immutable\<close> on an update of a row.\<close>

definition route_revision_immutable :: "RouteRevision \<Rightarrow> RouteRevision \<Rightarrow> bool" where
  "route_revision_immutable old new \<longleftrightarrow>
     \<not> (rr_immutable_after old \<noteq> None \<and>
        \<not> (rr_status old = ''active'' \<and> rr_status new = ''superseded'' \<and>
           new\<lparr>rr_status := []\<rparr> = old\<lparr>rr_status := []\<rparr>))"

text \<open>A row that keeps its values is not updated.\<close>

definition revisions_pass :: "db \<Rightarrow> db \<Rightarrow> bool" where
  "revisions_pass d d' \<longleftrightarrow> list_all2 (\<lambda>old new. new = old \<or> route_revision_immutable old new)
     (db_revisions d) (take (length (db_revisions d)) (db_revisions d'))"

section \<open>What keeps the protected rows\<close>

lemma triggers_pass_iff:
  "triggers_pass d d' \<longleftrightarrow>
     prefix (db_attempts d) (db_attempts d') \<and> prefix (db_raw_events d) (db_raw_events d') \<and>
     prefix (db_decisions d) (db_decisions d') \<and> prefix (db_audit d) (db_audit d') \<and>
     prefix (db_integration_messages d) (db_integration_messages d') \<and>
     prefix (db_quality_results d) (db_quality_results d') \<and> prefix (db_analyses d) (db_analyses d') \<and>
     prefix (db_evidence d) (db_evidence d') \<and> prefix (db_notes d) (db_notes d') \<and>
     prefix (db_snapshots d) (db_snapshots d') \<and> prefix (db_nonces d) (db_nonces d') \<and>
     prefix (db_alerts d) (db_alerts d') \<and> prefix (db_invalidations d) (db_invalidations d') \<and>
     prefix (db_queries d) (db_queries d') \<and> prefix (db_exposures d) (db_exposures d') \<and>
     prefix (db_checkpoints d) (db_checkpoints d')"
  by (simp add: triggers_pass_def APPEND_ONLY_TABLES_def SECURITY_TABLES_def prevent_mutation_def)

named_theorems kept_intros

lemma triggers_refl [kept_intros, simp]: "triggers_pass d d"
  by (simp add: triggers_pass_iff)

lemma triggers_trans: "triggers_pass d d1 \<Longrightarrow> triggers_pass d1 d2 \<Longrightarrow> triggers_pass d d2"
  unfolding triggers_pass_iff by (auto intro: prefix_order.trans)

text \<open>Updates of other tables.\<close>

lemma triggers_other [simp]:
  "triggers_pass d (d0\<lparr>db_users := x1\<rparr>) = triggers_pass d d0"
  "triggers_pass d (d0\<lparr>db_user_roles := x2\<rparr>) = triggers_pass d d0"
  "triggers_pass d (d0\<lparr>db_sessions := x3\<rparr>) = triggers_pass d d0"
  "triggers_pass d (d0\<lparr>db_refresh_tokens := x4\<rparr>) = triggers_pass d d0"
  "triggers_pass d (d0\<lparr>db_sources := x5\<rparr>) = triggers_pass d d0"
  "triggers_pass d (d0\<lparr>db_streams := x6\<rparr>) = triggers_pass d d0"
  "triggers_pass d (d0\<lparr>db_items := x7\<rparr>) = triggers_pass d d0"
  "triggers_pass d (d0\<lparr>db_projections := x8\<rparr>) = triggers_pass d d0"
  "triggers_pass d (d0\<lparr>db_occurrences := x9\<rparr>) = triggers_pass d d0"
  "triggers_pass d (d0\<lparr>db_ncrs := x10\<rparr>) = triggers_pass d d0"
  "triggers_pass d (d0\<lparr>db_proposals := x11\<rparr>) = triggers_pass d d0"
  "triggers_pass d (d0\<lparr>db_routes := x12\<rparr>) = triggers_pass d d0"
  "triggers_pass d (d0\<lparr>db_revisions := x13\<rparr>) = triggers_pass d d0"
  "triggers_pass d (d0\<lparr>db_steps := x14\<rparr>) = triggers_pass d d0"
  "triggers_pass d (d0\<lparr>db_outbox := x15\<rparr>) = triggers_pass d d0"
  "triggers_pass d (d0\<lparr>db_health := x16\<rparr>) = triggers_pass d d0"
  "triggers_pass d (d0\<lparr>db_heartbeats := x17\<rparr>) = triggers_pass d d0"
  "triggers_pass d (d0\<lparr>db_approvals := x18\<rparr>) = triggers_pass d d0"
  "triggers_pass d (d0\<lparr>db_external_ids := x19\<rparr>) = triggers_pass d d0"
  "triggers_pass d (d0\<lparr>db_uuid_draws := x20\<rparr>) = triggers_pass d d0"
  "triggers_pass d (d0\<lparr>db_nonce_draws := x21\<rparr>) = triggers_pass d d0"
  "triggers_pass d (d0\<lparr>db_ingest_seq := x22\<rparr>) = triggers_pass d d0"
  by (simp_all add: triggers_pass_iff)

text \<open>Rows added to a protected table.\<close>

lemma triggers_added [kept_intros]:
  assumes "triggers_pass d d0"
  shows "triggers_pass d (d0\<lparr>db_attempts := db_attempts d0 @ a1\<rparr>)"
    and "triggers_pass d (d0\<lparr>db_raw_events := db_raw_events d0 @ a2\<rparr>)"
    and "triggers_pass d (d0\<lparr>db_decisions := db_decisions d0 @ a3\<rparr>)"
    and "triggers_pass d (d0\<lparr>db_audit := db_audit d0 @ a4\<rparr>)"
    and "triggers_pass d (d0\<lparr>db_integration_messages := db_integration_messages d0 @ a5\<rparr>)"
    and "triggers_pass d (d0\<lparr>db_quality_results := db_quality_results d0 @ a6\<rparr>)"
    and "triggers_pass d (d0\<lparr>db_notes := db_notes d0 @ a7\<rparr>)"
    and "triggers_pass d (d0\<lparr>db_snapshots := db_snapshots d0 @ a8\<rparr>)"
    and "triggers_pass d (d0\<lparr>db_nonces := db_nonces d0 @ a9\<rparr>)"
    and "triggers_pass d (d0\<lparr>db_alerts := db_alerts d0 @ a10\<rparr>)"
    and "triggers_pass d (d0\<lparr>db_invalidations := db_invalidations d0 @ a11\<rparr>)"
    and "triggers_pass d (d0\<lparr>db_queries := db_queries d0 @ a12\<rparr>)"
    and "triggers_pass d (d0\<lparr>db_exposures := db_exposures d0 @ a13\<rparr>)"
    and "triggers_pass d (d0\<lparr>db_checkpoints := db_checkpoints d0 @ a14\<rparr>)"
  using assms by (simp_all add: triggers_pass_iff prefix_prefix)

lemma triggers_common [kept_intros]:
  assumes "triggers_pass d d0"
  shows "triggers_pass d (drew_uuid d0)" and "triggers_pass d (write_audit a o' c j d0)"
    and "triggers_pass d (alert k s i j' d0)" and "triggers_pass d (add_attempt row d0)"
    and "triggers_pass d (auth_audit a o' u se tt ti r d0)"
  using assms
  by (simp_all add: drew_uuid_def write_audit_def alert_def add_attempt_def auth_audit_def kept_intros)

text \<open>A computation that yields a state, or raises: the state it yields is one the triggers let through.\<close>

definition kept_result :: "db \<Rightarrow> ('r \<times> db) result \<Rightarrow> bool" where
  "kept_result d r \<longleftrightarrow> (\<forall>x d'. r = Inr (x, d') \<longrightarrow> triggers_pass d d')"

lemma kept_results [kept_intros]:
  "kept_result d (Inl e)"
  "triggers_pass d d' \<Longrightarrow> kept_result d (Inr (x, d'))"
  by (simp_all add: kept_result_def)

lemma kept_bind_state [kept_intros]:
  assumes "kept_result d m" and "\<And>x d'. triggers_pass d d' \<Longrightarrow> kept_result d (f x d')"
  shows "kept_result d (rbind m (\<lambda>(x, d'). f x d'))"
  using assms by (cases m) (auto simp: kept_result_def)

lemma kept_bind: "(\<And>x. kept_result d (f x)) \<Longrightarrow> kept_result d (rbind m f)"
  by (cases m) (auto simp: kept_result_def)

lemma kept_branches [kept_intros]:
  "kept_result d r \<Longrightarrow> kept_result d r' \<Longrightarrow> kept_result d (if b then r else r')"
  "kept_result d r \<Longrightarrow> (\<And>x. kept_result d (f x)) \<Longrightarrow> kept_result d (case v of None \<Rightarrow> r | Some x \<Rightarrow> f x)"
  "kept_result d (g w) \<Longrightarrow> kept_result d (Let w g)"
  "(\<And>x y. kept_result d (h x y)) \<Longrightarrow> kept_result d (case q of (x, y) \<Rightarrow> h x y)"
  by (simp_all split: option.split prod.split)

text \<open>An endpoint keeps what its handler keeps.\<close>

lemma triggers_atomically [kept_intros]: "kept_result d (f d) \<Longrightarrow> triggers_pass d (snd (atomically f d))"
  by (auto simp: atomically_def kept_result_def split: sum.split)

lemma triggers_gated [kept_intros]: "(\<And>p. triggers_pass d (snd (h p d))) \<Longrightarrow> triggers_pass d (snd (gated g h d))"
  by (simp add: gated_def split: sum.split)

section \<open>The services\<close>

lemma triggers_release_parts [kept_intros]:
  assumes "triggers_pass d d0"
  shows "triggers_pass d (put_ncr n d0)" and "triggers_pass d (set_item_status i x d0)"
    and "triggers_pass d (close_occurrence t i d0)" and "triggers_pass d (add_decision c d0)"
    and "triggers_pass d (add_result E now n c d0)"
  using assms
  by (simp_all add: put_ncr_def set_item_status_def close_occurrence_def add_decision_def add_result_def Let_def kept_intros)

lemma triggers_issue [kept_intros]:
  "triggers_pass d d0 \<Longrightarrow> kept_result d (issue E now ok n c d0)"
  by (auto simp: issue_def create_result_def kept_result_def rbind_Inr_iff split: if_splits option.splits intro!: kept_intros)

lemma triggers_reviews [kept_intros]:
  "triggers_pass d (snd (decide_nonconformance E now i b r p d))"
  "triggers_pass d (snd (verify_rework E now i w r p d))"
  "triggers_pass d (snd (review_nonconformance i q r p d))"
  "triggers_pass d (snd (request_inspection E now i iq r p d))"
  "triggers_pass d (snd (add_investigation_note E now i body r p d))"
  "triggers_pass d (snd (propose_containment E now i pq r p d))"
  "triggers_pass d (snd (review_containment now i cq r p d))"
  unfolding decide_nonconformance_def verify_rework_def review_nonconformance_def request_inspection_def
    add_investigation_note_def propose_containment_def review_containment_def
  by (intro kept_intros | rule kept_bind | simp)+

lemma triggers_review_step: "review_step E d d' \<Longrightarrow> triggers_pass d d'"
  by (induction rule: review_step.induct)
    (auto simp: decision_endpoint_def verify_rework_endpoint_def review_endpoint_def inspection_endpoint_def
      note_endpoint_def proposal_endpoint_def proposal_review_endpoint_def intro!: kept_intros)

subsection \<open>Identities\<close>

lemma triggers_auth [kept_intros]:
  "triggers_pass d (snd (login E S now username password r d))"
  "triggers_pass d (snd (refresh E S now token r d))"
  "triggers_pass d (snd (logout E now token r d))"
  by (auto simp: login_def refresh_def logout_def token_response_def set_user_def Let_def
      split: option.split prod.split intro!: kept_intros)

lemma triggers_auth_step: "auth_step E S d d' \<Longrightarrow> triggers_pass d d'"
  by (induction rule: auth_step.induct) (rule triggers_auth)+

subsection \<open>Ingestion and rebuilds\<close>

lemma triggers_touch [kept_intros]: "triggers_pass d d0 \<Longrightarrow> triggers_pass d (touch_projection i f d0)"
  by (simp add: touch_projection_def split: option.split)

lemma triggers_rejected [kept_intros]:
  "triggers_pass d d0 \<Longrightarrow> triggers_pass d (record_rejected_attempt now src i c m d0)"
  by (auto simp: record_rejected_attempt_def Let_def split: option.split intro!: kept_intros)

lemma triggers_admit [kept_intros]: "triggers_pass d (snd (admit E S now h v d))"
  by (auto simp: admit_def authenticate_source_def authenticate_hmac_def Let_def
      split: sum.split prod.split option.split intro!: kept_intros)

lemma triggers_track [kept_intros]: "triggers_pass d d0 \<Longrightarrow> triggers_pass d (track_sequence src e d0)"
  by (auto simp: track_sequence_def Let_def split: option.split intro!: kept_intros)

lemma triggers_settle [kept_intros]:
  "triggers_pass d d0 \<Longrightarrow> triggers_pass d (snd (settle_existing now src e hash r d0))"
  by (auto simp: settle_existing_def triggers_pass_iff alert_def add_attempt_def prefix_prefix)

lemma triggers_sealed:
  assumes "triggers_pass d d0" and "append_sealed E S now src e plaintext hash d0 = Inr d'"
  shows "triggers_pass d d'"
  using assms(2)
proof (rule append_sealed_cases)
  fix st d2 i r
  assume s: "stream_for (''source:'' @ es_source_id src) (d0\<lparr>db_nonce_draws := Suc (db_nonce_draws d0)\<rparr>) = Inr (st, d2)"
    and d': "d' = append_raw r d2"
  have "triggers_pass d d2"
    using s assms(1) by (auto simp: stream_for_def Let_def split: option.splits if_splits)
  then show ?thesis
    by (simp add: d' append_raw_def kept_intros)
qed

lemma triggers_note_raw: "triggers_pass d d0 \<Longrightarrow> note_raw E i d0 = Inr d' \<Longrightarrow> triggers_pass d d'"
  by (auto simp: note_raw_def split: if_splits option.splits intro: kept_intros)

lemma triggers_note_invalidation [kept_intros]:
  "triggers_pass d d0 \<Longrightarrow> triggers_pass d (snd (note_invalidation e d0))"
  by (auto simp: note_invalidation_def Let_def split: payload.split intro!: kept_intros)

lemma triggers_store:
  assumes "triggers_pass d d0" and "store_event E S now src e plaintext hash d0 = Inr (is, d')"
  shows "triggers_pass d d'"
proof -
  obtain d1 d2 where s: "append_sealed E S now src e plaintext hash d0 = Inr d1" "note_raw E (item_id e) d1 = Inr d2"
    "d' = add_attempt (attempt_row now (Some (es_source_id src)) (Some (event_id e))
       Attempt_accepted None (Some (event_id e)) (Some hash) JNull) (snd (note_invalidation e d2))"
    using assms(2) by (auto simp: store_event_def rbind_Inr_iff case_prod_beta)
  have "triggers_pass d d2"
    using triggers_note_raw [OF triggers_sealed [OF assms(1) s(1)] s(2)] .
  then show ?thesis
    by (simp add: s(3) kept_intros)
qed

lemma triggers_commit:
  assumes "triggers_pass d d0" and "triggers_pass d d1"
    and "\<And>dr. race = Raced_at_flush dr \<or> race = Raced_at_commit dr \<Longrightarrow> triggers_pass d dr"
  shows "triggers_pass d (snd (commit_event E S now race src e d0 d1))"
  using assms
  by (auto simp: commit_event_def Let_def split: option.split sum.split race.split intro!: kept_intros
      intro: triggers_store)

lemma triggers_ingest:
  assumes "\<And>dr. race = Raced_at_flush dr \<or> race = Raced_at_commit dr \<Longrightarrow> triggers_pass d dr"
  shows "triggers_pass d (snd (ingest_event E S now race h v d))"
proof -
  obtain a d1 where a: "admit E S now h v d = (a, d1)" by fastforce
  have "triggers_pass d d1"
    using triggers_admit [of d E S now h v] by (simp add: a)
  then show ?thesis
    using assms by (auto simp: ingest_event_def a split: sum.split exn.split intro!: kept_intros triggers_commit)
qed

lemma triggers_rebuilt: "rebuild_rel i d d' \<Longrightarrow> triggers_pass d d'"
  unfolding rebuild_rel_def triggers_pass_iff
  by (cases d; cases d') (simp add: rebuild_frame_def)

lemma triggers_rebuild:
  assumes "triggers_pass d d0" and "rebuild_item E S now i d0 = (r, d')"
  shows "triggers_pass d d'"
proof -
  have "triggers_pass d0 d'"
    using triggers_rebuilt [OF rebuild_item_rel [of i d0 E S now]] assms(2) by simp
  with assms(1) show ?thesis by (rule triggers_trans)
qed

subsection \<open>Risk, routes, administration, integrations, outbox\<close>

lemma triggers_risk_parts [kept_intros]:
  assumes "triggers_pass d d0"
  shows "triggers_pass d (add_exposure E q b x d0)" and "triggers_pass d (add_query E b p d0)"
    and "triggers_pass d (add_proposal E now q b p d0)" and "triggers_pass d (add_approval_request E i n b p d0)"
    and "triggers_pass d (approve_proposal now rs p i d0)" and "triggers_pass d (put_approval a d0)"
    and "triggers_pass d (add_invalidation v p d0)"
  using assms
  by (simp_all add: add_exposure_def add_query_def add_proposal_def add_approval_request_def
      approve_proposal_def put_approval_def add_invalidation_def kept_intros)

lemma triggers_exposures [kept_intros]:
  "triggers_pass d d0 \<Longrightarrow> triggers_pass d (fold (add_exposure E q b) xs d0)"
  by (induction xs arbitrary: d0) (simp_all add: kept_intros)

lemma triggers_rebuild_all:
  assumes "rebuild_all E S now is committed pending = (r, d')" and "triggers_pass d committed" and "triggers_pass d pending"
  shows "triggers_pass d d'" and "r = Inr d2 \<Longrightarrow> triggers_pass d d2"
proof -
  have "triggers_pass d d' \<and> (\<forall>d2. r = Inr d2 \<longrightarrow> triggers_pass d d2)"
    using assms
    by (induction E S now "is" committed pending rule: rebuild_all.induct)
      (auto split: prod.splits sum.splits intro: triggers_rebuild)
  then show "triggers_pass d d'" "r = Inr d2 \<Longrightarrow> triggers_pass d d2"
    by blast+
qed

lemma triggers_finish:
  "triggers_pass d d0 \<Longrightarrow> finish_approval E now rs p a d0 = Inr d' \<Longrightarrow> triggers_pass d d'"
  by (auto simp: finish_approval_def split: if_splits option.splits intro!: kept_intros)

lemma triggers_risk [kept_intros]:
  "triggers_pass d (snd (blast_radius E S now b r p d))"
  "triggers_pass d (snd (approve E now i rs r p d))"
  "triggers_pass d (snd (invalidate_device E S now v r p d))"
proof -
  show "triggers_pass d (snd (blast_radius E S now b r p d))"
    unfolding blast_radius_def by (intro kept_intros | rule kept_bind | simp)+
  show "triggers_pass d (snd (approve E now i rs r p d))"
    by (auto simp: approve_def atomically_def Let_def rbind_Inr_iff split: sum.split option.splits if_splits
        intro!: kept_intros intro: triggers_finish)
  show "triggers_pass d (snd (invalidate_device E S now v r p d))"
    by (auto simp: invalidate_device_def Let_def split: sum.split prod.split
        intro!: kept_intros dest: triggers_rebuild_all(1) [of _ _ _ _ _ _ _ _ d] triggers_rebuild_all(2) [of _ _ _ _ _ _ _ _ d])
qed

lemma triggers_steps [kept_intros]: "triggers_pass d d0 \<Longrightarrow> triggers_pass d (add_steps E rv k ss d0)"
  by (induction E rv k ss d0 rule: add_steps.induct) (simp_all add: kept_intros)

lemma triggers_new_revision [kept_intros]: "triggers_pass d d0 \<Longrightarrow> kept_result d (new_revision E route ss p d0)"
  by (auto simp: new_revision_def kept_result_def rbind_Inr_iff Let_def intro!: kept_intros)

lemma triggers_route_parts [kept_intros]:
  assumes "triggers_pass d d0"
  shows "triggers_pass d (add_route E code name d0)" and "triggers_pass d (set_revision i f d0)"
    and "triggers_pass d (set_active i j d0)" and "triggers_pass d (supersede route i d0)"
    and "triggers_pass d (snd (import_into E b d0))"
  using assms
  by (auto simp: add_route_def set_revision_def set_active_def supersede_def import_into_def
      split: option.split intro!: kept_intros)

lemma triggers_routes [kept_intros]:
  "triggers_pass d (snd (create_route E b p d))"
  "triggers_pass d (snd (create_revision E i ss p d))"
  "triggers_pass d (snd (activate_revision now i j rs r p d))"
  "triggers_pass d (snd (import_route E now b a p d))"
proof -
  show "triggers_pass d (snd (create_route E b p d))" "triggers_pass d (snd (create_revision E i ss p d))"
    "triggers_pass d (snd (activate_revision now i j rs r p d))"
    unfolding create_route_def create_revision_def activate_revision_def
    by (intro kept_intros | rule kept_bind | simp)+
  obtain route d1 where i: "import_into E b d = (route, d1)" by fastforce
  have "triggers_pass d d1"
    using triggers_route_parts(5) [OF triggers_refl, of d E b] by (simp add: i)
  then show "triggers_pass d (snd (import_route E now b a p d))"
    unfolding import_route_def by (intro triggers_atomically) (auto simp: i intro!: kept_intros)
qed

lemma triggers_set_roles [kept_intros]: "triggers_pass d d0 \<Longrightarrow> triggers_pass d (set_roles u rs d0)"
  by (simp add: set_roles_def)

lemma triggers_checkpoint [kept_intros]: "kept_result d (create_classic_checkpoint E S i d)"
  by (auto simp: create_classic_checkpoint_def kept_result_def rbind_Inr_iff Let_def
      split: option.splits if_splits intro!: kept_intros)

lemma triggers_verify [kept_intros]: "triggers_pass d (snd (verify_integrity E S d))"
  by (auto simp: verify_integrity_def Let_def triggers_pass_iff split: sum.split)

lemma triggers_admin [kept_intros]:
  "triggers_pass d (snd (create_user E ub r p d))"
  "triggers_pass d (snd (patch_user u upb r p d))"
  "triggers_pass d (snd (create_source E now sb r p d))"
  "triggers_pass d (snd (patch_source s spb r p d))"
  "triggers_pass d (snd (checkpoint E S i r p d))"
  "triggers_pass d (snd (integrity_check E S r p d))"
  "triggers_pass d (snd (admin_rebuild E S now i r p d))"
proof -
  show "triggers_pass d (snd (create_user E ub r p d))" "triggers_pass d (snd (create_source E now sb r p d))"
    "triggers_pass d (snd (patch_source s spb r p d))" "triggers_pass d (snd (checkpoint E S i r p d))"
    unfolding create_user_def create_source_def patch_source_def checkpoint_def
    by (intro kept_intros | rule kept_bind | simp)+
  show "triggers_pass d (snd (patch_user u upb r p d))"
    by (auto simp: patch_user_def atomically_def rbind_Inr_iff set_user_def set_roles_def
        split: sum.split option.splits if_splits intro!: kept_intros)
  show "triggers_pass d (snd (integrity_check E S r p d))"
    using triggers_verify [of d E S] by (auto simp: integrity_check_def split: sum.split prod.split intro!: kept_intros)
  show "triggers_pass d (snd (admin_rebuild E S now i r p d))"
    by (auto simp: admin_rebuild_def mark_projection_failed_def split: sum.split prod.split
        intro!: kept_intros dest: triggers_rebuild [OF triggers_refl])
qed

lemma triggers_sync [kept_intros]: "triggers_pass d (snd (sync_erp E now jobs refs r p d))"
  by (auto simp: sync_erp_def sync_failed_def flush_identities_def put_health_def
      split: sum.split prod.split option.split intro!: kept_intros)

lemma triggers_outbox_parts [kept_intros]:
  assumes "triggers_pass d d0"
  shows "triggers_pass d (heartbeat w t d0)" and "triggers_pass d (put_message m d0)"
    and "triggers_pass d (log_message m x j d0)" and "triggers_pass d (mark_healthy i t d0)"
    and "triggers_pass d (invalid_ack_alert m j d0)"
  using assms
  by (simp_all add: heartbeat_def put_message_def log_message_def mark_healthy_def invalid_ack_alert_def kept_intros)

lemma triggers_settled: "settle S now m out d0 = Some d' \<Longrightarrow> triggers_pass d d0 \<Longrightarrow> triggers_pass d d'"
  by (auto simp: settle_def Let_def split: send_outcome.splits json.splits if_splits intro!: kept_intros)

lemma triggers_turn [kept_intros]: "triggers_pass d (fst (snd (process_one S wid now locked post d w)))"
  by (auto simp: process_one_def Let_def split: option.split prod.split intro: triggers_settled kept_intros)

lemma triggers_retry [kept_intros]: "triggers_pass d (snd (retry_outbox now i r p d))"
  unfolding retry_outbox_def by (intro kept_intros | simp)+

lemma triggers_recover_one [kept_intros]:
  "triggers_pass d (snd acc) \<Longrightarrow> triggers_pass d (snd (recover_one E S now i acc))"
  by (auto simp: recover_one_def mark_projection_failed_def split: sum.split prod.split
      intro!: triggers_touch intro: triggers_rebuild)

lemma triggers_recovery: "triggers_pass d (start_up E S now d)"
proof -
  have "triggers_pass d (snd acc) \<Longrightarrow> triggers_pass d (snd (fold (recover_one E S now) is acc))" for "is" acc
    by (induction "is" arbitrary: acc) (simp_all add: kept_intros)
  then show ?thesis
    by (simp add: start_up_def recover_stale_projections_def)
qed

lemma triggers_mark: "triggers_pass d d0 \<Longrightarrow> triggers_pass d (snd (rebuild_or_mark E S now i d0))"
  by (auto simp: rebuild_or_mark_def mark_projection_failed_def split: sum.split prod.split
      intro!: triggers_touch intro: triggers_rebuild)

lemma triggers_received:
  assumes "\<And>dr. race = Raced_at_flush dr \<or> race = Raced_at_commit dr \<Longrightarrow> triggers_pass d dr"
  shows "triggers_pass d (snd (receive_event E S now race h body d))"
proof (cases body)
  case None
  then show ?thesis by (simp add: receive_event_def kept_intros)
next
  case (Some v)
  obtain res d1 where i: "ingest_event E S now race h v d = (res, d1)" by fastforce
  have k: "triggers_pass d d1"
    using triggers_ingest [OF assms, of race E S now h v] by (simp add: i)
  have fold: "triggers_pass d d0 \<Longrightarrow> triggers_pass d (fold (\<lambda>j db. snd (rebuild_or_mark E S now j db)) js d0)" for js d0
    by (induction js arbitrary: d0) (simp_all add: triggers_mark)
  have "triggers_pass d (snd (rebuild_or_mark E S now j d1))" for j
    using k by (rule triggers_mark)
  then show ?thesis
    using k by (auto simp: receive_event_def Some i case_prod_beta Let_def split: sum.split option.split intro!: fold)
qed

lemma triggers_denial [kept_intros]: "triggers_pass d d0 \<Longrightarrow> triggers_pass d (record_denial rq c d0)"
  by (simp add: record_denial_def Let_def kept_intros)

section \<open>Histories of the whole service\<close>

text \<open>
  What the processes of the service do to the database, in any order: requests with events, which may
  race with anything else, sessions, decisions, risk analyses, routes, administration, synchronisation, turns of
  the worker, starts, and the trace of a denied request. The tampering and the reset of the demonstration mode are
  no part of it: they go through a connection with other rights and disable the triggers first.
\<close>

inductive service :: "env \<Rightarrow> Settings \<Rightarrow> db \<Rightarrow> db \<Rightarrow> bool" for E S where
  sv_none: "service E S d d"
| sv_event: "service E S d d1 \<Longrightarrow> (\<forall>dr. race = Raced_at_flush dr \<or> race = Raced_at_commit dr \<longrightarrow> service E S d1 dr) \<Longrightarrow>
    service E S d (snd (receive_event E S now race h body d1))"
| sv_auth: "service E S d d1 \<Longrightarrow> auth_step E S d1 d2 \<Longrightarrow> service E S d d2"
| sv_review: "service E S d d1 \<Longrightarrow> review_step E d1 d2 \<Longrightarrow> service E S d d2"
| sv_blast: "service E S d d1 \<Longrightarrow> service E S d (snd (blast_endpoint E S now c b r d1))"
| sv_approve: "service E S d d1 \<Longrightarrow> service E S d (snd (approve_endpoint E now c i reason r d1))"
| sv_invalidate: "service E S d d1 \<Longrightarrow> service E S d (snd (invalidation_endpoint E S now c v r d1))"
| sv_create_route: "service E S d d1 \<Longrightarrow> service E S d (snd (create_route_endpoint E now c rc d1))"
| sv_revision: "service E S d d1 \<Longrightarrow> service E S d (snd (create_revision_endpoint E now c i steps d1))"
| sv_activate: "service E S d d1 \<Longrightarrow> service E S d (snd (activate_endpoint E now c i j reason r d1))"
| sv_import: "service E S d d1 \<Longrightarrow> service E S d (snd (import_endpoint E now c rc a d1))"
| sv_create_user: "service E S d d1 \<Longrightarrow> service E S d (snd (create_user_endpoint E now c ub r d1))"
| sv_patch_user: "service E S d d1 \<Longrightarrow> service E S d (snd (patch_user_endpoint E now c i upb r d1))"
| sv_create_source: "service E S d d1 \<Longrightarrow> service E S d (snd (create_source_endpoint E now c sb r d1))"
| sv_patch_source: "service E S d d1 \<Longrightarrow> service E S d (snd (patch_source_endpoint E now c i spb r d1))"
| sv_checkpoint: "service E S d d1 \<Longrightarrow> service E S d (snd (checkpoint_endpoint E S now c i r d1))"
| sv_integrity: "service E S d d1 \<Longrightarrow> service E S d (snd (integrity_endpoint E S now c r d1))"
| sv_rebuild: "service E S d d1 \<Longrightarrow> service E S d (snd (rebuild_endpoint E S now c i r d1))"
| sv_sync: "service E S d d1 \<Longrightarrow> service E S d (snd (sync_endpoint E now c jobs refs r d1))"
| sv_retry: "service E S d d1 \<Longrightarrow> service E S d (snd (retry_endpoint E now c i r d1))"
| sv_turn: "service E S d d1 \<Longrightarrow> service E S d (fst (snd (process_one S wid now locked (\<lambda>_ _. (response, ())) d1 ())))"
| sv_start: "service E S d d1 \<Longrightarrow> service E S d (start_up E S now d1)"
| sv_denied: "service E S d d1 \<Longrightarrow> service E S d (record_denial rq code d1)"

lemma service_triggers: "service E S d d' \<Longrightarrow> triggers_pass d d'"
proof (induction rule: service.induct)
  case (sv_event d d1 race now h body)
  then show ?case using triggers_trans triggers_received by blast
next
  case (sv_auth d d1 d2)
  then show ?case using triggers_trans triggers_auth_step by blast
next
  case (sv_review d d1 d2)
  then show ?case using triggers_trans triggers_review_step by blast
next
  case (sv_start d d1 now)
  then show ?case using triggers_trans triggers_recovery by blast
next
  case (sv_denied d d1 rq code)
  show ?case by (rule triggers_denial) (rule sv_denied.IH)
qed (rule triggers_refl, (erule triggers_trans, auto simp: blast_endpoint_def approve_endpoint_def invalidation_endpoint_def
    create_route_endpoint_def create_revision_endpoint_def activate_endpoint_def import_endpoint_def
    create_user_endpoint_def patch_user_endpoint_def create_source_endpoint_def patch_source_endpoint_def
    checkpoint_endpoint_def integrity_endpoint_def rebuild_endpoint_def sync_endpoint_def retry_endpoint_def
    intro!: kept_intros)+)

section \<open>The role cannot change protected rows\<close>

lemma may_grant_all: "may p t (grant_all tables []) \<longleftrightarrow> t \<in> set tables"
  by (cases p) (induction tables, auto simp: may_def grant_all_def)+

lemma may_revoke: "may p t (revoke_changes table G) \<longleftrightarrow> may p t G \<and> \<not> (t = table \<and> p \<in> {Update, Delete})"
  by (induction G) (auto simp: may_def revoke_changes_def split: if_splits)

lemma may_revoked: "may p t (fold revoke_changes ts G) \<longleftrightarrow> may p t G \<and> \<not> (t \<in> set ts \<and> p \<in> {Update, Delete})"
  by (induction ts arbitrary: G) (auto simp: may_revoke)

lemma role_rights:
  "may p t (upgrade_0002 (upgrade_0001 tables)) \<longleftrightarrow>
     t \<in> set tables \<and> (t \<in> set (APPEND_ONLY_TABLES @ SECURITY_TABLES) \<longrightarrow> p = Select \<or> p = Insert)"
  by (cases p) (auto simp: upgrade_0002_def upgrade_0001_def may_revoked may_grant_all)

section \<open>Activating a revision again\<close>

lemma revisions_pass_map:
  assumes "db_revisions d' = map f (db_revisions d)"
  shows "revisions_pass d d' \<longleftrightarrow> (\<forall>r \<in> set (db_revisions d). f r = r \<or> route_revision_immutable r (f r))"
  unfolding revisions_pass_def assms by (auto simp: list_all2_map2 list_all2_same)

lemma row_of_id: "distinct (map rr_id rows) \<Longrightarrow> find_by rr_id i rows = Some rv \<Longrightarrow> r \<in> set rows \<Longrightarrow> rr_id r = i \<Longrightarrow> r = rv"
  by (induction rows) (auto split: if_splits simp: rev_image_eqI)

text \<open>What an activation does to each row: the revision is activated, the one before superseded.\<close>

lemma activation_rows:
  "db_revisions (activation now route i d) = map (\<lambda>r.
     if rr_id r = i then activated now r
     else if rd_active_revision_id route = Some (rr_id r) then r\<lparr>rr_status := ''superseded''\<rparr> else r) (db_revisions d)"
  by (auto simp: activation_def set_active_def set_revision_def supersede_def update_by_def activated_def split: option.split)

lemma activation_passes:
  assumes ok: "routes_ok E d" and ids: "distinct (map rr_id (db_revisions d))"
    and a: "activate_revision now i j rs rq p d = (Inr x, d')"
  shows "\<exists>rv. find_by rr_id j (db_revisions d) = Some rv \<and>
    (revisions_pass d d' \<longleftrightarrow> rr_immutable_after rv = None \<or> rr_status rv = ''active'')"
proof -
  obtain route rv aa o' c y where *: "find_by rd_id i (db_routes d) = Some route"
    "find_by rr_id j (db_revisions d) = Some rv" "rr_route_id rv = rd_id route"
    "d' = write_audit aa o' c y (activation now route (rr_id rv) d)"
    using a by (auto simp: activate_revision_def activation_def dest!: atomically_Inr split: option.splits if_splits)
  have rv: "rv \<in> set (db_revisions d)" "rr_id rv = j"
    using find_by_SomeD [OF *(2)] by auto
  have active: "active_ok d route"
    using routes_okD(6) [OF ok] find_by_SomeD [OF *(1)] by blast
  let ?f = "\<lambda>r. if rr_id r = rr_id rv then activated now r
     else if rd_active_revision_id route = Some (rr_id r) then r\<lparr>rr_status := ''superseded''\<rparr> else r"
  have old: "?f r = r \<or> route_revision_immutable r (?f r)" if r: "r \<in> set (db_revisions d)" "r \<noteq> rv" for r
  proof (cases "rd_active_revision_id route = Some (rr_id r)")
    case True
    then obtain r1 where "find_by rr_id (rr_id r) (db_revisions d) = Some r1" "rr_status r1 = ''active''"
      using active by (auto simp: active_ok_def)
    then have "rr_status r = ''active''"
      using row_of_id [OF ids _ r(1)] by blast
    then show ?thesis
      using row_of_id [OF ids *(2) r(1)] r(2) rv(2) by (auto simp: route_revision_immutable_def)
  next
    case False
    then show ?thesis
      using row_of_id [OF ids *(2) r(1)] r(2) rv(2) by auto
  qed
  have self: "(?f rv = rv \<or> route_revision_immutable rv (?f rv)) \<longleftrightarrow> rr_immutable_after rv = None \<or> rr_status rv = ''active''"
    by (cases rv) (auto simp: route_revision_immutable_def activated_def split: option.splits)
  have "revisions_pass d d' \<longleftrightarrow> (\<forall>r \<in> set (db_revisions d). ?f r = r \<or> route_revision_immutable r (?f r))"
    by (rule revisions_pass_map) (simp add: *(4) activation_rows write_audit_def)
  moreover have "(\<forall>r \<in> set (db_revisions d). Q r) \<longleftrightarrow> Q rv" if "\<And>r. r \<in> set (db_revisions d) \<Longrightarrow> r \<noteq> rv \<Longrightarrow> Q r" for Q
    using that rv(1) by blast
  note this [of "\<lambda>r. ?f r = r \<or> route_revision_immutable r (?f r)", OF old]
  ultimately have "revisions_pass d d' \<longleftrightarrow> rr_immutable_after rv = None \<or> rr_status rv = ''active''"
    using self by (rule trans [OF trans])
  with *(2) show ?thesis by (intro exI [of _ rv] conjI)
qed

end
