(* ===== verification/TQ_Load.thy ===== *)
theory TQ_Load
  imports TQ_Ingestion TQ_Outbox
begin

text \<open>
  The generators of event load (\<^verbatim>\<open>scripts/generate_load.py\<close>, \<^verbatim>\<open>scripts/generate_events.py\<close>):
  what they yield for a profile, as functions of the draws of the random generator. A draw is numbered;
  \<open>rn_unit\<close> is what \<open>random()\<close> returns for it, \<open>rn_bits\<close> what \<open>getrandbits(128)\<close> returns, and \<open>rn_choice\<close>
  the position \<open>choice\<close> takes in a list of a given length. Reading the profile, writing files and sending
  requests are not modelled. Every event of a load is shown to be one the ingestion accepts as well-formed; a
  fixture of the contract is shown to be checked as the service reads it.
\<close>

section \<open>Draws, numbers and events\<close>

record rng =
  rn_unit :: "nat \<Rightarrow> rat"
  rn_bits :: "nat \<Rightarrow> nat"
  rn_choice :: "nat \<Rightarrow> nat \<Rightarrow> nat"

text \<open>A number with leading zeros (\<open>:08d\<close>).\<close>

definition padded :: "nat \<Rightarrow> nat \<Rightarrow> string" where
  "padded w n = replicate (w - length (nat_str n)) (CHR ''0'') @ nat_str n"

text \<open>An event as the generators build it. \<open>lv_run\<close> is whether it has the key of the operation run, always null.\<close>

record LoadEvent =
  lv_event_id :: string
  lv_event_type :: string
  lv_occurred_at :: string
  lv_source :: SourceRef
  lv_item_id :: string
  lv_run :: bool
  lv_payload :: "(string \<times> json) list"

definition load_json :: "LoadEvent \<Rightarrow> json" where
  "load_json e = JObj ([(''event_id'', JStr (lv_event_id e)), (''event_type'', JStr (lv_event_type e)),
     (''schema_version'', JStr ''1.0''), (''occurred_at'', JStr (lv_occurred_at e)),
     (''source'', dump_SourceRef (lv_source e)), (''item_id'', JStr (lv_item_id e))] @
     (if lv_run e then [(''operation_run_id'', JNull)] else []) @
     [(''payload'', JObj (lv_payload e))])"

section \<open>A load profile\<close>

record LoadProfile =
  lp_items :: nat
  lp_sources :: nat
  lp_duplicate :: rat
  lp_defect :: rat
  lp_late :: rat
  lp_warning :: rat

definition registration_payload :: "(string \<times> json) list" where
  "registration_payload = [(''product_definition_id'', JStr ''PD-TRACE-01''), (''revision'', JStr ''A''),
     (''line_id'', JStr ''LINE-A''), (''route_id'', JStr ''ROUTE-DEFAULT'')]"

definition inspection_payload :: "bool \<Rightarrow> (string \<times> json) list" where
  "inspection_payload defect = [
     (''inspection_result'', JStr (if defect then ''defect_detected'' else ''no_defect'')),
     (''observation_quality'', JStr ''good''), (''control_point_id'', JStr ''CP-FINAL''),
     (''defects'', JArr (if defect then [JObj [(''defect_type'', JStr ''LOAD_DEFECT'')]] else [])),
     (''evidence_refs'', JArr []), (''control_device_id'', JStr ''LOAD-CAMERA'')]"

definition warning_payload :: "(string \<times> json) list" where
  "warning_payload = [(''equipment_id'', JStr ''EQ-LATHE-01''), (''state'', JStr ''warning''), (''code'', JStr ''LOAD-WARN'')]"

text \<open>What one round yields, and the number of the next draw; \<open>uuid\<close> is the text of a UUID, \<open>stamp\<close> that of an
  instant.\<close>

definition generate_item ::
  "rng \<Rightarrow> (nat \<Rightarrow> string) \<Rightarrow> (time \<Rightarrow> string) \<Rightarrow> time \<Rightarrow> LoadProfile \<Rightarrow> nat \<Rightarrow> nat \<Rightarrow> LoadEvent list \<times> nat" where
  "generate_item R uuid stamp base p index k =
     (let item = ''LOAD-'' @ padded 8 index;
          src = ''LOAD-MES-'' @ padded 2 (index mod lp_sources p + 1);
          made = (\<lambda>i t moment s pl. \<lparr>lv_event_id = uuid (rn_bits R i), lv_event_type = t, lv_occurred_at = stamp moment,
            lv_source = s, lv_item_id = item, lv_run = True, lv_payload = pl\<rparr>);
          event = made k ''item.registered'' (base + seconds (int index))
            \<lparr>source_id = src, source_type = ''mes'', sequence = Some (int index)\<rparr> registration_payload;
          defect = rn_unit R (k + 2) < lp_defect p;
          inspected_at = base + seconds (int index + (if rn_unit R (k + 3) < lp_late p then 3600 else 2));
          inspection = made (k + 4) ''inspection.result'' inspected_at
            \<lparr>source_id = ''VISION-02'', source_type = ''vision_qc'', sequence = Some (int index)\<rparr> (inspection_payload defect);
          warned = rn_unit R (k + 5) < lp_warning p;
          warning = made (k + 6) ''machine.state'' inspected_at
            \<lparr>source_id = ''MACHINE-01'', source_type = ''machine_logs'', sequence = Some (int index)\<rparr> warning_payload
      in (event # (if rn_unit R (k + 1) < lp_duplicate p then [event] else []) @
            inspection # (if warned then [warning] else []),
          if warned then k + 7 else k + 6))"

fun generate_items ::
  "rng \<Rightarrow> (nat \<Rightarrow> string) \<Rightarrow> (time \<Rightarrow> string) \<Rightarrow> time \<Rightarrow> LoadProfile \<Rightarrow> nat list \<Rightarrow> nat \<Rightarrow> LoadEvent list" where
  "generate_items R uuid stamp base p [] k = []"
| "generate_items R uuid stamp base p (index # is) k =
     (let (es, k') = generate_item R uuid stamp base p index k in es @ generate_items R uuid stamp base p is k')"

definition generate ::
  "rng \<Rightarrow> (nat \<Rightarrow> string) \<Rightarrow> (time \<Rightarrow> string) \<Rightarrow> time \<Rightarrow> LoadProfile \<Rightarrow> LoadEvent list result" where
  "generate R uuid stamp base p =
     (if lp_items p \<noteq> 0 \<and> lp_sources p = 0 then Inl (PyError ''ZeroDivisionError'')
      else Inr (generate_items R uuid stamp base p [0..<lp_items p] 0))"

section \<open>A stream of registrations\<close>

record StreamArgs =
  sg_sources :: int
  sg_items :: int
  sg_events_per_second :: rat
  sg_duplicate_rate :: rat
  sg_late_rate :: rat
  sg_loss_rate :: rat

text \<open>The checks of the arguments; the message of \<open>parser.error\<close> otherwise.\<close>

definition check_arguments :: "StreamArgs \<Rightarrow> string option" where
  "check_arguments a =
     (if sg_sources a < 1 \<or> sg_items a < 1 \<or> sg_events_per_second a \<le> 0 then Some ''sources/items/rate must be positive''
      else map_option (\<lambda>(name, value). name @ '' must be between 0 and 1'')
        (List.find (\<lambda>(name, value). \<not> (0 \<le> value \<and> value \<le> 1))
          [(''duplicate-rate'', sg_duplicate_rate a), (''late-rate'', sg_late_rate a), (''loss-rate'', sg_loss_rate a)]))"

text \<open>The next value of each counter, the events sent so far, and the number of the next draw.\<close>

record stream_state =
  sm_counters :: "nat list"
  sm_history :: "LoadEvent list"
  sm_draws :: nat

definition tick :: "nat \<Rightarrow> stream_state \<Rightarrow> nat \<times> stream_state" where
  "tick i s = (sm_counters s ! i, s\<lparr>sm_counters := (sm_counters s)[i := Suc (sm_counters s ! i)]\<rparr>)"

text \<open>\<open>rng.random() < rate\<close>, and \<open>rng.choice(history)\<close>.\<close>

definition happens :: "rng \<Rightarrow> rat \<Rightarrow> stream_state \<Rightarrow> bool \<times> stream_state" where
  "happens R rate s = (rn_unit R (sm_draws s) < rate, s\<lparr>sm_draws := Suc (sm_draws s)\<rparr>)"

definition chosen :: "rng \<Rightarrow> stream_state \<Rightarrow> LoadEvent \<times> stream_state" where
  "chosen R s = (sm_history s ! rn_choice R (sm_draws s) (length (sm_history s)), s\<lparr>sm_draws := Suc (sm_draws s)\<rparr>)"

definition milliseconds :: "int \<Rightarrow> time" where
  "milliseconds n = n * 1000"

definition stream_event :: "(time \<Rightarrow> string) \<Rightarrow> time \<Rightarrow> nat \<Rightarrow> nat \<Rightarrow> nat \<Rightarrow> LoadEvent" where
  "stream_event stamp moment n source_number number =
     (let item = ''LOAD-ITEM-'' @ padded 6 n in
      \<lparr>lv_event_id = ''LOAD-E-'' @ padded 8 n, lv_event_type = ''item.registered'', lv_occurred_at = stamp moment,
       lv_source = \<lparr>source_id = ''LOAD-MES-'' @ padded 2 (source_number + 1), source_type = ''mes'',
         sequence = Some (int number)\<rparr>,
       lv_item_id = item, lv_run = False,
       lv_payload = [(''item_id'', JStr item), (''product_definition_id'', JStr ''PD-TRACE-01''),
         (''revision'', JStr ''A''), (''line_id'', JStr (if n mod 2 \<noteq> 0 then ''LINE-A'' else ''LINE-B'')),
         (''route_id'', JStr ''ROUTE-DEFAULT'')]\<rparr>)"

definition late_event :: "(time \<Rightarrow> string) \<Rightarrow> time \<Rightarrow> nat \<Rightarrow> nat \<Rightarrow> LoadEvent \<Rightarrow> LoadEvent" where
  "late_event stamp moment n number e = e\<lparr>lv_event_id := lv_event_id e @ ''-L'' @ nat_str n,
     lv_occurred_at := stamp (moment - minutes 5), lv_source := (lv_source e)\<lparr>sequence := Some (int number)\<rparr>\<rparr>"

text \<open>One round: the event unless it is lost, a copy of an earlier one, and a late one.\<close>

definition send_event :: "rng \<Rightarrow> rat \<Rightarrow> LoadEvent \<Rightarrow> stream_state \<Rightarrow> LoadEvent list \<times> stream_state" where
  "send_event R loss_rate e s =
     (case happens R loss_rate s of (lost, s1) \<Rightarrow>
        if lost then ([], s1) else ([e], s1\<lparr>sm_history := sm_history s1 @ [e]\<rparr>))"

definition send_copy :: "rng \<Rightarrow> rat \<Rightarrow> stream_state \<Rightarrow> LoadEvent list \<times> stream_state" where
  "send_copy R duplicate_rate s =
     (if sm_history s = [] then ([], s)
      else (case happens R duplicate_rate s of (again, s1) \<Rightarrow>
        if again then (case chosen R s1 of (e, s2) \<Rightarrow> ([e], s2)) else ([], s1)))"

definition send_late ::
  "rng \<Rightarrow> (time \<Rightarrow> string) \<Rightarrow> rat \<Rightarrow> time \<Rightarrow> nat \<Rightarrow> nat \<Rightarrow> stream_state \<Rightarrow> LoadEvent list \<times> stream_state" where
  "send_late R stamp late_rate moment n source_number s =
     (if sm_history s = [] then ([], s)
      else (case happens R late_rate s of (late, s1) \<Rightarrow>
        if late then
          (case chosen R s1 of (e, s2) \<Rightarrow>
           (case tick source_number s2 of (number, s3) \<Rightarrow> ([late_event stamp moment n number e], s3)))
        else ([], s1)))"

definition stream_round ::
  "rng \<Rightarrow> (time \<Rightarrow> string) \<Rightarrow> time \<Rightarrow> StreamArgs \<Rightarrow> nat \<Rightarrow> stream_state \<Rightarrow> LoadEvent list \<times> stream_state" where
  "stream_round R stamp base a n s =
     (let source_number = n mod nat (sg_sources a);
          moment = base + milliseconds (int n * 10);
          (number, s0) = tick source_number s;
          (sent, s1) = send_event R (sg_loss_rate a) (stream_event stamp moment n source_number number) s0;
          (copies, s2) = send_copy R (sg_duplicate_rate a) s1;
          (lates, s3) = send_late R stamp (sg_late_rate a) moment n source_number s2
      in (sent @ copies @ lates, s3))"

fun stream_rounds ::
  "rng \<Rightarrow> (time \<Rightarrow> string) \<Rightarrow> time \<Rightarrow> StreamArgs \<Rightarrow> nat list \<Rightarrow> stream_state \<Rightarrow> LoadEvent list" where
  "stream_rounds R stamp base a [] s = []"
| "stream_rounds R stamp base a (n # ns) s =
     (case stream_round R stamp base a n s of (es, s') \<Rightarrow> es @ stream_rounds R stamp base a ns s')"

definition event_stream :: "rng \<Rightarrow> (time \<Rightarrow> string) \<Rightarrow> time \<Rightarrow> StreamArgs \<Rightarrow> LoadEvent list" where
  "event_stream R stamp base a = stream_rounds R stamp base a [1..<Suc (nat (sg_items a))]
     \<lparr>sm_counters = replicate (nat (sg_sources a)) 1, sm_history = [], sm_draws = 0\<rparr>"

section \<open>Every event of a load is well-formed\<close>

subsection \<open>Numbers fit\<close>

lemma length_nat_str: "n < 10 ^ Suc w \<Longrightarrow> length (nat_str n) \<le> Suc w"
proof (induction w arbitrary: n)
  case 0
  then show ?case by (simp add: nat_str.simps)
next
  case (Suc w)
  have "n div 10 < 10 ^ Suc w"
    using Suc.prems by (simp add: less_mult_imp_div_less)
  from Suc.IH [OF this] show ?case
    by (subst nat_str.simps) simp
qed

lemma py_len_le: "py_len s \<le> length s"
  by (simp add: py_len_def)

lemma py_len_number: "n < 10 ^ 8 \<Longrightarrow> py_len (nat_str n) \<le> 8"
  using py_len_le [of "nat_str n"] length_nat_str [of n 7] by simp

lemma py_len_padded: "n < 10 ^ 8 \<Longrightarrow> w \<le> 8 \<Longrightarrow> py_len (padded w n) \<le> 8"
  using py_len_le [of "padded w n"] length_nat_str [of n 7] by (simp add: padded_def)

subsection \<open>The envelope and the payloads\<close>

text \<open>What the envelope needs of a generated event.\<close>

definition proper :: "validator \<Rightarrow> LoadEvent \<Rightarrow> bool" where
  "proper V e \<longleftrightarrow> as_datetime V (JStr (lv_occurred_at e)) \<noteq> None \<and>
     1 \<le> py_len (lv_event_id e) \<and> py_len (lv_event_id e) \<le> 128 \<and>
     1 \<le> py_len (source_id (lv_source e)) \<and> py_len (source_id (lv_source e)) \<le> 128 \<and>
     1 \<le> py_len (source_type (lv_source e)) \<and> py_len (source_type (lv_source e)) \<le> 64 \<and>
     pred_option (\<lambda>n. 0 \<le> n) (sequence (lv_source e)) \<and>
     1 \<le> py_len (lv_item_id e) \<and> py_len (lv_item_id e) \<le> 128"

lemma proper_source:
  assumes "faithful_validator V" and "proper V e"
  shows "read_SourceRef V (dump_SourceRef (lv_source e)) = Some (lv_source e)"
  using assms
  by (cases "sequence (lv_source e)")
    (auto simp: proper_def read_SourceRef_def dump_SourceRef_def only_keys_def req_str_def opt_int_def faithful_validator_def)

definition load_fields :: "LoadEvent \<Rightarrow> (string \<times> json) list \<Rightarrow> (string \<times> json) list" where
  "load_fields e pl = [(''event_id'', JStr (lv_event_id e)), (''event_type'', JStr (lv_event_type e)),
     (''schema_version'', JStr ''1.0''), (''occurred_at'', JStr (lv_occurred_at e)),
     (''source'', dump_SourceRef (lv_source e)), (''item_id'', JStr (lv_item_id e))] @
     (if lv_run e then [(''operation_run_id'', JNull)] else []) @ [(''payload'', JObj pl)]"

lemma load_json_fields: "load_json e = JObj (load_fields e (lv_payload e))"
  by (simp add: load_json_def load_fields_def)

lemma load_fields_get [simp]:
  "dict_get ''event_type'' (load_fields e pl) = JStr (lv_event_type e)"
  "dict_get ''schema_version'' (load_fields e pl) = JStr ''1.0''"
  "dict_get ''item_id'' (load_fields e pl) = JStr (lv_item_id e)"
  "dict_get ''operation_run_id'' (load_fields e pl) = JNull"
  "dict_get ''payload'' (load_fields e pl) = JObj pl"
  "dict_set ''payload'' (JObj pl') (load_fields e pl) = load_fields e pl'"
  by (simp_all add: load_fields_def dict_get_def)

lemma load_normalised:
  assumes "map_of pl ''item_id'' \<in> {None, Some (JStr (lv_item_id e))}" and "map_of pl ''operation_run_id'' = None"
    and "map_of pl ''duration_seconds'' = None" and "pl \<noteq> []"
  shows "normalize_legacy (load_fields e pl) =
    Inr (load_fields e pl, dict_pop ''operation_run_id'' (dict_pop ''item_id'' pl))"
proof -
  have "dict_get ''item_id'' pl \<in> {JNull, JStr (lv_item_id e)}" "dict_get ''operation_run_id'' pl = JNull"
    using assms(1,2) by (auto simp: dict_get_def)
  then show ?thesis
    using assms(3,4) by (auto simp: normalize_legacy_def lift_legacy_def lift_duration_def Let_def)
qed

lemma load_envelope:
  assumes "faithful_validator V" and e: "proper V e" and t: "1 \<le> py_len (lv_event_type e)" "py_len (lv_event_type e) \<le> 64"
    and k: "lv_event_type e \<notin> {''operation.started'', ''operation.finished''}"
  shows "\<exists>ev. read_envelope V (load_fields e pl) p = Some ev \<and> event_id ev = lv_event_id e \<and> payload ev = p"
proof -
  obtain m where m: "as_datetime V (JStr (lv_occurred_at e)) = Some m"
    using e by (auto simp: proper_def)
  have id: "lv_item_id e \<noteq> []"
    using e by (auto simp: proper_def)
  show ?thesis
    using e t k m id proper_source [OF assms(1) e]
    by (cases "lv_run e")
      (simp_all add: read_envelope_def load_fields_def only_keys_def req_str_def opt_str_def req_datetime_def req_lit_def
        proper_def required_envelope_ids_def has_id_def is_cont_def)
qed

lemma proper_valid:
  assumes V: "faithful_validator V" and e: "proper V e"
    and t: "lv_event_type e \<in> {''item.registered'', ''inspection.result'', ''machine.state''}"
    and pl: "map_of (lv_payload e) ''item_id'' \<in> {None, Some (JStr (lv_item_id e))}"
      "map_of (lv_payload e) ''operation_run_id'' = None" "map_of (lv_payload e) ''duration_seconds'' = None" "lv_payload e \<noteq> []"
    and p: "read_payload V (lv_event_type e) (dict_pop ''operation_run_id'' (dict_pop ''item_id'' (lv_payload e))) = Some p"
  shows "\<exists>ev. validate_event V (load_json e) = Inr ev \<and> event_id ev = lv_event_id e \<and> payload ev = p"
proof -
  let ?pl = "dict_pop ''operation_run_id'' (dict_pop ''item_id'' (lv_payload e))"
  have "1 \<le> py_len (lv_event_type e)" "py_len (lv_event_type e) \<le> 64"
    "lv_event_type e \<notin> {''operation.started'', ''operation.finished''}"
    using t by (auto simp: is_cont_def)
  from load_envelope [OF V e this] obtain ev where
    "read_envelope V (load_fields e ?pl) p = Some ev" "event_id ev = lv_event_id e" "payload ev = p"
    by blast
  moreover have "JStr (lv_event_type e) \<in> JStr ` set SUPPORTED_EVENT_TYPES"
    "(JStr (lv_event_type e), JStr ''1.0'') \<in> (\<lambda>(a, b). (JStr a, JStr b)) ` set SCHEMA_REGISTRY"
    using t by (auto simp: SUPPORTED_EVENT_TYPES_def SCHEMA_REGISTRY_def)
  ultimately show ?thesis
    using p by (simp add: validate_event_def load_json_fields load_normalised [OF pl] hashable_def Let_def)
qed

text \<open>What the two generators need of the texts they are given.\<close>

definition readable :: "validator \<Rightarrow> (nat \<Rightarrow> string) \<Rightarrow> (time \<Rightarrow> string) \<Rightarrow> bool" where
  "readable V uuid stamp \<longleftrightarrow> (\<forall>n. 1 \<le> py_len (uuid n) \<and> py_len (uuid n) \<le> 128) \<and>
     (\<forall>t. as_datetime V (JStr (stamp t)) \<noteq> None)"

lemma load_payloads_read:
  "\<exists>p. read_payload V ''item.registered'' registration_payload = Some p"
  "\<exists>p. read_payload V ''inspection.result'' (inspection_payload defect) = Some p"
  "\<exists>p. read_payload V ''machine.state'' warning_payload = Some p"
  by (simp_all add: read_payload_def read_ItemRegistered_def read_InspectionResult_def read_MachineState_def
      registration_payload_def inspection_payload_def warning_payload_def only_keys_def req_str_def opt_str_def
      opt_int_def opt_dict_def req_lit_def opt_lit_def read_defects_def read_Defect_def str_list_def validate_defects_def
      read_inspection_result_def read_quality_def is_cont_def)

lemma no_legacy [simp]:
  "dict_pop ''operation_run_id'' (dict_pop ''item_id'' registration_payload) = registration_payload"
  "dict_pop ''operation_run_id'' (dict_pop ''item_id'' (inspection_payload b)) = inspection_payload b"
  "dict_pop ''operation_run_id'' (dict_pop ''item_id'' warning_payload) = warning_payload"
  by (simp_all add: dict_pop_def registration_payload_def inspection_payload_def warning_payload_def)

definition accepted :: "validator \<Rightarrow> LoadEvent \<Rightarrow> bool" where
  "accepted V e \<longleftrightarrow> (\<exists>ev. validate_event V (load_json e) = Inr ev \<and> event_id ev = lv_event_id e)"

lemma generated_item_valid:
  assumes V: "faithful_validator V" and r: "readable V uuid stamp" and i: "index < 10 ^ 8"
    and s: "0 < lp_sources p" "lp_sources p < 10 ^ 8" and e: "e \<in> set (fst (generate_item R uuid stamp base p index k))"
  shows "accepted V e"
proof -
  have n: "py_len (padded 8 index) \<le> 8" "py_len (padded 2 (index mod lp_sources p + 1)) \<le> 8"
  proof -
    have "index mod lp_sources p < lp_sources p"
      using s by simp
    then have "index mod lp_sources p + 1 < 10 ^ 8"
      using s by linarith
    then show "py_len (padded 2 (index mod lp_sources p + 1)) \<le> 8" "py_len (padded 8 index) \<le> 8"
      using i by (simp_all add: py_len_padded)
  qed
  have p: "proper V e"
    using e r n by (auto simp: generate_item_def readable_def proper_def is_cont_def Let_def split: if_splits)
  have t: "lv_event_type e = ''item.registered'' \<and> lv_payload e = registration_payload \<or>
      lv_event_type e = ''machine.state'' \<and> lv_payload e = warning_payload \<or>
      (\<exists>b. lv_event_type e = ''inspection.result'' \<and> lv_payload e = inspection_payload b)"
    using e by (auto simp: generate_item_def Let_def split: if_splits)
  then obtain pl where "read_payload V (lv_event_type e) (lv_payload e) = Some pl"
    "dict_pop ''operation_run_id'' (dict_pop ''item_id'' (lv_payload e)) = lv_payload e"
    using load_payloads_read [of V] by (elim disjE exE conjE) auto
  moreover have "map_of (lv_payload e) ''item_id'' = None" "map_of (lv_payload e) ''operation_run_id'' = None"
    "map_of (lv_payload e) ''duration_seconds'' = None" "lv_payload e \<noteq> []"
    using t by (auto simp: registration_payload_def inspection_payload_def warning_payload_def)
  ultimately show ?thesis
    using proper_valid [OF V p, of pl] t unfolding accepted_def by auto
qed

lemma generated_load_valid:
  assumes V: "faithful_validator V" and r: "readable V uuid stamp"
    and n: "lp_items p \<le> 10 ^ 8" "lp_sources p < 10 ^ 8" and g: "generate R uuid stamp base p = Inr es" and e: "e \<in> set es"
  shows "accepted V e"
proof -
  have "e \<in> set (generate_items R uuid stamp base p is k) \<Longrightarrow> set is \<subseteq> {..<10 ^ 8} \<Longrightarrow> 0 < lp_sources p \<Longrightarrow> accepted V e"
    for "is" k
  proof (induction "is" arbitrary: k)
    case (Cons i "is")
    obtain es k' where g: "generate_item R uuid stamp base p i k = (es, k')" by fastforce
    show ?case
    proof (cases "e \<in> set es")
      case True
      then show ?thesis
        using Cons.prems n generated_item_valid [OF V r, of i p e R base k] by (simp add: g)
    next
      case False
      then show ?thesis
        using Cons by (simp add: g)
    qed
  qed simp
  moreover have "es = generate_items R uuid stamp base p [0..<lp_items p] 0" "lp_items p \<noteq> 0 \<longrightarrow> 0 < lp_sources p"
    using g by (auto simp: generate_def split: if_splits)
  moreover have "set [0..<lp_items p] \<subseteq> {..<10 ^ 8}"
    using n(1) by auto
  ultimately show ?thesis
    using e by (cases "lp_items p = 0") simp_all
qed

subsection \<open>The stream\<close>

text \<open>What the history holds: registrations with short identifiers.\<close>

definition registration :: "validator \<Rightarrow> nat \<Rightarrow> LoadEvent \<Rightarrow> bool" where
  "registration V n e \<longleftrightarrow> proper V e \<and> py_len (lv_event_id e) \<le> n \<and> lv_event_type e = ''item.registered'' \<and>
     (\<exists>line. lv_payload e = [(''item_id'', JStr (lv_item_id e)), (''product_definition_id'', JStr ''PD-TRACE-01''),
       (''revision'', JStr ''A''), (''line_id'', JStr line), (''route_id'', JStr ''ROUTE-DEFAULT'')] \<and> py_len line \<le> 128)"

lemma registration_accepted:
  assumes V: "faithful_validator V" and e: "registration V n e"
  shows "accepted V e"
proof -
  obtain line where line: "lv_payload e = [(''item_id'', JStr (lv_item_id e)), (''product_definition_id'', JStr ''PD-TRACE-01''),
      (''revision'', JStr ''A''), (''line_id'', JStr line), (''route_id'', JStr ''ROUTE-DEFAULT'')]" "py_len line \<le> 128"
    and p: "proper V e" and t: "lv_event_type e = ''item.registered''"
    using e by (auto simp: registration_def)
  let ?pl = "[(''product_definition_id'', JStr ''PD-TRACE-01''), (''revision'', JStr ''A''), (''line_id'', JStr line),
    (''route_id'', JStr ''ROUTE-DEFAULT'')]"
  have "dict_pop ''operation_run_id'' (dict_pop ''item_id'' (lv_payload e)) = ?pl"
    by (simp add: line dict_pop_def)
  moreover have "\<exists>pl. read_payload V ''item.registered'' ?pl = Some pl"
    using line(2) by (simp add: read_payload_def read_ItemRegistered_def only_keys_def req_str_def opt_str_def opt_int_def is_cont_def)
  ultimately show ?thesis
    using proper_valid [OF V p] line t unfolding accepted_def by auto
qed

lemma stream_event_registration:
  assumes "readable V uuid stamp" and "n < 10 ^ 8" and "m < 10 ^ 8 - 1"
  shows "registration V 16 (stream_event stamp t n m number)"
proof -
  have "py_len (padded 6 n) \<le> 8" "py_len (padded 8 n) \<le> 8" "py_len (padded 2 (m + 1)) \<le> 8"
    using assms(2,3) by (simp_all add: py_len_padded)
  then show ?thesis
    using assms(1) by (simp add: registration_def stream_event_def proper_def readable_def is_cont_def Let_def)
qed

lemma late_event_registration:
  assumes "registration V 16 e" and "readable V uuid stamp" and "n < 10 ^ 8"
  shows "registration V 32 (late_event stamp t n number e)"
  using assms py_len_number [OF assms(3)]
  by (auto simp: registration_def late_event_def proper_def readable_def is_cont_def)

lemma stream_round_registrations:
  assumes r: "readable V uuid stamp" and c: "\<And>k m. 0 < m \<Longrightarrow> rn_choice R k m < m" and n: "n < 10 ^ 8"
    and a: "0 < sg_sources a" "sg_sources a < 10 ^ 8"
    and h: "\<forall>e \<in> set (sm_history s). registration V 16 e" and s: "stream_round R stamp base a n s = (es, s')"
  shows "(\<forall>e \<in> set (sm_history s'). registration V 16 e) \<and> (\<forall>e \<in> set es. registration V 32 e)"
proof -
  have m: "n mod nat (sg_sources a) < 10 ^ 8 - 1"
  proof -
    have "n mod nat (sg_sources a) < nat (sg_sources a)" "nat (sg_sources a) < 10 ^ 8"
      using a by (simp_all add: nat_less_iff)
    then show ?thesis by simp
  qed
  let ?ev = "stream_event stamp (base + milliseconds (int n * 10)) n (n mod nat (sg_sources a))"
  have ev: "registration V 16 (?ev k)" for k
    using r n m by (rule stream_event_registration)
  have weak: "registration V 16 e \<Longrightarrow> registration V 32 e" for e
    by (auto simp: registration_def)
  have pick: "\<forall>e \<in> set (sm_history s2). registration V 16 e \<Longrightarrow> sm_history s2 \<noteq> [] \<Longrightarrow>
      registration V 16 (sm_history s2 ! rn_choice R k (length (sm_history s2)))" for s2 k
    using c by (metis length_greater_0_conv nth_mem)
  obtain sent s1 where 1: "send_event R (sg_loss_rate a) (?ev (fst (tick (n mod nat (sg_sources a)) s)))
      (snd (tick (n mod nat (sg_sources a)) s)) = (sent, s1)" by fastforce
  obtain copies s2 where 2: "send_copy R (sg_duplicate_rate a) s1 = (copies, s2)" by fastforce
  have k1: "\<forall>e \<in> set (sm_history s1). registration V 16 e" "\<forall>e \<in> set sent. registration V 16 e"
    using 1 h ev by (auto simp: send_event_def happens_def tick_def split: if_splits)
  have k2: "\<forall>e \<in> set (sm_history s2). registration V 16 e" "\<forall>e \<in> set copies. registration V 16 e"
    using 2 k1(1) pick [OF k1(1)] by (auto simp: send_copy_def happens_def chosen_def split: if_splits)
  obtain lates s3 where 3: "send_late R stamp (sg_late_rate a) (base + milliseconds (int n * 10)) n
      (n mod nat (sg_sources a)) s2 = (lates, s3)" by fastforce
  have k3: "\<forall>e \<in> set (sm_history s3). registration V 16 e" "\<forall>e \<in> set lates. registration V 32 e"
    using 3 k2(1) late_event_registration [OF pick [OF k2(1)] r n]
    by (auto simp: send_late_def happens_def chosen_def tick_def split: if_splits)
  have "es = sent @ copies @ lates" "s' = s3"
    using s by (simp_all add: stream_round_def 1 2 3 Let_def case_prod_beta)
  then show ?thesis
    using k1(2) k2(2) k3 weak by auto
qed

lemma streamed_events_valid:
  assumes V: "faithful_validator V" and r: "readable V uuid stamp" and c: "\<And>k m. 0 < m \<Longrightarrow> rn_choice R k m < m"
    and a: "check_arguments a = None" "sg_items a < 10 ^ 8" "sg_sources a < 10 ^ 8" and e: "e \<in> set (event_stream R stamp base a)"
  shows "accepted V e"
proof -
  have pos: "0 < sg_sources a"
    using a(1) by (auto simp: check_arguments_def split: if_splits)
  have "e \<in> set (stream_rounds R stamp base a ns s) \<Longrightarrow> set ns \<subseteq> {..<10 ^ 8} \<Longrightarrow>
      (\<forall>e \<in> set (sm_history s). registration V 16 e) \<Longrightarrow> registration V 32 e" for ns s
  proof (induction ns arbitrary: s)
    case (Cons n ns)
    obtain es s' where g: "stream_round R stamp base a n s = (es, s')" by fastforce
    have "n < 10 ^ 8" using Cons.prems(2) by simp
    from stream_round_registrations [OF r c this pos a(3) Cons.prems(3) g] show ?case
      using Cons.prems Cons.IH [of s'] by (auto simp: g)
  qed simp
  then have "registration V 32 e"
    using e a(2) unfolding event_stream_def by fastforce
  with V show ?thesis by (rule registration_accepted)
qed

section \<open>Sequence numbers of late events\<close>

text \<open>A late event takes the next number of the counter of the present item, not of the source it is sent as:
  two different events of one source may have the same number.\<close>

definition late_draws :: rng where
  "late_draws = \<lparr>rn_unit = (\<lambda>k. if k \<in> {2, 6} then 0 else 1), rn_bits = (\<lambda>k. k), rn_choice = (\<lambda>k n. 0)\<rparr>"

definition late_args :: StreamArgs where
  "late_args = \<lparr>sg_sources = 2, sg_items = 2, sg_events_per_second = 20, sg_duplicate_rate = 0,
     sg_late_rate = 1 / 2, sg_loss_rate = 0\<rparr>"

lemma late_stream:
  "event_stream late_draws (\<lambda>t. []) 0 late_args =
    [stream_event (\<lambda>t. []) 0 1 1 1, late_event (\<lambda>t. []) 0 1 2 (stream_event (\<lambda>t. []) 0 1 1 1),
     stream_event (\<lambda>t. []) 0 2 0 1, late_event (\<lambda>t. []) 0 2 2 (stream_event (\<lambda>t. []) 0 1 1 1)]"
  by (simp add: event_stream_def late_args_def late_draws_def stream_round_def send_event_def send_copy_def send_late_def
      happens_def chosen_def tick_def upt_rec stream_event_def late_event_def Let_def numeral_2_eq_2)

lemma late_numbers_collide:
  "\<exists>e \<in> set (event_stream late_draws (\<lambda>t. []) 0 late_args). \<exists>e' \<in> set (event_stream late_draws (\<lambda>t. []) 0 late_args).
     lv_event_id e \<noteq> lv_event_id e' \<and> lv_source e = lv_source e' \<and> sequence (lv_source e) = Some 2"
proof -
  have "nat_str 1 \<noteq> nat_str 2"
    by (simp add: nat_str.simps digit_char_def)
  then show ?thesis
    unfolding late_stream by (simp add: late_event_def stream_event_def Let_def)
qed

section \<open>Fixtures of the contract\<close>

text \<open>\<open>canonicalize_legacy_fixture\<close> (\<^verbatim>\<open>scripts/check_contract_fixtures.py\<close>): the same lifting as at the boundary
  of the service, without its check that envelope and payload agree.\<close>

definition lift_fixture ::
  "string \<Rightarrow> (string \<times> json) list \<times> (string \<times> json) list \<Rightarrow> (string \<times> json) list \<times> (string \<times> json) list" where
  "lift_fixture key ep =
     (let (event, pl) = ep; legacy = dict_get key pl in
      (if dict_get key event = JNull \<and> legacy \<noteq> JNull then dict_set key legacy event else event, dict_pop key pl))"

definition canonicalize_legacy_fixture :: "(string \<times> json) list \<Rightarrow> (string \<times> json) list result" where
  "canonicalize_legacy_fixture event =
     (let p = dict_get ''payload'' event in
      rbind (if truthy p then py_dict p else Inr []) (\<lambda>pl.
      let (event', pl') = fold lift_fixture [''item_id'', ''operation_run_id''] (event, pl) in
      Inr (dict_set ''payload'' (JObj (lift_duration pl')) event')))"

lemma lift_legacy_fixture: "lift_legacy key cp = Inr cp' \<Longrightarrow> lift_fixture key cp = cp'"
  by (auto simp: lift_legacy_def lift_fixture_def Let_def split: if_splits prod.splits)

text \<open>An event the service reads is checked as the service reads it.\<close>

lemma fixture_is_normalised:
  assumes "normalize_legacy event = Inr (candidate, pl)"
  shows "canonicalize_legacy_fixture event = Inr (dict_set ''payload'' (JObj pl) candidate)"
proof -
  obtain pl0 cp1 cp2 where p: "(if truthy (dict_get ''payload'' event) then py_dict (dict_get ''payload'' event) else Inr []) = Inr pl0"
    and l: "lift_legacy ''item_id'' (event, pl0) = Inr cp1" "lift_legacy ''operation_run_id'' cp1 = Inr cp2"
    and r: "candidate = fst cp2" "pl = lift_duration (snd cp2)"
    using assms by (auto simp: normalize_legacy_def rbind_Inr_iff Let_def split: prod.splits)
  show ?thesis
    using p lift_legacy_fixture [OF l(1)] lift_legacy_fixture [OF l(2)]
    by (simp add: canonicalize_legacy_fixture_def r case_prod_beta)
qed

end
