(* ===== verification/Spec2Isabelle.thy ===== *)
theory Spec2Isabelle
  imports TQ_Sample_Views TQ_Sample_Client TQ_Records TQ_Erp_Sync TQ_Views TQ_Schema TQ_Load
begin

text \<open>
  TRACE-Q, a quality-control backend, as a shallow embedding of its Python sources, with the properties that
  span its parts.

  What the program does. Production systems and inspection devices send events. The ingestion service
  (\<^verbatim>\<open>backend/app/ingestion/service.py\<close>) authenticates the source, validates the event, encrypts it and
  appends it to a log in which every row carries a MAC over the row before it. A rebuild
  (\<^verbatim>\<open>backend/app/projections/rebuild.py\<close>) replays the log of one item into a read model: runs,
  observations with their trust, machine states and operator actions; every defect gets an occurrence, a
  nonconformance and versioned analyses with the window in which the defect came to be. Controllers decide
  on nonconformances (\<^verbatim>\<open>backend/app/api/nonconformances.py\<close>); a decision that releases or scraps an item
  creates a quality result and a message in an outbox, which a worker (\<^verbatim>\<open>worker/main.py\<close>) delivers to the
  ERP. Around this stand sessions and roles, technological routes, risk analyses and containment,
  administration, key figures, demonstration scenarios, and the operators' pages.

  How it is modelled. The state is one record \<open>db\<close> with a list of rows per table of
  \<^verbatim>\<open>persistence/models.py\<close>, in insertion order. A handler is a function from the state to an exception
  or a response, together with the state that was committed; an exception is a value (\<open>exn\<close>, the left side of
  a sum). A handler reads one instant \<open>now\<close> for all its calls of \<open>utcnow()\<close>, and random values come from counters
  in the state through the functions of \<open>env\<close>. What the program takes from libraries (AES-GCM, HMAC, SHA-256,
  Argon2, JWT, ECDSA, pydantic's reading of single values, \<open>json.loads\<close>, number and date texts, randomness) is
  the argument \<open>env\<close>; where a property needs documented behaviour of one of them (decryption undoes
  encryption, identifiers do not repeat) it is a hypothesis of the property, and the witness discharges it
  for the concrete stand-ins of TQ_Sample. Interleaving is explicit: histories are closures of step relations,
  a race at ingestion is an argument of the handler, a worker may find rows locked by another, and the
  network may lose a request or its reply.

  The theories.
  \<^item> TQ_Prelude (instants, texts as UTF-8 bytes, exceptions, tables, and the locales \<open>step_invariant\<close> and
    \<open>append_only_log\<close> for step relations), TQ_Json (\<open>canonical_json_bytes\<close>), TQ_Events
    (\<^verbatim>\<open>shared_contracts/generated/events.py\<close>, \<^verbatim>\<open>domain/events.py\<close>), TQ_Store and TQ_Database
    (\<^verbatim>\<open>persistence/models.py\<close>, \<^verbatim>\<open>security/audit.py\<close>), TQ_Crypto (\<^verbatim>\<open>security/crypto.py\<close>), TQ_Settings
    (\<^verbatim>\<open>settings.py\<close>).
  \<^item> TQ_Integrity (\<^verbatim>\<open>security/integrity.py\<close>, locale \<open>event_sealer\<close>), TQ_Ingestion (service and
    \<^verbatim>\<open>api/events.py\<close>), TQ_Ingestion_Facts.
  \<^item> TQ_Trust (\<^verbatim>\<open>quality/trust.py\<close>, \<^verbatim>\<open>quality/occurrence.py\<close>), TQ_Birth_Window
    (\<^verbatim>\<open>quality/birth_window.py\<close>), TQ_Replay, TQ_Analysis, TQ_Rebuild (\<^verbatim>\<open>projections/rebuild.py\<close>),
    TQ_Rebuild_Effects, TQ_Trust_Facts.
  \<^item> TQ_Auth (\<^verbatim>\<open>api/auth.py\<close>, \<^verbatim>\<open>security/auth.py\<close>, \<^verbatim>\<open>security/permissions.py\<close>, locale \<open>gate\<close>),
    TQ_App (\<^verbatim>\<open>main.py\<close>), TQ_Api (the session endpoints over HTTP), TQ_Client
    (\<^verbatim>\<open>streamlit_app/api_client/client.py\<close>, locale \<open>renewing\<close>), TQ_Pages and TQ_Views
    (\<^verbatim>\<open>streamlit_app/Home.py\<close>, \<^verbatim>\<open>ui/views.py\<close>).
  \<^item> TQ_Release (\<^verbatim>\<open>quality/release.py\<close>, the writing part of \<^verbatim>\<open>api/nonconformances.py\<close>), TQ_Risk
    (\<^verbatim>\<open>api/risk.py\<close>), TQ_Routes (\<^verbatim>\<open>domain/routes.py\<close>, \<^verbatim>\<open>api/routes.py\<close>), TQ_Admin and
    TQ_Admin_Facts (\<^verbatim>\<open>api/admin.py\<close>, checkpoints, key provider), TQ_Seed (\<^verbatim>\<open>seed.py\<close>, locale
    \<open>seeding\<close>).
  \<^item> TQ_Outbox (\<^verbatim>\<open>worker/main.py\<close>, locales \<open>refines\<close> and \<open>erp_port\<close>), TQ_Erp and TQ_Erp_Sync
    (\<^verbatim>\<open>erp_emulator/app/main.py\<close>), TQ_Integrations (\<^verbatim>\<open>integrations/\<close>, \<^verbatim>\<open>api/integrations.py\<close>).
  \<^item> TQ_Readers (\<^verbatim>\<open>api/items.py\<close> and the GET handlers of nonconformances and integrations), TQ_Records
    (raw events, audit log, alerts), TQ_Analytics (\<^verbatim>\<open>api/analytics.py\<close>).
  \<^item> TQ_Harness (\<^verbatim>\<open>scenarios/harness.py\<close>), TQ_Demo and TQ_Demo_Facts (\<^verbatim>\<open>api/demo.py\<close>), TQ_Load
    (\<^verbatim>\<open>scripts/generate_load.py\<close>, \<^verbatim>\<open>generate_events.py\<close>, \<^verbatim>\<open>check_contract_fixtures.py\<close>).
  \<^item> TQ_Schema (\<^verbatim>\<open>alembic/versions\<close>): protected tables, privileges, the trigger on route revisions, and
    \<open>service\<close>, the histories of the whole service.
  \<^item> TQ_Sample, TQ_Sample_Quality, TQ_Sample_Admin, TQ_Sample_Views, TQ_Sample_Client: concrete installations
    the properties are evaluated on.

  The properties. C1 to C7: the raw log stays a chain that verifies, cannot be altered without a collision, is
  written only through the gates, and can be read back. C8 to C15: a rebuild is a function of the set
  of rows, shows the log, keeps everything else, gives every defect a nonconformance and says what trust
  means; the window is bounded by the latest trusted inspection. C16 to C23: contracts, audit, sessions,
  lockout, tokens, roles. C24 to C27: decisions, rework, blocked decisions, accountability. C28 to C31: the
  outbox refines the state machine of a message, attempts are bounded, it drains, and a delivery is recorded
  exactly once. The remaining ones: routes, containment, devices, tampering, protected tables, denied requests,
  synchronisation, seeding, settings.

  Bounds and termination. Every operation is a total function. Loops run over lists, so no fuel is needed; the
  worker's endless loop is a relation of single turns, and \<open>run_turns\<close> takes as many turns as it is given
  instants: as many as there are messages due are enough (\<open>outbox_drains\<close>). The client retries a request once, by
  a measure. Integers are Python's; the widths the code relies on are written out: the length prefixes of a
  frame (\<open>to_bytes\<close> raises when a length does not fit), bytes as \<open>8 word\<close>, and the widths of text columns
  where a handler depends on them.

  Deviations. Floats (confidence, durations, percentiles) are exact rational numbers. Where a query leaves the
  order of equal rows open, the model takes the order of the table, or the last one inserted for
  \<open>ORDER BY ... DESC LIMIT 1\<close>. Texts are compared by their bytes (collation C). Timestamps set by the database
  (\<open>created_at\<close> of analyses, audit entries and alerts) and columns no modelled operation reads are not
  kept. The detail text of a pydantic error is left out.

  The triggers of PostgreSQL are no part of the handlers; TQ_Schema says which transactions they let
  through. All do, except one: a route revision that was superseded cannot be activated again
  (\<open>activation_passes\<close>), where the handler of TQ_Routes goes on.

  Not modelled. The looks of the pages and the state of their widgets (what was chosen, typed and pressed is an
  argument); the reading of the environment and of scenario files; the SQLAlchemy engine
  (\<^verbatim>\<open>persistence/database.py\<close>), whose transactions appear as what a handler commits; the columns the second
  migration adds to an older database and the downgrades; the generator of the contract registry and the
  benchmark under \<^verbatim>\<open>scripts/\<close>; the access log. They are output, files or code of other systems, with no
  decision of the program in them.
\<close>

section \<open>The raw event log\<close>

text \<open>C1: Every log that ingests produced, starting from an empty log, in any order and racing with
  each other, passes \<open>verify_integrity\<close> without a failure.\<close>

theorem ingested_log_verifies:
  assumes "(log_step E S)\<^sup>*\<^sup>* empty_db d"
  shows "fst (verify_integrity E S d) = Inr []"
  by (rule log_ok_verifies, rule log_inv.steps_keep [OF assms], rule log_ok_empty) simp

lemma sample_history: "(log_step (sample_env docs) sample_settings)\<^sup>*\<^sup>* empty_db (snd (sample_ingest docs sample_db))"
proof -
  have "log_step (sample_env docs) sample_settings empty_db sample_db"
    by (rule log_step.other) (simp add: sample_db_def)
  moreover have "log_step (sample_env docs) sample_settings sample_db (snd (sample_ingest docs sample_db))"
    unfolding sample_ingest_def by (rule log_step.ingest [OF surjective_pairing])
  ultimately show ?thesis
    by (rule rtranclp.rtrancl_into_rtrancl [OF r_into_rtranclp])
qed

theorem ingested_log_verifies_witness:
  "length (db_raw_events (snd (sample_ingest [] sample_db))) = 1 \<and>
   fst (verify_integrity (sample_env []) sample_settings (snd (sample_ingest [] sample_db))) = Inr []"
  using ingested_log_verifies [OF sample_history [of "[]"]] sample_ingested [of "[]"] by (metis snd_conv)

text \<open>C2: Two streams that verify, have the same number of rows and end in the same MAC hold the same
  authenticated rows, unless two of their rows are a collision of the MAC function: a row cannot be
  altered unnoticed.\<close>

theorem altered_row_needs_collision:
  assumes "check_rows E secret s rs [] 1 = Inr []" and "check_rows E secret s rs' [] 1 = Inr []"
    and "length rs = length rs'" and "last_mac [] rs = last_mac [] rs'"
  shows "map (row_content E) rs = map (row_content E) rs' \<or>
    (\<exists>r \<in> set rs. \<exists>r' \<in> set rs'. mac_collision E secret r r')"
  using assms linked_binds unfolding check_rows_Nil by blast

theorem altered_row_needs_collision_witness:
  "\<exists>rs. length rs = 1 \<and> check_rows (sample_env []) [2] ''source:cam'' rs [] 1 = Inr [] \<and>
     (map (row_content (sample_env [])) rs = map (row_content (sample_env [])) rs \<or>
        (\<exists>r \<in> set rs. \<exists>r' \<in> set rs. mac_collision (sample_env []) [2] r r'))"
proof -
  obtain res d' where d': "sample_ingest [] sample_db = (Inr res, d')" "length (db_raw_events d') = 1"
    by (rule sample_ingested) blast
  have ok: "log_ok (sample_env []) sample_settings d'"
    using log_inv.steps_keep [OF sample_history [of "[]"]] log_ok_empty [of empty_db] d'(1) by simp
  obtain r where r: "db_raw_events d' = [r]"
    using d'(2) by (cases "db_raw_events d'") auto
  then obtain st where "st \<in> set (db_streams d')" "st_stream_id st = re_integrity_stream_id r"
    using ok by (auto simp: log_ok_def)
  then have "tail_of (sample_env []) [2] [r] st"
    using ok r by (fastforce simp: log_ok_def rows_of_def sample_settings_def)
  then have "check_rows (sample_env []) [2] ''source:cam'' [r] [] 1 = Inr []"
    using tail_verifies [of "sample_env []" "[2]" "[r]" st] by simp
  with altered_row_needs_collision [OF this this] show ?thesis
    by (intro exI [of _ "[r]"]) simp
qed

text \<open>C3: An event that is accepted came from a registered, usable source that proved who it is (its
  token, or a fresh signature with an unused nonce), was valid, was within the source's rights, and
  was not stored before.\<close>

theorem accepted_event_passed_every_gate:
  assumes "ingest_event E S now No_race h v d = (Inr res, d')" and "res_ingestion_status res = ''accepted''"
  shows "\<exists>src e. src \<in> set (db_sources d) \<and> h_source_id h = Some (es_source_id src) \<and> usable_source now src \<and>
    (if es_auth_method src = HMAC_V1 then signature_ok E S now h v src d else shared_secret_ok E h src) \<and>
    validate_event (validator E) v = Inr e \<and> within_rights src e \<and>
    event_id e \<notin> re_event_id ` set (db_raw_events d) \<and> res_event_id res = event_id e"
  using assms
proof (rule accepted_event)
  fix src e d1
  assume a: "admit E S now h v d = (Inr (src, e), d1)" and r: "res_event_id res = event_id e"
    "event_id e \<notin> re_event_id ` set (db_raw_events d)"
  then show ?thesis
    using admit_Inr [OF a] authenticate_source_Inr [of E S now h v d src d1]
    by (intro exI [of _ src] exI [of _ e]) (auto split: if_splits)
qed

theorem accepted_event_passed_every_gate_witness:
  "\<exists>res d'. sample_ingest [] sample_db = (Inr res, d') \<and> res_ingestion_status res = ''accepted'' \<and>
     (\<exists>src e. src \<in> set (db_sources sample_db) \<and> usable_source 9 src \<and> within_rights src e \<and> res_event_id res = event_id e)"
proof -
  obtain res d' where r: "sample_ingest [] sample_db = (Inr res, d')" "res_ingestion_status res = ''accepted''"
    by (rule sample_ingested)
  from accepted_event_passed_every_gate [OF r(1) [unfolded sample_ingest_def] r(2)] r show ?thesis
    by blast
qed



text \<open>C5: An event whose identifier is stored already adds nothing: with the stored content it is a
  duplicate, with another it is refused as a conflict, whatever races with it.\<close>

theorem known_event_is_settled:
  assumes "admit E S now h v d = (Inr (src, e), d1)"
    and "find_by re_event_id (event_id e) (db_raw_events d) = Some r"
    and "ingest_event E S now race h v d = (res, d')"
  shows "ingest_frame d' = ingest_frame d \<and>
    (if re_content_hash r = sha256_hex E (canonical_json_bytes (float_repr E) (canonical_event_dict (validator E) e))
     then \<exists>x. res = Inr x \<and> res_ingestion_status x = ''duplicate''
     else \<exists>m. res = Inl (TraceQError ''EVENT_ID_CONFLICT'' m 409))"
  using known_event [OF assms] .

lemma sample_admitted_later:
  assumes "find_by es_source_id ''cam'' (db_sources d) = Some sample_source"
  shows "admit (sample_env docs) sample_settings 9 sample_headers (sample_body ''e1'') d =
    (Inr (sample_source, sample_event ''e1''), d)"
  by (rule sample_admitted_at [OF _ _ assms]) (simp_all add: is_cont_def)

theorem known_event_is_settled_witness:
  "\<exists>d r res d'. find_by re_event_id ''e1'' (db_raw_events d) = Some r \<and> sample_ingest [] d = (res, d') \<and>
     ingest_frame d' = ingest_frame d"
proof -
  obtain res d where d: "sample_ingest [] sample_db = (Inr res, d)" "res_ingestion_status res = ''accepted''"
    "find_by es_source_id ''cam'' (db_sources d) = Some sample_source"
    by (rule sample_ingested) blast
  have adm: "admit (sample_env []) sample_settings 9 sample_headers (sample_body ''e1'') sample_db =
      (Inr (sample_source, sample_event ''e1''), sample_db)"
    by (rule sample_admitted_later) (simp add: sample_db_def sample_source_def)
  obtain r where r: "find_by re_event_id (event_id (sample_event ''e1'')) (db_raw_events d) = Some r"
    using d(1,2) unfolding sample_ingest_def
  proof (rule accepted_event)
    fix src e d1 d2
    assume a: "admit (sample_env []) sample_settings 9 sample_headers (sample_body ''e1'') sample_db = (Inr (src, e), d1)"
      and ap: "append_sealed (sample_env []) sample_settings 9 src e
        (canonical_json_bytes (float_repr (sample_env [])) (canonical_event_dict (validator (sample_env [])) e))
        (res_content_hash res) (track_sequence src e d1) = Inr d2" "log_part d = log_part d2"
    then have e: "e = sample_event ''e1''"
      using adm by simp
    obtain x where "db_raw_events d2 = db_raw_events (track_sequence src e d1) @ [x]" "re_event_id x = event_id e"
      using accepted_row [OF ap(1)] by auto
    then have "x \<in> set (db_raw_events d)" "re_event_id x = event_id e"
      using ap(2) by (simp_all add: log_part_def)
    then have "find_by re_event_id (event_id (sample_event ''e1'')) (db_raw_events d) \<noteq> None"
      unfolding e find_by_None_iff by (metis image_eqI)
    then show thesis
      using that by blast
  qed
  obtain res' d' where i: "sample_ingest [] d = (res', d')"
    by fastforce
  from known_event_is_settled [OF sample_admitted_later [OF d(3)] r i [unfolded sample_ingest_def]] r i show ?thesis
    by (auto simp: sample_event_def)
qed

text \<open>C6: An accepted event stays readable for good: its row opens under its own authenticated data to the
  canonical text of the validated event, and whatever is ingested later, the endpoint for raw events
  returns a document with that very text (AES-GCM decrypting what it encrypted, and \<open>json.loads\<close> reading
  the canonical text of the event as a document of that text).\<close>

theorem accepted_event_stays_readable:
  assumes "ingest_event E S now No_race h v d = (Inr res, d')" and "res_ingestion_status res = ''accepted''"
    and "\<And>k n pt a. aesgcm_decrypt E k n (aesgcm_encrypt E k n pt a) a = Some pt"
    and "\<And>e. validate_event (validator E) v = Inr e \<Longrightarrow>
      \<exists>doc. json_loads E (canonical_json_bytes (float_repr E) (canonical_event_dict (validator E) e)) = Some doc \<and>
        canonical_json_bytes (float_repr E) doc = canonical_json_bytes (float_repr E) (canonical_event_dict (validator E) e)"
    and "(log_step E S)\<^sup>*\<^sup>* d' d''"
  shows "\<exists>e view. validate_event (validator E) v = Inr e \<and> res_event_id res = event_id e \<and>
    get_event E S (event_id e) d'' = Inr view \<and>
    canonical_json_bytes (float_repr E) (gv_event view) =
      canonical_json_bytes (float_repr E) (canonical_event_dict (validator E) e) \<and>
    gv_content_hash view = res_content_hash res"
proof -
  obtain rows where rows: "db_raw_events d'' = db_raw_events d' @ rows"
    using raw_log.steps_append [OF assms(5)] by (auto simp: prefix_def)
  from accepted_event_readable [OF assms(1-4)] event_in_grown_log [OF _ rows] show ?thesis
    by blast
qed

theorem accepted_event_stays_readable_witness:
  "\<exists>docs res d' view. sample_ingest docs sample_db = (Inr res, d') \<and>
     get_event (sample_env docs) sample_settings ''e1'' d' = Inr view \<and>
     canonical_json_bytes (float_repr (sample_env docs)) (gv_event view) = sample_plaintext"
proof -
  let ?doc = "canonical_event_dict sample_validator (sample_event ''e1'')"
  let ?docs = "[(sample_plaintext, ?doc)]"
  have f: "float_repr (sample_env docs) = (\<lambda>r. ''f'')" for docs
    by (simp add: sample_env_def)
  have v: "validate_event sample_validator (sample_body ''e1'') = Inr (sample_event ''e1'')"
    by (rule sample_validates) (simp_all add: is_cont_def)
  obtain res d' where r: "sample_ingest ?docs sample_db = (Inr res, d')" "res_ingestion_status res = ''accepted''"
    by (rule sample_ingested)
  have "\<exists>e view. validate_event (validator (sample_env ?docs)) (sample_body ''e1'') = Inr e \<and> res_event_id res = event_id e \<and>
    get_event (sample_env ?docs) sample_settings (event_id e) d' = Inr view \<and>
    canonical_json_bytes (float_repr (sample_env ?docs)) (gv_event view) =
      canonical_json_bytes (float_repr (sample_env ?docs)) (canonical_event_dict (validator (sample_env ?docs)) e) \<and>
    gv_content_hash view = res_content_hash res"
    by (rule accepted_event_stays_readable [OF r(1) [unfolded sample_ingest_def] r(2) _ _ rtranclp.rtrancl_refl])
      (simp_all add: v f sample_plaintext_def)
  then obtain view where "get_event (sample_env ?docs) sample_settings ''e1'' d' = Inr view"
    "canonical_json_bytes (\<lambda>r. ''f'') (gv_event view) = sample_plaintext"
    by (auto simp: v f sample_event_def sample_plaintext_def)
  with r(1) show ?thesis
    unfolding f by blast
qed



section \<open>The read model\<close>

text \<open>C8: The order in which the rows of the log arrived has no influence on a rebuild: on any
  rearrangement of the log it returns the same and leaves the same tables.\<close>

theorem rebuild_ignores_arrival_order:
  assumes "mset raws = mset (db_raw_events d)" and "distinct (map re_event_id (db_raw_events d))"
  shows "rebuild_item E S now i (with_log raws d) = map_prod id (with_log raws) (rebuild_item E S now i d)"
  using rebuild_item_perm [OF assms] .

theorem rebuild_ignores_arrival_order_witness:
  "\<exists>d'. rebuild_item (sample_env sample_docs) sample_settings 99 ''it'' sample_shop = (Inr (), d') \<and>
     rebuild_item (sample_env sample_docs) sample_settings 99 ''it''
       (with_log [sample_raw ''e1'' 10 2 2, sample_raw ''e2'' 400000000 3 1] sample_shop) =
     (Inr (), with_log [sample_raw ''e1'' 10 2 2, sample_raw ''e2'' 400000000 3 1] d')"
proof -
  obtain d' where d': "rebuild_item (sample_env sample_docs) sample_settings 99 ''it'' sample_shop = (Inr (), d')"
    using sample_rebuilt by blast
  have "mset [sample_raw ''e1'' 10 2 2, sample_raw ''e2'' 400000000 3 1] = mset (db_raw_events sample_shop)"
    "distinct (map re_event_id (db_raw_events sample_shop))"
    by simp_all
  from rebuild_ignores_arrival_order [OF this, of "sample_env sample_docs" sample_settings 99 "''it''"] d' show ?thesis
    by simp
qed



text \<open>C10: A rebuild of one item leaves the read model, the item row and the projection state of every
  other item alone, adds to analyses, evidence, nonconformances and occurrences without removing any,
  and changes no other table; a rebuild that fails changes nothing at all.\<close>

theorem rebuild_keeps_everything_else:
  assumes "j \<noteq> i" and "rebuild_item E S now i d = (res, d')"
  shows "read_model_of j d' = read_model_of j d \<and>
    find_by it_item_id j (db_items d') = find_by it_item_id j (db_items d) \<and>
    find_by ps_item_id j (db_projections d') = find_by ps_item_id j (db_projections d) \<and>
    rebuild_frame d' = rebuild_frame d \<and> prefix (db_analyses d) (db_analyses d') \<and>
    prefix (db_evidence d) (db_evidence d') \<and> prefix (map nc_core (db_ncrs d)) (map nc_core (db_ncrs d')) \<and>
    prefix (map oc_core (db_occurrences d)) (map oc_core (db_occurrences d')) \<and>
    (res = Inr () \<or> d' = d)"
proof -
  have "res = Inr () \<or> d' = d"
    using rebuild_item_error [of E S now i d] assms(2) by (cases res) auto
  then show ?thesis
    using rebuild_item_rel [of i d E S now] assms by (simp add: rebuild_rel_def)
qed

theorem rebuild_keeps_everything_else_witness:
  "(\<exists>d'. rebuild_item (sample_env sample_docs) sample_settings 99 ''it'' sample_shop = (Inr (), d') \<and>
     read_model_of ''other'' d' = read_model_of ''other'' sample_shop) \<and>
   (\<exists>e. rebuild_item (sample_env []) sample_settings 99 ''it'' sample_shop = (Inl e, sample_shop))"
proof -
  have "\<exists>e. fst (rebuild_item (sample_env []) sample_settings 99 ''it'' sample_shop) = Inl e"
    unfolding rebuild_item_def Let_def sample_item_raws
    by (simp add: rebuild_from_def replay_def open_raw_def decrypt_raw_def decrypt_event_def)
  then obtain e d1 where e: "rebuild_item (sample_env []) sample_settings 99 ''it'' sample_shop = (Inl e, d1)"
    by (metis prod.collapse)
  have "d1 = sample_shop"
    using rebuild_keeps_everything_else [OF _ e, of "''other''"] by simp
  then show ?thesis
    using e sample_rebuilt rebuild_keeps_everything_else [of "''other''" "''it''" "sample_env sample_docs"] by auto
qed

text \<open>C11: After a rebuild every defect an observation of the item reports, trusted or not, has an open
  occurrence of that defect and a nonconformance for it.\<close>

theorem every_defect_has_a_nonconformance:
  assumes "rebuild_item E S now i d = (Inr (), d')" and "item_raws i (db_raw_events d) \<noteq> []"
    and "replay E S d (item_raws i (db_raw_events d)) = Inr v"
    and "(obs, x) \<in> set (detected (iv_observations v))"
  shows "\<exists>u. occurrence_of i (defect_type x) (defect_component obs x) u d' \<and> has_ncr u d'"
proof -
  have "rebuild_from E S now i (item_raws i (db_raw_events d)) d = Inr d'"
    by (rule rebuild_item_done [OF assms(1,2)])
  then show ?thesis
    using assms(3,4) by (auto elim!: rebuild_from_read_model)
qed

theorem every_defect_has_a_nonconformance_witness:
  "\<exists>d' u. rebuild_item (sample_env sample_docs) sample_settings 99 ''it'' sample_shop = (Inr (), d') \<and>
     occurrence_of ''it'' ''crack'' None u d' \<and> has_ncr u d'"
proof -
  obtain d' where d': "rebuild_item (sample_env sample_docs) sample_settings 99 ''it'' sample_shop = (Inr (), d')"
    using sample_rebuilt by blast
  have "item_raws ''it'' (db_raw_events sample_shop) \<noteq> []"
    "replay (sample_env sample_docs) sample_settings sample_shop (item_raws ''it'' (db_raw_events sample_shop)) = Inr sample_values"
    unfolding sample_item_raws sample_replay by simp_all
  moreover have "(bad_obs, crack) \<in> set (detected (iv_observations sample_values))"
    by (simp add: sample_detected)
  ultimately have "\<exists>u. occurrence_of ''it'' (defect_type crack) (defect_component bad_obs crack) u d' \<and> has_ncr u d'"
    by (rule every_defect_has_a_nonconformance [OF d'])
  moreover have "defect_type crack = ''crack''" "defect_component bad_obs crack = None"
    by (simp_all add: crack_def defect_component_def bad_obs_def bad_payload_def good_payload_def py_or_def)
  ultimately show ?thesis
    using d' by auto
qed

text \<open>C12: Rebuilds keep the versions of the analyses of every nonconformance consecutive from 1, with
  the nonconformance pointing at the last (identifiers never repeating).\<close>

theorem rebuilds_keep_versions_consecutive:
  assumes "inj (uuid4 E)" and "analyses_ok E d"
  shows "analyses_ok E (snd (rebuild_item E S now i d))"
  using rebuild_item_ok [OF assms] .

theorem rebuilds_keep_versions_consecutive_witness:
  "\<exists>d'. rebuild_item (sample_env sample_docs) sample_settings 99 ''it'' sample_shop = (Inr (), d') \<and> versions_ok d'"
proof -
  have "analyses_ok (sample_env sample_docs) sample_shop"
    by (simp add: analyses_ok_def versions_ok_def versions_def ids_drawn_def)
  from rebuilds_keep_versions_consecutive [OF sample_uuid4_inj this] sample_rebuilt show ?thesis
    by (metis analyses_ok_def snd_conv)
qed

text \<open>C13: A recovery run returns, and every projection it found behind its log or without a finished
  rebuild is up to date or marked failed afterwards.\<close>

theorem recovery_settles_projections:
  assumes "recover_stale_projections E S now d = (recovered, d')"
    and "ps \<in> set (db_projections d)" and "needs_recovery ps"
  shows "settled d' (ps_item_id ps)"
  using recover_fold_settles [of E S now _ "[]" d recovered d'] assms
  by (auto simp: recover_stale_projections_def)

theorem recovery_settles_projections_witness:
  "\<exists>rs d'. recover_stale_projections (sample_env sample_docs) sample_settings 99
       (sample_shop\<lparr>db_projections := [fresh_projection ''it'']\<rparr>) = (rs, d') \<and> settled d' ''it''"
proof -
  obtain rs d' where r: "recover_stale_projections (sample_env sample_docs) sample_settings 99
       (sample_shop\<lparr>db_projections := [fresh_projection ''it'']\<rparr>) = (rs, d')"
    by fastforce
  from recovery_settles_projections [OF r, of "fresh_projection ''it''"] r show ?thesis
    by (simp add: fresh_projection_def needs_recovery_def)
qed

section \<open>Trust and the birth window\<close>



text \<open>C15: A birth window is bounded on the left by the latest trusted inspection before the defect that
  would have seen the defect and did not; it is open exactly when there is none; and it ends at the
  defect. Everything it shows besides its two boundaries and the limitations it was given happened after
  the left boundary and not after the defect.\<close>

theorem window_left_boundary:
  assumes "calculate_birth_window dv obs ops ms as lims = Inr w"
  shows "bw_right_boundary_at w = Some (dv_occurred_at dv) \<and>
    (bw_status w = LEFT_OPEN \<and> bw_left_boundary_at w = None \<and> (\<forall>g \<in> set obs. \<not> excludes_defect dv g) \<or>
     bw_status w = BOUNDED \<and> (\<exists>g \<in> set obs. bw_left_boundary_at w = Some (ov_occurred_at g) \<and>
       ov_occurred_at g < dv_occurred_at dv \<and> ov_trust_status g = TRUSTED \<and>
       in_inspection_result (ov_payload g) = No_defect \<and> excludes_defect dv g \<and>
       (\<forall>h \<in> set obs. excludes_defect dv h \<longrightarrow> ov_occurred_at h \<le> ov_occurred_at g))) \<and>
    (\<forall>e \<in> set (bw_evidence w). ev_role e = BOUNDARY \<or> e \<in> set lims \<or>
       (\<exists>t. ev_occurred_at e = Some t \<and> t \<le> dv_occurred_at dv \<and>
         (\<forall>l. bw_left_boundary_at w = Some l \<longrightarrow> l < t)))"
proof -
  have inside: "\<forall>e \<in> set (bw_evidence w). ev_role e = BOUNDARY \<or> e \<in> set lims \<or>
       (\<exists>t. ev_occurred_at e = Some t \<and> t \<le> dv_occurred_at dv \<and> (\<forall>l. bw_left_boundary_at w = Some l \<longrightarrow> l < t))"
    using context_inside [OF assms] by (fastforce simp: inside_def split: option.splits)
  show ?thesis
    using assms
  proof (cases rule: window_cases)
    case open_window
    then show ?thesis
      using window_evidence(1) [OF assms] inside by blast
  next
    case (bounded g)
    then show ?thesis
      using window_evidence(1) [OF assms] excludes_defect_iff [of dv g] inside by blast
  qed
qed

theorem window_left_boundary_witness:
  "\<exists>w. calculate_birth_window \<lparr>dv_event_id = ''e2'', dv_occurred_at = 400000000, dv_defect_type = ''crack'',
       dv_component_instance_id = None\<rparr> [good_obs, bad_obs] [] [] [] [] = Inr w \<and>
     bw_right_boundary_at w = Some 400000000"
  using sample_window window_left_boundary by fastforce

section \<open>Events, framing and audit\<close>

text \<open>C16: Validation is a projection onto canonical events: the canonical form of a validated event
  validates again, to the same event.\<close>

theorem canonical_event_validates_again:
  assumes "faithful_validator V" and "validate_event V v = Inr e"
  shows "validate_event V (canonical_event_dict V e) = Inr e"
  using canonical_is_stable [OF assms] .

theorem canonical_event_validates_again_witness:
  "validate_event sample_validator (canonical_event_dict sample_validator (sample_event ''e1'')) = Inr (sample_event ''e1'')"
  by (rule canonical_event_validates_again [OF sample_validator_faithful sample_validates])
    (simp_all add: is_cont_def)

text \<open>C17: No audit entry carries a secret: whatever details a caller passes, the entry keeps none of the
  values under a sensitive key at any depth, and sanitising them again would change nothing.\<close>

theorem audit_keeps_no_secret:
  "\<exists>a. db_audit (write_audit action outcome c details d) = db_audit d @ [a] \<and>
     no_secret (au_safe_details a) \<and> sanitize (au_safe_details a) = au_safe_details a"
  by (simp add: write_audit_def sanitize_no_secret sanitize_idem)

section \<open>Identities\<close>

text \<open>C18: Who changes anything through the decision endpoint is an enabled user with a live session that
  authenticated within the last half hour, whose roles hold the right to decide.\<close>

theorem decision_needs_a_fresh_right:
  assumes "snd (decision_endpoint E now c i b r d) \<noteq> d"
  shows "\<exists>p. authentic E now c d p \<and> ''ISSUE_QC_DECISION'' \<in> set (permissions_for_user d (pr_user_id p)) \<and>
    freshly_authenticated now d p"
  using critical.change_needs_right assms unfolding decision_endpoint_def by blast

lemma sample_endpoint:
  "decision_endpoint (sample_env docs) 9 sample_credentials ''n1'' sample_release None sample_quality =
     decide_nonconformance (sample_env docs) 9 ''n1'' sample_release None sample_principal sample_quality"
  by (simp add: decision_endpoint_def gated_def sample_gates)

theorem decision_needs_a_fresh_right_witness:
  "\<exists>p. authentic (sample_env []) 9 sample_credentials sample_quality p \<and> freshly_authenticated 9 sample_quality p"
proof -
  have "length (db_quality_results (snd (decision_endpoint (sample_env []) 9 sample_credentials ''n1'' sample_release
      None sample_quality))) = 1"
    using sample_decided(5) [of "[]"] by (simp add: sample_endpoint sample_released_def)
  then have "snd (decision_endpoint (sample_env []) 9 sample_credentials ''n1'' sample_release None sample_quality) \<noteq> sample_quality"
    by (auto dest: arg_cong [of _ _ "\<lambda>d. length (db_quality_results d)"])
  then show ?thesis
    using decision_needs_a_fresh_right by blast
qed

text \<open>C19: Wrong passwords lock an account: when the failures of a user reach five, every attempt within
  the next quarter of an hour is refused, with the right password too.\<close>

theorem five_failures_lock_the_account:
  assumes "find_by us_username n (db_users d) = Some u" and "us_locked_until u = None"
    and "us_failed_login_attempts u + int (length xs) = 5" and "xs \<noteq> []"
    and "\<forall>(t, pw, r) \<in> set xs. \<not> verify_password E (us_password_hash u) pw"
    and "now < fst (List.last xs) + minutes 15"
  shows "fst (login E S now n pw r (attempts E S n xs d)) =
    Inl (TraceQError ''ACCOUNT_TEMPORARILY_LOCKED'' ''Account is temporarily locked'' 423)"
proof -
  obtain v where "find_by us_username n (db_users (attempts E S n xs d)) = Some v"
    and "us_locked_until v = Some (fst (List.last xs) + minutes 15)"
    using wrong_attempts_lock [OF assms(1-5)] by blast
  then show ?thesis
    using assms(6) by (rule login_when_locked)
qed

theorem five_failures_lock_the_account_witness:
  "fst (login (sample_env []) sample_settings 9 ''inspector'' ''pw'' None
     (attempts (sample_env []) sample_settings ''inspector''
       [(1, ''x'', None), (2, ''x'', None), (3, ''x'', None), (4, ''y'', None), (5, ''z'', None)] sample_quality)) =
   Inl (TraceQError ''ACCOUNT_TEMPORARILY_LOCKED'' ''Account is temporarily locked'' 423)"
  by (rule five_failures_lock_the_account [where u = sample_user])
    (simp_all add: sample_user_def sample_env_def minutes_def)

text \<open>C20: A refresh token works once: after it was used, no history of logins, refreshes and logouts
  makes it work again.\<close>

theorem refresh_token_is_single_use:
  assumes "refresh E S now token r d = (Inr resp, d1)" and "(auth_step E S)\<^sup>*\<^sup>* d1 d2"
  shows "refresh E S now2 token r2 d2 = (Inl invalid_refresh, d2)"
  by (rule spent_refused, rule spent_tokens.steps_keep [OF assms(2)], rule refresh_spends [OF assms(1)])

theorem refresh_token_is_single_use_witness:
  "\<exists>resp d1. refresh (sample_env []) sample_settings 9 ''rt'' None sample_quality = (Inr resp, d1) \<and>
     refresh (sample_env []) sample_settings 9 ''rt'' None d1 = (Inl invalid_refresh, d1)"
proof -
  obtain resp d1 where r: "refresh (sample_env []) sample_settings 9 ''rt'' None sample_quality = (Inr resp, d1)"
    by (simp add: refresh_def sample_refresh_def sample_user_def token_response_def Let_def create_access_token_def)
  from refresh_token_is_single_use [OF r rtranclp.rtrancl_refl] r show ?thesis
    by blast
qed

text \<open>C21: After a logout the session is over for good: no access token of it makes a principal and no
  refresh token of it is accepted, whatever logins, refreshes and logouts follow.\<close>

theorem logout_ends_the_session:
  assumes "inj (uuid4 E)" and "find_by rt_token_hash (token_hash E token) (db_refresh_tokens d) = Some row"
    and "rt_revoked_at row = None" and "rt_session_id row \<in> uuid4 E ` {..<db_uuid_draws d}"
    and "(auth_step E S)\<^sup>*\<^sup>* (snd (logout E now token r d)) d2"
  shows "(token_claims E now2 access = Some (u, rt_session_id row) \<longrightarrow>
      current_principal E now2 (Some (scheme, access)) d2 \<noteq> Inr p) \<and>
    (\<forall>row2. find_by rt_token_hash (token_hash E token2) (db_refresh_tokens d2) = Some row2 \<and>
      rt_session_id row2 = rt_session_id row \<longrightarrow> refresh E S now2 token2 r2 d2 = (Inl invalid_refresh, d2))"
proof -
  have "over E (rt_session_id row) d2"
    by (rule over_sessions.steps_keep [OF assms(5) logout_over [OF assms(1-4)]])
  then show ?thesis
    using over_no_principal over_no_refresh by blast
qed

theorem logout_ends_the_session_witness:
  "current_principal (sample_env []) 9 sample_credentials sample_quality = Inr sample_principal \<and>
   current_principal (sample_env []) 9 sample_credentials
     (snd (logout (sample_env []) 9 ''rt'' None sample_quality)) \<noteq> Inr sample_principal"
proof -
  have row: "find_by rt_token_hash (token_hash (sample_env []) ''rt'') (db_refresh_tokens sample_quality) = Some sample_refresh"
    "rt_revoked_at sample_refresh = None" "rt_session_id sample_refresh = ''uu''"
    by (simp_all add: sample_refresh_def)
  have "uuid4 (sample_env []) 2 = ''uu''" "2 \<in> {..<db_uuid_draws sample_quality}"
    by (simp_all add: numeral_nat)
  then have "rt_session_id sample_refresh \<in> uuid4 (sample_env []) ` {..<db_uuid_draws sample_quality}"
    unfolding row(3) by (metis imageI)
  from logout_ends_the_session [OF sample_uuid4_inj row(1,2) this rtranclp.rtrancl_refl, where S = sample_settings
      and ?now2.0 = 9 and scheme = "''Bearer''" and access = "''u/uu''" and u = "''u''"] show ?thesis
    using sample_principal sample_claims row(3) by simp
qed




section \<open>Decisions and quality results\<close>

text \<open>C24: Starting without results, every quality result there ever is belongs to exactly one decision
  that is final and exportable, repeats that decision, and travels in exactly one message of the
  outbox, through endpoints, worker turns and retries in any order.\<close>

theorem results_are_backed_by_decisions:
  assumes "(outbox_step S E)\<^sup>*\<^sup>* d d'" and "db_quality_results d = []" and "db_outbox d = []"
  shows "(\<forall>q \<in> set (db_quality_results d'). backed d' q) \<and> distinct (map qr_decision_id (db_quality_results d')) \<and>
    map mail (db_outbox d') = map (\<lambda>q. (qr_message_id q, qr_payload q)) (db_quality_results d') \<and>
    distinct (map ox_message_id (db_outbox d'))"
proof -
  have "results_ok d'"
    by (rule outbox_results.steps_keep [OF assms(1)]) (simp add: results_ok_def assms)
  then show ?thesis
    using results_ok_ids [of d'] by (simp add: results_ok_def)
qed

lemma sample_outbox_history: "(outbox_step S (sample_env docs))\<^sup>*\<^sup>* sample_quality (sample_released docs)"
  by (rule r_into_rtranclp, rule outbox_step.os_review, rule sample_step)

theorem results_are_backed_by_decisions_witness:
  "length (db_quality_results (sample_released [])) = 1 \<and>
   list_all (backed (sample_released [])) (db_quality_results (sample_released []))"
  using results_are_backed_by_decisions [OF sample_outbox_history [of sample_settings "[]"]] sample_decided(5) [of "[]"]
  by (simp add: list_all_iff)

text \<open>C25: A rework is let out only after it was completed for this nonconformance and the item was then
  inspected by a trusted observation that found nothing.\<close>

theorem rework_release_is_verified:
  assumes "verify_rework E now i b r p d = (Inr (cid, Some m), d')"
  shows "\<exists>ncr run t o'. find_by nc_id i (db_ncrs d) = Some ncr \<and> wr_passed b \<and>
    run \<in> set (db_runs d) \<and> or_item_id run = nc_item_id ncr \<and> or_run_reason run = Rework \<and>
    or_rework_for_nonconformance_id run = Some (nc_id ncr) \<and> or_completion_status run = Some Completed \<and>
    or_finished_at run = Some t \<and> o' \<in> set (db_observations d) \<and> ob_item_id o' = nc_item_id ncr \<and>
    t \<le> ob_occurred_at o' \<and> ob_inspection_result o' = No_defect \<and> ob_trust_status o' = TRUSTED"
  using rework_release [OF assms] .

theorem rework_release_is_verified_witness:
  "\<exists>d' run o'. verify_rework (sample_env []) 9 ''n2'' \<lparr>wr_passed = True, wr_reason = ''fine''\<rparr> None sample_principal
      sample_quality = (Inr (''uuu'', Some ''QR-uuu''), d') \<and> run \<in> set (db_runs sample_quality) \<and>
    or_run_reason run = Rework \<and> o' \<in> set (db_observations sample_quality) \<and> ob_trust_status o' = TRUSTED"
proof -
  have "text_between 3 3000 ''fine''"
    by (simp add: text_between_def is_cont_def)
  moreover have "rework_run (sample_ncr ''n2'' ''it2'' (Some ''rework'')) sample_quality = Some sample_run"
    by (simp add: rework_run_def) (simp add: sample_run_def)
  moreover have "trusted_good_after ''it2'' 2 sample_quality = Some sample_observation"
    by (simp add: trusted_good_after_def) (simp add: sample_observation_def)
  moreover have "or_finished_at sample_run = Some 2"
    by (simp add: sample_run_def)
  ultimately obtain d' where d': "verify_rework (sample_env []) 9 ''n2'' \<lparr>wr_passed = True, wr_reason = ''fine''\<rparr> None
      sample_principal sample_quality = (Inr (''uuu'', Some ''QR-uuu''), d')"
    using sample_uuu [of "[]"]
    by (simp add: verify_rework_def atomically_def ncr_or_404_def ensure_evidence_integrity_def sample_no_failure
        Let_def issue_def create_result_def authorize_def decision_row_def new_uuid_def verified_ncr_def
        rework_verdict_def final_verdict_def exportable_def)
  from rework_release_is_verified [OF d'] d' show ?thesis
    by blast
qed



text \<open>C27: Every change through the nonconformance endpoints is accounted for: it leaves exactly one audit
  entry, which names an authenticated user who holds the right its action needs.\<close>

theorem changes_are_accounted_for:
  assumes "review_step E d d'" and "d' \<noteq> d"
  shows "\<exists>a now c p. db_audit d' = db_audit d @ [a] \<and> authentic E now c d p \<and>
    au_actor_user_id a = Some (pr_user_id p) \<and>
    action_right (au_action a) \<in> set (permissions_for_user d (pr_user_id p))"
  using review_step_effect [OF assms(1)] assms(2) by (simp add: accounted_def)

theorem changes_are_accounted_for_witness:
  "\<exists>a. db_audit (sample_released []) = [a] \<and> au_actor_user_id a \<noteq> None"
proof -
  have "sample_released [] \<noteq> sample_quality"
    using sample_decided(5) [of "[]"] by auto
  from changes_are_accounted_for [OF sample_step this] show ?thesis
    by auto
qed

section \<open>The outbox and the ERP\<close>





text \<open>C30: The outbox drains: when the ERP answers normally, as many turns as there are due messages leave
  none due, and every message that was due is delivered.\<close>

theorem outbox_drains:
  assumes "results_ok d" and "erp_up w" and "waiting now d \<le> k"
    and "\<forall>m \<in> set (db_outbox d). 1 \<le> py_len (ox_message_id m) \<and> py_len (ox_message_id m) \<le> 128"
  shows "\<exists>d' w'. run_turns S wid (quality_results E) (replicate k now) d w = (d', w') \<and> waiting now d' = 0 \<and>
    (\<forall>m \<in> set (db_outbox d). due now m \<longrightarrow> view d' (ox_message_id m) = Some DELIVERED)"
proof -
  have "\<forall>m \<in> set (db_outbox d). 1 \<le> py_len (qp_message_id (ox_payload m)) \<and> py_len (qp_message_id (ox_payload m)) \<le> 128"
    using assms(4) results_ok_mail [OF assms(1)] by simp
  from drain [OF assms(1) emulator_acks assms(3,2) this] show ?thesis
    by blast
qed

lemma sample_message:
  obtains m where "db_outbox (sample_released docs) = [m]" "ox_message_id m = ''QR-uuu''" "due 9 m"
proof -
  obtain m where m: "db_outbox (sample_released docs) = [m]"
    using sample_decided(2) [of docs] by (cases "db_outbox (sample_released docs)") auto
  moreover from this have "ox_message_id m = ''QR-uuu''" "due 9 m"
    using sample_decided(2-4) [of docs] by (auto simp: due_def)
  ultimately show thesis
    by (rule that)
qed

lemma sample_erp_up: "erp_up new_erp" "filed new_erp"
  by (simp_all add: erp_up_def new_erp_def filed_def)

theorem outbox_drains_witness:
  "\<exists>d' w'. run_turns sample_settings ''w'' (quality_results (sample_env [])) [9] (sample_released []) new_erp = (d', w') \<and>
     waiting 9 d' = 0 \<and> view d' ''QR-uuu'' = Some DELIVERED"
proof -
  obtain m where m: "db_outbox (sample_released []) = [m]" "ox_message_id m = ''QR-uuu''" "due 9 m"
    by (rule sample_message)
  have "waiting 9 (sample_released []) \<le> Suc 0"
    by (simp add: waiting_def m)
  moreover have "\<forall>m \<in> set (db_outbox (sample_released [])). 1 \<le> py_len (ox_message_id m) \<and> py_len (ox_message_id m) \<le> 128"
    by (simp add: m is_cont_def)
  ultimately show ?thesis
    using outbox_drains [OF sample_released_ok sample_erp_up(1), of 9 "[]" "Suc 0" sample_settings "''w''" "sample_env []"] m
    by auto
qed

text \<open>C31: Delivery is exactly once over a network that loses requests and replies, with an ERP that times
  out, refuses and changes its mode: what the outbox calls delivered is recorded there with its
  payload, no message is recorded twice, and nothing is recorded that was not sent.\<close>

theorem delivery_is_exactly_once:
  assumes "(system_step S E (over_network net (quality_results E)) (erp_moves E))\<^sup>*\<^sup>* (d, new_erp) (d', w')"
    and "db_quality_results d = []" and "db_outbox d = []"
  shows "(\<forall>m \<in> set (db_outbox d'). ox_state m = DELIVERED \<longrightarrow> recorded_at w' (ox_payload m)) \<and>
    distinct (map fst (erp_deliveries w')) \<and>
    (\<forall>p. recorded_at w' p \<longrightarrow> p \<in> ox_payload ` set (db_outbox d'))"
proof -
  have "emulator.consistent (d, new_erp)"
    by (simp add: emulator.consistent_def results_ok_def assms knows_def recorded_at_def new_erp_def filed_def)
  then have "emulator.consistent (d', w')"
    by (rule emulator.system.steps_keep [OF assms(1)])
  then show ?thesis
    by (auto simp: emulator.consistent_def filed_def knows_def)
qed

theorem delivery_is_exactly_once_witness:
  "\<exists>d' w' m. (system_step sample_settings (sample_env []) (over_network (\<lambda>_. Goes_through) (quality_results (sample_env [])))
       (erp_moves (sample_env [])))\<^sup>*\<^sup>* (sample_quality, new_erp) (d', w') \<and> m \<in> set (db_outbox d') \<and>
     ox_state m = DELIVERED \<and> recorded_at w' (ox_payload m)"
proof -
  let ?post = "over_network (\<lambda>_. Goes_through) (quality_results (sample_env []))"
  let ?valid = "\<lambda>p :: QualityPayload. 1 \<le> py_len (qp_message_id p) \<and> py_len (qp_message_id p) \<le> 128"
  have post: "?post = quality_results (sample_env [])"
    by (simp add: over_network_def fun_eq_iff)
  have acks: "always_acks ?post erp_up ?valid"
    unfolding post by (rule emulator_acks)
  obtain m where m: "db_outbox (sample_released []) = [m]" "ox_message_id m = ''QR-uuu''" "due 9 m"
    by (rule sample_message)
  have next': "next_message 9 [] (sample_released []) = Some m"
    by (simp add: next_message_def m)
  have valid: "?valid (ox_payload m)"
    using results_ok_mail [OF sample_released_ok, of m "[]"] m by (simp add: is_cont_def)
  obtain d' w' where p: "process_one sample_settings ''w'' 9 [] (?post 9) (sample_released []) new_erp = (True, d', w')"
    and o': "db_outbox d' = update_by ox_message_id (ox_message_id m) (\<lambda>_. delivered_message 9 (counted m)) (db_outbox (sample_released []))"
    by (rule process_acknowledged [OF sample_released_ok acks next' sample_erp_up(1) valid])
  let ?step = "system_step sample_settings (sample_env []) ?post (erp_moves (sample_env []))"
  have "?step (sample_quality, new_erp) (sample_released [], new_erp)"
    by (rule system_step.sys_review [OF sample_step])
  moreover have "?step (sample_released [], new_erp) (d', w')"
    by (rule system_step.sys_turn [where post = "?post" and now = 9, OF p])
  ultimately have steps: "?step\<^sup>*\<^sup>* (sample_quality, new_erp) (d', w')"
    by simp
  have d: "delivered_message 9 (counted m) \<in> set (db_outbox d')" "ox_state (delivered_message 9 (counted m)) = DELIVERED"
    by (simp_all add: o' m) (simp add: delivered_message_def)
  from delivery_is_exactly_once [OF steps] d steps show ?thesis
    by (intro exI [of _ d'] exI [of _ w'] exI [of _ "delivered_message 9 (counted m)"]) simp
qed

section \<open>Routes\<close>

text \<open>C32: Through every history of the route endpoints the revisions of a route are numbered without
  gaps, their steps are numbered and unambiguous, an active revision is an active revision of its
  own route, and the steps of a revision that is stored never change.\<close>

theorem routes_stay_consistent:
  assumes "(route_step E)\<^sup>*\<^sup>* d0 d" and "(route_step E)\<^sup>*\<^sup>* d d'" and "inj (uuid4 E)"
    and "db_routes d0 = []" and "db_revisions d0 = []" and "db_steps d0 = []"
  shows "map rr_revision (revisions_of i d') = [1..int (length (revisions_of i d'))] \<and>
    well_stepped (steps_of j d') \<and> (\<forall>route \<in> set (db_routes d'). active_ok d' route) \<and>
    (\<forall>j \<in> rr_id ` set (db_revisions d). steps_of j d' = steps_of j d)"
proof -
  have "evolves E d0 d"
    using routes_inv.steps_keep [OF assms(1)] evolves_refl [OF no_routes_ok [OF assms(3-6)]] by blast
  then have "evolves E d d"
    by (intro evolves_refl) (simp add: evolves_def)
  then have "evolves E d d'"
    by (rule routes_inv.steps_keep [OF assms(2)])
  then show ?thesis
    by (auto simp: evolves_def history_kept_def routes_ok_def)
qed

theorem routes_stay_consistent_witness:
  "steps_of ''u'' sample_routed \<noteq> [] \<and> well_stepped (steps_of ''u'' sample_routed) \<and>
   map rr_revision (revisions_of [] sample_routed) = [1..int (length (revisions_of [] sample_routed))]"
proof -
  have "(route_step sample_E)\<^sup>*\<^sup>* sample_office sample_routed"
    unfolding sample_routed_def by (rule r_into_rtranclp) (rule rt_create)
  from routes_stay_consistent [OF this rtranclp.rtrancl_refl sample_uuid4_inj]
  have "well_stepped (steps_of ''u'' sample_routed)"
    "map rr_revision (revisions_of [] sample_routed) = [1..int (length (revisions_of [] sample_routed))]"
    by simp_all
  moreover have "steps_of ''u'' sample_routed \<noteq> []"
    using sample_routed(1,3) by (cases "db_steps sample_routed") (auto simp: steps_of_def)
  ultimately show ?thesis by simp
qed

section \<open>Risk\<close>



text \<open>C34: Once a control device was invalidated, no observation it made in the affected time is trusted
  any more, in the items whose observations come from the log.\<close>

theorem invalidated_device_is_not_trusted:
  assumes "invalidate_device E S now b r p d = (Inr x, d')"
    and "\<forall>o' \<in> set (db_observations d). item_raws (ob_item_id o') (db_raw_events d) \<noteq> []"
  shows "list_all (\<lambda>o'. ob_control_device_id o' = Some (vi_device_id b) \<and> vi_affected_from b \<le> ob_occurred_at o' \<and>
    ob_occurred_at o' \<le> vi_affected_to b \<longrightarrow> ob_trust_status o' \<noteq> TRUSTED) (db_observations d')"
  using invalidation_distrusts [OF assms] by (simp add: list_all_iff hit_def)

theorem invalidated_device_is_not_trusted_witness:
  "\<exists>d' o'. o' \<in> set (db_observations d') \<and> ob_control_device_id o' = Some ''dev'' \<and> ob_trust_status o' \<noteq> TRUSTED \<and>
     (\<exists>x. invalidate_device (sample_env device_docs) sample_settings 99 sample_invalidation None (office_principal ''u'')
        sample_device_shop = (Inr x, d'))"
proof -
  obtain x d' where i: "invalidate_device (sample_env device_docs) sample_settings 99 sample_invalidation None
      (office_principal ''u'') sample_device_shop = (Inr x, d')"
    and h: "\<exists>o' \<in> set (db_observations d'). hit sample_invalidation o'"
    by (rule sample_invalidated)
  have "\<forall>o' \<in> set (db_observations sample_device_shop). item_raws (ob_item_id o') (db_raw_events sample_device_shop) \<noteq> []"
    by (simp add: item_raws_def)
  moreover have "vi_device_id sample_invalidation = ''dev''"
    by (simp add: sample_invalidation_def)
  ultimately show ?thesis
    using invalidated_device_is_not_trusted [OF i] h i by (fastforce simp: list_all_iff hit_def)
qed

section \<open>Tampering\<close>

text \<open>C35: Tampering does not pay: when the ciphertext of a stored event is altered, the next verification
  reports its stream (unless the altered row collides with the original under the MAC), and from then
  on no decision about the item of the event goes through.\<close>

theorem tampering_blocks_decisions:
  assumes "(log_step E S)\<^sup>*\<^sup>* empty_db d" and "demo_tamper c i r p d = (Inr (), d1)"
    and "find_by re_event_id i (db_raw_events d) = Some row" and "re_item_id row = Some (nc_item_id ncr)"
    and "flip_first_bit (re_payload_ciphertext row) = Some ct"
    and "find_by nc_id n (db_ncrs d) = Some ncr" and "valid_decision b"
  shows "mac_collision E (integrity_key S) row (row\<lparr>re_payload_ciphertext := ct\<rparr>) \<or>
    (\<exists>failures d2 e. integrity_check E S r2 p2 d1 = (Inr (''FAILED'', failures), d2) \<and>
      list_ex (\<lambda>f. if_stream_id f = re_integrity_stream_id row) failures \<and>
      decide_nonconformance E now n b r3 p3 d2 = (Inl e, d2) \<and> err_code e = ''EVIDENCE_INTEGRITY_FAILED'')"
proof -
  have "log_ok E S d"
    by (rule log_inv.steps_keep [OF assms(1)], rule log_ok_empty) simp
  from tampering_blocks [OF this assms(2-5) _ assms(6,7)] show ?thesis
    by (fastforce simp: tampered_def list_ex_iff)
qed

theorem tampering_blocks_decisions_witness:
  "\<exists>d1 d2 e failures. length (db_raw_events d1) = 1 \<and> 
     integrity_check sample_E sample_settings None sample_principal d1 = (Inr (''FAILED'', failures), d2) \<and>
     decide_nonconformance sample_E 9 ''n3'' sample_release None sample_principal d2 = (Inl e, d2)"
proof -
  obtain d r ct where d: "log_step sample_E sample_settings sample_item_db d" "db_raw_events d = [r]"
    "re_event_id r = ''e1''" "re_item_id r = Some ''it''" "flip_first_bit (re_payload_ciphertext r) = Some ct"
    "find_by nc_id ''n3'' (db_ncrs d) = Some (sample_ncr ''n3'' ''it'' None)"
    by (rule sample_item_ingested)
  have "log_step sample_E sample_settings empty_db sample_item_db"
    by (rule log_step.other) (simp add: log_part_def sample_item_db_def sample_db_def)
  then have steps: "(log_step sample_E sample_settings)\<^sup>*\<^sup>* empty_db d"
    using d(1) by simp
  have row: "find_by re_event_id ''e1'' (db_raw_events d) = Some r"
    "re_item_id r = Some (nc_item_id (sample_ncr ''n3'' ''it'' None))"
    using d(2-4) by simp_all
  obtain d1 where t: "demo_tamper True ''e1'' None sample_principal d = (Inr (), d1)" "length (db_raw_events d1) = 1"
    by (simp add: demo_tamper_def row(1) d(5) write_audit_def) (simp add: d(2) update_by_def)
  from tampering_blocks_decisions [OF steps t(1) row d(5,6) sample_release_valid(1)] t(2) sample_no_collision
  show ?thesis
    by blast
qed

section \<open>The application\<close>









text \<open>C40: Settings that load are fit for use: the encryption key has 32 bytes and the integrity key at least
  32, both are the bytes whose base64 text was given, and outside the demonstration mode neither the signing
  secret nor the source token is a known one.\<close>

theorem loaded_settings_are_fit:
  assumes "load_settings v = Inr S"
  shows "length (aes_key S) = 32 \<and> 32 \<le> length (integrity_key S) \<and>
    (\<forall>key. env_aes_data_key_b64 v = b64encode key \<longrightarrow> aes_key S = key) \<and>
    (\<forall>secret. env_integrity_hmac_key_b64 v = b64encode secret \<longrightarrow> integrity_key S = secret) \<and>
    (\<not> demo_mode S \<longrightarrow> \<not> known_secret (env_jwt_signing_secret v) \<and> 32 \<le> py_len (env_jwt_signing_secret v) \<and>
       (\<forall>t. source_demo_token S = Some t \<longrightarrow> \<not> known_secret t))"
  using loaded_keys [OF assms] loaded_secrets [OF assms] by (auto simp: b64_roundtrip)

theorem loaded_settings_are_fit_witness:
  "\<exists>S. load_settings \<lparr>env_jwt_signing_secret = ''jwt'', env_aes_data_key_b64 = b64encode (replicate 32 7),
      env_integrity_hmac_key_b64 = b64encode (replicate 40 9), env_source_demo_token = None,
      env_source_hmac_secrets_json = None, env_others = sample_settings\<rparr> = Inr S \<and>
    aes_key S = replicate 32 7 \<and> integrity_key S = replicate 40 9"
proof -
  let ?v = "\<lparr>env_jwt_signing_secret = ''jwt'', env_aes_data_key_b64 = b64encode (replicate 32 7),
      env_integrity_hmac_key_b64 = b64encode (replicate 40 9), env_source_demo_token = None,
      env_source_hmac_secrets_json = None, env_others = sample_settings\<rparr>"
  have "demo_mode sample_settings"
    by (simp add: sample_settings_def)
  then obtain S where "load_settings ?v = Inr S"
    using encoded_keys_load [of "replicate 32 7" "replicate 40 9" ?v] by auto
  from loaded_settings_are_fit [OF this] this show ?thesis
    by auto
qed

end
